(* ===== verification/Grenz_Prelude.thy ===== *)
theory Grenz_Prelude
  imports Main "HOL-Library.AList"
begin

text \<open>
  Shared vocabulary of the development: the types that name what the code's
  primitive values are, the JavaScript collection operations the source uses, and
  the list and map lemmas the component theories share.

  Conventions used everywhere:
  \<^item> a JavaScript string is a \<open>string\<close>, one \<open>char\<close> per UTF-16 code unit, so the model
    covers the code units 0 to 255;
  \<^item> a time stamp or a count is an \<open>int\<close> (the code only adds, subtracts and compares
    integral numbers far below 2 to the power 53);
  \<^item> \<open>x | null\<close> and \<open>x | undefined\<close> are \<open>'a option\<close>;
  \<^item> a \<open>Map\<close> whose iteration order the code observes is an association list in
    insertion order, kept in step by \<open>AList.update\<close> (which, as \<open>Map.set\<close> does, updates
    in place or appends) and \<open>AList.delete\<close>; a \<open>Map\<close> that is only read by key is a map.
\<close>

type_synonym ms = int
type_synonym agent_id = string

named_theorems guard_simps \<open>unfoldings of the guards of gates and stores\<close>

subsection \<open>Array helpers: find, some, every, sort\<close>

lemma find_None_iff_Ball: "List.find P xs = None \<longleftrightarrow> (\<forall>x\<in>set xs. \<not> P x)"
  by (auto simp: find_None_iff)

lemma find_SomeD: "List.find P xs = Some x \<Longrightarrow> x \<in> set xs \<and> P x"
  by (auto simp: find_Some_iff)

lemma find_cong_set: "(\<And>x. x \<in> set xs \<Longrightarrow> P x = Q x) \<Longrightarrow> List.find P xs = List.find Q xs"
  by (induction xs) auto

lemma find_ex: "\<exists>x\<in>set xs. P x \<Longrightarrow> \<exists>y. List.find P xs = Some y"
  by (induction xs) auto

text \<open>\<open>[...xs].sort((a, b) => b.k - a.k)\<close>: stable, largest key first.\<close>

definition sort_desc :: "('a \<Rightarrow> int) \<Rightarrow> 'a list \<Rightarrow> 'a list" where
  "sort_desc k xs = sort_key (\<lambda>x. - k x) xs"

lemma set_sort_desc [simp]: "set (sort_desc k xs) = set xs"
  by (simp add: sort_desc_def)

lemma length_sort_desc [simp]: "length (sort_desc k xs) = length xs"
  by (simp add: sort_desc_def)

lemma sort_desc_Nil [simp]: "sort_desc k [] = []"
  by (simp add: sort_desc_def)

lemma sorted_sort_desc: "sorted (map (\<lambda>x. - k x) (sort_desc k xs))"
  by (simp add: sort_desc_def)

lemma find_sort_desc_None [simp]: "List.find P (sort_desc k xs) = None \<longleftrightarrow> List.find P xs = None"
  by (simp add: find_None_iff_Ball)

text \<open>The decimal text of a number, as template literals write it.\<close>

fun show_nat :: "nat \<Rightarrow> string" where
  "show_nat n = (if n < 10 then [char_of (48 + n)] else show_nat (n div 10) @ [char_of (48 + n mod 10)])"

declare show_nat.simps [simp del]

definition backticked :: "string \<Rightarrow> string" where
  "backticked x = CHR ''`'' # x @ ''`''"

text \<open>A running maximum.\<close>

lemma Max_insert_max:
  fixes a b :: "'a::linorder"
  assumes "finite S"
  shows "Max (insert a (insert b S)) = Max (insert (max a b) S)"
proof (cases "S = {}")
  case True
  then show ?thesis by simp
next
  case False
  with assms show ?thesis by (simp add: max.assoc)
qed

text \<open>A ring buffer: \<open>xs.push(x); if (xs.length > n) xs.splice(0, xs.length - n)\<close>.\<close>

definition push_capped :: "nat \<Rightarrow> 'a list \<Rightarrow> 'a \<Rightarrow> 'a list" where
  "push_capped n xs x = (let ys = xs @ [x] in drop (length ys - n) ys)"

lemma length_push_capped: "length (push_capped n xs x) \<le> n"
  by (simp add: push_capped_def Let_def)

lemma set_push_capped_subset: "set (push_capped n xs x) \<subseteq> insert x (set xs)"
  by (auto simp: push_capped_def Let_def dest: in_set_dropD)

lemma push_capped_last: "0 < n \<Longrightarrow> x \<in> set (push_capped n xs x)"
  by (cases "length xs < n") (simp_all add: push_capped_def Let_def)

lemma push_capped_room: "length xs < n \<Longrightarrow> push_capped n xs x = xs @ [x]"
  by (simp add: push_capped_def Let_def)

subsection \<open>Maps in insertion order\<close>

abbreviation alist_values :: "('k \<times> 'v) list \<Rightarrow> 'v list" where
  "alist_values m \<equiv> map snd m"

abbreviation alist_keys :: "('k \<times> 'v) list \<Rightarrow> 'k list" where
  "alist_keys m \<equiv> map fst m"

lemma map_of_update_eq [simp]: "map_of (AList.update k v m) = (map_of m)(k \<mapsto> v)"
  by (rule update_conv')

lemma map_of_delete_eq [simp]: "map_of (AList.delete k m) = (map_of m)(k := None)"
  by (rule delete_conv')

lemma length_alist_update_le: "length (AList.update k v m) \<le> Suc (length m)"
  by (induction m) auto

lemma length_alist_update_present: "k \<in> set (alist_keys m) \<Longrightarrow> length (AList.update k v m) = length m"
  by (induction m) auto

lemma update_fresh: "k \<notin> set (alist_keys m) \<Longrightarrow> AList.update k v m = m @ [(k, v)]"
  by (induction m) auto

lemma delete_fresh: "k \<notin> set (alist_keys m) \<Longrightarrow> AList.delete k m = m"
  by (induction m) (auto simp: AList.delete_eq)

lemma set_alist_update:
  "distinct (alist_keys m) \<Longrightarrow> set (AList.update k v m) = insert (k, v) {x \<in> set m. fst x \<noteq> k}"
proof (induction m)
  case Nil
  then show ?case by simp
next
  case (Cons x m)
  then show ?case by (cases x; cases "fst x = k") force+
qed

lemma set_alist_delete: "set (AList.delete k m) = {x \<in> set m. fst x \<noteq> k}"
  by (auto simp: AList.delete_eq)

lemma keys_alist_update: "set (alist_keys (AList.update k v m)) = insert k (set (alist_keys m))"
  by (induction m) auto

lemma keys_alist_delete: "set (alist_keys (AList.delete k m)) = set (alist_keys m) - {k}"
  by (auto simp: AList.delete_eq)

lemma length_alist_delete_le: "length (AList.delete k m) \<le> length m"
  by (simp add: AList.delete_eq)

lemma map_of_filter_live:
  assumes "distinct (alist_keys m)"
  shows "map_of (filter (\<lambda>(k, v). P v) m) k =
         (case map_of m k of None \<Rightarrow> None | Some v \<Rightarrow> if P v then Some v else None)"
  using assms
proof (induction m)
  case Nil
  then show ?case by simp
next
  case (Cons kv m)
  obtain k' v where kv: "kv = (k', v)" by (cases kv)
  have "k' \<notin> set (alist_keys m)" using Cons.prems kv by simp
  then have "map_of m k' = None" by (simp add: map_of_eq_None_iff)
  with Cons kv show ?case by (auto split: option.splits)
qed

end
