(* ===== verification/Glob.thy ===== *)
theory Glob
  imports Grenz_Prelude
begin

text \<open>
  The glob matcher of \<^verbatim>\<open>proxy/src/policy/glob.ts\<close>: the regular-expression text that
  \<open>compileGlob\<close> emits, the compiled pattern, and \<open>RegExp.prototype.test\<close> on it. The
  JavaScript engine is modelled for the fragment that \<open>compileGlob\<close> emits: an anchored
  sequence of literals, \<open>.\<close> and \<open>.*\<close>, without the \<open>s\<close> and \<open>m\<close> flags (so \<open>.\<close> never
  matches a line terminator) and with an optional \<open>i\<close> flag.
\<close>

subsection \<open>The regular expressions \<open>compileGlob\<close> builds\<close>

datatype renode = RLit char | RAny | RAnyStar

record regexp =
  re_nodes :: "renode list"
  re_ignoreCase :: bool

text \<open>The code units \<open>.\<close> does not match (the other two, U+2028 and U+2029, are above 255).\<close>

definition line_terminator :: "char \<Rightarrow> bool" where
  "line_terminator c \<longleftrightarrow> (of_char c :: nat) = 10 \<or> (of_char c :: nat) = 13"

text \<open>
  ECMAScript's \<open>Canonicalize\<close> for the \<open>i\<close> flag: upper case where that is a single code
  unit. Over the code units 0 to 255 that folds a-z, and the Latin-1 letters E0-FE other
  than the division sign F7; DF, B5 and FF have no upper case inside the range and are
  equal to themselves only.
\<close>

definition js_canonicalize :: "bool \<Rightarrow> char \<Rightarrow> char" where
  "js_canonicalize ic c =
     (let n = (of_char c :: nat) in
      if ic \<and> (97 \<le> n \<and> n \<le> 122 \<or> 224 \<le> n \<and> n \<le> 254 \<and> n \<noteq> 247) then char_of (n - 32) else c)"

fun rmatch :: "bool \<Rightarrow> renode list \<Rightarrow> string \<Rightarrow> bool" where
  "rmatch ic [] s \<longleftrightarrow> s = []"
| "rmatch ic (RLit c # ns) [] \<longleftrightarrow> False"
| "rmatch ic (RLit c # ns) (d # ds) \<longleftrightarrow> js_canonicalize ic c = js_canonicalize ic d \<and> rmatch ic ns ds"
| "rmatch ic (RAny # ns) [] \<longleftrightarrow> False"
| "rmatch ic (RAny # ns) (d # ds) \<longleftrightarrow> \<not> line_terminator d \<and> rmatch ic ns ds"
| "rmatch ic (RAnyStar # ns) [] \<longleftrightarrow> rmatch ic ns []"
| "rmatch ic (RAnyStar # ns) (d # ds) \<longleftrightarrow>
     rmatch ic ns (d # ds) \<or> \<not> line_terminator d \<and> rmatch ic (RAnyStar # ns) ds"

definition re_test :: "regexp \<Rightarrow> string \<Rightarrow> bool" where
  "re_test r s = rmatch (re_ignoreCase r) (re_nodes r) s"

subsection \<open>Compiling a glob\<close>

definition REGEX_SPECIAL :: "char list" where
  "REGEX_SPECIAL = ''.*+?^'' @ [CHR 0x24] @ ''{}()|[]'' @ [CHR 0x5C]"

text \<open>The text of the regular expression, character by character as the loop appends it.\<close>

definition glob_piece :: "char \<Rightarrow> string" where
  "glob_piece ch =
     (if ch = CHR ''*'' then ''.*''
      else if ch = CHR ''?'' then ''.''
      else if ch \<in> set REGEX_SPECIAL then [CHR 0x5C, ch] else [ch])"

definition globSource :: "string \<Rightarrow> string" where
  "globSource pattern = CHR ''^'' # concat (map glob_piece pattern) @ [CHR 0x24]"

definition glob_node :: "char \<Rightarrow> renode" where
  "glob_node ch = (if ch = CHR ''*'' then RAnyStar else if ch = CHR ''?'' then RAny else RLit ch)"

definition compileGlob :: "string \<Rightarrow> bool \<Rightarrow> regexp" where
  "compileGlob pattern caseInsensitive =
     \<lparr>re_nodes = map glob_node pattern, re_ignoreCase = caseInsensitive\<rparr>"

definition globMatch :: "string \<Rightarrow> string \<Rightarrow> bool" where
  "globMatch pattern value = re_test (compileGlob pattern False) value"

text \<open>
  Reading a regular-expression text back, as \<open>new RegExp(text)\<close> does on the fragment;
  \<open>None\<close> is a text outside the fragment (a quantifier, group or class of its own).
\<close>

fun js_parse_terms :: "string \<Rightarrow> renode list option" where
  "js_parse_terms [] = None"
| "js_parse_terms [c] = (if c = CHR 0x24 then Some [] else None)"
| "js_parse_terms (c # d # rest) =
     (if c = CHR 0x5C then
        if d \<in> set REGEX_SPECIAL then map_option ((#) (RLit d)) (js_parse_terms rest) else None
      else if c = CHR ''.'' then
        if d = CHR ''*'' then map_option ((#) RAnyStar) (js_parse_terms rest)
        else map_option ((#) RAny) (js_parse_terms (d # rest))
      else if c \<in> set REGEX_SPECIAL then None
      else map_option ((#) (RLit c)) (js_parse_terms (d # rest)))"

definition js_parse_regexp :: "string \<Rightarrow> renode list option" where
  "js_parse_regexp text = (case text of c # rest \<Rightarrow> if c = CHR ''^'' then js_parse_terms rest else None | [] \<Rightarrow> None)"

subsection \<open>What a glob means\<close>

text \<open>
  The declarative reading of the module's comment, with \<open>*\<close> a run of characters and
  \<open>?\<close> one character, both without line terminators.
\<close>

inductive glob_spec :: "bool \<Rightarrow> string \<Rightarrow> string \<Rightarrow> bool" for ic where
  glob_nil: "glob_spec ic [] []"
| glob_star: "\<forall>c\<in>set run. \<not> line_terminator c \<Longrightarrow> glob_spec ic p v \<Longrightarrow> glob_spec ic (CHR ''*'' # p) (run @ v)"
| glob_any: "\<not> line_terminator d \<Longrightarrow> glob_spec ic p v \<Longrightarrow> glob_spec ic (CHR ''?'' # p) (d # v)"
| glob_lit: "ch \<noteq> CHR ''*'' \<Longrightarrow> ch \<noteq> CHR ''?'' \<Longrightarrow> js_canonicalize ic ch = js_canonicalize ic d \<Longrightarrow>
    glob_spec ic p v \<Longrightarrow> glob_spec ic (ch # p) (d # v)"

inductive_cases glob_spec_NilE: "glob_spec ic [] v"
inductive_cases glob_spec_ConsE: "glob_spec ic (ch # p) v"

subsection \<open>Lemmas\<close>

lemma js_canonicalize_False [simp]: "js_canonicalize False c = c"
  by (simp add: js_canonicalize_def Let_def)

lemma of_char_char_of_small: "n < 256 \<Longrightarrow> (of_char (char_of (n::nat)) :: nat) = n"
  by simp

lemma js_canonicalize_idem [simp]: "js_canonicalize ic (js_canonicalize ic c) = js_canonicalize ic c"
proof -
  have "(of_char c :: nat) < 256" by (rule nat_of_char_less_256)
  then show ?thesis by (auto simp: js_canonicalize_def Let_def of_char_char_of_small)
qed

lemma line_terminator_canonicalize [simp]: "line_terminator (js_canonicalize ic c) = line_terminator c"
proof -
  have b: "(of_char c :: nat) < 256" by (rule nat_of_char_less_256)
  show ?thesis using b by (auto simp: line_terminator_def js_canonicalize_def Let_def of_char_char_of_small)
qed

lemma rmatch_star_iff:
  "rmatch ic (RAnyStar # ns) s \<longleftrightarrow>
     (\<exists>run v. s = run @ v \<and> (\<forall>c\<in>set run. \<not> line_terminator c) \<and> rmatch ic ns v)"
proof (induction s)
  case Nil
  then show ?case by simp
next
  case (Cons d ds)
  show ?case (is "?l \<longleftrightarrow> ?r")
  proof
    assume ?l
    then consider "rmatch ic ns (d # ds)" | "\<not> line_terminator d" "rmatch ic (RAnyStar # ns) ds" by auto
    then show ?r
    proof cases
      case 1
      then have "d # ds = [] @ (d # ds) \<and> (\<forall>c\<in>set []. \<not> line_terminator c) \<and> rmatch ic ns (d # ds)" by simp
      then show ?thesis by blast
    next
      case 2
      then obtain run v where "ds = run @ v" "\<forall>c\<in>set run. \<not> line_terminator c" "rmatch ic ns v"
        using Cons.IH by blast
      with 2 have "d # ds = (d # run) @ v \<and> (\<forall>c\<in>set (d # run). \<not> line_terminator c) \<and> rmatch ic ns v" by simp
      then show ?thesis by blast
    qed
  next
    assume ?r
    then obtain run v where rv: "d # ds = run @ v" "\<forall>c\<in>set run. \<not> line_terminator c" "rmatch ic ns v" by blast
    show ?l
    proof (cases run)
      case Nil
      with rv have "rmatch ic ns (d # ds)" by simp
      then show ?thesis by simp
    next
      case (Cons c cs)
      with rv have "ds = cs @ v" "\<not> line_terminator d" "\<forall>c\<in>set cs. \<not> line_terminator c" by auto
      with rv(3) Cons.IH show ?thesis by auto
    qed
  qed
qed

lemma rmatch_lit_iff:
  "rmatch ic (RLit c # ns) s \<longleftrightarrow> (\<exists>d ds. s = d # ds \<and> js_canonicalize ic c = js_canonicalize ic d \<and> rmatch ic ns ds)"
  by (cases s) auto

lemma rmatch_any_iff:
  "rmatch ic (RAny # ns) s \<longleftrightarrow> (\<exists>d ds. s = d # ds \<and> \<not> line_terminator d \<and> rmatch ic ns ds)"
  by (cases s) auto

lemma glob_node_star [simp]: "glob_node (CHR ''*'') = RAnyStar"
  by (simp add: glob_node_def)

lemma glob_spec_imp_rmatch: "glob_spec ic p v \<Longrightarrow> rmatch ic (map glob_node p) v"
  by (induction rule: glob_spec.induct)
     (auto simp: glob_node_def rmatch_star_iff rmatch_lit_iff rmatch_any_iff)

lemma rmatch_imp_glob_spec: "rmatch ic (map glob_node p) v \<Longrightarrow> glob_spec ic p v"
proof (induction p arbitrary: v)
  case Nil
  then show ?case by (simp add: glob_nil)
next
  case (Cons ch p)
  consider "ch = CHR ''*''" | "ch = CHR ''?''" | "ch \<noteq> CHR ''*''" "ch \<noteq> CHR ''?''" by blast
  then show ?case
  proof cases
    case 1
    then have "rmatch ic (RAnyStar # map glob_node p) v" using Cons.prems by (simp add: glob_node_star)
    then obtain run w where "v = run @ w" "\<forall>c\<in>set run. \<not> line_terminator c"
      "rmatch ic (map glob_node p) w"
      unfolding rmatch_star_iff by blast
    with 1 Cons.IH show ?thesis by (blast intro: glob_star)
  next
    case 2
    with Cons.prems Cons.IH show ?thesis by (auto simp: glob_node_def rmatch_any_iff intro: glob_any)
  next
    case 3
    with Cons.prems Cons.IH show ?thesis by (auto simp: glob_node_def rmatch_lit_iff intro: glob_lit)
  qed
qed

lemma re_test_compileGlob: "re_test (compileGlob p ic) v \<longleftrightarrow> glob_spec ic p v"
  by (auto simp: re_test_def compileGlob_def glob_spec_imp_rmatch rmatch_imp_glob_spec)

lemma glob_star_only: "glob_spec ic ''*'' v \<longleftrightarrow> (\<forall>c\<in>set v. \<not> line_terminator c)"
proof -
  have "rmatch ic [RAnyStar] v \<longleftrightarrow> (\<forall>c\<in>set v. \<not> line_terminator c)"
    by (induction v) auto
  then show ?thesis by (simp add: re_test_compileGlob [symmetric] re_test_def compileGlob_def glob_node_def)
qed

lemma rmatch_case_mono: "rmatch False ns v \<Longrightarrow> rmatch True ns v"
  by (induction "False" ns v rule: rmatch.induct) auto

lemma compileGlob_case_mono: "re_test (compileGlob p False) v \<Longrightarrow> re_test (compileGlob p True) v"
  by (auto simp: re_test_def compileGlob_def intro: rmatch_case_mono)

lemma rmatch_case_fold: "rmatch True ns (map (js_canonicalize True) v) = rmatch True ns v"
  by (induction "True" ns v rule: rmatch.induct) auto

subsection \<open>The emitted text\<close>

lemma REGEX_SPECIAL_mem:
  "CHR ''.'' \<in> set REGEX_SPECIAL" "CHR ''*'' \<in> set REGEX_SPECIAL" "CHR ''?'' \<in> set REGEX_SPECIAL"
  "CHR 0x24 \<in> set REGEX_SPECIAL" "CHR 0x5C \<in> set REGEX_SPECIAL" "CHR ''^'' \<in> set REGEX_SPECIAL"
  by (simp_all add: REGEX_SPECIAL_def)

lemma js_parse_plain:
  "t \<noteq> [] \<Longrightarrow> c \<notin> set REGEX_SPECIAL \<Longrightarrow> js_parse_terms (c # t) = map_option ((#) (RLit c)) (js_parse_terms t)"
  using REGEX_SPECIAL_mem by (cases t) auto

lemma js_parse_any:
  "t \<noteq> [] \<Longrightarrow> hd t \<noteq> CHR ''*'' \<Longrightarrow> js_parse_terms (CHR ''.'' # t) = map_option ((#) RAny) (js_parse_terms t)"
  by (cases t) auto

lemma glob_piece_cases:
  obtains (star) "ch = CHR ''*''" "glob_piece ch = ''.*''" "glob_node ch = RAnyStar"
    | (any) "ch = CHR ''?''" "glob_piece ch = ''.''" "glob_node ch = RAny"
    | (esc) "ch \<in> set REGEX_SPECIAL" "glob_piece ch = [CHR 0x5C, ch]" "glob_node ch = RLit ch"
    | (plain) "ch \<notin> set REGEX_SPECIAL" "glob_piece ch = [ch]" "glob_node ch = RLit ch"
  by (cases "ch = CHR ''*''"; cases "ch = CHR ''?''"; cases "ch \<in> set REGEX_SPECIAL")
     (auto simp: glob_piece_def glob_node_def)

lemma hd_glob_text: "hd (concat (map glob_piece p) @ [CHR 0x24]) \<noteq> CHR ''*''"
proof (cases p)
  case Nil
  then show ?thesis by simp
next
  case (Cons ch p')
  show ?thesis
    by (cases ch rule: glob_piece_cases) (use Cons REGEX_SPECIAL_mem(2) in auto)
qed

lemma js_parse_glob_text:
  "js_parse_terms (concat (map glob_piece p) @ [CHR 0x24]) = Some (map glob_node p)"
proof (induction p)
  case Nil
  then show ?case by simp
next
  case (Cons ch p)
  let ?t = "concat (map glob_piece p) @ [CHR 0x24]"
  have ne: "?t \<noteq> []" by simp
  show ?case
    using Cons.IH js_parse_plain [OF ne] js_parse_any [OF ne hd_glob_text]
    by (cases ch rule: glob_piece_cases) auto
qed

subsection \<open>Properties\<close>

text \<open>the escaping of \<open>compileGlob\<close> is right: the regular-expression text it emits for any
  pattern parses, with no syntax error, and to exactly the sequence of literals, \<open>.\<close> and
  \<open>.*\<close> that the pattern stands for.\<close>
theorem compileGlob_source_roundtrip:
  "js_parse_regexp (globSource p) = Some (re_nodes (compileGlob p ic))"
  by (simp add: js_parse_regexp_def globSource_def compileGlob_def js_parse_glob_text)

text \<open>a compiled glob accepts exactly the values its declarative reading describes (star: any
  run without line terminators; question mark: one such character; anything else itself).\<close>
theorem globMatch_iff_spec: "globMatch p v \<longleftrightarrow> glob_spec False p v"
  by (simp add: globMatch_def re_test_compileGlob)

end
