(* ===== verification/Policy_Types.thy ===== *)
theory Policy_Types
  imports Glob
begin

text \<open>
  The decision vocabulary of \<^verbatim>\<open>proxy/src/policy/types.ts\<close> and the validated policy source
  of \<^verbatim>\<open>proxy/src/policy/schema.ts\<close>. The schema library is not part of the repository, so
  parsing an untyped document is a parameter of the compiler; what the schema declares, its
  fields and the bounds it enforces, is here: the records, and one \<open>\<dots>_ok\<close> predicate per
  schema that says which values validate.
\<close>

subsection \<open>Decisions and reason codes\<close>

datatype decision = Allow | RequireApproval | Deny

text \<open>The permissiveness order of the code's \<open>RANK\<close> table: a larger decision is more restrictive.\<close>

fun decision_rank :: "decision \<Rightarrow> nat" where
  "decision_rank Allow = 0"
| "decision_rank RequireApproval = 1"
| "decision_rank Deny = 2"

lemma decision_rank_inj [simp]: "decision_rank a = decision_rank b \<longleftrightarrow> a = b"
  by (cases a; cases b) auto

instantiation decision :: linorder
begin

definition less_eq_decision :: "decision \<Rightarrow> decision \<Rightarrow> bool" where
  "less_eq_decision a b \<longleftrightarrow> decision_rank a \<le> decision_rank b"

definition less_decision :: "decision \<Rightarrow> decision \<Rightarrow> bool" where
  "less_decision a b \<longleftrightarrow> decision_rank a < decision_rank b"

instance
  by standard (auto simp: less_eq_decision_def less_decision_def)

end

lemma decision_le_simps [simp]:
  "Allow \<le> d" "d \<le> Deny" "d \<le> Allow \<longleftrightarrow> d = Allow" "Deny \<le> d \<longleftrightarrow> d = Deny"
  by (cases d; simp add: less_eq_decision_def)+

datatype reason_code =
    R_explicit_allow | R_explicit_deny | R_approval_required | R_no_matching_allow | R_no_grant_for_tool
  | R_budget_exceeded | R_upstream_budget_exceeded | R_agent_budget_exceeded | R_delegation_budget_exceeded
  | R_unknown_upstream | R_invalid_token | R_agent_token_expired | R_delegation_root_missing
  | R_malformed_policy | R_credential_missing | R_vault_error | R_unsupported_request
  | R_approvals_unavailable | R_token_revoked | R_revocation_stale | R_response_too_large
  | R_delegation_scope | R_delegation_target_scope | R_agent_target_scope | R_agent_action_scope
  | R_agent_policy_unresolved | R_schedule_closed | R_first_use_denied | R_flow_denied | R_tripwire
  | R_decoy_token | R_decoy_upstream | R_wrong_listener | R_pin_violation | R_unresolved_target
  | R_unresolved_approval | R_egress_blocked | R_jit_grant | R_approval_granted | R_approval_denied
  | R_approval_expired | R_approval_capacity | R_approval_abandoned | R_approval_remembered_grant
  | R_approval_remembered_deny | R_dlp_secret_detected | R_exec_undecidable | R_exec_parse_failed
  | R_upstream_error | R_internal_error

datatype clause = CDeny | CRequireApproval | CAllow

record engine_result =
  er_decision :: decision
  er_reason :: reason_code
  er_matched :: "clause option"
  er_pattern :: "string option"
  er_message :: "string option"

subsection \<open>The policy source\<close>

datatype on_unresolved = UDeny | UApprove
datatype effect = EDeny | ERequireApproval
datatype trip_scope = Cascade | Leaf
datatype exceed = Truncate | RefuseExceed
datatype weekday = Mon | Tue | Wed | Thu | Fri | Sat | Sun

datatype rule_source =
    RuleStr string
  | RuleObj (rs_action: string) (rs_targets: "string list option") (rs_message: "string option")
      (rs_on_unresolved: "on_unresolved option")

datatype approval_rule_source =
    ApprStr string
  | ApprObj string "string list option"

record grant_source =
  gs_tool :: string
  gs_allow :: "rule_source list"
  gs_deny :: "rule_source list"
  gs_require_approval :: "rule_source list"

record budget_source =
  bs_max_actions_per_hour :: "int option"
  bs_per_upstream :: "(string \<times> int) list option"
  bs_per_agent :: "(string \<times> int) list option"
  bs_per_delegation :: "int option"
  bs_weights :: "(string \<times> int) list option"

record approvals_source =
  as_per_agent :: "(string \<times> approval_rule_source list) list option"

record dlp_source =
  ds_scan_bodies :: bool
  ds_on_match :: effect

record window_source =
  ws_days :: "weekday list"
  ws_start :: string
  ws_end :: string

record schedule_source =
  ss_timezone :: string
  ss_windows :: "window_source list"
  ss_on_closed :: effect

record first_use_source =
  fs_on_first :: effect
  fs_only :: "string list"
  fs_window_seconds :: "int option"

record flow_source =
  fl_when :: "string list"
  fl_then :: "string list"
  fl_effect :: effect
  fl_within_seconds :: int

record tripwire_source =
  ts_action :: string
  ts_targets :: "string list option"
  ts_note :: "string option"
  ts_on_trip :: trip_scope

record pin_source =
  ps_key :: string
  ps_on :: "string list"
  ps_effect :: effect
  ps_within_seconds :: int

record response_source =
  rp_on :: "string list"
  rp_targets :: "string list option"
  rp_max_bytes :: int
  rp_on_exceed :: exceed

record policy_source =
  src_agent :: string
  src_on_behalf_of :: string
  src_grants :: "grant_source list"
  src_budget :: "budget_source option"
  src_approvals :: "approvals_source option"
  src_dlp :: "dlp_source option"
  src_step_up :: "int option"
  src_schedule :: "schedule_source option"
  src_first_use :: "first_use_source option"
  src_quorum :: "(string \<times> int) list option"
  src_flows :: "flow_source list option"
  src_tripwires :: "tripwire_source list option"
  src_pins :: "pin_source list"
  src_responses :: "response_source list"

subsection \<open>What the schema enforces\<close>

definition nonempty :: "string \<Rightarrow> bool" where
  "nonempty s \<longleftrightarrow> s \<noteq> []"

definition globs_ok :: "string list \<Rightarrow> bool" where
  "globs_ok gs \<longleftrightarrow> gs \<noteq> [] \<and> list_all nonempty gs"

definition opt_ok :: "('a \<Rightarrow> bool) \<Rightarrow> 'a option \<Rightarrow> bool" where
  "opt_ok P x = (case x of None \<Rightarrow> True | Some v \<Rightarrow> P v)"

definition message_ok :: "string \<Rightarrow> bool" where
  "message_ok m \<longleftrightarrow> 1 \<le> length m \<and> length m \<le> 280"

text \<open>\<open>ruleSchema\<close>: strict, so a deny or approval rule that carries \<open>on_unresolved\<close> is rejected.\<close>

fun rule_ok :: "rule_source \<Rightarrow> bool" where
  "rule_ok (RuleStr a) = nonempty a"
| "rule_ok (RuleObj a ts m u) = (nonempty a \<and> opt_ok globs_ok ts \<and> opt_ok message_ok m \<and> u = None)"

fun allow_rule_ok :: "rule_source \<Rightarrow> bool" where
  "allow_rule_ok (RuleStr a) = nonempty a"
| "allow_rule_ok (RuleObj a ts m u) = (nonempty a \<and> opt_ok globs_ok ts \<and> opt_ok message_ok m)"

definition grant_ok :: "grant_source \<Rightarrow> bool" where
  "grant_ok g \<longleftrightarrow> nonempty (gs_tool g) \<and> list_all allow_rule_ok (gs_allow g)
     \<and> list_all rule_ok (gs_deny g) \<and> list_all rule_ok (gs_require_approval g)"

definition counts_ok :: "int \<Rightarrow> int \<Rightarrow> (string \<times> int) list \<Rightarrow> bool" where
  "counts_ok lo hi xs \<longleftrightarrow> distinct (map fst xs) \<and> list_all (\<lambda>(k, n). nonempty k \<and> lo \<le> n \<and> n \<le> hi) xs"

definition positive_counts_ok :: "(string \<times> int) list \<Rightarrow> bool" where
  "positive_counts_ok xs \<longleftrightarrow> distinct (map fst xs) \<and> list_all (\<lambda>(k, n). nonempty k \<and> 1 \<le> n) xs"

definition budget_ok :: "budget_source \<Rightarrow> bool" where
  "budget_ok b \<longleftrightarrow> opt_ok (\<lambda>n. 1 \<le> n) (bs_max_actions_per_hour b)
     \<and> opt_ok positive_counts_ok (bs_per_upstream b) \<and> opt_ok positive_counts_ok (bs_per_agent b)
     \<and> opt_ok (\<lambda>n. 1 \<le> n) (bs_per_delegation b) \<and> opt_ok (counts_ok 1 1000000) (bs_weights b)"

fun approval_rule_ok :: "approval_rule_source \<Rightarrow> bool" where
  "approval_rule_ok (ApprStr a) = nonempty a"
| "approval_rule_ok (ApprObj a ts) = (nonempty a \<and> opt_ok globs_ok ts)"

definition approvals_ok :: "approvals_source \<Rightarrow> bool" where
  "approvals_ok a \<longleftrightarrow> opt_ok (\<lambda>xs. distinct (map fst xs) \<and>
     list_all (\<lambda>(k, rs). nonempty k \<and> 1 \<le> length rs \<and> length rs \<le> 100 \<and> list_all approval_rule_ok rs) xs)
     (as_per_agent a)"

text \<open>The pattern of a clock time, \<open>([01]\d|2[0-3]):[0-5]\d\<close> anchored at both ends.\<close>

definition digit_val :: "char \<Rightarrow> int" where
  "digit_val c = of_char c - 48"

definition is_digit :: "char \<Rightarrow> bool" where
  "is_digit c \<longleftrightarrow> 48 \<le> (of_char c :: int) \<and> (of_char c :: int) \<le> 57"

fun HHMM :: "string \<Rightarrow> bool" where
  "HHMM [h1, h2, c, m1, m2] \<longleftrightarrow> c = CHR '':'' \<and> is_digit h1 \<and> is_digit h2 \<and> is_digit m1 \<and> is_digit m2
     \<and> (digit_val h1 \<le> 1 \<or> digit_val h1 = 2 \<and> digit_val h2 \<le> 3) \<and> digit_val m1 \<le> 5"
| "HHMM _ \<longleftrightarrow> False"

definition window_ok :: "window_source \<Rightarrow> bool" where
  "window_ok w \<longleftrightarrow> ws_days w \<noteq> [] \<and> HHMM (ws_start w) \<and> HHMM (ws_end w)"

definition schedule_ok :: "schedule_source \<Rightarrow> bool" where
  "schedule_ok s \<longleftrightarrow> nonempty (ss_timezone s) \<and> ss_windows s \<noteq> [] \<and> list_all window_ok (ss_windows s)"

definition first_use_ok :: "first_use_source \<Rightarrow> bool" where
  "first_use_ok f \<longleftrightarrow> globs_ok (fs_only f) \<and> opt_ok (\<lambda>n. 1 \<le> n) (fs_window_seconds f)"

definition flow_ok :: "flow_source \<Rightarrow> bool" where
  "flow_ok f \<longleftrightarrow> globs_ok (fl_when f) \<and> globs_ok (fl_then f)
     \<and> 1 \<le> fl_within_seconds f \<and> fl_within_seconds f \<le> 86400"

definition tripwire_ok :: "tripwire_source \<Rightarrow> bool" where
  "tripwire_ok t \<longleftrightarrow> nonempty (ts_action t) \<and> opt_ok globs_ok (ts_targets t) \<and> opt_ok message_ok (ts_note t)"

definition pin_ok :: "pin_source \<Rightarrow> bool" where
  "pin_ok p \<longleftrightarrow> nonempty (ps_key p) \<and> globs_ok (ps_on p)
     \<and> 1 \<le> ps_within_seconds p \<and> ps_within_seconds p \<le> 86400"

definition response_ok :: "response_source \<Rightarrow> bool" where
  "response_ok r \<longleftrightarrow> globs_ok (rp_on r) \<and> opt_ok globs_ok (rp_targets r)
     \<and> 1 \<le> rp_max_bytes r \<and> rp_max_bytes r \<le> 1000000000"

definition policy_source_ok :: "policy_source \<Rightarrow> bool" where
  "policy_source_ok s \<longleftrightarrow> nonempty (src_agent s) \<and> nonempty (src_on_behalf_of s)
     \<and> list_all grant_ok (src_grants s) \<and> opt_ok budget_ok (src_budget s)
     \<and> opt_ok approvals_ok (src_approvals s) \<and> opt_ok (\<lambda>n. 60 \<le> n \<and> n \<le> 3600) (src_step_up s)
     \<and> opt_ok schedule_ok (src_schedule s) \<and> opt_ok first_use_ok (src_first_use s)
     \<and> opt_ok (counts_ok 2 16) (src_quorum s) \<and> opt_ok (list_all flow_ok) (src_flows s)
     \<and> opt_ok (list_all tripwire_ok) (src_tripwires s) \<and> list_all pin_ok (src_pins s)
     \<and> list_all response_ok (src_responses s)"

lemma opt_ok_Some [simp]: "opt_ok P (Some x) \<longleftrightarrow> P x"
  by (simp add: opt_ok_def)

lemma opt_ok_None [simp]: "opt_ok P None"
  by (simp add: opt_ok_def)

lemma is_digitD: "is_digit c \<Longrightarrow> 48 \<le> (of_char c :: int) \<and> (of_char c :: int) \<le> 57 \<and> c \<noteq> CHR '':''"
  by (auto simp: is_digit_def)

lemma HHMM_cases:
  assumes "HHMM s"
  obtains h1 h2 m1 m2 where "s = [h1, h2, CHR '':'', m1, m2]"
    "0 \<le> digit_val h1 * 10 + digit_val h2" "digit_val h1 * 10 + digit_val h2 \<le> 23"
    "0 \<le> digit_val m1 * 10 + digit_val m2" "digit_val m1 * 10 + digit_val m2 \<le> 59"
    "h1 \<noteq> CHR '':''" "h2 \<noteq> CHR '':''" "m1 \<noteq> CHR '':''" "m2 \<noteq> CHR '':''"
  using assms
  by (cases s rule: HHMM.cases) (auto simp: digit_val_def dest!: is_digitD)

end
