(* ===== verification/Policy_Compile.thy ===== *)
theory Policy_Compile
  imports Policy_Types
begin

text \<open>
  The compiler of \<^verbatim>\<open>proxy/src/policy/compile.ts\<close>: a validated policy source becomes the
  plain data the evaluator reads, or a structured error. Parameters of the model, because
  they are not in the repository: the schema validation of an untyped document
  (\<open>safeParse\<close>), the test whether a name is a known time zone (\<open>tzKnown\<close>) and the
  construction of a user-written regular expression (\<open>newRegExp\<close>: \<open>None\<close> is a syntax
  error, otherwise its number of capture groups and what group 1 captures in a target).
\<close>

subsection \<open>The compiled policy\<close>

record compiled_pattern =
  pt_source :: string
  pt_re :: regexp

record compiled_approval_rule =
  ca_action :: compiled_pattern
  ca_targets :: "compiled_pattern list option"

record compiled_rule =
  cr_action :: compiled_pattern
  cr_targets :: "compiled_pattern list option"
  cr_message :: "string option"
  cr_onUnresolved :: on_unresolved

record compiled_grant =
  cg_tool :: string
  cg_deny :: "compiled_rule list"
  cg_requireApproval :: "compiled_rule list"
  cg_allow :: "compiled_rule list"

record compiled_window =
  cw_days :: "weekday list"
  cw_startMin :: int
  cw_endMin :: int

record compiled_schedule =
  cs_timezone :: string
  cs_windows :: "compiled_window list"
  cs_onClosed :: effect

record compiled_first_use =
  cf_onFirst :: effect
  cf_only :: "compiled_pattern list"
  cf_windowMs :: "int option"

record compiled_flow =
  fw_when :: "compiled_pattern list"
  fw_then :: "compiled_pattern list"
  fw_effect :: effect
  fw_withinMs :: int

record compiled_tripwire =
  tw_action :: compiled_pattern
  tw_targets :: "compiled_pattern list option"
  tw_note :: "string option"
  tw_onTrip :: trip_scope

record compiled_pin =
  pn_key :: "string \<Rightarrow> string option"
  pn_on :: "compiled_pattern list"
  pn_effect :: effect
  pn_withinMs :: int

record compiled_response_rule =
  rr_on :: "compiled_pattern list"
  rr_targets :: "compiled_pattern list option"
  rr_maxBytes :: int
  rr_onExceed :: exceed

record compiled_dlp =
  dl_scanBodies :: bool
  dl_onMatch :: effect

record compiled_policy =
  cp_agent :: string
  cp_onBehalfOf :: string
  cp_grants :: "(string \<times> compiled_grant) list"
  cp_maxActionsPerHour :: "int option"
  cp_perUpstream :: "string \<rightharpoonup> int"
  cp_perAgent :: "string \<rightharpoonup> int"
  cp_perAgentApproval :: "string \<rightharpoonup> compiled_approval_rule list"
  cp_perDelegation :: "int option"
  cp_budgetWeights :: "(compiled_pattern \<times> int) list"
  cp_quorums :: "(compiled_pattern \<times> int) list"
  cp_dlp :: "compiled_dlp option"
  cp_stepUp :: "int option"
  cp_schedule :: "compiled_schedule option"
  cp_firstUse :: "compiled_first_use option"
  cp_flows :: "compiled_flow list"
  cp_pins :: "compiled_pin list"
  cp_tripwires :: "compiled_tripwire list"
  cp_responses :: "compiled_response_rule list"
  cp_source :: policy_source

datatype compile_error =
    SchemaError string
  | DuplicateGrant string
  | InvalidTimezone string
  | WindowOrder string string
  | PinKeyInvalid string
  | PinKeyNoGroup string
  | YamlParseError string
  | EmptyDocument

subsection \<open>Compilation\<close>

definition compilePattern :: "bool \<Rightarrow> string \<Rightarrow> compiled_pattern" where
  "compilePattern ci p = \<lparr>pt_source = p, pt_re = compileGlob p ci\<rparr>"

definition pattern_test :: "compiled_pattern \<Rightarrow> string \<Rightarrow> bool" where
  "pattern_test p v = re_test (pt_re p) v"

text \<open>A missing target list and an empty one both compile to \<open>null\<close>, any target.\<close>

definition compileTargets :: "bool \<Rightarrow> string list option \<Rightarrow> compiled_pattern list option" where
  "compileTargets ci ts =
     (case ts of Some (t # rest) \<Rightarrow> Some (map (compilePattern ci) (t # rest)) | _ \<Rightarrow> None)"

fun compileRule :: "bool \<Rightarrow> rule_source \<Rightarrow> compiled_rule" where
  "compileRule ci (RuleStr a) =
     \<lparr>cr_action = compilePattern False a, cr_targets = None, cr_message = None, cr_onUnresolved = UDeny\<rparr>"
| "compileRule ci (RuleObj a ts m u) =
     \<lparr>cr_action = compilePattern False a, cr_targets = compileTargets ci ts, cr_message = m,
      cr_onUnresolved = (case u of None \<Rightarrow> UDeny | Some v \<Rightarrow> v)\<rparr>"

definition compileRules :: "rule_source list \<Rightarrow> bool \<Rightarrow> compiled_rule list" where
  "compileRules rules caseInsensitiveTargets = map (compileRule caseInsensitiveTargets) rules"

fun compileApprovalRule :: "approval_rule_source \<Rightarrow> compiled_approval_rule" where
  "compileApprovalRule (ApprStr a) = \<lparr>ca_action = compilePattern False a, ca_targets = None\<rparr>"
| "compileApprovalRule (ApprObj a ts) =
     \<lparr>ca_action = compilePattern False a, ca_targets = compileTargets True ts\<rparr>"

definition compileApprovalRules :: "approval_rule_source list \<Rightarrow> compiled_approval_rule list" where
  "compileApprovalRules rules = map compileApprovalRule rules"

text \<open>\<open>Number\<close> of a string of decimal digits, and minutes since midnight.\<close>

definition decimal :: "string \<Rightarrow> int" where
  "decimal s = foldl (\<lambda>acc c. acc * 10 + digit_val c) 0 s"

definition toMinutes :: "string \<Rightarrow> int" where
  "toMinutes hhmm =
     (let h = takeWhile (\<lambda>c. c \<noteq> CHR '':'') hhmm;
          m = takeWhile (\<lambda>c. c \<noteq> CHR '':'') (drop (Suc (length h)) hhmm)
      in decimal h * 60 + decimal m)"

fun compileWindows :: "window_source list \<Rightarrow> compile_error + compiled_window list" where
  "compileWindows [] = Inr []"
| "compileWindows (w # ws) =
     (let startMin = toMinutes (ws_start w); endMin = toMinutes (ws_end w) in
      if startMin \<ge> endMin then Inl (WindowOrder (ws_start w) (ws_end w))
      else case compileWindows ws of
             Inl e \<Rightarrow> Inl e
           | Inr rest \<Rightarrow> Inr (\<lparr>cw_days = ws_days w, cw_startMin = startMin, cw_endMin = endMin\<rparr> # rest))"

definition compileSchedule :: "(string \<Rightarrow> bool) \<Rightarrow> schedule_source \<Rightarrow> compile_error + compiled_schedule" where
  "compileSchedule tzKnown src =
     (if \<not> tzKnown (ss_timezone src) then Inl (InvalidTimezone (ss_timezone src))
      else case compileWindows (ss_windows src) of
             Inl e \<Rightarrow> Inl e
           | Inr ws \<Rightarrow> Inr \<lparr>cs_timezone = ss_timezone src, cs_windows = ws, cs_onClosed = ss_on_closed src\<rparr>)"

definition compileGrant :: "grant_source \<Rightarrow> compiled_grant" where
  "compileGrant g =
     \<lparr>cg_tool = gs_tool g,
      cg_deny = compileRules (gs_deny g) True,
      cg_requireApproval = compileRules (gs_require_approval g) True,
      cg_allow = compileRules (gs_allow g) False\<rparr>"

fun compileGrants :: "grant_source list \<Rightarrow> (string \<times> compiled_grant) list
    \<Rightarrow> compile_error + (string \<times> compiled_grant) list" where
  "compileGrants [] m = Inr m"
| "compileGrants (g # gs) m =
     (if map_of m (gs_tool g) \<noteq> None then Inl (DuplicateGrant (gs_tool g))
      else compileGrants gs (AList.update (gs_tool g) (compileGrant g) m))"

type_synonym new_regexp = "string \<Rightarrow> (nat \<times> (string \<Rightarrow> string option)) option"

fun compilePins :: "new_regexp \<Rightarrow> pin_source list \<Rightarrow> compile_error + compiled_pin list" where
  "compilePins newRegExp [] = Inr []"
| "compilePins newRegExp (p # ps) =
     (case newRegExp (ps_key p) of
        None \<Rightarrow> Inl (PinKeyInvalid (ps_key p))
      | Some (groups, exec1) \<Rightarrow>
          if groups < 1 then Inl (PinKeyNoGroup (ps_key p))
          else case compilePins newRegExp ps of
                 Inl e \<Rightarrow> Inl e
               | Inr rest \<Rightarrow> Inr (\<lparr>pn_key = exec1, pn_on = map (compilePattern False) (ps_on p),
                     pn_effect = ps_effect p, pn_withinMs = ps_within_seconds p * 1000\<rparr> # rest))"

definition compileFirstUse :: "first_use_source \<Rightarrow> compiled_first_use" where
  "compileFirstUse f =
     \<lparr>cf_onFirst = fs_on_first f, cf_only = map (compilePattern False) (fs_only f),
      cf_windowMs = (case fs_window_seconds f of None \<Rightarrow> None | Some n \<Rightarrow> if n = 0 then None else Some (n * 1000))\<rparr>"

definition compileFlow :: "flow_source \<Rightarrow> compiled_flow" where
  "compileFlow f =
     \<lparr>fw_when = map (compilePattern False) (fl_when f), fw_then = map (compilePattern False) (fl_then f),
      fw_effect = fl_effect f, fw_withinMs = fl_within_seconds f * 1000\<rparr>"

definition compileTripwire :: "tripwire_source \<Rightarrow> compiled_tripwire" where
  "compileTripwire t =
     \<lparr>tw_action = compilePattern False (ts_action t),
      tw_targets = map_option (map (compilePattern True)) (ts_targets t),
      tw_note = ts_note t, tw_onTrip = ts_on_trip t\<rparr>"

definition compileResponse :: "response_source \<Rightarrow> compiled_response_rule" where
  "compileResponse r =
     \<lparr>rr_on = map (compilePattern False) (rp_on r),
      rr_targets = map_option (map (compilePattern True)) (rp_targets r),
      rr_maxBytes = rp_max_bytes r, rr_onExceed = rp_on_exceed r\<rparr>"

definition compileCounts :: "(string \<times> int) list option \<Rightarrow> (compiled_pattern \<times> int) list" where
  "compileCounts o1 = map (\<lambda>(glob, n). (compilePattern False glob, n)) (case o1 of None \<Rightarrow> [] | Some xs \<Rightarrow> xs)"

text \<open>\<open>new Map(entries)\<close> read by key: a later entry overrides an earlier one.\<close>

definition js_map :: "('k \<times> 'v) list \<Rightarrow> ('k \<rightharpoonup> 'v)" where
  "js_map entries = map_of (rev entries)"

definition budget_entries :: "('b \<Rightarrow> ('k \<times> 'v) list option) \<Rightarrow> 'b option \<Rightarrow> ('k \<times> 'v) list" where
  "budget_entries f b = (case b of None \<Rightarrow> [] | Some x \<Rightarrow> (case f x of None \<Rightarrow> [] | Some es \<Rightarrow> es))"

definition compilePolicySource ::
    "(string \<Rightarrow> bool) \<Rightarrow> new_regexp \<Rightarrow> policy_source \<Rightarrow> compile_error + compiled_policy" where
  "compilePolicySource tzKnown newRegExp source =
     (case compileGrants (src_grants source) [] of Inl e \<Rightarrow> Inl e | Inr grants \<Rightarrow>
      (case (case src_schedule source of None \<Rightarrow> Inr None
             | Some s \<Rightarrow> (case compileSchedule tzKnown s of Inl e \<Rightarrow> Inl e | Inr c \<Rightarrow> Inr (Some c)))
       of Inl e \<Rightarrow> Inl e | Inr schedule \<Rightarrow>
      (case compilePins newRegExp (src_pins source) of Inl e \<Rightarrow> Inl e | Inr pins \<Rightarrow>
       Inr \<lparr>cp_agent = src_agent source,
            cp_onBehalfOf = src_on_behalf_of source,
            cp_grants = grants,
            cp_maxActionsPerHour = Option.bind (src_budget source) bs_max_actions_per_hour,
            cp_perUpstream = js_map (budget_entries bs_per_upstream (src_budget source)),
            cp_perAgent = js_map (budget_entries bs_per_agent (src_budget source)),
            cp_perAgentApproval = js_map (map (\<lambda>(i, rules). (i, compileApprovalRules rules))
              (budget_entries as_per_agent (src_approvals source))),
            cp_perDelegation = Option.bind (src_budget source) bs_per_delegation,
            cp_budgetWeights = compileCounts (Option.bind (src_budget source) bs_weights),
            cp_quorums = compileCounts (src_quorum source),
            cp_dlp = map_option (\<lambda>d. \<lparr>dl_scanBodies = ds_scan_bodies d, dl_onMatch = ds_on_match d\<rparr>) (src_dlp source),
            cp_stepUp = map_option (\<lambda>s. s * 1000) (src_step_up source),
            cp_schedule = schedule,
            cp_firstUse = map_option compileFirstUse (src_first_use source),
            cp_flows = map compileFlow (case src_flows source of None \<Rightarrow> [] | Some fs \<Rightarrow> fs),
            cp_pins = pins,
            cp_tripwires = map compileTripwire (case src_tripwires source of None \<Rightarrow> [] | Some ts \<Rightarrow> ts),
            cp_responses = map compileResponse (src_responses source),
            cp_source = source\<rparr>)))"

definition compilePolicyObject ::
    "('raw \<Rightarrow> string + policy_source) \<Rightarrow> (string \<Rightarrow> bool) \<Rightarrow> new_regexp \<Rightarrow> 'raw \<Rightarrow> compile_error + compiled_policy" where
  "compilePolicyObject safeParse tzKnown newRegExp input =
     (case safeParse input of
        Inl issue \<Rightarrow> Inl (SchemaError issue)
      | Inr source \<Rightarrow> compilePolicySource tzKnown newRegExp source)"

text \<open>
  \<open>compilePolicyYaml\<close>: the YAML library is a parameter too. \<open>parseYaml\<close> gives an error
  message, or the parsed document, which is \<open>None\<close> for an empty one.
\<close>

definition compilePolicyYaml ::
    "(string \<Rightarrow> string + 'raw option) \<Rightarrow> ('raw \<Rightarrow> string + policy_source) \<Rightarrow> (string \<Rightarrow> bool) \<Rightarrow> new_regexp
     \<Rightarrow> string \<Rightarrow> compile_error + compiled_policy" where
  "compilePolicyYaml parseYaml safeParse tzKnown newRegExp yamlText =
     (case parseYaml yamlText of
        Inl msg \<Rightarrow> Inl (YamlParseError msg)
      | Inr None \<Rightarrow> Inl EmptyDocument
      | Inr (Some doc) \<Rightarrow> compilePolicyObject safeParse tzKnown newRegExp doc)"

subsection \<open>Lemmas\<close>

lemma pattern_test_compile: "pattern_test (compilePattern ci p) v \<longleftrightarrow> glob_spec ci p v"
  by (simp add: pattern_test_def compilePattern_def re_test_compileGlob)

lemma toMinutes_HHMM:
  assumes "HHMM s"
  shows "0 \<le> toMinutes s \<and> toMinutes s \<le> 1439"
  using assms by (rule HHMM_cases) (auto simp: toMinutes_def Let_def decimal_def digit_val_def)

lemma compileWindows_bounds:
  assumes "compileWindows ws = Inr cws" and "list_all window_ok ws" and "w \<in> set cws"
  shows "0 \<le> cw_startMin w \<and> cw_startMin w < cw_endMin w \<and> cw_endMin w \<le> 1439"
  using assms
proof (induction ws arbitrary: cws)
  case Nil
  then show ?case by simp
next
  case (Cons x ws)
  from Cons.prems(2) have "HHMM (ws_start x)" "HHMM (ws_end x)" by (auto simp: window_ok_def)
  then have b: "0 \<le> toMinutes (ws_start x)" "toMinutes (ws_end x) \<le> 1439"
    using toMinutes_HHMM by auto
  from Cons.prems(1) obtain rest where rest: "compileWindows ws = Inr rest"
    and lt: "toMinutes (ws_start x) < toMinutes (ws_end x)"
    and cws: "cws = \<lparr>cw_days = ws_days x, cw_startMin = toMinutes (ws_start x),
                     cw_endMin = toMinutes (ws_end x)\<rparr> # rest"
    by (auto simp: Let_def split: if_splits sum.splits)
  show ?case
  proof (cases "w \<in> set rest")
    case True
    then show ?thesis using Cons.IH [OF rest] Cons.prems(2) by simp
  next
    case False
    then show ?thesis using Cons.prems(3) cws lt b by auto
  qed
qed

lemma compileGrants_distinct_aux:
  "compileGrants gs m = Inr m' \<Longrightarrow>
     map_of m' = map_of m ++ map_of (map (\<lambda>g. (gs_tool g, compileGrant g)) gs)
     \<and> distinct (map gs_tool gs) \<and> (\<forall>g\<in>set gs. map_of m (gs_tool g) = None)"
proof (induction gs arbitrary: m)
  case Nil
  then show ?case by simp
next
  case (Cons g gs)
  from Cons.prems have fresh: "map_of m (gs_tool g) = None"
    and rec: "compileGrants gs (AList.update (gs_tool g) (compileGrant g) m) = Inr m'"
    by (auto split: if_splits)
  from Cons.IH [OF rec, unfolded map_of_update_eq] have IH:
    "map_of m' = (map_of m)(gs_tool g \<mapsto> compileGrant g) ++ map_of (map (\<lambda>g. (gs_tool g, compileGrant g)) gs)"
    "distinct (map gs_tool gs)"
    "\<forall>h\<in>set gs. ((map_of m)(gs_tool g \<mapsto> compileGrant g)) (gs_tool h) = None" by blast+
  from IH(3) have notin: "\<forall>h\<in>set gs. gs_tool h \<noteq> gs_tool g" and old: "\<forall>h\<in>set gs. map_of m (gs_tool h) = None"
    by (auto simp: fun_upd_def split: if_splits)
  from notin have nd: "gs_tool g \<notin> dom (map_of (map (\<lambda>g. (gs_tool g, compileGrant g)) gs))"
    by (auto simp: dom_map_of_conv_image_fst image_iff)
  have "map_of m' = map_of m ++ map_of (map (\<lambda>g. (gs_tool g, compileGrant g)) (g # gs))"
    using IH(1) by (simp only: list.map map_of.simps fst_conv snd_conv map_add_upd map_add_upd_left [OF nd])
  moreover have "distinct (map gs_tool (g # gs))" using IH(2) notin by auto
  moreover have "\<forall>h\<in>set (g # gs). map_of m (gs_tool h) = None" using fresh old by simp
  ultimately show ?case by blast
qed

lemma compileGrants_lookup:
  assumes "compileGrants gs [] = Inr m" and "g \<in> set gs"
  shows "map_of m (gs_tool g) = Some (compileGrant g)"
proof -
  from compileGrants_distinct_aux [OF assms(1)]
  have m: "map_of m = map_of (map (\<lambda>g. (gs_tool g, compileGrant g)) gs)" and d: "distinct (map gs_tool gs)" by auto
  have "map_of (map (\<lambda>g. (gs_tool g, compileGrant g)) gs) (gs_tool g) = Some (compileGrant g)"
    by (rule map_of_is_SomeI) (use d assms(2) in \<open>auto simp: o_def image_iff\<close>)
  with m show ?thesis by simp
qed

lemma compilePolicySource_InrD:
  assumes "compilePolicySource tz rx s = Inr p"
  shows "compileGrants (src_grants s) [] = Inr (cp_grants p)" "cp_source p = s"
    "cp_schedule p = None \<longleftrightarrow> src_schedule s = None"
    "\<And>c. cp_schedule p = Some c \<Longrightarrow> \<exists>x. src_schedule s = Some x \<and> compileSchedule tz x = Inr c"
    "compilePins rx (src_pins s) = Inr (cp_pins p)"
    "cp_budgetWeights p = compileCounts (Option.bind (src_budget s) bs_weights)"
    "cp_quorums p = compileCounts (src_quorum s)"
    "cp_flows p = map compileFlow (case src_flows s of None \<Rightarrow> [] | Some fs \<Rightarrow> fs)"
    "cp_tripwires p = map compileTripwire (case src_tripwires s of None \<Rightarrow> [] | Some ts \<Rightarrow> ts)"
  using assms by (auto simp: compilePolicySource_def split: sum.splits option.splits)

end
