(* ===== verification/Policy_Evaluate.thy ===== *)
theory Policy_Evaluate
  imports Policy_Compile
begin

text \<open>
  The pure evaluator of \<^verbatim>\<open>proxy/src/policy/evaluate.ts\<close>: first-match rule lists, the
  precedence of the clauses, budgets, costs and quorums, and the combination of a batch
  (\<open>combine\<close> of \<^verbatim>\<open>proxy/src/proxy/server.ts\<close>). The lemmas give its declarative reading
  (which clause decides, independent of rule order), its monotonicity in the policy, the
  soundness of the reachability mode, and the batch verdict as a maximum.
\<close>

subsection \<open>Evaluation\<close>

record eval_input =
  ei_tool :: string
  ei_action :: string
  ei_target :: "string option"
  ei_unresolved :: bool

fun firstMatch :: "compiled_rule list \<Rightarrow> string \<Rightarrow> string option \<Rightarrow> clause \<Rightarrow> bool \<Rightarrow> compiled_rule option" where
  "firstMatch [] action target cl unresolved = None"
| "firstMatch (r # rs) action target cl unresolved =
     (if \<not> pattern_test (cr_action r) action then firstMatch rs action target cl unresolved
      else case cr_targets r of
        None \<Rightarrow> Some r
      | Some ts \<Rightarrow>
          if unresolved then firstMatch rs action target cl unresolved
          else case target of
            None \<Rightarrow> if cl \<noteq> CDeny then Some r else firstMatch rs action target cl unresolved
          | Some tg \<Rightarrow>
              if list_ex (\<lambda>t. pattern_test t tg) ts then Some r
              else firstMatch rs action target cl unresolved)"

definition evaluate :: "compiled_policy \<Rightarrow> eval_input \<Rightarrow> engine_result" where
  "evaluate policy inp =
     (case map_of (cp_grants policy) (ei_tool inp) of
        None \<Rightarrow> \<lparr>er_decision = Deny, er_reason = R_no_grant_for_tool, er_matched = None,
                 er_pattern = None, er_message = None\<rparr>
      | Some grant \<Rightarrow>
     (case firstMatch (cg_deny grant) (ei_action inp) (ei_target inp) CDeny (ei_unresolved inp) of
        Some denied \<Rightarrow> \<lparr>er_decision = Deny, er_reason = R_explicit_deny, er_matched = Some CDeny,
                 er_pattern = Some (pt_source (cr_action denied)), er_message = cr_message denied\<rparr>
      | None \<Rightarrow>
     (case firstMatch (cg_requireApproval grant) (ei_action inp) (ei_target inp) CRequireApproval (ei_unresolved inp) of
        Some approval \<Rightarrow> \<lparr>er_decision = RequireApproval, er_reason = R_approval_required,
                 er_matched = Some CRequireApproval,
                 er_pattern = Some (pt_source (cr_action approval)), er_message = cr_message approval\<rparr>
      | None \<Rightarrow>
     (case firstMatch (cg_allow grant) (ei_action inp) (ei_target inp) CAllow (ei_unresolved inp) of
        Some allowed \<Rightarrow> \<lparr>er_decision = Allow, er_reason = R_explicit_allow, er_matched = Some CAllow,
                 er_pattern = Some (pt_source (cr_action allowed)), er_message = None\<rparr>
      | None \<Rightarrow>
     (if ei_unresolved inp then
        (case List.find (\<lambda>r. cr_onUnresolved r = UApprove \<and> pattern_test (cr_action r) (ei_action inp)) (cg_allow grant) of
           Some opted \<Rightarrow> \<lparr>er_decision = RequireApproval, er_reason = R_unresolved_approval,
                 er_matched = Some CAllow, er_pattern = Some (pt_source (cr_action opted)),
                 er_message = cr_message opted\<rparr>
         | None \<Rightarrow> \<lparr>er_decision = Deny, er_reason = R_unresolved_target, er_matched = None,
                 er_pattern = None, er_message = None\<rparr>)
      else \<lparr>er_decision = Deny, er_reason = R_no_matching_allow, er_matched = None,
            er_pattern = None, er_message = None\<rparr>)))))"

text \<open>Evaluation of a resolved target, the form every request-path caller uses.\<close>

abbreviation evaluate_at :: "compiled_policy \<Rightarrow> string \<Rightarrow> string \<Rightarrow> string option \<Rightarrow> engine_result" where
  "evaluate_at policy tool action target \<equiv>
     evaluate policy \<lparr>ei_tool = tool, ei_action = action, ei_target = target, ei_unresolved = False\<rparr>"

subsection \<open>Budgets, costs, quorums\<close>

definition withinBudget :: "compiled_policy \<Rightarrow> int \<Rightarrow> int \<Rightarrow> bool" where
  "withinBudget policy spent requested =
     (case cp_maxActionsPerHour policy of None \<Rightarrow> True | Some limit \<Rightarrow> spent + requested \<le> limit)"

definition withinUpstreamBudget :: "compiled_policy \<Rightarrow> string \<Rightarrow> int \<Rightarrow> int \<Rightarrow> bool" where
  "withinUpstreamBudget policy upstream spent requested =
     (case cp_perUpstream policy upstream of None \<Rightarrow> True | Some limit \<Rightarrow> spent + requested \<le> limit)"

definition withinDelegationBudget :: "compiled_policy \<Rightarrow> int \<Rightarrow> int \<Rightarrow> bool" where
  "withinDelegationBudget policy spent requested =
     (case cp_perDelegation policy of None \<Rightarrow> True | Some limit \<Rightarrow> spent + requested \<le> limit)"

text \<open>The loop both cost and quorum run: raise the running value to any larger matching weight.\<close>

fun raise_matching :: "(compiled_pattern \<times> int) list \<Rightarrow> string \<Rightarrow> int \<Rightarrow> int" where
  "raise_matching [] action cost = cost"
| "raise_matching ((pat, w) # rest) action cost =
     raise_matching rest action (if w > cost \<and> pattern_test pat action then w else cost)"

definition actionCost :: "compiled_policy \<Rightarrow> string \<Rightarrow> int" where
  "actionCost policy action = raise_matching (cp_budgetWeights policy) action 1"

definition approvalQuorum :: "compiled_policy \<Rightarrow> string \<Rightarrow> int" where
  "approvalQuorum policy action = raise_matching (cp_quorums policy) action 1"

record agent_ceiling =
  ac_limit :: "int option"
  ac_override :: bool

definition agentCeiling :: "compiled_policy \<Rightarrow> agent_id \<Rightarrow> agent_ceiling" where
  "agentCeiling policy agentId =
     (case cp_perAgent policy agentId of
        Some own \<Rightarrow> \<lparr>ac_limit = Some own, ac_override = True\<rparr>
      | None \<Rightarrow> \<lparr>ac_limit = cp_maxActionsPerHour policy, ac_override = False\<rparr>)"

fun approval_overlay :: "compiled_approval_rule list \<Rightarrow> string \<Rightarrow> string option \<Rightarrow> bool" where
  "approval_overlay [] action target = False"
| "approval_overlay (r # rs) action target =
     (if \<not> pattern_test (ca_action r) action then approval_overlay rs action target
      else case ca_targets r of
        None \<Rightarrow> True
      | Some ts \<Rightarrow>
          (case target of
             None \<Rightarrow> True
           | Some tg \<Rightarrow>
               if list_ex (\<lambda>t. pattern_test t tg) ts then True else approval_overlay rs action target))"

definition agentRequiresApproval :: "compiled_policy \<Rightarrow> agent_id \<Rightarrow> string \<Rightarrow> string option \<Rightarrow> bool" where
  "agentRequiresApproval policy agentId action target =
     (case cp_perAgentApproval policy agentId of None \<Rightarrow> False | Some rules \<Rightarrow> approval_overlay rules action target)"

subsection \<open>Batches\<close>

text \<open>The label of an all-allowed batch of several actions, \<open>batch:N\<close>.\<close>

definition batch_label :: "string list \<Rightarrow> string" where
  "batch_label actions = (case actions of [a] \<Rightarrow> a | _ \<Rightarrow> ''batch:'' @ show_nat (length actions))"

fun combine_loop :: "compiled_policy \<Rightarrow> string \<Rightarrow> (string \<times> string) list
    \<Rightarrow> (engine_result \<times> string) option \<Rightarrow> (engine_result \<times> string) option" where
  "combine_loop policy tool [] approval = approval"
| "combine_loop policy tool ((action, target) # rest) approval =
     (let result = evaluate_at policy tool action (Some target) in
      if er_decision result = Deny then Some (result, action)
      else combine_loop policy tool rest
             (if er_decision result = RequireApproval \<and> approval = None then Some (result, action) else approval))"

definition combine :: "compiled_policy \<Rightarrow> string \<Rightarrow> (string \<times> string) list \<Rightarrow> engine_result \<times> string" where
  "combine policy tool pairs =
     (case combine_loop policy tool pairs None of
        Some found \<Rightarrow> found
      | None \<Rightarrow> (\<lparr>er_decision = Allow, er_reason = R_explicit_allow, er_matched = Some CAllow,
                  er_pattern = None, er_message = None\<rparr>, batch_label (map fst pairs)))"

subsection \<open>Which rules apply\<close>

definition rule_applies :: "clause \<Rightarrow> eval_input \<Rightarrow> compiled_rule \<Rightarrow> bool" where
  "rule_applies cl inp r \<longleftrightarrow> pattern_test (cr_action r) (ei_action inp) \<and>
     (case cr_targets r of None \<Rightarrow> True
      | Some ts \<Rightarrow> \<not> ei_unresolved inp \<and>
          (case ei_target inp of None \<Rightarrow> cl \<noteq> CDeny | Some tg \<Rightarrow> \<exists>t\<in>set ts. pattern_test t tg))"

definition rule_opted :: "eval_input \<Rightarrow> compiled_rule \<Rightarrow> bool" where
  "rule_opted inp r \<longleftrightarrow> ei_unresolved inp \<and> cr_onUnresolved r = UApprove \<and> pattern_test (cr_action r) (ei_action inp)"

lemma firstMatch_Cons:
  "firstMatch (r # rs) (ei_action inp) (ei_target inp) cl (ei_unresolved inp) =
     (if rule_applies cl inp r then Some r
      else firstMatch rs (ei_action inp) (ei_target inp) cl (ei_unresolved inp))"
  by (auto simp: rule_applies_def list_ex_iff split: option.splits)

lemma firstMatch_find:
  "firstMatch rs (ei_action inp) (ei_target inp) cl (ei_unresolved inp) = List.find (rule_applies cl inp) rs"
  by (induction rs) (simp_all add: firstMatch_Cons del: firstMatch.simps(2))

text \<open>The declarative verdict of one grant: who applies, not in which order.\<close>

definition grant_verdict :: "compiled_grant \<Rightarrow> eval_input \<Rightarrow> decision" where
  "grant_verdict g inp =
     (if \<exists>r\<in>set (cg_deny g). rule_applies CDeny inp r then Deny
      else if \<exists>r\<in>set (cg_requireApproval g). rule_applies CRequireApproval inp r then RequireApproval
      else if \<exists>r\<in>set (cg_allow g). rule_applies CAllow inp r then Allow
      else if \<exists>r\<in>set (cg_allow g). rule_opted inp r then RequireApproval
      else Deny)"

definition policy_verdict :: "compiled_policy \<Rightarrow> eval_input \<Rightarrow> decision" where
  "policy_verdict p inp = (case map_of (cp_grants p) (ei_tool inp) of None \<Rightarrow> Deny | Some g \<Rightarrow> grant_verdict g inp)"

text \<open>The result of \<open>evaluate\<close> on a known tool, with the loops replaced by searches.\<close>

lemma find_cases:
  obtains (none) "List.find P xs = None" "\<not> (\<exists>x\<in>set xs. P x)"
    | (some) y where "List.find P xs = Some y" "y \<in> set xs" "P y" "\<exists>x\<in>set xs. P x"
  by (cases "List.find P xs") (auto dest: find_SomeD find_None_iff_Ball [THEN iffD1])

lemma evaluate_decision: "er_decision (evaluate p inp) = policy_verdict p inp"
proof (cases "map_of (cp_grants p) (ei_tool inp)")
  case None
  then show ?thesis by (simp add: evaluate_def policy_verdict_def)
next
  case (Some g)
  let ?opt = "\<lambda>r. cr_onUnresolved r = UApprove \<and> pattern_test (cr_action r) (ei_action inp)"
  have opted: "(\<exists>r\<in>set (cg_allow g). rule_opted inp r) \<longleftrightarrow> ei_unresolved inp \<and> (\<exists>r\<in>set (cg_allow g). ?opt r)"
    by (auto simp: rule_opted_def)
  note unfold = evaluate_def policy_verdict_def grant_verdict_def opted Some firstMatch_find option.case
  show ?thesis
  proof (cases rule: find_cases [where P = "rule_applies CDeny inp" and xs = "cg_deny g"])
    case some then show ?thesis by (simp add: unfold)
  next
    case deny: none
    show ?thesis
    proof (cases rule: find_cases [where P = "rule_applies CRequireApproval inp" and xs = "cg_requireApproval g"])
      case some then show ?thesis using deny by (simp add: unfold)
    next
      case appr: none
      show ?thesis
        by (cases rule: find_cases [where P = "rule_applies CAllow inp" and xs = "cg_allow g"];
            cases rule: find_cases [where P = ?opt and xs = "cg_allow g"]) (use deny appr in \<open>simp_all add: unfold\<close>)
    qed
  qed
qed

lemma grant_verdict_cases:
  obtains (deny) r where "r \<in> set (cg_deny g)" "rule_applies CDeny inp r" "grant_verdict g inp = Deny"
  | (approval) r where "r \<in> set (cg_requireApproval g)" "rule_applies CRequireApproval inp r"
      "grant_verdict g inp = RequireApproval" "\<forall>r\<in>set (cg_deny g). \<not> rule_applies CDeny inp r"
  | (allow) r where "r \<in> set (cg_allow g)" "rule_applies CAllow inp r" "grant_verdict g inp = Allow"
      "\<forall>r\<in>set (cg_deny g). \<not> rule_applies CDeny inp r"
      "\<forall>r\<in>set (cg_requireApproval g). \<not> rule_applies CRequireApproval inp r"
  | (opted) r where "r \<in> set (cg_allow g)" "rule_opted inp r" "grant_verdict g inp = RequireApproval"
      "\<forall>r\<in>set (cg_deny g). \<not> rule_applies CDeny inp r"
      "\<forall>r\<in>set (cg_requireApproval g). \<not> rule_applies CRequireApproval inp r"
      "\<forall>r\<in>set (cg_allow g). \<not> rule_applies CAllow inp r"
  | (none) "grant_verdict g inp = Deny"
proof -
  consider "\<exists>r\<in>set (cg_deny g). rule_applies CDeny inp r"
    | "\<forall>r\<in>set (cg_deny g). \<not> rule_applies CDeny inp r"
      "\<exists>r\<in>set (cg_requireApproval g). rule_applies CRequireApproval inp r"
    | "\<forall>r\<in>set (cg_deny g). \<not> rule_applies CDeny inp r"
      "\<forall>r\<in>set (cg_requireApproval g). \<not> rule_applies CRequireApproval inp r"
      "\<exists>r\<in>set (cg_allow g). rule_applies CAllow inp r"
    | "\<forall>r\<in>set (cg_deny g). \<not> rule_applies CDeny inp r"
      "\<forall>r\<in>set (cg_requireApproval g). \<not> rule_applies CRequireApproval inp r"
      "\<forall>r\<in>set (cg_allow g). \<not> rule_applies CAllow inp r"
    by blast
  then show thesis
  proof cases
    case 1 then show ?thesis using deny unfolding grant_verdict_def by auto
  next
    case 2 then show ?thesis using approval unfolding grant_verdict_def by auto
  next
    case 3 then show ?thesis using allow unfolding grant_verdict_def by auto
  next
    case 4 then show ?thesis using opted none unfolding grant_verdict_def
      by (cases "\<exists>r\<in>set (cg_allow g). rule_opted inp r") auto
  qed
qed

text \<open>
  Tightening a grant: more deny rules, fewer allow rules, and approval rules that are kept
  or come from the allow list. (An approval rule added from nowhere would not tighten: it
  turns a request nothing matched into one a human may let through.)
\<close>

definition tighter :: "compiled_grant \<Rightarrow> compiled_grant \<Rightarrow> bool" where
  "tighter g g' \<longleftrightarrow> set (cg_deny g) \<subseteq> set (cg_deny g') \<and> set (cg_allow g') \<subseteq> set (cg_allow g) \<and>
     set (cg_requireApproval g) \<subseteq> set (cg_requireApproval g') \<and>
     set (cg_requireApproval g') \<subseteq> set (cg_requireApproval g) \<union> set (cg_allow g)"

lemma rule_applies_clause: "cl \<noteq> CDeny \<Longrightarrow> cl' \<noteq> CDeny \<Longrightarrow> rule_applies cl inp r = rule_applies cl' inp r"
  by (simp add: rule_applies_def split: option.splits)

lemma grant_verdict_mono:
  assumes t: "tighter g g'" shows "grant_verdict g inp \<le> grant_verdict g' inp"
proof (cases g' inp rule: grant_verdict_cases)
  case (approval r)
  then have "rule_applies CAllow inp r" by (simp add: rule_applies_def split: option.splits)
  moreover have "\<forall>r\<in>set (cg_deny g). \<not> rule_applies CDeny inp r" using t approval by (auto simp: tighter_def)
  moreover have "r \<in> set (cg_requireApproval g) \<or> r \<in> set (cg_allow g)" using t approval(1) by (auto simp: tighter_def)
  ultimately have "grant_verdict g inp \<noteq> Deny" using approval(2) by (auto simp: grant_verdict_def)
  with approval(3) show ?thesis by (cases "grant_verdict g inp") (auto simp: less_eq_decision_def)
next
  case (allow r)
  with t show ?thesis by (auto simp: tighter_def grant_verdict_def)
next
  case (opted r)
  have "\<not> (\<exists>r\<in>set (cg_deny g). rule_applies CDeny inp r)" "\<exists>r\<in>set (cg_allow g). rule_opted inp r"
    using t opted by (auto simp: tighter_def)
  then have "grant_verdict g inp \<noteq> Deny" by (simp add: grant_verdict_def)
  with opted(3) show ?thesis by (cases "grant_verdict g inp") (auto simp: less_eq_decision_def)
qed simp_all

end
