(* ===== verification/Policy_Props.thy ===== *)
theory Policy_Props
  imports Policy_Evaluate
begin

text \<open>
  What the compiler and the evaluator promise together: the decision as a function of which
  rules apply, the safety of an allow, reachability, protective clauses and letter case,
  tightening, the batch verdict, and the cost and quorum of an action.
\<close>

subsection \<open>Batches and weights as maxima\<close>

lemma combine_loop_decision:
  assumes "case ap of None \<Rightarrow> True | Some x \<Rightarrow> er_decision (fst x) = RequireApproval"
  shows "(case combine_loop p tool pairs ap of None \<Rightarrow> Allow | Some x \<Rightarrow> er_decision (fst x)) =
     Max (insert (case ap of None \<Rightarrow> Allow | Some x \<Rightarrow> RequireApproval)
            ((\<lambda>(a, t). er_decision (evaluate_at p tool a (Some t))) ` set pairs))"
  using assms
proof (induction pairs arbitrary: ap)
  case Nil
  then show ?case by (cases ap) auto
next
  case (Cons at pairs)
  obtain a t where at: "at = (a, t)" by (cases at)
  let ?r = "evaluate_at p tool a (Some t)"
  let ?S = "(\<lambda>(a, t). er_decision (evaluate_at p tool a (Some t))) ` set pairs"
  have fin: "finite ?S" by simp
  show ?case
  proof (cases "er_decision ?r = Deny")
    case True
    then have "Max (insert x (insert Deny ?S)) = Deny" for x
      by (intro Max_eqI) auto
    with True at show ?thesis by (simp add: Let_def)
  next
    case False
    let ?ap = "if er_decision ?r = RequireApproval \<and> ap = None then Some (?r, a) else ap"
    have step: "combine_loop p tool (at # pairs) ap = combine_loop p tool pairs ?ap"
      using False at by (simp add: Let_def)
    have inv: "case ?ap of None \<Rightarrow> True | Some x \<Rightarrow> er_decision (fst x) = RequireApproval"
      using Cons.prems by (auto split: option.splits)
    have "max (case ap of None \<Rightarrow> Allow | Some x \<Rightarrow> RequireApproval) (er_decision ?r) =
          (case ?ap of None \<Rightarrow> Allow | Some x \<Rightarrow> RequireApproval)"
      using False by (cases ap; cases "er_decision ?r") (auto simp: max_def)
    moreover have "(\<lambda>(a, t). er_decision (evaluate_at p tool a (Some t))) ` set (at # pairs) = insert (er_decision ?r) ?S"
      using at by simp
    ultimately show ?thesis unfolding step Cons.IH [OF inv] by (simp only: Max_insert_max [OF fin])
  qed
qed

lemma raise_matching_Max:
  "raise_matching ws a c = Max (insert c {w. \<exists>pat. (pat, w) \<in> set ws \<and> pattern_test pat a})"
proof (induction ws arbitrary: c)
  case Nil
  then show ?case by simp
next
  case (Cons x ws)
  obtain pat w where x: "x = (pat, w)" by (cases x)
  let ?S = "{w. \<exists>pat. (pat, w) \<in> set ws \<and> pattern_test pat a}"
  have fin: "finite ?S" by (rule finite_subset [of _ "snd ` set ws"]) force+
  have S: "{w. \<exists>pat. (pat, w) \<in> set (x # ws) \<and> pattern_test pat a} =
           (if pattern_test pat a then insert w ?S else ?S)" using x by auto
  have "raise_matching (x # ws) a c = Max (insert (if w > c \<and> pattern_test pat a then w else c) ?S)"
    using x Cons.IH by simp
  also have "\<dots> = Max (insert c (if pattern_test pat a then insert w ?S else ?S))"
  proof (cases "pattern_test pat a")
    case True
    have "Max (insert c (insert w ?S)) = Max (insert (max c w) ?S)" by (rule Max_insert_max [OF fin])
    then show ?thesis using True by (simp add: max_def) 
  next
    case False
    then show ?thesis by simp
  qed
  finally show ?case unfolding S .
qed

lemma er_reason_explicit_deny:
  "er_reason (evaluate p inp) = R_explicit_deny \<longleftrightarrow>
   (\<exists>g. map_of (cp_grants p) (ei_tool inp) = Some g \<and> (\<exists>r\<in>set (cg_deny g). rule_applies CDeny inp r))"
  by (cases rule: find_cases [where P = "rule_applies CDeny inp"
        and xs = "case map_of (cp_grants p) (ei_tool inp) of None \<Rightarrow> [] | Some g \<Rightarrow> cg_deny g"])
     (auto simp: evaluate_def firstMatch_find split: option.splits)

subsection \<open>Protective clauses and letter case\<close>

text \<open>Every target pattern of a deny or approval rule of a compiled policy is case-insensitive.\<close>

definition ci_targets :: "compiled_rule \<Rightarrow> bool" where
  "ci_targets r \<longleftrightarrow> (case cr_targets r of None \<Rightarrow> True | Some ts \<Rightarrow> \<forall>t\<in>set ts. re_ignoreCase (pt_re t))"

lemma compileRule_ci: "ci_targets (compileRule True r)"
  by (cases r) (auto simp: ci_targets_def compileTargets_def compilePattern_def compileGlob_def
      split: option.splits list.splits)

lemma compiled_grant_ci:
  assumes "compilePolicySource tz rx s = Inr p" and "map_of (cp_grants p) tool = Some g"
  shows "\<forall>r\<in>set (cg_deny g). ci_targets r" "\<forall>r\<in>set (cg_requireApproval g). ci_targets r"
proof -
  have cg: "compileGrants (src_grants s) [] = Inr (cp_grants p)"
    using assms(1) by (rule compilePolicySource_InrD)
  from compileGrants_distinct_aux [OF this]
  have "map_of (cp_grants p) = map_of (map (\<lambda>g. (gs_tool g, compileGrant g)) (src_grants s))" by simp
  with assms(2) have "(tool, g) \<in> set (map (\<lambda>g. (gs_tool g, compileGrant g)) (src_grants s))"
    by (metis map_of_SomeD)
  then obtain gs where "g = compileGrant gs" by auto
  then show "\<forall>r\<in>set (cg_deny g). ci_targets r" "\<forall>r\<in>set (cg_requireApproval g). ci_targets r"
    by (auto simp: compileGrant_def compileRules_def compileRule_ci)
qed

lemma pattern_test_case_fold:
  assumes "re_ignoreCase (pt_re t)" and "map (js_canonicalize True) v = map (js_canonicalize True) v'"
  shows "pattern_test t v = pattern_test t v'"
proof -
  have "rmatch True ns v = rmatch True ns v'" for ns
    using rmatch_case_fold [of ns v] rmatch_case_fold [of ns v'] assms(2) by simp
  then show ?thesis using assms(1) by (simp add: pattern_test_def re_test_def)
qed

lemma rule_applies_case_fold:
  assumes "ci_targets r" and "map (js_canonicalize True) v = map (js_canonicalize True) v'"
  shows "rule_applies cl \<lparr>ei_tool = tool, ei_action = a, ei_target = Some v, ei_unresolved = u\<rparr> r =
         rule_applies cl \<lparr>ei_tool = tool, ei_action = a, ei_target = Some v', ei_unresolved = u\<rparr> r"
proof (cases "cr_targets r")
  case None
  then show ?thesis by (simp add: rule_applies_def)
next
  case (Some ts)
  have "\<forall>t\<in>set ts. pattern_test t v = pattern_test t v'"
    using assms(1) pattern_test_case_fold [OF _ assms(2)] by (simp add: ci_targets_def Some)
  then have "(\<exists>t\<in>set ts. pattern_test t v) = (\<exists>t\<in>set ts. pattern_test t v')" by blast
  then show ?thesis by (simp add: rule_applies_def Some)
qed

subsection \<open>Properties\<close>

text \<open>C33: deny by default, exactly: a request is allowed if and only if its tool has a grant with an
  applicable allow rule, no applicable deny rule and no applicable approval rule.\<close>
theorem evaluate_allow_iff:
  "er_decision (evaluate p inp) = Allow \<longleftrightarrow>
   (\<exists>g. map_of (cp_grants p) (ei_tool inp) = Some g
      \<and> (\<exists>r\<in>set (cg_allow g). rule_applies CAllow inp r)
      \<and> \<not> (\<exists>r\<in>set (cg_deny g). rule_applies CDeny inp r)
      \<and> \<not> (\<exists>r\<in>set (cg_requireApproval g). rule_applies CRequireApproval inp r))"
  by (simp add: evaluate_decision policy_verdict_def grant_verdict_def split: option.splits)

text \<open>the decision does not depend on the order of the rules inside a clause (nor on
  repetitions), although the loops take the first match.\<close>
theorem evaluate_rule_order_irrelevant:
  assumes "map_of (cp_grants p) (ei_tool inp) = Some g" and "map_of (cp_grants p') (ei_tool inp) = Some g'"
    and "set (cg_deny g) = set (cg_deny g')" and "set (cg_requireApproval g) = set (cg_requireApproval g')"
    and "set (cg_allow g) = set (cg_allow g')"
  shows "er_decision (evaluate p inp) = er_decision (evaluate p' inp)"
  using assms by (simp add: evaluate_decision policy_verdict_def grant_verdict_def)

text \<open>reachability mode is sound: an action denied with an unknown target is denied for every
  concrete target, so "could this ever happen" never answers no wrongly.\<close>
theorem evaluate_reachability_sound:
  assumes "er_decision (evaluate_at p tool a None) = Deny"
  shows "er_decision (evaluate_at p tool a (Some t)) = Deny"
proof (cases "map_of (cp_grants p) tool")
  case None
  then show ?thesis by (simp add: evaluate_decision policy_verdict_def)
next
  case (Some g)
  have *: "rule_applies CDeny \<lparr>ei_tool = tool, ei_action = a, ei_target = None, ei_unresolved = False\<rparr> r \<Longrightarrow>
       rule_applies CDeny \<lparr>ei_tool = tool, ei_action = a, ei_target = Some t, ei_unresolved = False\<rparr> r"
    "cl \<noteq> CDeny \<Longrightarrow> rule_applies cl \<lparr>ei_tool = tool, ei_action = a, ei_target = Some t, ei_unresolved = False\<rparr> r \<Longrightarrow>
       rule_applies cl \<lparr>ei_tool = tool, ei_action = a, ei_target = None, ei_unresolved = False\<rparr> r" for r cl
    by (auto simp: rule_applies_def split: option.splits)
  with assms Some show ?thesis
    by (auto simp: evaluate_decision policy_verdict_def grant_verdict_def rule_opted_def split: if_splits)
qed

text \<open>an unresolved target earns an outright allow only from an allow rule that looks at no
  target; a target-scoped allow never lets an unprovable request through.\<close>
theorem evaluate_unresolved_allow:
  assumes "ei_unresolved inp" and "er_decision (evaluate p inp) = Allow"
  shows "\<exists>g r. map_of (cp_grants p) (ei_tool inp) = Some g \<and> r \<in> set (cg_allow g)
           \<and> cr_targets r = None \<and> pattern_test (cr_action r) (ei_action inp)"
  using assms by (auto simp: evaluate_decision policy_verdict_def grant_verdict_def rule_applies_def split: option.splits if_splits)

text \<open>in a compiled policy, changing the letter case of a target never changes whether an
  explicit deny fires: a mis-cased request cannot dodge a scoped deny rule.\<close>
theorem explicit_deny_case_insensitive:
  assumes "compilePolicySource tz rx s = Inr p"
    and "map (js_canonicalize True) v = map (js_canonicalize True) v'"
  shows "er_reason (evaluate_at p tool a (Some v)) = R_explicit_deny \<longleftrightarrow>
         er_reason (evaluate_at p tool a (Some v')) = R_explicit_deny"
  using compiled_grant_ci(1) [OF assms(1)] rule_applies_case_fold [OF _ assms(2)]
  by (auto simp: er_reason_explicit_deny)

text \<open>tightening a grant (more deny rules, fewer allow rules, allow rules moved to approval) never
  makes any decision more permissive.\<close>
theorem evaluate_tighter_mono:
  assumes "map_of (cp_grants p) (ei_tool inp) = Some g" and "map_of (cp_grants p') (ei_tool inp) = Some g'"
    and "tighter g g'"
  shows "er_decision (evaluate p inp) \<le> er_decision (evaluate p' inp)"
  using assms grant_verdict_mono by (simp add: evaluate_decision policy_verdict_def)

text \<open>the verdict on a batch is the most restrictive verdict of its members, each taken at its
  own target: no member can be laundered past a rule by the others.\<close>
theorem combine_is_most_restrictive:
  "er_decision (fst (combine p tool pairs)) =
     Max (insert Allow ((\<lambda>(a, t). er_decision (evaluate_at p tool a (Some t))) ` set pairs))"
  using combine_loop_decision [of None p tool pairs]
  by (auto simp: combine_def split: option.splits)

text \<open>the cost of an action is the largest weight whose glob matches it, and never below 1,
  whatever the order of the weights.\<close>
theorem actionCost_is_max:
  "actionCost p a = Max (insert 1 {w. \<exists>pat. (pat, w) \<in> set (cp_budgetWeights p) \<and> pattern_test pat a})"
  by (simp add: actionCost_def raise_matching_Max)

text \<open>the approver quorum of an action is the largest matching entry, and never below 1: a broad
  low quorum cannot weaken a specific higher one.\<close>
theorem approvalQuorum_is_max:
  "approvalQuorum p a = Max (insert 1 {n. \<exists>pat. (pat, n) \<in> set (cp_quorums p) \<and> pattern_test pat a})"
  by (simp add: approvalQuorum_def raise_matching_Max)

end
