(* ===== verification/Gates.thy ===== *)
theory Gates
  imports Policy_Evaluate
begin

text \<open>
  The pure comparators around the engine: tripwires (\<^verbatim>\<open>policy/tripwire.ts\<close>), schedule windows
  (\<^verbatim>\<open>policy/schedule.ts\<close>), the first-use scope (\<^verbatim>\<open>policy/first-use.ts\<close>), response caps
  (\<^verbatim>\<open>response/limit.ts\<close>, \<^verbatim>\<open>response/cap.ts\<close>), the risk score (\<^verbatim>\<open>risk/score.ts\<close>), and the two
  session gates with their fact stores: taint flow (\<^verbatim>\<open>flow/evaluate.ts\<close>, \<^verbatim>\<open>flow/facts.ts\<close>) and
  pinning (\<^verbatim>\<open>pin/evaluate.ts\<close>, \<^verbatim>\<open>pin/store.ts\<close>), all under \<^verbatim>\<open>proxy/src\<close>.

  Two interfaces are locales: \<open>fact_store\<close>, what a gate relies on in a per-session memory,
  and \<open>batch_gate\<close>, a gate that is run over the pairs of one request with the facts of
  earlier pairs folded in. Both are interpreted on the flow and on the pin components.
\<close>

definition matches_any :: "compiled_pattern list \<Rightarrow> string \<Rightarrow> bool" where
  "matches_any ps v = list_ex (\<lambda>p. pattern_test p v) ps"

lemma matches_any_iff: "matches_any ps v \<longleftrightarrow> (\<exists>p\<in>set ps. pattern_test p v)"
  by (simp add: matches_any_def list_ex_iff)

subsection \<open>Tripwires\<close>

definition tripwire_hits :: "string \<Rightarrow> string option \<Rightarrow> compiled_tripwire \<Rightarrow> bool" where
  "tripwire_hits action target wire \<longleftrightarrow> pattern_test (tw_action wire) action \<and>
     (case (tw_targets wire, target) of (Some ts, Some tg) \<Rightarrow> matches_any ts tg | _ \<Rightarrow> True)"

definition matchTripwire :: "compiled_tripwire list \<Rightarrow> string \<Rightarrow> string option \<Rightarrow> compiled_tripwire option" where
  "matchTripwire tripwires action target = List.find (tripwire_hits action target) tripwires"

subsection \<open>Schedule windows\<close>

text \<open>
  The wall clock of a time zone (\<open>Intl.DateTimeFormat\<close>, whose zone database is not in the
  repository) is a parameter: the weekday, if one is reported, the hour as formatted (0 to
  24: midnight may be rendered as 24) and the minute.
\<close>

type_synonym wall_clock = "string \<Rightarrow> ms \<Rightarrow> weekday option \<times> int \<times> int"

definition withinSchedule :: "wall_clock \<Rightarrow> compiled_schedule \<Rightarrow> ms \<Rightarrow> bool" where
  "withinSchedule wallClock schedule epochMs =
     (let (wday, hourText, minute) = wallClock (cs_timezone schedule) epochMs; hour = hourText mod 24 in
      case wday of
        None \<Rightarrow> False
      | Some wd \<Rightarrow>
          let mins = hour * 60 + minute in
          list_ex (\<lambda>w. wd \<in> set (cw_days w) \<and> mins \<ge> cw_startMin w \<and> mins < cw_endMin w) (cs_windows schedule))"

subsection \<open>First use\<close>

definition firstUseInScope :: "compiled_first_use \<Rightarrow> string \<Rightarrow> bool" where
  "firstUseInScope firstUse action = matches_any (cf_only firstUse) action"

subsection \<open>Response caps\<close>

record response_limit =
  rl_maxBytes :: int
  rl_onExceed :: exceed

definition response_matches :: "compiled_response_rule \<Rightarrow> string \<Rightarrow> string option \<Rightarrow> bool" where
  "response_matches rule action target =
     (if \<not> matches_any (rr_on rule) action then False
      else case rr_targets rule of None \<Rightarrow> True
      | Some ts \<Rightarrow> (case target of None \<Rightarrow> True | Some tg \<Rightarrow> matches_any ts tg))"

definition tightest :: "response_limit \<Rightarrow> response_limit \<Rightarrow> response_limit" where
  "tightest a b =
     (if rl_maxBytes b < rl_maxBytes a then b
      else if rl_maxBytes b > rl_maxBytes a then a
      else if rl_onExceed a = RefuseExceed then a else b)"

fun limit_loop :: "compiled_response_rule list \<Rightarrow> string \<Rightarrow> string option
    \<Rightarrow> response_limit option \<Rightarrow> response_limit option" where
  "limit_loop [] action target best = best"
| "limit_loop (rule # rules) action target best =
     (if \<not> response_matches rule action target then limit_loop rules action target best
      else let here = \<lparr>rl_maxBytes = rr_maxBytes rule, rl_onExceed = rr_onExceed rule\<rparr> in
        limit_loop rules action target (Some (case best of None \<Rightarrow> here | Some b \<Rightarrow> tightest b here)))"

definition resolveResponseLimit :: "compiled_policy \<Rightarrow> string \<Rightarrow> string option \<Rightarrow> response_limit option" where
  "resolveResponseLimit policy action target = limit_loop (cp_responses policy) action target None"

text \<open>
  The counting transform of \<open>capResponseBody\<close> over the chunks of a body: what is enqueued,
  until the stream is terminated.
\<close>

fun capChunks :: "nat \<Rightarrow> nat \<Rightarrow> 'byte list list \<Rightarrow> 'byte list list" where
  "capChunks maxBytes sent [] = []"
| "capChunks maxBytes sent (chunk # rest) =
     (if sent \<ge> maxBytes then capChunks maxBytes sent rest
      else if length chunk \<le> maxBytes - sent then
        chunk # (if sent + length chunk \<ge> maxBytes then [] else capChunks maxBytes (sent + length chunk) rest)
      else [take (maxBytes - sent) chunk])"

definition capResponseBody :: "'byte list list option \<Rightarrow> nat \<Rightarrow> 'byte list list option" where
  "capResponseBody body maxBytes = map_option (capChunks maxBytes 0) body"

subsection \<open>Risk score\<close>

datatype risk_level = Low | Elevated | High
datatype risk_reason = Denials int | DenyRate | DistinctDenied int

record agent_activity =
  aa_total :: int
  aa_allow :: int
  aa_deny :: int
  aa_require_approval :: int
  aa_distinctDenied :: int

record risk_assessment =
  ra_score :: int
  ra_level :: risk_level
  ra_reasons :: "risk_reason list"

definition scoreRisk :: "agent_activity \<Rightarrow> risk_assessment" where
  "scoreRisk a =
     (let s1 = (if aa_deny a > 0 then min (aa_deny a * 4) 60 else 0);
          r1 = (if aa_deny a > 0 \<and> aa_deny a \<ge> 3 then [Denials (aa_deny a)] else []);
          highRate = (aa_total a \<ge> 5 \<and> (aa_total a > 0 \<and> 5 * aa_deny a \<ge> 2 * aa_total a));
          s2 = s1 + (if highRate then 20 else 0);
          r2 = r1 @ (if highRate then [DenyRate] else []);
          s3 = s2 + (if aa_distinctDenied a \<ge> 3 then aa_distinctDenied a * 5 else 0);
          r3 = r2 @ (if aa_distinctDenied a \<ge> 3 then [DistinctDenied (aa_distinctDenied a)] else []);
          score = min s3 100
      in \<lparr>ra_score = score,
          ra_level = (if score \<ge> 60 then High else if score \<ge> 25 then Elevated else Low),
          ra_reasons = r3\<rparr>)"

subsection \<open>The strongest hit\<close>

text \<open>The update all four loops of the session gates share: keep the first hit, replace it
  only by a deny when it is not one.\<close>

definition better :: "('h \<Rightarrow> effect) \<Rightarrow> 'h option \<Rightarrow> 'h option \<Rightarrow> 'h option" where
  "better eff best hit =
     (case hit of None \<Rightarrow> best
      | Some h \<Rightarrow> (case best of None \<Rightarrow> Some h
          | Some b \<Rightarrow> if eff h = EDeny \<and> eff b \<noteq> EDeny then Some h else Some b))"

definition strongest :: "('h \<Rightarrow> effect) \<Rightarrow> 'h option list \<Rightarrow> 'h option" where
  "strongest eff hits = foldl (better eff) None hits"

lemma foldl_better_None: "foldl (better eff) b hits = None \<longleftrightarrow> b = None \<and> set hits \<subseteq> {None}"
  by (induction hits arbitrary: b) (auto simp: better_def split: option.splits)

lemma foldl_better_deny:
  "(\<exists>h. foldl (better eff) b hits = Some h \<and> eff h = EDeny) \<longleftrightarrow>
   (\<exists>h. (b = Some h \<or> Some h \<in> set hits) \<and> eff h = EDeny)"
proof (induction hits arbitrary: b)
  case Nil
  then show ?case by auto
next
  case (Cons x hits)
  have "(\<exists>h. (better eff b x = Some h \<or> Some h \<in> set hits) \<and> eff h = EDeny) \<longleftrightarrow>
        (\<exists>h. (b = Some h \<or> Some h \<in> set (x # hits)) \<and> eff h = EDeny)"
    by (cases x; cases b) (auto simp: better_def)
  with Cons.IH show ?case by simp
qed

lemma strongest_None: "strongest eff hits = None \<longleftrightarrow> set hits \<subseteq> {None}"
  by (simp add: strongest_def foldl_better_None)

lemma strongest_deny:
  "(\<exists>h. strongest eff hits = Some h \<and> eff h = EDeny) \<longleftrightarrow> (\<exists>h. Some h \<in> set hits \<and> eff h = EDeny)"
  by (simp add: strongest_def foldl_better_deny)

lemma foldl_better_mem: "foldl (better eff) b hits = Some h \<Longrightarrow> b = Some h \<or> Some h \<in> set hits"
  by (induction hits arbitrary: b) (auto simp: better_def split: option.splits if_splits)

lemma strongest_mem: "strongest eff hits = Some h \<Longrightarrow> Some h \<in> set hits"
  unfolding strongest_def by (auto dest: foldl_better_mem)

subsection \<open>Taint flow\<close>

record flow_fact =
  ff_action :: string
  ff_target :: "string option"
  ff_ts :: ms

record flow_hit =
  fh_effect :: effect
  fh_flowIndex :: nat
  fh_source :: "string \<times> string option"

definition maxWithinMs :: "compiled_flow list \<Rightarrow> int" where
  "maxWithinMs flows = foldl (\<lambda>m f. if fw_withinMs f > m then fw_withinMs f else m) 0 flows"

text \<open>The most recent qualifying source of one flow.\<close>

definition flow_source_fact :: "compiled_flow \<Rightarrow> flow_fact list \<Rightarrow> ms \<Rightarrow> flow_fact option" where
  "flow_source_fact flow facts now =
     foldl (\<lambda>source fact.
        if ff_ts fact < now - fw_withinMs flow then source
        else if \<not> matches_any (fw_when flow) (ff_action fact) then source
        else case source of None \<Rightarrow> Some fact | Some s \<Rightarrow> if ff_ts fact > ff_ts s then Some fact else source)
      None facts"

definition flow_hit_of :: "nat \<Rightarrow> compiled_flow \<Rightarrow> flow_fact list \<Rightarrow> string \<Rightarrow> ms \<Rightarrow> flow_hit option" where
  "flow_hit_of i flow facts action now =
     (if \<not> matches_any (fw_then flow) action then None
      else case flow_source_fact flow facts now of
        None \<Rightarrow> None
      | Some s \<Rightarrow> Some \<lparr>fh_effect = fw_effect flow, fh_flowIndex = i, fh_source = (ff_action s, ff_target s)\<rparr>)"

definition evaluateFlows :: "compiled_flow list \<Rightarrow> flow_fact list \<Rightarrow> string \<Rightarrow> ms \<Rightarrow> flow_hit option" where
  "evaluateFlows flows facts action now =
     strongest fh_effect (map (\<lambda>(i, flow). flow_hit_of i flow facts action now) (enumerate 0 flows))"

definition is_flow_source :: "compiled_flow list \<Rightarrow> string \<Rightarrow> bool" where
  "is_flow_source flows action = list_ex (\<lambda>f. matches_any (fw_when f) action) flows"

definition flow_seed :: "compiled_flow list \<Rightarrow> ms \<Rightarrow> string \<times> string \<Rightarrow> flow_fact list" where
  "flow_seed flows now = (\<lambda>(action, target).
     if is_flow_source flows action then [\<lparr>ff_action = action, ff_target = Some target, ff_ts = now\<rparr>] else [])"

definition flow_pair_hit :: "compiled_flow list \<Rightarrow> ms \<Rightarrow> flow_fact list \<Rightarrow> string \<times> string \<Rightarrow> (flow_hit \<times> string) option" where
  "flow_pair_hit flows now seen = (\<lambda>(action, target).
     map_option (\<lambda>hit. (hit, action)) (evaluateFlows flows seen action now))"

fun flows_batch_loop :: "compiled_flow list \<Rightarrow> ms \<Rightarrow> flow_fact list \<Rightarrow> (string \<times> string) list
    \<Rightarrow> (flow_hit \<times> string) option \<Rightarrow> (flow_hit \<times> string) option" where
  "flows_batch_loop flows now seen [] best = best"
| "flows_batch_loop flows now seen (p # ps) best =
     flows_batch_loop flows now (seen @ flow_seed flows now p) ps
       (better (fh_effect \<circ> fst) best (flow_pair_hit flows now seen p))"

definition evaluateFlowsBatch ::
    "compiled_flow list \<Rightarrow> flow_fact list \<Rightarrow> (string \<times> string) list \<Rightarrow> ms \<Rightarrow> (flow_hit \<times> string) option" where
  "evaluateFlowsBatch flows facts pairs now = flows_batch_loop flows now facts pairs None"

record flow_store =
  fst_byKey :: "string \<rightharpoonup> flow_fact list"
  fst_maxPerKey :: nat

definition flow_raw :: "flow_store \<Rightarrow> string \<Rightarrow> flow_fact list" where
  "flow_raw s key = (case fst_byKey s key of None \<Rightarrow> [] | Some fs \<Rightarrow> fs)"

definition flow_record :: "flow_store \<Rightarrow> string \<Rightarrow> string \<Rightarrow> string option \<Rightarrow> ms \<Rightarrow> flow_store" where
  "flow_record s key action target now =
     s\<lparr>fst_byKey := (fst_byKey s)(key \<mapsto>
        push_capped (fst_maxPerKey s) (flow_raw s key) \<lparr>ff_action = action, ff_target = target, ff_ts = now\<rparr>)\<rparr>"

definition flow_factsSince :: "flow_store \<Rightarrow> string \<Rightarrow> ms \<Rightarrow> flow_fact list" where
  "flow_factsSince s key sinceMs = filter (\<lambda>f. ff_ts f \<ge> sinceMs) (flow_raw s key)"

subsection \<open>Session pinning\<close>

record pin_fact =
  pf_ruleIndex :: nat
  pf_unit :: string
  pf_ts :: ms

record pin_hit =
  ph_effect :: effect
  ph_ruleIndex :: nat
  ph_unit :: string

definition maxPinWithinMs :: "compiled_pin list \<Rightarrow> int" where
  "maxPinWithinMs pins = foldl (\<lambda>m p. if pn_withinMs p > m then pn_withinMs p else m) 0 pins"

text \<open>\<open>rule.key.exec(target)?.[1]\<close>, where the empty string and no match are both inert.\<close>

definition pin_unit :: "compiled_pin \<Rightarrow> string \<Rightarrow> string option" where
  "pin_unit rule target = (case pn_key rule target of Some (c # cs) \<Rightarrow> Some (c # cs) | _ \<Rightarrow> None)"

definition pinned_units :: "nat \<Rightarrow> compiled_pin \<Rightarrow> pin_fact list \<Rightarrow> ms \<Rightarrow> string list" where
  "pinned_units i rule facts now =
     map pf_unit (filter (\<lambda>f. pf_ruleIndex f = i \<and> pf_ts f \<ge> now - pn_withinMs rule) facts)"

definition pin_hit_of :: "nat \<Rightarrow> compiled_pin \<Rightarrow> pin_fact list \<Rightarrow> string \<Rightarrow> string \<Rightarrow> ms \<Rightarrow> pin_hit option" where
  "pin_hit_of i rule facts action target now =
     (if \<not> matches_any (pn_on rule) action then None
      else case pin_unit rule target of
        None \<Rightarrow> None
      | Some u \<Rightarrow>
          let pinned = pinned_units i rule facts now in
          if pinned \<noteq> [] \<and> u \<notin> set pinned
          then Some \<lparr>ph_effect = pn_effect rule, ph_ruleIndex = i, ph_unit = u\<rparr> else None)"

definition evaluatePin :: "compiled_pin list \<Rightarrow> pin_fact list \<Rightarrow> string \<Rightarrow> string \<Rightarrow> ms \<Rightarrow> pin_hit option" where
  "evaluatePin pins facts action target now =
     strongest ph_effect (map (\<lambda>(i, rule). pin_hit_of i rule facts action target now) (enumerate 0 pins))"

definition pinUnitsFor :: "compiled_pin list \<Rightarrow> string \<Rightarrow> string \<Rightarrow> (nat \<times> string) list" where
  "pinUnitsFor pins action target =
     concat (map (\<lambda>(i, rule). if \<not> matches_any (pn_on rule) action then []
        else case pin_unit rule target of None \<Rightarrow> [] | Some u \<Rightarrow> [(i, u)]) (enumerate 0 pins))"

definition pin_seed :: "compiled_pin list \<Rightarrow> ms \<Rightarrow> string \<times> string \<Rightarrow> pin_fact list" where
  "pin_seed pins now = (\<lambda>(action, target).
     map (\<lambda>(i, u). \<lparr>pf_ruleIndex = i, pf_unit = u, pf_ts = now\<rparr>) (pinUnitsFor pins action target))"

definition pin_pair_hit :: "compiled_pin list \<Rightarrow> ms \<Rightarrow> pin_fact list \<Rightarrow> string \<times> string \<Rightarrow> pin_hit option" where
  "pin_pair_hit pins now seen = (\<lambda>(action, target). evaluatePin pins seen action target now)"

fun pin_batch_loop :: "compiled_pin list \<Rightarrow> ms \<Rightarrow> pin_fact list \<Rightarrow> (string \<times> string) list
    \<Rightarrow> pin_hit option \<Rightarrow> pin_hit option" where
  "pin_batch_loop pins now seen [] best = best"
| "pin_batch_loop pins now seen (p # ps) best =
     pin_batch_loop pins now (seen @ pin_seed pins now p) ps (better ph_effect best (pin_pair_hit pins now seen p))"

definition evaluatePinBatch ::
    "compiled_pin list \<Rightarrow> pin_fact list \<Rightarrow> (string \<times> string) list \<Rightarrow> ms \<Rightarrow> pin_hit option" where
  "evaluatePinBatch pins facts pairs now = pin_batch_loop pins now facts pairs None"

record pin_store =
  pst_byKey :: "string \<rightharpoonup> pin_fact list"
  pst_maxPerKey :: nat

definition pin_raw :: "pin_store \<Rightarrow> string \<Rightarrow> pin_fact list" where
  "pin_raw s key = (case pst_byKey s key of None \<Rightarrow> [] | Some fs \<Rightarrow> fs)"

definition pin_record :: "pin_store \<Rightarrow> string \<Rightarrow> nat \<Rightarrow> string \<Rightarrow> ms \<Rightarrow> pin_store" where
  "pin_record s key ruleIndex unit now =
     s\<lparr>pst_byKey := (pst_byKey s)(key \<mapsto>
        push_capped (pst_maxPerKey s) (pin_raw s key) \<lparr>pf_ruleIndex = ruleIndex, pf_unit = unit, pf_ts = now\<rparr>)\<rparr>"

definition pin_factsSince :: "pin_store \<Rightarrow> string \<Rightarrow> ms \<Rightarrow> pin_fact list" where
  "pin_factsSince s key sinceMs = filter (\<lambda>f. pf_ts f \<ge> sinceMs) (pin_raw s key)"

end
