(* ===== verification/Gates_Props.thy ===== *)
theory Gates_Props
  imports Gates
begin

text \<open>
  The interfaces of the session gates, their interpretations, and what the gates of
  \<^verbatim>\<open>Gates\<close> guarantee.
\<close>

subsection \<open>A per-session memory of facts\<close>

locale fact_store =
  fixes raw :: "'s \<Rightarrow> string \<Rightarrow> 'f list"
    and put :: "'s \<Rightarrow> string \<Rightarrow> 'f \<Rightarrow> 's"
    and since :: "'s \<Rightarrow> string \<Rightarrow> ms \<Rightarrow> 'f list"
    and ts :: "'f \<Rightarrow> ms"
    and cap :: "'s \<Rightarrow> nat"
  assumes raw_put: "raw (put s k f) k' = (if k' = k then push_capped (cap s) (raw s k) f else raw s k')"
    and cap_put: "cap (put s k f) = cap s"
    and since_raw: "since s k t = filter (\<lambda>f. t \<le> ts f) (raw s k)"
begin

lemma other_session: "k' \<noteq> k \<Longrightarrow> since (put s k f) k' t = since s k' t"
  by (simp add: since_raw raw_put)

lemma just_put: "0 < cap s \<Longrightarrow> t \<le> ts f \<Longrightarrow> f \<in> set (since (put s k f) k t)"
  by (simp add: since_raw raw_put push_capped_last)

lemma wider_window: "t \<le> t' \<Longrightarrow> set (since s k t') \<subseteq> set (since s k t)"
  by (auto simp: since_raw)

lemma only_recorded: "f' \<in> set (since (put s k f) k' t) \<Longrightarrow> f' = f \<or> f' \<in> set (since s k' t)"
  using set_push_capped_subset [of "cap s" "raw s k" f] by (auto simp: since_raw raw_put split: if_splits)

lemma bounded: "length (raw s k') \<le> cap s \<Longrightarrow> length (raw (put s k f) k') \<le> cap (put s k f)"
  by (simp add: raw_put cap_put length_push_capped)

lemma bounded_all:
  "\<forall>k. length (raw s k) \<le> cap s \<Longrightarrow> length (raw (foldl (\<lambda>s (k, f). put s k f) s kfs) k) \<le> cap s"
proof (induction kfs arbitrary: s)
  case Nil
  then show ?case by simp
next
  case (Cons kf kfs)
  obtain k' f where kf: "kf = (k', f)" by (cases kf)
  have "\<forall>k. length (raw (put s k' f) k) \<le> cap (put s k' f)" using Cons.prems bounded by blast
  from Cons.IH [OF this] show ?case by (simp add: kf cap_put)
qed

end

abbreviation flow_put :: "flow_store \<Rightarrow> string \<Rightarrow> flow_fact \<Rightarrow> flow_store" where
  "flow_put s k f \<equiv> flow_record s k (ff_action f) (ff_target f) (ff_ts f)"

abbreviation pin_put :: "pin_store \<Rightarrow> string \<Rightarrow> pin_fact \<Rightarrow> pin_store" where
  "pin_put s k f \<equiv> pin_record s k (pf_ruleIndex f) (pf_unit f) (pf_ts f)"

lemma flow_fact_eta [simp]: "\<lparr>ff_action = ff_action f, ff_target = ff_target f, ff_ts = ff_ts f\<rparr> = (f::flow_fact)"
  by (cases f) simp

lemma pin_fact_eta [simp]: "\<lparr>pf_ruleIndex = pf_ruleIndex f, pf_unit = pf_unit f, pf_ts = pf_ts f\<rparr> = (f::pin_fact)"
  by (cases f) simp

interpretation flow_mem: fact_store flow_raw flow_put flow_factsSince ff_ts fst_maxPerKey
  by unfold_locales (auto simp: flow_raw_def flow_record_def flow_factsSince_def)

interpretation pin_mem: fact_store pin_raw pin_put pin_factsSince pf_ts pst_maxPerKey
  by unfold_locales (auto simp: pin_raw_def pin_record_def pin_factsSince_def)

subsection \<open>A gate over the pairs of one request\<close>

text \<open>
  A client of the gate runs it over a batch; the interface is one evaluation (\<open>hit\<close>), the
  facts an evaluated pair contributes (\<open>seed\<close>), and the loop (\<open>run\<close>).
\<close>

locale batch_gate =
  fixes hit :: "'f list \<Rightarrow> 'p \<Rightarrow> 'h option"
    and seed :: "'p \<Rightarrow> 'f list"
    and eff :: "'h \<Rightarrow> effect"
    and run :: "'f list \<Rightarrow> 'p list \<Rightarrow> 'h option \<Rightarrow> 'h option"
  assumes run_Nil: "run facts [] best = best"
    and run_Cons: "run facts (p # ps) best = run (facts @ seed p) ps (better eff best (hit facts p))"
begin

lemma run_strongest:
  "run facts ps best = foldl (better eff) best
     (map (\<lambda>i. hit (facts @ concat (map seed (take i ps))) (ps ! i)) [0..<length ps])"
proof (induction ps arbitrary: facts best)
  case Nil
  then show ?case by (simp add: run_Nil)
next
  case (Cons p ps)
  have "map (\<lambda>i. hit (facts @ concat (map seed (take i (p # ps)))) ((p # ps) ! i)) [0..<length (p # ps)] =
      hit facts p # map (\<lambda>i. hit ((facts @ seed p) @ concat (map seed (take i ps))) (ps ! i)) [0..<length ps]"
    by (simp add: map_upt_Suc del: upt_Suc)
  then show ?case by (simp add: run_Cons Cons.IH del: upt_Suc)
qed

lemma run_passes_iff:
  "run facts ps None = None \<longleftrightarrow>
   (\<forall>i<length ps. hit (facts @ concat (map seed (take i ps))) (ps ! i) = None)"
proof -
  have "(\<lambda>i. g i) ` {0..<n} \<subseteq> {None} \<longleftrightarrow> (\<forall>i<n. g i = None)" for g :: "nat \<Rightarrow> 'h option" and n
    by (auto simp: image_subset_iff)
  then show ?thesis by (simp add: run_strongest foldl_better_None)
qed

lemma run_denies_iff:
  "(\<exists>h. run facts ps None = Some h \<and> eff h = EDeny) \<longleftrightarrow>
   (\<exists>i<length ps. \<exists>h. hit (facts @ concat (map seed (take i ps))) (ps ! i) = Some h \<and> eff h = EDeny)"
  unfolding run_strongest foldl_better_deny by (force simp: in_set_conv_nth)

end

interpretation flow_gate: batch_gate "flow_pair_hit flows now" "flow_seed flows now" "fh_effect \<circ> fst"
    "flows_batch_loop flows now"
  for flows now
  by unfold_locales simp_all

interpretation pin_gate: batch_gate "pin_pair_hit pins now" "pin_seed pins now" ph_effect "pin_batch_loop pins now"
  for pins now
  by unfold_locales simp_all

subsection \<open>Single evaluations\<close>

definition flow_live :: "compiled_flow \<Rightarrow> ms \<Rightarrow> flow_fact \<Rightarrow> bool" where
  "flow_live flow now f \<longleftrightarrow> now - fw_withinMs flow \<le> ff_ts f \<and> matches_any (fw_when flow) (ff_action f)"

lemma flow_source_gen:
  fixes flow now
  defines "step \<equiv> \<lambda>source fact.
        if ff_ts fact < now - fw_withinMs flow then source
        else if \<not> matches_any (fw_when flow) (ff_action fact) then source
        else case source of None \<Rightarrow> Some fact | Some s \<Rightarrow> if ff_ts fact > ff_ts s then Some fact else source"
  shows "foldl step b facts = None \<longleftrightarrow> b = None \<and> \<not> (\<exists>f\<in>set facts. flow_live flow now f)"
proof (induction facts arbitrary: b)
  case Nil
  then show ?case by simp
next
  case (Cons f facts)
  have "step b f = None \<longleftrightarrow> b = None \<and> \<not> flow_live flow now f"
    by (auto simp: step_def flow_live_def split: option.splits)
  with Cons.IH show ?case by auto
qed

lemma flow_source_None: "flow_source_fact flow facts now = None \<longleftrightarrow> \<not> (\<exists>f\<in>set facts. flow_live flow now f)"
  unfolding flow_source_fact_def by (subst flow_source_gen) simp

lemma flow_hit_of_None:
  "flow_hit_of i flow facts action now = None \<longleftrightarrow>
   \<not> (matches_any (fw_then flow) action \<and> (\<exists>f\<in>set facts. flow_live flow now f))"
proof -
  have "(\<exists>f\<in>set facts. flow_live flow now f) \<longleftrightarrow> flow_source_fact flow facts now \<noteq> None"
    by (subst flow_source_None) (rule not_not [symmetric])
  then show ?thesis unfolding flow_hit_of_def by (simp split: option.splits)
qed

lemma flow_hit_of_effect: "flow_hit_of i flow facts action now = Some h \<Longrightarrow> fh_effect h = fw_effect flow"
  by (auto simp: flow_hit_of_def split: if_splits option.splits)

lemma ex_enumerate: "(\<exists>x\<in>set (enumerate 0 xs). P (snd x)) \<longleftrightarrow> (\<exists>x\<in>set xs. P x)"
proof -
  have "set xs = snd ` set (enumerate 0 xs)" by (metis list.set_map map_snd_enumerate)
  then show ?thesis by auto
qed

lemma all_enumerate: "(\<forall>x\<in>set (enumerate 0 xs). P (fst x) (snd x)) \<longleftrightarrow> (\<forall>i<length xs. P i (xs ! i))"
  by (auto simp: in_set_enumerate_eq all_set_conv_all_nth nth_enumerate_eq)

lemma ex_enumerate_nth: "(\<exists>x\<in>set (enumerate 0 xs). P (fst x) (snd x)) \<longleftrightarrow> (\<exists>i<length xs. P i (xs ! i))"
proof
  assume "\<exists>x\<in>set (enumerate 0 xs). P (fst x) (snd x)"
  then obtain x where "x \<in> set (enumerate 0 xs)" "P (fst x) (snd x)" by blast
  then show "\<exists>i<length xs. P i (xs ! i)" by (auto simp: in_set_enumerate_eq)
next
  assume "\<exists>i<length xs. P i (xs ! i)"
  then obtain i where "i < length xs" "P i (xs ! i)" by blast
  then have "(i, xs ! i) \<in> set (enumerate 0 xs) \<and> P (fst (i, xs ! i)) (snd (i, xs ! i))" by (simp add: in_set_enumerate_eq)
  then show "\<exists>x\<in>set (enumerate 0 xs). P (fst x) (snd x)" by blast
qed

lemma evaluateFlows_None:
  "evaluateFlows flows facts action now = None \<longleftrightarrow>
   \<not> (\<exists>flow\<in>set flows. matches_any (fw_then flow) action \<and> (\<exists>f\<in>set facts. flow_live flow now f))"
proof -
  have "evaluateFlows flows facts action now = None \<longleftrightarrow>
    (\<forall>x\<in>set (enumerate 0 flows). flow_hit_of (fst x) (snd x) facts action now = None)"
    by (auto simp: evaluateFlows_def strongest_None split: prod.splits)
  also have "\<dots> \<longleftrightarrow> \<not> (\<exists>x\<in>set (enumerate 0 flows).
      matches_any (fw_then (snd x)) action \<and> (\<exists>f\<in>set facts. flow_live (snd x) now f))"
    by (simp add: flow_hit_of_None)
  also have "\<dots> \<longleftrightarrow> \<not> (\<exists>flow\<in>set flows. matches_any (fw_then flow) action \<and> (\<exists>f\<in>set facts. flow_live flow now f))"
    by (subst ex_enumerate) simp
  finally show ?thesis .
qed

lemma evaluateFlows_deny:
  assumes "flow \<in> set flows" "fw_effect flow = EDeny" "matches_any (fw_then flow) action"
    "f \<in> set facts" "flow_live flow now f"
  shows "\<exists>h. evaluateFlows flows facts action now = Some h \<and> fh_effect h = EDeny"
proof -
  from assms(1) obtain i where i: "(i, flow) \<in> set (enumerate 0 flows)"
    using ex_enumerate [of flows "\<lambda>x. x = flow"] by auto
  from assms obtain h where h: "flow_hit_of i flow facts action now = Some h"
    using flow_hit_of_None [of i flow facts action now] by auto
  then have "fh_effect h = EDeny" using assms(2) by (simp add: flow_hit_of_effect)
  moreover have "Some h \<in> set (map (\<lambda>(i, flow). flow_hit_of i flow facts action now) (enumerate 0 flows))"
    using i h by (auto intro!: rev_image_eqI)
  ultimately show ?thesis unfolding evaluateFlows_def strongest_deny by blast
qed

lemma fold_max_ge:
  "x \<in> set xs \<Longrightarrow> k x \<le> foldl (\<lambda>m f. if k f > m then k f else m) b xs"
  "b \<le> foldl (\<lambda>m f. if k f > m then k f else m) (b::int) xs"
  by (induction xs arbitrary: b) (auto, (smt (verit))+)

lemma maxWithinMs_ge: "flow \<in> set flows \<Longrightarrow> fw_withinMs flow \<le> maxWithinMs flows"
  unfolding maxWithinMs_def by (rule fold_max_ge)

lemma maxPinWithinMs_ge: "p \<in> set pins \<Longrightarrow> pn_withinMs p \<le> maxPinWithinMs pins"
  unfolding maxPinWithinMs_def by (rule fold_max_ge)

lemma pin_hit_of_None:
  "pin_hit_of i rule facts action target now = None \<longleftrightarrow>
   \<not> (matches_any (pn_on rule) action \<and>
      (\<exists>u. pin_unit rule target = Some u \<and> pinned_units i rule facts now \<noteq> []
         \<and> u \<notin> set (pinned_units i rule facts now)))"
  by (auto simp: pin_hit_of_def Let_def split: option.splits)

lemma evaluatePin_None:
  "evaluatePin pins facts action target now = None \<longleftrightarrow>
   (\<forall>i<length pins. pin_hit_of i (pins ! i) facts action target now = None)"
proof -
  have "evaluatePin pins facts action target now = None \<longleftrightarrow>
    (\<forall>x\<in>set (enumerate 0 pins). pin_hit_of (fst x) (snd x) facts action target now = None)"
    by (auto simp: evaluatePin_def strongest_None split: prod.splits)
  also have "\<dots> \<longleftrightarrow> (\<forall>i<length pins. pin_hit_of i (pins ! i) facts action target now = None)"
    by (rule all_enumerate)
  finally show ?thesis .
qed

lemma evaluatePin_deny:
  assumes "i < length pins" "pin_hit_of i (pins ! i) facts action target now = Some h" "ph_effect h = EDeny"
  shows "\<exists>h. evaluatePin pins facts action target now = Some h \<and> ph_effect h = EDeny"
proof -
  from assms(1) have "(i, pins ! i) \<in> set (enumerate 0 pins)" by (simp add: in_set_enumerate_eq)
  then have "Some h \<in> set (map (\<lambda>(i, rule). pin_hit_of i rule facts action target now) (enumerate 0 pins))"
    using assms(2) by (auto intro!: rev_image_eqI)
  with assms(3) show ?thesis unfolding evaluatePin_def strongest_deny by blast
qed

subsection \<open>Response caps and streams\<close>

lemma capChunks_done: "maxBytes \<le> sent \<Longrightarrow> concat (capChunks maxBytes sent chunks) = []"
  by (induction chunks) auto

lemma capChunks_take: "sent \<le> maxBytes \<Longrightarrow> concat (capChunks maxBytes sent chunks) = take (maxBytes - sent) (concat chunks)"
proof (induction chunks arbitrary: sent)
  case Nil
  then show ?case by simp
next
  case (Cons c cs)
  consider "sent = maxBytes" | "sent < maxBytes" "length c \<le> maxBytes - sent" | "sent < maxBytes" "maxBytes - sent < length c"
    using Cons.prems by linarith
  then show ?case
  proof cases
    case 1
    then show ?thesis using capChunks_done [of maxBytes sent cs] by simp
  next
    case 2
    then show ?thesis using Cons.IH [of "sent + length c"] by auto
  next
    case 3
    then show ?thesis by simp
  qed
qed

definition limit_le :: "response_limit \<Rightarrow> response_limit \<Rightarrow> bool" where
  "limit_le a b \<longleftrightarrow> rl_maxBytes a < rl_maxBytes b \<or>
     rl_maxBytes a = rl_maxBytes b \<and> (rl_onExceed a = RefuseExceed \<or> rl_onExceed b = Truncate)"

lemma tightest_le: "limit_le (tightest a b) a" "limit_le (tightest a b) b"
  by (cases "rl_onExceed a"; cases "rl_onExceed b"; simp add: limit_le_def tightest_def)+

lemma limit_le_trans: "limit_le a b \<Longrightarrow> limit_le b c \<Longrightarrow> limit_le a c"
  by (cases "rl_onExceed b") (auto simp: limit_le_def)

lemma limit_le_refl: "limit_le a a"
  by (cases "rl_onExceed a") (auto simp: limit_le_def)

abbreviation rule_limit :: "compiled_response_rule \<Rightarrow> response_limit" where
  "rule_limit r \<equiv> \<lparr>rl_maxBytes = rr_maxBytes r, rl_onExceed = rr_onExceed r\<rparr>"

lemma tightest_one_of: "tightest a b = a \<or> tightest a b = b"
  by (simp add: tightest_def)

lemma limit_loop_spec:
  "limit_loop rules a t best = None \<longleftrightarrow> best = None \<and> \<not> (\<exists>r\<in>set rules. response_matches r a t)"
  "limit_loop rules a t best = Some l \<Longrightarrow>
     (best = Some l \<or> (\<exists>r\<in>set rules. response_matches r a t \<and> l = rule_limit r))
     \<and> (\<forall>b. best = Some b \<longrightarrow> limit_le l b)
     \<and> (\<forall>r\<in>set rules. response_matches r a t \<longrightarrow> limit_le l (rule_limit r))"
proof (induction rules arbitrary: best)
  case Nil
  { case 1 show ?case by simp }
  { case 2 then show ?case by (simp add: limit_le_refl) }
next
  case (Cons r rules)
  { case 1 show ?case using Cons.IH(1) by (auto simp: Let_def split: option.splits) }
  { case 2
    show ?case
    proof (cases "response_matches r a t")
      case False
      then show ?thesis using Cons.IH(2) [of best] 2 by auto
    next
      case True
      let ?b = "case best of None \<Rightarrow> rule_limit r | Some b \<Rightarrow> tightest b (rule_limit r)"
      from 2 True have "limit_loop rules a t (Some ?b) = Some l" by (simp add: Let_def)
      note IH = Cons.IH(2) [OF this]
      have "limit_le ?b (rule_limit r)" "\<forall>b. best = Some b \<longrightarrow> limit_le ?b b"
        by (auto simp: limit_le_refl tightest_le split: option.splits)
      moreover have "?b = rule_limit r \<or> best = Some ?b"
        by (cases best) (auto dest: tightest_one_of [THEN disjE], metis tightest_one_of)
      ultimately show ?thesis using IH True by (auto intro: limit_le_trans)
    qed }
qed

end
