(* ===== verification/Gates_Claims.thy ===== *)
theory Gates_Claims
  imports Gates_Props
begin

text \<open>
  The properties of the gates of \<^verbatim>\<open>Gates\<close>, each with a witness at a concrete input
  where it has hypotheses.
\<close>

subsection \<open>Facts survive until the ring buffer wraps\<close>

lemma foldl_push_capped:
  assumes "length xs \<le> n"
  shows "foldl (push_capped n) xs ys = drop (length xs + length ys - n) (xs @ ys)"
  using assms
proof (induction ys arbitrary: xs)
  case Nil
  then show ?case by simp
next
  case (Cons y ys)
  have IH: "foldl (push_capped n) (push_capped n xs y) ys =
      drop (length (push_capped n xs y) + length ys - n) (push_capped n xs y @ ys)"
    by (rule Cons.IH) (rule length_push_capped)
  show ?case
  proof (cases "length xs < n")
    case True
    with IH show ?thesis by (simp add: push_capped_room)
  next
    case False
    with Cons.prems have len: "length xs = n" by simp
    show ?thesis
    proof (cases xs)
      case Nil
      then have "n = 0" "push_capped n xs y = []" using len by (auto simp: push_capped_def Let_def)
      with IH Nil show ?thesis by simp
    next
      case (Cons x xs')
      with len have "push_capped n xs y = xs' @ [y]" "length xs' + 1 = n" by (auto simp: push_capped_def Let_def)
      then have "foldl (push_capped n) (push_capped n xs y) ys = drop (length ys) (xs' @ [y] @ ys)"
        using IH by (simp del: drop_append)
      with Cons len show ?thesis by (simp del: drop_append)
    qed
  qed
qed

lemma push_capped_survives:
  assumes "length ys < n" shows "x \<in> set (foldl (push_capped n) (push_capped n xs x) ys)"
proof -
  obtain zs where zs: "push_capped n xs x = zs @ [x]"
  proof
    show "push_capped n xs x = drop (Suc (length xs) - n) xs @ [x]"
      using assms by (simp add: push_capped_def Let_def)
  qed
  then have len: "Suc (length zs) \<le> n" using length_push_capped [of n xs x] by simp
  have "foldl (push_capped n) (zs @ [x]) ys = drop (Suc (length zs) + length ys - n) (zs @ [x] @ ys)"
    using foldl_push_capped [of "zs @ [x]" n ys] len by simp
  moreover have "Suc (length zs) + length ys - n \<le> length zs" using assms by linarith
  ultimately show ?thesis unfolding zs by (simp add: drop_append)
qed

context fact_store
begin

lemma raw_foldl:
  "raw (foldl (\<lambda>s (k, f). put s k f) s kfs) k =
   foldl (push_capped (cap s)) (raw s k) (map snd (filter (\<lambda>kf. fst kf = k) kfs))"
proof (induction kfs arbitrary: s)
  case Nil
  then show ?case by simp
next
  case (Cons kf kfs)
  obtain k' f where "kf = (k', f)" by (cases kf)
  then show ?case by (simp add: Cons.IH cap_put raw_put)
qed

lemma survives:
  assumes "length (filter (\<lambda>kf. fst kf = k) kfs) < cap s" and "t \<le> ts f"
  shows "f \<in> set (since (foldl (\<lambda>s (k, f). put s k f) (put s k f) kfs) k t)"
  using push_capped_survives [of "map snd (filter (\<lambda>kf. fst kf = k) kfs)" "cap s" f "raw s k"] assms
  by (simp add: since_raw raw_foldl raw_put cap_put)

end

subsection \<open>Taint flow\<close>

lemma flow_seed_live:
  assumes "flow \<in> set flows" "matches_any (fw_when flow) s" "0 \<le> fw_withinMs flow"
  shows "\<exists>f\<in>set (flow_seed flows now (s, tg)). flow_live flow now f"
  using assms by (auto simp: flow_seed_def is_flow_source_def flow_live_def list_ex_iff)

text \<open>batching is no bypass: a request that carries a source of a denying flow anywhere before
  its sink is denied by the flow gate, exactly like the two sequential requests.\<close>
theorem batch_cannot_launder_flow:
  assumes "flow \<in> set flows" "fw_effect flow = EDeny" "0 \<le> fw_withinMs flow"
    and "matches_any (fw_when flow) (fst src)" "matches_any (fw_then flow) (fst snk)"
  shows "\<exists>hit. evaluateFlowsBatch flows facts (xs @ src # ys @ snk # zs) now = Some hit \<and> fh_effect (fst hit) = EDeny"
proof -
  let ?ps = "xs @ src # ys @ snk # zs"
  let ?i = "length xs + Suc (length ys)"
  let ?seen = "facts @ concat (map (flow_seed flows now) (take ?i ?ps))"
  have ix: "?i < length ?ps" "?ps ! ?i = snk" by (simp_all add: nth_append)
  obtain s tg where src: "src = (s, tg)" by (cases src)
  obtain f where "f \<in> set (flow_seed flows now src)" and live: "flow_live flow now f"
    using flow_seed_live [OF assms(1), of s] assms(3,4) src by auto
  then have "f \<in> set ?seen" by (simp add: take_Cons')
  from evaluateFlows_deny [OF assms(1,2,5) this live]
  obtain h where "evaluateFlows flows ?seen (fst snk) now = Some h" "fh_effect h = EDeny" by blast
  then have "flow_pair_hit flows now ?seen snk = Some (h, fst snk) \<and> (fh_effect \<circ> fst) (h, fst snk) = EDeny"
    by (cases snk) (simp add: flow_pair_hit_def)
  with ix have "\<exists>i<length ?ps. \<exists>h. flow_pair_hit flows now (facts @ concat (map (flow_seed flows now) (take i ?ps))) (?ps ! i)
      = Some h \<and> (fh_effect \<circ> fst) h = EDeny" by metis
  then show ?thesis unfolding evaluateFlowsBatch_def flow_gate.run_denies_iff [symmetric] by simp
qed

text \<open>a session that performed a source action stays tainted: for as long as the window of a flow
  lasts, and whatever other sessions do, its sink actions are gated (denied by a denying flow),
  provided the session recorded fewer further facts than the ring buffer holds.\<close>
theorem tainted_session_is_gated:
  assumes "flow \<in> set flows" "fw_effect flow = EDeny"
    and "matches_any (fw_when flow) source" "matches_any (fw_then flow) sink"
    and "now - fw_withinMs flow \<le> t0"
    and "length (filter (\<lambda>kf. fst kf = session) later) < fst_maxPerKey st"
  shows "\<exists>hit. evaluateFlows flows
      (flow_factsSince (foldl (\<lambda>s (k, f). flow_put s k f) (flow_record st session source target t0) later)
         session (now - maxWithinMs flows)) sink now = Some hit \<and> fh_effect hit = EDeny"
proof -
  let ?f = "\<lparr>ff_action = source, ff_target = target, ff_ts = t0\<rparr>"
  have "fw_withinMs flow \<le> maxWithinMs flows" using assms(1) by (rule maxWithinMs_ge)
  then have "now - maxWithinMs flows \<le> ff_ts ?f" using assms(5) by simp
  from flow_mem.survives [OF assms(6) this]
  have "?f \<in> set (flow_factsSince (foldl (\<lambda>s (k, f). flow_put s k f) (flow_record st session source target t0) later)
         session (now - maxWithinMs flows))" by simp
  moreover have "flow_live flow now ?f" using assms(3,5) by (simp add: flow_live_def)
  ultimately show ?thesis by (rule evaluateFlows_deny [OF assms(1,2,4)])
qed

subsection \<open>Session pinning\<close>

lemma pinned_unitsI:
  "f \<in> set facts \<Longrightarrow> pf_ruleIndex f = i \<Longrightarrow> now - pn_withinMs rule \<le> pf_ts f \<Longrightarrow>
   pf_unit f \<in> set (pinned_units i rule facts now)"
  by (simp add: pinned_units_def)

lemma pinUnitsFor_mem:
  "(i, u) \<in> set (pinUnitsFor pins a t) \<longleftrightarrow>
     i < length pins \<and> matches_any (pn_on (pins ! i)) a \<and> pin_unit (pins ! i) t = Some u"
proof -
  have "(i, u) \<in> set (pinUnitsFor pins a t) \<longleftrightarrow>
     (\<exists>x\<in>set (enumerate 0 pins). fst x = i \<and> matches_any (pn_on (snd x)) a \<and> pin_unit (snd x) t = Some u)"
    by (force simp: pinUnitsFor_def split: if_splits option.splits prod.splits)
  also have "\<dots> \<longleftrightarrow> (\<exists>j<length pins. j = i \<and> matches_any (pn_on (pins ! j)) a \<and> pin_unit (pins ! j) t = Some u)"
    by (rule ex_enumerate_nth)
  also have "\<dots> \<longleftrightarrow> i < length pins \<and> matches_any (pn_on (pins ! i)) a \<and> pin_unit (pins ! i) t = Some u"
    by blast
  finally show ?thesis .
qed

text \<open>the pin gate and the facts it is fed agree: a request is free if and only if every
  (rule, unit) it would establish is either the first of its rule in the window or already
  pinned; in particular the first action of a fresh session is free.\<close>
theorem pin_gate_free_iff:
  "evaluatePin pins facts action target now = None \<longleftrightarrow>
   (\<forall>(i, u) \<in> set (pinUnitsFor pins action target).
      pinned_units i (pins ! i) facts now = [] \<or> u \<in> set (pinned_units i (pins ! i) facts now))"
  unfolding evaluatePin_None pin_hit_of_None using pinUnitsFor_mem by fastforce

text \<open>a pivot inside one request is caught: once an earlier pair of the batch established a unit
  under a denying pin rule, a later pair with a unit the session has not pinned is denied.\<close>
theorem batch_cannot_pivot:
  assumes "i < length pins" "pn_effect (pins ! i) = EDeny" "0 \<le> pn_withinMs (pins ! i)"
    and "(i, u) \<in> set (pinUnitsFor pins (fst p) (snd p))" "(i, u') \<in> set (pinUnitsFor pins (fst q) (snd q))"
    and "u' \<noteq> u" "\<forall>r\<in>set xs \<union> {p} \<union> set ys. (i, u') \<notin> set (pinUnitsFor pins (fst r) (snd r))"
    and "u' \<notin> set (pinned_units i (pins ! i) facts now)"
  shows "\<exists>hit. evaluatePinBatch pins facts (xs @ p # ys @ q # zs) now = Some hit \<and> ph_effect hit = EDeny"
proof -
  let ?ps = "xs @ p # ys @ q # zs"
  let ?i = "length xs + Suc (length ys)"
  let ?seen = "facts @ concat (map (pin_seed pins now) (take ?i ?ps))"
  have ix: "?i < length ?ps" "?ps ! ?i = q" by (simp_all add: nth_append)
  have tk: "take ?i ?ps = xs @ p # ys" by simp
  have seed: "f \<in> set (pin_seed pins now r) \<longleftrightarrow>
      (\<exists>i u. (i, u) \<in> set (pinUnitsFor pins (fst r) (snd r)) \<and> f = \<lparr>pf_ruleIndex = i, pf_unit = u, pf_ts = now\<rparr>)" for f r
    by (cases r) (force simp: pin_seed_def)
  have "\<lparr>pf_ruleIndex = i, pf_unit = u, pf_ts = now\<rparr> \<in> set (pin_seed pins now p)" unfolding seed using assms(4) by blast
  then have "\<lparr>pf_ruleIndex = i, pf_unit = u, pf_ts = now\<rparr> \<in> set ?seen" unfolding tk by simp
  from pinned_unitsI [OF this, of i now "pins ! i"] assms(3)
  have "u \<in> set (pinned_units i (pins ! i) ?seen now)" by simp
  then have ne: "pinned_units i (pins ! i) ?seen now \<noteq> []" by auto
  have "u' \<notin> set (pinned_units i (pins ! i) ?seen now)" 
  proof
    assume "u' \<in> set (pinned_units i (pins ! i) ?seen now)"
    then obtain f where f: "f \<in> set ?seen" "pf_ruleIndex f = i" "pf_unit f = u'" "now - pn_withinMs (pins ! i) \<le> pf_ts f"
      by (auto simp: pinned_units_def)
    show False
    proof (cases "f \<in> set facts")
      case True
      with f assms(8) show False by (auto simp: pinned_units_def)
    next
      case False
      with f(1) have "\<exists>r\<in>set xs \<union> {p} \<union> set ys. f \<in> set (pin_seed pins now r)" unfolding tk by auto
      then obtain r where r: "r \<in> set xs \<union> {p} \<union> set ys" "f \<in> set (pin_seed pins now r)" by (rule bexE)
      then have "(i, u') \<in> set (pinUnitsFor pins (fst r) (snd r))" using f by (auto simp: seed)
      with r(1) assms(7) show False by blast
    qed
  qed
  with ne assms(5,2) have "\<exists>h. pin_hit_of i (pins ! i) ?seen (fst q) (snd q) now = Some h \<and> ph_effect h = EDeny"
    by (simp add: pinUnitsFor_mem pin_hit_of_def Let_def)
  then obtain h0 where h0: "pin_hit_of i (pins ! i) ?seen (fst q) (snd q) now = Some h0" "ph_effect h0 = EDeny" by blast
  from evaluatePin_deny [OF assms(1) h0] obtain h
    where "evaluatePin pins ?seen (fst q) (snd q) now = Some h" "ph_effect h = EDeny" by blast
  then have "pin_pair_hit pins now ?seen q = Some h" "ph_effect h = EDeny"
    by (simp_all add: pin_pair_hit_def case_prod_beta)
  with ix have "\<exists>i<length ?ps. \<exists>h. pin_pair_hit pins now (facts @ concat (map (pin_seed pins now) (take i ?ps))) (?ps ! i)
      = Some h \<and> ph_effect h = EDeny" by metis
  then show ?thesis unfolding evaluatePinBatch_def pin_gate.run_denies_iff [symmetric] by simp
qed

subsection \<open>Schedules, caps, risk, tripwires\<close>

lemma compileSchedule_bounds:
  assumes "compileSchedule tz s = Inr cs" "schedule_ok s" "w \<in> set (cs_windows cs)"
  shows "cw_endMin w \<le> 1439"
proof -
  from assms(1) have "compileWindows (ss_windows s) = Inr (cs_windows cs)"
    by (auto simp: compileSchedule_def split: if_splits sum.splits)
  from compileWindows_bounds [OF this _ assms(3)] assms(2) show ?thesis by (simp add: schedule_ok_def)
qed

text \<open>no schedule is ever open in the last minute of a day: a window ends at 23:59 at the latest
  and its end is exclusive, so a policy cannot express a window that runs to midnight.\<close>
theorem schedule_closed_last_minute:
  assumes "compileSchedule tz s = Inr cs" "schedule_ok s"
    and "wallClock (cs_timezone cs) t = (wd, 23, 59)"
  shows "\<not> withinSchedule wallClock cs t"
proof -
  have "cw_endMin w \<le> 1439" if "w \<in> set (cs_windows cs)" for w
    using compileSchedule_bounds [OF assms(1,2) that] .
  then show ?thesis
    using assms(3) by (force simp: withinSchedule_def list_ex_iff split: option.splits)
qed

text \<open>the response cap of a request is the tightest of the limits of the matching rules (smaller
  byte count first, then refusing over truncating), and there is none exactly when no rule matches.\<close>
theorem response_limit_is_tightest:
  "case resolveResponseLimit p action target of
     None \<Rightarrow> \<not> (\<exists>r\<in>set (cp_responses p). response_matches r action target)
   | Some l \<Rightarrow> l \<in> rule_limit ` {r \<in> set (cp_responses p). response_matches r action target}
       \<and> (\<forall>r\<in>set (cp_responses p). response_matches r action target \<longrightarrow> limit_le l (rule_limit r))"
proof (cases "resolveResponseLimit p action target")
  case None
  then show ?thesis using limit_loop_spec(1) [of "cp_responses p" action target None]
    by (simp add: resolveResponseLimit_def)
next
  case (Some l)
  then show ?thesis using limit_loop_spec(2) [of "cp_responses p" action target None l]
    by (auto simp: resolveResponseLimit_def)
qed

text \<open>the counting transform delivers exactly the first \<open>maxBytes\<close> bytes of the body, however it is
  chunked, and never more.\<close>
theorem capResponseBody_prefix:
  "map_option concat (capResponseBody body maxBytes) = map_option (\<lambda>chunks. take maxBytes (concat chunks)) body"
  using capChunks_take [of 0 maxBytes] by (cases body) (simp_all add: capResponseBody_def)

text \<open>with an unknown target every wire whose action matches trips, so a wire that would trip on
  some concrete target always trips when the target is unknown.\<close>
theorem tripwire_unknown_target_trips:
  assumes "matchTripwire wires action (Some target) \<noteq> None"
  shows "matchTripwire wires action None \<noteq> None"
proof -
  from assms obtain w where "w \<in> set wires" "tripwire_hits action (Some target) w"
    by (auto simp: matchTripwire_def dest: find_SomeD)
  then have "\<exists>w\<in>set wires. tripwire_hits action None w" by (auto simp: tripwire_hits_def split: option.splits)
  from find_ex [OF this] show ?thesis by (auto simp: matchTripwire_def)
qed

end
