(* ===== verification/Json_Files.thy ===== *)
theory Json_Files
  imports Grenz_Prelude
begin

text \<open>
  The JSON files the stores under \<^verbatim>\<open>proxy/src\<close> keep their state in: parsed values, the
  property accesses and type tests of the loaders, property assignment on a fresh object, and
  the outcome of reading a file. \<open>JSON.parse\<close> and \<open>JSON.stringify\<close> are modelled as inverse of
  each other on the values here, so a document is its parsed value; an object is its own
  properties in enumeration order (the reordering of names that are array indices is not
  modelled, no theorem here depends on the order of a reloaded store's names). Every file is
  replaced by write-then-rename, so it holds either the old or the new document.
\<close>

datatype json =
    JNull
  | JBool bool
  | JNum int
  | JStr string
  | JArr "json list"
  | JObj "(string \<times> json) list"

datatype file_content = Absent | Unparsable | Document json

datatype store_error = InvalidJson | Malformed | WriteFailed | Duplicate string

fun json_field :: "json \<Rightarrow> string \<Rightarrow> json option" where
  "json_field (JObj props) k = map_of props k"
| "json_field _ k = None"

fun is_json_object :: "json \<Rightarrow> bool" where
  "is_json_object (JObj _) = True"
| "is_json_object (JArr _) = True"
| "is_json_object _ = False"

text \<open>\<open>Object.entries\<close> of something that is an object; an array has its indices as names.\<close>

fun json_entries :: "json \<Rightarrow> (string \<times> json) list" where
  "json_entries (JObj props) = props"
| "json_entries (JArr xs) = map (\<lambda>(i, x). (show_nat i, x)) (enumerate 0 xs)"
| "json_entries _ = []"

definition str_field :: "json \<Rightarrow> string \<Rightarrow> string option" where
  "str_field v k = (case json_field v k of Some (JStr s) \<Rightarrow> Some s | _ \<Rightarrow> None)"

definition num_field :: "json \<Rightarrow> string \<Rightarrow> int option" where
  "num_field v k = (case json_field v k of Some (JNum n) \<Rightarrow> Some n | _ \<Rightarrow> None)"

fun json_strings :: "json list \<Rightarrow> string list" where
  "json_strings [] = []"
| "json_strings (JStr s # xs) = s # json_strings xs"
| "json_strings (_ # xs) = json_strings xs"

text \<open>\<open>Array.isArray(v) ? v.filter(isString) : []\<close>.\<close>

definition strings_field :: "json \<Rightarrow> string \<Rightarrow> string list" where
  "strings_field v k = (case json_field v k of Some (JArr xs) \<Rightarrow> json_strings xs | _ \<Rightarrow> [])"

text \<open>
  \<open>shape[k] = v\<close> on an object made by a literal, \<open>v\<close> an object: assigning the name
  \<open>__proto__\<close> replaces the prototype and leaves no own property to serialise.
\<close>

definition proto :: string where
  "proto = ''__proto__''"

definition obj_assign :: "(string \<times> json) list \<Rightarrow> string \<Rightarrow> json \<Rightarrow> (string \<times> json) list" where
  "obj_assign props k v = (if k = proto then props else AList.update k v props)"

definition some_or :: "'a \<Rightarrow> 'a option \<Rightarrow> 'a" where
  "some_or d x = (case x of None \<Rightarrow> d | Some v \<Rightarrow> v)"

definition opt_prop :: "string \<Rightarrow> string option \<Rightarrow> (string \<times> json) list" where
  "opt_prop k x = (case x of None \<Rightarrow> [] | Some s \<Rightarrow> [(k, JStr s)])"

definition null_or_str :: "string option \<Rightarrow> json" where
  "null_or_str x = (case x of None \<Rightarrow> JNull | Some s \<Rightarrow> JStr s)"

definition null_or_num :: "int option \<Rightarrow> json" where
  "null_or_num x = (case x of None \<Rightarrow> JNull | Some n \<Rightarrow> JNum n)"

subsection \<open>Lemmas\<close>

lemma some_or_simps [simp]: "some_or d None = d" "some_or d (Some x) = x"
  by (simp_all add: some_or_def)

lemma null_or_simps [simp]:
  "null_or_str None = JNull" "null_or_str (Some s) = JStr s" "null_or_num None = JNull" "null_or_num (Some n) = JNum n"
  by (simp_all add: null_or_str_def null_or_num_def)

lemma json_strings_map [simp]: "json_strings (map JStr xs) = xs"
  by (induction xs) auto

lemma map_of_obj_assign: "map_of (obj_assign props k v) = (if k = proto then map_of props else (map_of props)(k \<mapsto> v))"
proof (cases "k = proto")
  case True
  then show ?thesis by (simp add: obj_assign_def)
next
  case False
  then have "obj_assign props k v = AList.update k v props" by (simp add: obj_assign_def)
  then show ?thesis using False by (simp only: map_of_update_eq if_False)
qed

text \<open>Serialising a map entry by entry, and reading the entries back.\<close>

definition obj_of :: "('v \<Rightarrow> json) \<Rightarrow> (string \<times> 'v) list \<Rightarrow> (string \<times> json) list" where
  "obj_of enc m = foldl (\<lambda>props (k, v). obj_assign props k (enc v)) [] m"

lemma obj_of_gen:
  assumes "distinct (map fst m)" "proto \<notin> set (map fst m)" "set (map fst m) \<inter> set (map fst props) = {}"
  shows "foldl (\<lambda>props (k, v). obj_assign props k (enc v)) props m = props @ map (\<lambda>(k, v). (k, enc v)) m"
  using assms
proof (induction m arbitrary: props)
  case Nil
  then show ?case by simp
next
  case (Cons kv m)
  obtain k v where kv: "kv = (k, v)" by (cases kv)
  with Cons.prems have "obj_assign props k (enc v) = props @ [(k, enc v)]"
    by (auto simp: obj_assign_def intro: update_fresh)
  with Cons kv show ?case by auto
qed

lemma obj_of_distinct:
  "distinct (map fst m) \<Longrightarrow> proto \<notin> set (map fst m) \<Longrightarrow> obj_of enc m = map (\<lambda>(k, v). (k, enc v)) m"
  unfolding obj_of_def by (subst obj_of_gen) auto

lemma map_of_obj_of_gen:
  "map_of (foldl (\<lambda>props (k, v). obj_assign props k (enc v)) props m) =
     map_of props ++ (map_option enc \<circ> (map_of (rev m))) |` (- {proto})"
proof (induction m arbitrary: props)
  case Nil
  then show ?case by (auto simp: restrict_map_def)
next
  case (Cons kv m)
  obtain k v where kv: "kv = (k, v)" by (cases kv)
  show ?case unfolding kv foldl_Cons prod.case Cons.IH map_of_obj_assign
    by (rule ext) (auto simp: restrict_map_def map_add_def map_of_append split: option.splits)
qed

text \<open>A loader that keeps the entries it can decode, in order: \<open>map.set(id, decode(id, raw))\<close>.\<close>

definition load_entries :: "(string \<Rightarrow> json \<Rightarrow> 'v option) \<Rightarrow> (string \<times> json) list \<Rightarrow> (string \<times> 'v) list" where
  "load_entries dec es =
     foldl (\<lambda>m (k, raw). case dec k raw of None \<Rightarrow> m | Some v \<Rightarrow> AList.update k v m) [] es"

lemma load_entries_gen:
  assumes "distinct (map fst m)" "set (map fst m) \<inter> set (map fst acc) = {}" "\<forall>(k, v)\<in>set m. dec k (enc v) = Some v"
  shows "foldl (\<lambda>m (k, raw). case dec k raw of None \<Rightarrow> m | Some v \<Rightarrow> AList.update k v m) acc (map (\<lambda>(k, v). (k, enc v)) m)
    = acc @ m"
  using assms
proof (induction m arbitrary: acc)
  case Nil
  then show ?case by simp
next
  case (Cons kv m)
  obtain k v where kv: "kv = (k, v)" by (cases kv)
  with Cons.prems have "AList.update k v acc = acc @ [(k, v)]" by (intro update_fresh) auto
  with Cons kv show ?case by auto
qed

lemma load_entries_roundtrip:
  assumes "distinct (map fst m)" "proto \<notin> set (map fst m)" "\<forall>(k, v)\<in>set m. dec k (enc v) = Some v"
  shows "load_entries dec (obj_of enc m) = m"
  unfolding load_entries_def obj_of_distinct [OF assms(1,2)] using load_entries_gen [of m "[]" dec enc] assms by simp

lemma load_entries_distinct: "distinct (map fst (load_entries dec es))"
proof -
  have "distinct (map fst acc) \<Longrightarrow> distinct (map fst
    (foldl (\<lambda>m (k, raw). case dec k raw of None \<Rightarrow> m | Some v \<Rightarrow> AList.update k v m) acc es))" for acc
    by (induction es arbitrary: acc) (auto simp: distinct_update split: option.splits)
  from this [of "[]"] show ?thesis by (simp add: load_entries_def)
qed

lemma load_entries_set:
  assumes "(k, v) \<in> set (load_entries dec es)" shows "\<exists>raw. (k, raw) \<in> set es \<and> dec k raw = Some v"
proof -
  have "(k, v) \<in> set (foldl (\<lambda>m (k, raw). case dec k raw of None \<Rightarrow> m | Some v \<Rightarrow> AList.update k v m) acc es) \<Longrightarrow>
    (k, v) \<in> set acc \<or> (\<exists>raw. (k, raw) \<in> set es \<and> dec k raw = Some v)" for acc
  proof (induction es arbitrary: acc)
    case Nil
    then show ?case by simp
  next
    case (Cons e es)
    obtain k' raw where e: "e = (k', raw)" by (cases e)
    show ?case
    proof (cases "dec k' raw")
      case None
      with Cons e show ?thesis by auto
    next
      case (Some v')
      have "set (AList.update k' v' acc) \<subseteq> insert (k', v') (set acc)" by (induction acc) auto
      with Cons.IH [of "AList.update k' v' acc"] Cons.prems Some e show ?thesis by auto
    qed
  qed
  from this [of "[]"] assms show ?thesis by (simp add: load_entries_def)
qed

text \<open>Membership after reloading a document that \<open>obj_of\<close> wrote, for a decoder that accepts everything.\<close>

lemma map_of_load_entries_total_gen:
  assumes "\<And>k raw. dec k raw \<noteq> None"
  shows "map_of (foldl (\<lambda>m (k, raw). case dec k raw of None \<Rightarrow> m | Some v \<Rightarrow> AList.update k v m) acc es) k
    = (case map_of (rev es) k of None \<Rightarrow> map_of acc k | Some raw \<Rightarrow> dec k raw)"
proof (induction es arbitrary: acc)
  case Nil
  then show ?case by simp
next
  case (Cons e es)
  obtain k' raw where e: "e = (k', raw)" by (cases e)
  from assms obtain v where v: "dec k' raw = Some v" by blast
  have "map_of (AList.update k' v acc) k = (if k = k' then dec k' raw else map_of acc k)"
    unfolding map_of_update_eq v by simp
  with Cons v e show ?case by (auto simp: map_add_def split: option.splits)
qed

end
