(* ===== verification/Ttl_Stores.thy ===== *)
theory Ttl_Stores
  imports Json_Files
begin

text \<open>
  The three stores of time-boxed operational state: delegations
  (\<^verbatim>\<open>delegate/store.ts\<close>), just-in-time grants (\<^verbatim>\<open>grant/store.ts\<close>) and break-glass windows
  (\<^verbatim>\<open>breakglass/store.ts\<close>). A store is its in-memory state and the content of its file; a
  mutation takes, as a parameter, whether the write-then-rename succeeds. The random parts
  (ids, token hashes) are arguments. The interface \<open>ttl_store\<close> is what all three promise
  about expiry; it is interpreted on each.
\<close>

subsection \<open>Reading and writing a store's file\<close>

definition store_doc :: "string \<Rightarrow> ('v \<Rightarrow> json) \<Rightarrow> (string \<times> 'v) list \<Rightarrow> json" where
  "store_doc field enc m = JObj [(''version'', JNum 1), (field, JObj (obj_of enc m))]"

definition load_store ::
    "string \<Rightarrow> (string \<Rightarrow> json \<Rightarrow> 'v option) \<Rightarrow> file_content \<Rightarrow> store_error + (string \<times> 'v) list" where
  "load_store field dec file =
     (case file of
        Absent \<Rightarrow> Inr []
      | Unparsable \<Rightarrow> Inl InvalidJson
      | Document doc \<Rightarrow>
          if \<not> is_json_object doc then Inl Malformed
          else case json_field doc field of
            None \<Rightarrow> Inl Malformed
          | Some v \<Rightarrow> if is_json_object v then Inr (load_entries dec (json_entries v)) else Inl Malformed)"

lemma load_store_doc:
  "field \<noteq> ''version'' \<Longrightarrow> load_store field dec (Document (store_doc field enc m)) = Inr (load_entries dec (obj_of enc m))"
  by (simp add: load_store_def store_doc_def)

subsection \<open>The contract of a time-boxed store\<close>

locale ttl_store =
  fixes entries :: "'s \<Rightarrow> 'e list"
    and expires :: "'e \<Rightarrow> ms"
    and created :: "'e \<Rightarrow> ms"
    and live :: "'s \<Rightarrow> ms \<Rightarrow> 'e list"
    and purge :: "'s \<Rightarrow> ms \<Rightarrow> 's"
    and full :: "'s \<Rightarrow> ms \<Rightarrow> bool"
    and cap :: "'s \<Rightarrow> nat"
  assumes live_eq: "live s t = sort_desc created (filter (\<lambda>e. t < expires e) (entries s))"
    and purge_eq: "entries (purge s t) = filter (\<lambda>e. t < expires e) (entries s)"
    and full_eq: "full s t \<longleftrightarrow> cap s \<le> length (live s t)"
begin

lemma live_iff: "e \<in> set (live s t) \<longleftrightarrow> e \<in> set (entries s) \<and> t < expires e"
  by (auto simp: live_eq)

lemma never_outlives: "expires e \<le> t \<Longrightarrow> e \<notin> set (live s t)"
  by (simp add: live_iff)

lemma live_antimono: "t \<le> t' \<Longrightarrow> set (live s t') \<subseteq> set (live s t)"
  by (auto simp: live_iff)

lemma purge_invisible: "t \<le> t' \<Longrightarrow> live (purge s t) t' = live s t'"
  by (auto simp: live_eq purge_eq intro!: arg_cong [where f = "sort_desc created"] filter_cong)

lemma length_live: "length (live s t) = length (filter (\<lambda>e. t < expires e) (entries s))"
  by (simp add: live_eq)

lemma room_after_add:
  assumes "\<not> full s t" "entries s' = entries s @ [e]" "cap s' = cap s" "cap s = n"
  shows "length (live s' t) \<le> n"
  using assms by (auto simp: full_eq length_live)

end

subsection \<open>Delegations\<close>

record delegation =
  dl_id :: string
  dl_parentAgentId :: agent_id
  dl_parentDelegationId :: "string option"
  dl_tokenHash :: string
  dl_actions :: "string list"
  dl_targets :: "string list"
  dl_policyProfile :: "string option"
  dl_note :: string
  dl_createdAt :: ms
  dl_expiresAt :: ms

record mint_input =
  mi_parentAgentId :: agent_id
  mi_parentDelegationId :: "string option"
  mi_actions :: "string list"
  mi_targets :: "string list option"
  mi_policyProfile :: "string option"
  mi_ttlMs :: ms
  mi_note :: string
  mi_now :: ms

record delegation_store =
  ds_byId :: "(string \<times> delegation) list"
  ds_hashToId :: "string \<rightharpoonup> string"
  ds_file :: file_content

definition MAX_DEPTH :: nat where "MAX_DEPTH = 5"
definition MAX_ACTIVE :: nat where "MAX_ACTIVE = 1000"

definition enc_delegation :: "delegation \<Rightarrow> json" where
  "enc_delegation d = JObj (
     [(''parentAgentId'', JStr (dl_parentAgentId d)),
      (''parentDelegationId'', null_or_str (dl_parentDelegationId d)),
      (''tokenHash'', JStr (dl_tokenHash d)),
      (''actions'', JArr (map JStr (dl_actions d))),
      (''targets'', JArr (map JStr (dl_targets d)))]
     @ opt_prop ''policyProfile'' (dl_policyProfile d) @
     [(''note'', JStr (dl_note d)),
      (''createdAt'', JNum (dl_createdAt d)),
      (''expiresAt'', JNum (dl_expiresAt d))])"

definition dec_delegation :: "string \<Rightarrow> json \<Rightarrow> delegation option" where
  "dec_delegation k raw =
     (if \<not> is_json_object raw then None
      else case (str_field raw ''tokenHash'', str_field raw ''parentAgentId'') of
        (Some hash, Some parent) \<Rightarrow> Some
          \<lparr>dl_id = k, dl_parentAgentId = parent,
           dl_parentDelegationId = str_field raw ''parentDelegationId'',
           dl_tokenHash = hash,
           dl_actions = strings_field raw ''actions'',
           dl_targets = strings_field raw ''targets'',
           dl_policyProfile = str_field raw ''policyProfile'',
           dl_note = some_or [] (str_field raw ''note''),
           dl_createdAt = some_or 0 (num_field raw ''createdAt''),
           dl_expiresAt = some_or 0 (num_field raw ''expiresAt'')\<rparr>
      | _ \<Rightarrow> None)"

definition del_load :: "file_content \<Rightarrow> store_error + (string \<times> delegation) list" where
  "del_load = load_store ''delegations'' dec_delegation"

definition hash_index :: "delegation list \<Rightarrow> (string \<rightharpoonup> string)" where
  "hash_index ds = foldl (\<lambda>m d. m(dl_tokenHash d \<mapsto> dl_id d)) Map.empty ds"

definition del_open :: "file_content \<Rightarrow> store_error + delegation_store" where
  "del_open file =
     (case del_load file of
        Inl e \<Rightarrow> Inl e
      | Inr byId \<Rightarrow> Inr \<lparr>ds_byId = byId, ds_hashToId = hash_index (alist_values byId), ds_file = file\<rparr>)"

definition del_document :: "(string \<times> delegation) list \<Rightarrow> json" where
  "del_document byId = store_doc ''delegations'' enc_delegation (map (\<lambda>d. (dl_id d, d)) (alist_values byId))"

definition del_persist :: "bool \<Rightarrow> delegation_store \<Rightarrow> 'r \<Rightarrow> (store_error + 'r) \<times> delegation_store" where
  "del_persist disk s r =
     (if disk then (Inr r, s\<lparr>ds_file := Document (del_document (ds_byId s))\<rparr>) else (Inl WriteFailed, s))"

definition del_mint :: "bool \<Rightarrow> string \<Rightarrow> string \<Rightarrow> mint_input \<Rightarrow> delegation_store
    \<Rightarrow> (store_error + delegation) \<times> delegation_store" where
  "del_mint disk newId tokenHash inp s =
     (let d = \<lparr>dl_id = newId,
               dl_parentAgentId = mi_parentAgentId inp,
               dl_parentDelegationId = mi_parentDelegationId inp,
               dl_tokenHash = tokenHash,
               dl_actions = take 100 (mi_actions inp),
               dl_targets = take 100 (some_or [] (mi_targets inp)),
               dl_policyProfile = mi_policyProfile inp,
               dl_note = take 200 (mi_note inp),
               dl_createdAt = mi_now inp,
               dl_expiresAt = mi_now inp + mi_ttlMs inp\<rparr>
      in del_persist disk
           (s\<lparr>ds_byId := AList.update newId d (ds_byId s), ds_hashToId := (ds_hashToId s)(tokenHash \<mapsto> newId)\<rparr>) d)"

definition del_list :: "delegation_store \<Rightarrow> ms \<Rightarrow> delegation list" where
  "del_list s now = sort_desc dl_createdAt (filter (\<lambda>d. dl_expiresAt d > now) (alist_values (ds_byId s)))"

definition del_atCapacity :: "delegation_store \<Rightarrow> ms \<Rightarrow> bool" where
  "del_atCapacity s now \<longleftrightarrow> length (del_list s now) \<ge> MAX_ACTIVE"

definition del_get :: "delegation_store \<Rightarrow> string \<Rightarrow> delegation option" where
  "del_get s k = map_of (ds_byId s) k"

text \<open>\<open>hashToId.get(hash)\<close> followed by \<open>if (!id)\<close>: an empty id is no id.\<close>

definition del_lookup :: "delegation_store \<Rightarrow> string \<Rightarrow> string option" where
  "del_lookup s tokenHash = (case ds_hashToId s tokenHash of Some (c # cs) \<Rightarrow> Some (c # cs) | _ \<Rightarrow> None)"

definition del_resolve :: "delegation_store \<Rightarrow> string \<Rightarrow> ms \<Rightarrow> delegation option" where
  "del_resolve s tokenHash now =
     (case del_lookup s tokenHash of
        None \<Rightarrow> None
      | Some k \<Rightarrow> (case map_of (ds_byId s) k of
          None \<Rightarrow> None
        | Some d \<Rightarrow> if dl_expiresAt d \<le> now then None else Some d))"

text \<open>The loop of \<open>chainById\<close>; \<open>room\<close> is how many more hops the chain may have.\<close>

fun chain_walk :: "nat \<Rightarrow> (string \<rightharpoonup> delegation) \<Rightarrow> ms \<Rightarrow> string option \<Rightarrow> delegation list option" where
  "chain_walk room byId now None = Some []"
| "chain_walk 0 byId now (Some k) = None"
| "chain_walk (Suc room) byId now (Some k) =
     (case byId k of
        None \<Rightarrow> None
      | Some cur \<Rightarrow>
          if dl_expiresAt cur \<le> now then None
          else map_option ((#) cur) (chain_walk room byId now (dl_parentDelegationId cur)))"

definition del_chainById :: "delegation_store \<Rightarrow> string \<Rightarrow> ms \<Rightarrow> delegation list option" where
  "del_chainById s k now =
     (case chain_walk MAX_DEPTH (map_of (ds_byId s)) now (Some k) of
        Some (d # ds) \<Rightarrow> Some (d # ds) | _ \<Rightarrow> None)"

definition del_resolveChain :: "delegation_store \<Rightarrow> string \<Rightarrow> ms
    \<Rightarrow> (delegation list \<times> agent_id \<times> string option) option" where
  "del_resolveChain s tokenHash now =
     (case del_lookup s tokenHash of
        None \<Rightarrow> None
      | Some k \<Rightarrow> (case del_chainById s k now of
          None \<Rightarrow> None
        | Some chain \<Rightarrow> Some (chain, dl_parentAgentId (hd chain), dl_policyProfile (last chain))))"

text \<open>Deleting while iterating a \<open>Map\<close> visits every entry once.\<close>

definition del_purgeExpired :: "bool \<Rightarrow> delegation_store \<Rightarrow> ms \<Rightarrow> (store_error + nat) \<times> delegation_store" where
  "del_purgeExpired disk s now =
     (let dead = filter (\<lambda>d. dl_expiresAt d \<le> now) (alist_values (ds_byId s));
          s' = s\<lparr>ds_byId := filter (\<lambda>(k, d). \<not> dl_expiresAt d \<le> now) (ds_byId s),
                 ds_hashToId := foldl (\<lambda>m d. m(dl_tokenHash d := None)) (ds_hashToId s) dead\<rparr>
      in if length dead > 0 then del_persist disk s' (length dead) else (Inr 0, s'))"

subsection \<open>Just-in-time grants\<close>

record temporary_grant =
  tg_id :: string
  tg_agentId :: agent_id
  tg_actions :: "string list"
  tg_reason :: string
  tg_createdAt :: ms
  tg_expiresAt :: ms

record grant_input =
  gi_agentId :: agent_id
  gi_actions :: "string list"
  gi_ttlMs :: ms
  gi_reason :: string
  gi_now :: ms

record grant_store =
  gs_byId :: "(string \<times> temporary_grant) list"
  gs_file :: file_content

definition enc_grant :: "temporary_grant \<Rightarrow> json" where
  "enc_grant g = JObj
     [(''agentId'', JStr (tg_agentId g)), (''actions'', JArr (map JStr (tg_actions g))),
      (''reason'', JStr (tg_reason g)), (''createdAt'', JNum (tg_createdAt g)), (''expiresAt'', JNum (tg_expiresAt g))]"

definition dec_grant :: "string \<Rightarrow> json \<Rightarrow> temporary_grant option" where
  "dec_grant k raw =
     (if \<not> is_json_object raw then None
      else case str_field raw ''agentId'' of
        None \<Rightarrow> None
      | Some agent \<Rightarrow> Some
          \<lparr>tg_id = k, tg_agentId = agent, tg_actions = strings_field raw ''actions'',
           tg_reason = some_or [] (str_field raw ''reason''),
           tg_createdAt = some_or 0 (num_field raw ''createdAt''),
           tg_expiresAt = some_or 0 (num_field raw ''expiresAt'')\<rparr>)"

definition grant_load :: "file_content \<Rightarrow> store_error + (string \<times> temporary_grant) list" where
  "grant_load = load_store ''grants'' dec_grant"

definition grant_open :: "file_content \<Rightarrow> store_error + grant_store" where
  "grant_open file = (case grant_load file of Inl e \<Rightarrow> Inl e | Inr m \<Rightarrow> Inr \<lparr>gs_byId = m, gs_file = file\<rparr>)"

definition grant_document :: "(string \<times> temporary_grant) list \<Rightarrow> json" where
  "grant_document byId = store_doc ''grants'' enc_grant (map (\<lambda>g. (tg_id g, g)) (alist_values byId))"

definition grant_persist :: "bool \<Rightarrow> grant_store \<Rightarrow> 'r \<Rightarrow> (store_error + 'r) \<times> grant_store" where
  "grant_persist disk s r =
     (if disk then (Inr r, s\<lparr>gs_file := Document (grant_document (gs_byId s))\<rparr>) else (Inl WriteFailed, s))"

definition grant_mint :: "bool \<Rightarrow> string \<Rightarrow> grant_input \<Rightarrow> grant_store \<Rightarrow> (store_error + temporary_grant) \<times> grant_store" where
  "grant_mint disk newId inp s =
     (let g = \<lparr>tg_id = newId, tg_agentId = gi_agentId inp, tg_actions = take 100 (gi_actions inp),
               tg_reason = take 200 (gi_reason inp), tg_createdAt = gi_now inp,
               tg_expiresAt = gi_now inp + gi_ttlMs inp\<rparr>
      in grant_persist disk (s\<lparr>gs_byId := AList.update newId g (gs_byId s)\<rparr>) g)"

definition grant_list :: "grant_store \<Rightarrow> ms \<Rightarrow> temporary_grant list" where
  "grant_list s now = sort_desc tg_createdAt (filter (\<lambda>g. tg_expiresAt g > now) (alist_values (gs_byId s)))"

definition grant_atCapacity :: "grant_store \<Rightarrow> ms \<Rightarrow> bool" where
  "grant_atCapacity s now \<longleftrightarrow> length (grant_list s now) \<ge> 1000"

definition grant_get :: "grant_store \<Rightarrow> string \<Rightarrow> temporary_grant option" where
  "grant_get s k = map_of (gs_byId s) k"

definition grant_purgeExpired :: "bool \<Rightarrow> grant_store \<Rightarrow> ms \<Rightarrow> (store_error + nat) \<times> grant_store" where
  "grant_purgeExpired disk s now =
     (let purged = length (filter (\<lambda>g. tg_expiresAt g \<le> now) (alist_values (gs_byId s)));
          s' = s\<lparr>gs_byId := filter (\<lambda>(k, g). \<not> tg_expiresAt g \<le> now) (gs_byId s)\<rparr>
      in if purged > 0 then grant_persist disk s' purged else (Inr 0, s'))"

subsection \<open>Break-glass windows\<close>

text \<open>
  The file holds the array of windows as it is, and the loader trusts its elements, so the
  parsed document is the list itself; \<open>pi_quorum\<close> is the quorum after \<open>Math.floor\<close>.
\<close>

record break_glass =
  bg_id :: string
  bg_agentId :: agent_id
  bg_actions :: "string list"
  bg_quorum :: int
  bg_reason :: string
  bg_pulledBy :: string
  bg_createdAt :: ms
  bg_expiresAt :: ms

record pull_input =
  pi_agentId :: agent_id
  pi_actions :: "string list"
  pi_quorum :: int
  pi_reason :: string
  pi_pulledBy :: string
  pi_ttlMs :: ms
  pi_now :: ms

datatype window_file = WAbsent | WUnparsable | WMalformed | WDocument "break_glass list"

record break_glass_store =
  bgs_maxActive :: nat
  bgs_windows :: "break_glass list"
  bgs_file :: window_file

fun bg_load :: "window_file \<Rightarrow> store_error + break_glass list" where
  "bg_load WAbsent = Inr []"
| "bg_load WUnparsable = Inl InvalidJson"
| "bg_load WMalformed = Inl Malformed"
| "bg_load (WDocument ws) = Inr ws"

definition bg_open :: "nat \<Rightarrow> window_file \<Rightarrow> store_error + break_glass_store" where
  "bg_open maxActive file = (case bg_load file of Inl e \<Rightarrow> Inl e
     | Inr ws \<Rightarrow> Inr \<lparr>bgs_maxActive = maxActive, bgs_windows = ws, bgs_file = file\<rparr>)"

definition bg_persist :: "bool \<Rightarrow> break_glass_store \<Rightarrow> 'r \<Rightarrow> (store_error + 'r) \<times> break_glass_store" where
  "bg_persist disk s r =
     (if disk then (Inr r, s\<lparr>bgs_file := WDocument (bgs_windows s)\<rparr>) else (Inl WriteFailed, s))"

definition bg_pull :: "bool \<Rightarrow> string \<Rightarrow> pull_input \<Rightarrow> break_glass_store \<Rightarrow> (store_error + break_glass) \<times> break_glass_store" where
  "bg_pull disk newId inp s =
     (let rec = \<lparr>bg_id = newId, bg_agentId = pi_agentId inp, bg_actions = take 50 (pi_actions inp),
                 bg_quorum = max 1 (pi_quorum inp), bg_reason = take 200 (pi_reason inp),
                 bg_pulledBy = pi_pulledBy inp, bg_createdAt = pi_now inp,
                 bg_expiresAt = pi_now inp + pi_ttlMs inp\<rparr>
      in bg_persist disk (s\<lparr>bgs_windows := bgs_windows s @ [rec]\<rparr>) rec)"

definition bg_list :: "break_glass_store \<Rightarrow> ms \<Rightarrow> break_glass list" where
  "bg_list s now = sort_desc bg_createdAt (filter (\<lambda>w. bg_expiresAt w > now) (bgs_windows s))"

definition bg_atCapacity :: "break_glass_store \<Rightarrow> ms \<Rightarrow> bool" where
  "bg_atCapacity s now \<longleftrightarrow> length (bg_list s now) \<ge> bgs_maxActive s"

definition bg_purgeExpired :: "bool \<Rightarrow> break_glass_store \<Rightarrow> ms \<Rightarrow> (store_error + nat) \<times> break_glass_store" where
  "bg_purgeExpired disk s now =
     (let before = length (bgs_windows s);
          s' = s\<lparr>bgs_windows := filter (\<lambda>w. bg_expiresAt w > now) (bgs_windows s)\<rparr>;
          purged = before - length (bgs_windows s')
      in if purged > 0 then bg_persist disk s' purged else (Inr 0, s'))"

subsection \<open>The contract holds of all three\<close>

lemma values_filter: "alist_values (filter (\<lambda>(k, v). P v) m) = filter P (alist_values m)"
  by (induction m) auto

lemma del_persist_simps [simp]:
  "ds_byId (snd (del_persist disk s r)) = ds_byId s" "ds_hashToId (snd (del_persist disk s r)) = ds_hashToId s"
  by (simp_all add: del_persist_def)

lemma grant_persist_simps [simp]: "gs_byId (snd (grant_persist disk s r)) = gs_byId s"
  by (simp add: grant_persist_def)

lemma bg_persist_simps [simp]:
  "bgs_windows (snd (bg_persist disk s r)) = bgs_windows s" "bgs_maxActive (snd (bg_persist disk s r)) = bgs_maxActive s"
  by (simp_all add: bg_persist_def)

lemma del_purge_byId: "ds_byId (snd (del_purgeExpired disk s t)) = filter (\<lambda>(k, d). t < dl_expiresAt d) (ds_byId s)"
  by (simp add: del_purgeExpired_def Let_def not_le)

lemma grant_purge_byId: "gs_byId (snd (grant_purgeExpired disk s t)) = filter (\<lambda>(k, g). t < tg_expiresAt g) (gs_byId s)"
  by (simp add: grant_purgeExpired_def Let_def not_le)

interpretation del_ttl: ttl_store "\<lambda>s. alist_values (ds_byId s)" dl_expiresAt dl_createdAt del_list
    "\<lambda>s t. snd (del_purgeExpired disk s t)" del_atCapacity "\<lambda>_. MAX_ACTIVE" for disk
  by unfold_locales (simp_all add: del_list_def del_purge_byId values_filter del_atCapacity_def)

interpretation grant_ttl: ttl_store "\<lambda>s. alist_values (gs_byId s)" tg_expiresAt tg_createdAt grant_list
    "\<lambda>s t. snd (grant_purgeExpired disk s t)" grant_atCapacity "\<lambda>_. 1000" for disk
  by unfold_locales (simp_all add: grant_list_def grant_purge_byId values_filter grant_atCapacity_def)

interpretation bg_ttl: ttl_store bgs_windows bg_expiresAt bg_createdAt bg_list
    "\<lambda>s t. snd (bg_purgeExpired disk s t)" bg_atCapacity bgs_maxActive for disk
  by unfold_locales (simp_all add: bg_list_def bg_purgeExpired_def bg_atCapacity_def Let_def)

end
