(* ===== verification/Delegation_Props.thy ===== *)
theory Delegation_Props
  imports Ttl_Stores
begin

text \<open>
  What the delegation store guarantees: the file and the hash index always agree with the
  memory, a chain is live in every hop and no longer than the cap, the death of an ancestor
  kills every descendant, purging is invisible, and a minted token works exactly until it
  expires.
\<close>

subsection \<open>The invariant\<close>

definition del_wf :: "delegation_store \<Rightarrow> bool" where
  "del_wf s \<longleftrightarrow> distinct (alist_keys (ds_byId s)) \<and> proto \<notin> set (alist_keys (ds_byId s))
     \<and> [] \<notin> set (alist_keys (ds_byId s))
     \<and> (\<forall>(k, d)\<in>set (ds_byId s). dl_id d = k)
     \<and> distinct (map dl_tokenHash (alist_values (ds_byId s)))
     \<and> ds_hashToId s = map_of (map (\<lambda>d. (dl_tokenHash d, dl_id d)) (alist_values (ds_byId s)))"

lemma hash_index_map_of:
  assumes "distinct (map dl_tokenHash ds)"
  shows "hash_index ds = map_of (map (\<lambda>d. (dl_tokenHash d, dl_id d)) ds)"
proof -
  have "distinct (map dl_tokenHash ds) \<Longrightarrow>
     foldl (\<lambda>m d. m(dl_tokenHash d \<mapsto> dl_id d)) m ds = m ++ map_of (map (\<lambda>d. (dl_tokenHash d, dl_id d)) ds)" for m
  proof (induction ds arbitrary: m)
    case Nil
    then show ?case by simp
  next
    case (Cons d ds)
    then have "dl_tokenHash d \<notin> fst ` set (map (\<lambda>d. (dl_tokenHash d, dl_id d)) ds)" by force
    then have "map_of (map (\<lambda>d. (dl_tokenHash d, dl_id d)) ds) (dl_tokenHash d) = None"
      by (simp add: map_of_eq_None_iff)
    with Cons show ?case by (auto simp: map_add_def fun_eq_iff split: option.splits)
  qed
  from this [of Map.empty] assms show ?thesis by (simp add: hash_index_def)
qed

lemma dec_enc_delegation: "dec_delegation (dl_id d) (enc_delegation d) = Some d"
  by (cases "dl_policyProfile d"; cases "dl_parentDelegationId d")
     (simp_all add: dec_delegation_def enc_delegation_def str_field_def num_field_def strings_field_def opt_prop_def)

lemma del_wf_values:
  assumes "del_wf s" shows "map (\<lambda>d. (dl_id d, d)) (alist_values (ds_byId s)) = ds_byId s"
  using assms by (auto simp: del_wf_def intro!: map_idI)

lemma del_load_document:
  assumes "del_wf s" shows "del_load (Document (del_document (ds_byId s))) = Inr (ds_byId s)"
proof -
  have "dec_delegation k (enc_delegation d) = Some d" if "(k, d) \<in> set (ds_byId s)" for k d
    using assms that dec_enc_delegation [of d] by (auto simp: del_wf_def)
  then have "load_entries dec_delegation (obj_of enc_delegation (ds_byId s)) = ds_byId s"
    using assms by (intro load_entries_roundtrip) (auto simp: del_wf_def)
  then show ?thesis
    unfolding del_load_def del_document_def del_wf_values [OF assms] by (subst load_store_doc) simp_all
qed

lemma map_of_hashes_del:
  assumes "distinct (map dl_tokenHash ds)"
  shows "foldl (\<lambda>m d. m(dl_tokenHash d := None)) (map_of (map (\<lambda>d. (dl_tokenHash d, dl_id d)) ds)) (filter (\<lambda>d. \<not> P d) ds)
    = map_of (map (\<lambda>d. (dl_tokenHash d, dl_id d)) (filter P ds))"
proof -
  let ?idx = "\<lambda>ds. map_of (map (\<lambda>d. (dl_tokenHash d, dl_id d)) ds)"
  have fold: "foldl (\<lambda>m d. m(dl_tokenHash d := None)) m xs = m |` (- (dl_tokenHash ` set xs))" for m xs
    by (induction xs arbitrary: m) (auto simp: restrict_map_def fun_eq_iff)
  show ?thesis unfolding fold using assms
  proof (induction ds)
    case Nil
    then show ?case by simp
  next
    case (Cons d ds)
    have fresh: "dl_tokenHash d \<notin> dl_tokenHash ` set ds" using Cons.prems by simp
    have none: "?idx (filter P ds) (dl_tokenHash d) = None" using fresh by (auto simp: map_of_eq_None_iff)
    have "?idx ds |` (- (dl_tokenHash ` set (filter (\<lambda>d. \<not> P d) ds))) = ?idx (filter P ds)"
      using Cons by simp
    then show ?case using none fresh by (auto simp: restrict_map_def fun_eq_iff split: if_splits)
  qed
qed

lemma del_wf_hash:
  assumes "del_wf s" "map_of (ds_byId s) k = Some d" shows "ds_hashToId s (dl_tokenHash d) = Some k" "dl_id d = k"
proof -
  from assms(2) have mem: "(k, d) \<in> set (ds_byId s)" by (rule map_of_SomeD)
  with assms(1) show k: "dl_id d = k" by (auto simp: del_wf_def)
  have "distinct (map fst (map (\<lambda>d. (dl_tokenHash d, dl_id d)) (alist_values (ds_byId s))))"
    using assms(1) by (simp add: del_wf_def comp_def)
  moreover have "(dl_tokenHash d, k) \<in> set (map (\<lambda>d. (dl_tokenHash d, dl_id d)) (alist_values (ds_byId s)))"
    using mem k by force
  ultimately show "ds_hashToId s (dl_tokenHash d) = Some k"
    using assms(1) by (simp add: del_wf_def)
qed

lemma del_wf_index:
  assumes "del_wf s" "ds_hashToId s h = Some k"
  shows "\<exists>d. map_of (ds_byId s) k = Some d \<and> dl_tokenHash d = h \<and> dl_id d = k"
proof -
  from assms have "(h, k) \<in> set (map (\<lambda>d. (dl_tokenHash d, dl_id d)) (alist_values (ds_byId s)))"
    by (auto simp: del_wf_def dest: map_of_SomeD)
  then obtain k' d where d: "(k', d) \<in> set (ds_byId s)" "dl_tokenHash d = h" "dl_id d = k" by auto
  with assms(1) have "k' = k" "map_of (ds_byId s) k = Some d" by (auto simp: del_wf_def)
  with d show ?thesis by blast
qed

lemma del_wf_mint:
  assumes wf: "del_wf s" and new: "newId \<notin> set (alist_keys (ds_byId s))" "newId \<noteq> proto" "newId \<noteq> []"
    and hash: "h \<notin> dl_tokenHash ` set (alist_values (ds_byId s))"
  shows "del_wf (snd (del_mint disk newId h inp s))"
proof -
  have none: "map_of (map (\<lambda>d. (dl_tokenHash d, dl_id d)) (alist_values (ds_byId s))) h = None"
    using hash by (force simp: map_of_eq_None_iff)
  show ?thesis using wf new hash none unfolding del_wf_def del_mint_def Let_def del_persist_simps
    by (auto simp: update_fresh fun_eq_iff map_add_def split: option.splits)
qed

lemma del_wf_purge:
  assumes wf: "del_wf s" shows "del_wf (snd (del_purgeExpired disk s now))"
proof -
  let ?P = "\<lambda>d. now < dl_expiresAt d"
  have hash: "ds_hashToId (snd (del_purgeExpired disk s now)) =
      foldl (\<lambda>m d. m(dl_tokenHash d := None)) (ds_hashToId s) (filter (\<lambda>d. \<not> ?P d) (alist_values (ds_byId s)))"
    by (simp add: del_purgeExpired_def Let_def not_less)
  have dist: "distinct (alist_keys (filter (\<lambda>(k, d). ?P d) (ds_byId s)))"
    "distinct (map dl_tokenHash (filter ?P (alist_values (ds_byId s))))"
    using wf by (auto simp: del_wf_def distinct_map_filter)
  show ?thesis unfolding del_wf_def del_purge_byId hash values_filter
    using wf dist map_of_hashes_del [of "alist_values (ds_byId s)" ?P]
    by (simp add: del_wf_def del: map_map) (auto simp: not_le)
qed

subsection \<open>Chains\<close>

text \<open>What \<open>chainById\<close> promises of its result: every hop is stored, live, and the parent of the one before.\<close>

fun chain_links :: "(string \<rightharpoonup> delegation) \<Rightarrow> ms \<Rightarrow> string option \<Rightarrow> delegation list \<Rightarrow> bool" where
  "chain_links byId now k [] \<longleftrightarrow> k = None"
| "chain_links byId now k (d # ds) \<longleftrightarrow>
     (\<exists>i. k = Some i \<and> byId i = Some d) \<and> now < dl_expiresAt d \<and> chain_links byId now (dl_parentDelegationId d) ds"

lemma chain_walk_iff:
  "chain_walk room byId now k = Some ds \<longleftrightarrow> length ds \<le> room \<and> chain_links byId now k ds"
proof (induction room byId now k arbitrary: ds rule: chain_walk.induct)
  case (1 room byId now)
  then show ?case by (cases ds) auto
next
  case (2 byId now k)
  then show ?case by (cases ds) auto
next
  case (3 room byId now k)
  show ?case
  proof (cases "byId k")
    case None
    then show ?thesis by (cases ds) auto
  next
    case (Some cur)
    show ?thesis
    proof (cases "dl_expiresAt cur \<le> now")
      case True
      with Some show ?thesis by (cases ds) auto
    next
      case False
      with Some 3 show ?thesis by (cases ds) auto
    qed
  qed
qed

lemma del_lookup_iff: "del_lookup s h = Some k \<longleftrightarrow> ds_hashToId s h = Some k \<and> k \<noteq> []"
  by (auto simp: del_lookup_def split: option.splits list.splits)

lemma chain_links_det: "chain_links byId now k ds \<Longrightarrow> chain_links byId now' k ds' \<Longrightarrow> ds = ds'"
proof (induction ds arbitrary: k ds')
  case Nil
  then show ?case by (cases ds') auto
next
  case (Cons d ds)
  then show ?case by (cases ds') auto
qed

lemma chain_links_live: "chain_links byId now k ds \<Longrightarrow> d \<in> set ds \<Longrightarrow> now < dl_expiresAt d"
  by (induction ds arbitrary: k) auto

lemma del_chainById_iff:
  "del_chainById s k now = Some ds \<longleftrightarrow> length ds \<le> MAX_DEPTH \<and> chain_links (map_of (ds_byId s)) now (Some k) ds"
proof -
  have "chain_walk MAX_DEPTH (map_of (ds_byId s)) now (Some k) \<noteq> Some []" by (simp add: chain_walk_iff)
  then have "del_chainById s k now = chain_walk MAX_DEPTH (map_of (ds_byId s)) now (Some k)"
    by (auto simp: del_chainById_def split: option.splits list.splits)
  then show ?thesis by (simp add: chain_walk_iff)
qed

lemma chain_links_filter:
  assumes "distinct (alist_keys m)" "t \<le> t'"
  shows "chain_links (map_of (filter (\<lambda>(k, d). t < dl_expiresAt d) m)) t' k ds = chain_links (map_of m) t' k ds"
  using assms(2)
  by (induction ds arbitrary: k) (auto simp: map_of_filter_live [OF assms(1)] split: option.splits if_splits)

lemma del_resolveChain_iff:
  "del_resolveChain s h now = Some (chain, root, prof) \<longleftrightarrow>
     (\<exists>k. del_lookup s h = Some k \<and> length chain \<le> MAX_DEPTH \<and> chain_links (map_of (ds_byId s)) now (Some k) chain)
     \<and> root = dl_parentAgentId (hd chain) \<and> prof = dl_policyProfile (last chain)"
  unfolding del_resolveChain_def del_chainById_iff [symmetric] by (auto split: option.splits)

lemma chain_links_ne: "chain_links byId now (Some k) ds \<Longrightarrow> ds \<noteq> []"
  by (cases ds) auto

text \<open>The ids a chain consists of, and the parent pointers, as the code sees them.\<close>

lemma chain_links_parent:
  "chain_links byId now k ds \<Longrightarrow> Suc i < length ds \<Longrightarrow>
     \<exists>p. dl_parentDelegationId (ds ! i) = Some p \<and> byId p = Some (ds ! Suc i)"
proof (induction ds arbitrary: k i)
  case Nil
  then show ?case by simp
next
  case (Cons d ds)
  then show ?case by (cases i; cases ds) auto
qed

lemma chain_links_last: "chain_links byId now k ds \<Longrightarrow> ds \<noteq> [] \<Longrightarrow> dl_parentDelegationId (last ds) = None"
  by (induction ds arbitrary: k) auto

subsection \<open>Properties\<close>

text \<open>C35: whatever a token resolves to is a complete live chain: between 1 and 5 grants, all stored and
  unexpired, each the parent of the one before it, ending in a grant minted by an agent.\<close>
theorem resolved_chain_is_live:
  assumes "del_resolveChain s h now = Some (chain, root, prof)"
  shows "1 \<le> length chain \<and> length chain \<le> 5 \<and> (\<forall>d\<in>set chain. now < dl_expiresAt d)
     \<and> (\<forall>i. Suc i < length chain \<longrightarrow>
          (\<exists>p. dl_parentDelegationId (chain ! i) = Some p \<and> del_get s p = Some (chain ! Suc i)))
     \<and> dl_parentDelegationId (last chain) = None"
proof -
  from assms obtain k where k: "length chain \<le> MAX_DEPTH" "chain_links (map_of (ds_byId s)) now (Some k) chain"
    by (auto simp: del_resolveChain_iff)
  then have "chain \<noteq> []" by (auto dest: chain_links_ne)
  then have "1 \<le> length chain" by (cases chain) auto
  with k \<open>chain \<noteq> []\<close> show ?thesis
    by (auto simp: MAX_DEPTH_def del_get_def chain_links_live chain_links_parent chain_links_last)
qed

lemma chain_walk_closed:
  "\<forall>j\<in>K. \<forall>d. byId j = Some d \<longrightarrow> (\<exists>p\<in>K. dl_parentDelegationId d = Some p) \<Longrightarrow> k \<in> K \<Longrightarrow>
   chain_walk room byId now (Some k) = None"
proof (induction room arbitrary: k)
  case (Suc room)
  show ?case
  proof (cases "byId k")
    case (Some d)
    with Suc.prems obtain p where "p \<in> K" "dl_parentDelegationId d = Some p" by blast
    with Suc show ?thesis by (simp add: Some)
  qed simp
qed simp


text \<open>Two grants that are each other's parent.\<close>

definition wit_cycle :: delegation_store where
  "wit_cycle =
     (let d = \<lparr>dl_id = ''1'', dl_parentAgentId = ''bot'', dl_parentDelegationId = Some ''2'', dl_tokenHash = ''h1'',
        dl_actions = [''*''], dl_targets = [], dl_policyProfile = None, dl_note = [], dl_createdAt = 0, dl_expiresAt = 1000\<rparr>
      in \<lparr>ds_byId = [(''1'', d), (''2'', d\<lparr>dl_id := ''2'', dl_parentDelegationId := Some ''1'', dl_tokenHash := ''h2''\<rparr>)],
         ds_hashToId = [''h1'' \<mapsto> ''1'', ''h2'' \<mapsto> ''2''], ds_file = Absent\<rparr>)"


text \<open>the expiry of any ancestor kills every descendant: a token whose chain contains a grant that is
  expired at a time resolves to nothing at that time.\<close>
theorem dead_ancestor_kills_descendants:
  assumes "del_resolveChain s h now = Some (chain, root, prof)" and "d \<in> set chain" and "dl_expiresAt d \<le> later"
  shows "del_resolveChain s h later = None"
proof (rule ccontr)
  assume "del_resolveChain s h later \<noteq> None"
  then obtain chain' r p where r: "del_resolveChain s h later = Some (chain', r, p)" by auto
  with assms(1) have "chain' = chain" by (auto simp: del_resolveChain_iff dest: chain_links_det)
  with r assms(2) have "later < dl_expiresAt d" by (auto simp: del_resolveChain_iff chain_links_live)
  with assms(3) show False by simp
qed

text \<open>purging expired delegations changes no later answer of the store: no token gains or loses
  anything.\<close>
theorem purge_is_invisible:
  assumes "del_wf s" and "t \<le> later"
  shows "del_resolveChain (snd (del_purgeExpired disk s t)) h later = del_resolveChain s h later
    \<and> del_list (snd (del_purgeExpired disk s t)) later = del_list s later"
proof
  let ?s = "snd (del_purgeExpired disk s t)"
  have wf: "del_wf ?s" using assms(1) by (rule del_wf_purge)
  have dist: "distinct (alist_keys (ds_byId s))" using assms(1) by (simp add: del_wf_def)
  have links: "chain_links (map_of (ds_byId ?s)) later (Some k) c \<longleftrightarrow> chain_links (map_of (ds_byId s)) later (Some k) c" for k c
    unfolding del_purge_byId using dist assms(2) by (rule chain_links_filter)
  have "(\<exists>k. del_lookup ?s h = Some k \<and> chain_links (map_of (ds_byId s)) later (Some k) c) \<longleftrightarrow>
        (\<exists>k. del_lookup s h = Some k \<and> chain_links (map_of (ds_byId s)) later (Some k) c)" for c
  proof -
    have "ds_hashToId ?s h = Some k \<longleftrightarrow> ds_hashToId s h = Some k" if live: "chain_links (map_of (ds_byId s)) later (Some k) c" for k
    proof
      assume "ds_hashToId ?s h = Some k"
      then obtain d where "map_of (ds_byId ?s) k = Some d" "dl_tokenHash d = h" using del_wf_index [OF wf] by blast
      then have "map_of (ds_byId s) k = Some d" "dl_tokenHash d = h"
        unfolding del_purge_byId by (auto simp: map_of_filter_live [OF dist] split: option.splits if_splits)
      then show "ds_hashToId s h = Some k" using del_wf_hash(1) [OF assms(1)] by blast
    next
      assume "ds_hashToId s h = Some k"
      then obtain d where d: "map_of (ds_byId s) k = Some d" "dl_tokenHash d = h" using del_wf_index [OF assms(1)] by blast
      from live obtain c' where "c = d # c'" "later < dl_expiresAt d" using d by (cases c) auto
      with d assms(2) have "map_of (ds_byId ?s) k = Some d"
        unfolding del_purge_byId by (simp add: map_of_filter_live [OF dist])
      with d(2) show "ds_hashToId ?s h = Some k" using del_wf_hash(1) [OF wf] by blast
    qed
    then show ?thesis unfolding del_lookup_iff by blast
  qed
  then have "del_resolveChain ?s h later = Some (c, r, p) \<longleftrightarrow> del_resolveChain s h later = Some (c, r, p)" for c r p
    unfolding del_resolveChain_iff links by auto
  then show "del_resolveChain ?s h later = del_resolveChain s h later"
    by (metis not_None_eq prod_cases3)
  show "del_list ?s later = del_list s later" using assms(2) by (rule del_ttl.purge_invisible)
qed

text \<open>a minted token resolves to its own grant followed by its parent's chain, from the moment it is
  minted until its own expiry, and only if the parent's chain is live and leaves room under the cap.\<close>
theorem minted_token_resolves:
  assumes "newId \<noteq> []" and "del_get s newId = None" and "\<forall>(k, d)\<in>set (ds_byId s). dl_parentDelegationId d \<noteq> Some newId"
    and "mi_parentDelegationId inp \<noteq> Some newId"
  shows "map_option fst (del_resolveChain (snd (del_mint disk newId h inp s)) h t) =
    (if t < mi_now inp + mi_ttlMs inp then
       map_option ((#) (the (del_get (snd (del_mint disk newId h inp s)) newId)))
         (chain_walk 4 (map_of (ds_byId s)) t (mi_parentDelegationId inp))
     else None)"
proof -
  let ?s = "snd (del_mint disk newId h inp s)"
  define d where "d = the (del_get ?s newId)"
  have byId: "map_of (ds_byId ?s) = (map_of (ds_byId s))(newId \<mapsto> d)"
    unfolding d_def del_get_def del_mint_def Let_def del_persist_simps by simp
  have d: "dl_expiresAt d = mi_now inp + mi_ttlMs inp" "dl_parentDelegationId d = mi_parentDelegationId inp"
    unfolding d_def del_get_def del_mint_def Let_def del_persist_simps by simp_all
  have look: "del_lookup ?s h = Some newId"
    using assms(1) by (cases newId) (simp_all add: del_lookup_def del_mint_def Let_def)
  have other: "chain_links ((map_of (ds_byId s))(newId \<mapsto> d)) t k c = chain_links (map_of (ds_byId s)) t k c"
    if "k \<noteq> Some newId" for k c
    using that assms(2,3)
  proof (induction c arbitrary: k)
    case Nil
    then show ?case by simp
  next
    case (Cons e c)
    show ?case
    proof (cases "\<exists>i. k = Some i \<and> map_of (ds_byId s) i = Some e")
      case True
      then have "dl_parentDelegationId e \<noteq> Some newId" using assms(3) by (auto dest: map_of_SomeD)
      from Cons.IH [OF this assms(2,3)] True Cons.prems(1) show ?thesis by auto
    next
      case False
      with Cons.prems(1) show ?thesis by auto
    qed
  qed
  have walk: "chain_walk 5 (map_of (ds_byId ?s)) t (Some newId) =
     (if dl_expiresAt d \<le> t then None else map_option ((#) d) (chain_walk 4 (map_of (ds_byId s)) t (mi_parentDelegationId inp)))"
  proof -
    have "chain_walk 4 ((map_of (ds_byId s))(newId \<mapsto> d)) t (mi_parentDelegationId inp) = Some c \<longleftrightarrow>
        chain_walk 4 (map_of (ds_byId s)) t (mi_parentDelegationId inp) = Some c" for c
      unfolding chain_walk_iff using other [OF assms(4)] by simp
    then have "chain_walk 4 ((map_of (ds_byId s))(newId \<mapsto> d)) t (mi_parentDelegationId inp) =
        chain_walk 4 (map_of (ds_byId s)) t (mi_parentDelegationId inp)" by (metis not_None_eq)
    moreover have "(5::nat) = Suc 4" by simp
    ultimately show ?thesis unfolding byId by (simp only: chain_walk.simps) (simp add: d)
  qed
  show ?thesis unfolding del_resolveChain_def look option.case del_chainById_def MAX_DEPTH_def walk d_def [symmetric] d(1)
    by (auto split: option.splits)
qed

text \<open>The states of the store between restarts: opened on no file, then minted into with fresh
  ids and fresh hashes, purged, and its disk writes failing or not.\<close>

inductive del_reachable :: "delegation_store \<Rightarrow> bool" where
  del_start: "del_open Absent = Inr s \<Longrightarrow> del_reachable s"
| del_minted: "del_reachable s \<Longrightarrow> newId \<notin> set (alist_keys (ds_byId s)) \<Longrightarrow> newId \<noteq> proto \<Longrightarrow> newId \<noteq> [] \<Longrightarrow>
    h \<notin> dl_tokenHash ` set (alist_values (ds_byId s)) \<Longrightarrow> del_reachable (snd (del_mint True newId h inp s))"
| del_purged: "del_reachable s \<Longrightarrow> del_reachable (snd (del_purgeExpired True s now))"

lemma del_reachable_wf:
  "del_reachable s \<Longrightarrow> del_wf s \<and> del_load (ds_file s) = Inr (ds_byId s)"
proof (induction rule: del_reachable.induct)
  case (del_start s)
  then show ?case
    by (auto simp: del_open_def del_load_def load_store_def del_wf_def hash_index_def)
next
  case (del_minted s newId h inp)
  then have wf: "del_wf (snd (del_mint True newId h inp s))" by (intro del_wf_mint) auto
  moreover have "ds_file (snd (del_mint True newId h inp s)) =
      Document (del_document (ds_byId (snd (del_mint True newId h inp s))))"
    by (simp add: del_mint_def Let_def del_persist_def)
  ultimately show ?case using del_load_document by simp
next
  case (del_purged s now)
  then have wf: "del_wf (snd (del_purgeExpired True s now))" by (intro del_wf_purge) auto
  show ?case
  proof (cases "filter (\<lambda>d. dl_expiresAt d \<le> now) (alist_values (ds_byId s)) = []")
    case True
    have "\<forall>kd\<in>set (ds_byId s). (\<lambda>(k, d). \<not> dl_expiresAt d \<le> now) kd"
      using True by (auto simp: filter_empty_conv)
    then have "filter (\<lambda>(k, d). \<not> dl_expiresAt d \<le> now) (ds_byId s) = ds_byId s" by (rule filter_True)
    with True del_purged wf show ?thesis by (simp add: del_purgeExpired_def Let_def)
  next
    case False
    then have "ds_file (snd (del_purgeExpired True s now)) =
      Document (del_document (ds_byId (snd (del_purgeExpired True s now))))"
      by (simp add: del_purgeExpired_def Let_def del_persist_def)
    with wf show ?thesis using del_load_document by simp
  qed
qed

text \<open>a restart loses nothing and forges nothing: in every reachable state, opening the file again
  gives back exactly the same store, hash index included.\<close>
theorem delegations_survive_restart:
  assumes "del_reachable s" shows "del_open (ds_file s) = Inr s"
proof -
  from del_reachable_wf [OF assms] have wf: "del_wf s" and load: "del_load (ds_file s) = Inr (ds_byId s)" by auto
  have "hash_index (alist_values (ds_byId s)) = ds_hashToId s"
    using wf hash_index_map_of [of "alist_values (ds_byId s)"] by (simp add: del_wf_def)
  then show ?thesis by (cases s) (use load in \<open>simp add: del_open_def\<close>)
qed

end
