(* ===== verification/Access_Stores.thy ===== *)
theory Access_Stores
  imports Ttl_Stores "HOL-Library.List_Lexorder" "HOL-Library.Char_ord"
begin

text \<open>
  The stores that decide who is let in: the kill list (\<^verbatim>\<open>revoke/store.ts\<close>), the fleet kill set
  (\<^verbatim>\<open>revocation/store.ts\<close>), the admin tokens and roles (\<^verbatim>\<open>admin/token-store.ts\<close>,
  \<^verbatim>\<open>admin/role.ts\<close>), the live agents (\<^verbatim>\<open>agents/store.ts\<close>), the policy version floor
  (\<^verbatim>\<open>distribution/version-store.ts\<close>), and the divergence counters of the shadow policy
  (\<^verbatim>\<open>canary/store.ts\<close>).
\<close>

subsection \<open>The kill list\<close>

record revocation_record =
  rr_agentId :: agent_id
  rr_ts :: ms
  rr_reason :: string

record revocation_store =
  rv_revoked :: "(string \<times> revocation_record) list"
  rv_file :: file_content

definition enc_revocation :: "revocation_record \<Rightarrow> json" where
  "enc_revocation r = JObj [(''ts'', JNum (rr_ts r)), (''reason'', JStr (rr_reason r))]"

definition dec_revocation :: "string \<Rightarrow> json \<Rightarrow> revocation_record option" where
  "dec_revocation agentId raw =
     (if \<not> is_json_object raw then None
      else Some \<lparr>rr_agentId = agentId, rr_ts = some_or 0 (num_field raw ''ts''),
                 rr_reason = take 200 (some_or [] (str_field raw ''reason''))\<rparr>)"

definition rv_load :: "file_content \<Rightarrow> store_error + (string \<times> revocation_record) list" where
  "rv_load = load_store ''revoked'' dec_revocation"

definition rv_open :: "file_content \<Rightarrow> store_error + revocation_store" where
  "rv_open file = (case rv_load file of Inl e \<Rightarrow> Inl e | Inr m \<Rightarrow> Inr \<lparr>rv_revoked = m, rv_file = file\<rparr>)"

definition rv_document :: "(string \<times> revocation_record) list \<Rightarrow> json" where
  "rv_document revoked = store_doc ''revoked'' enc_revocation (map (\<lambda>r. (rr_agentId r, r)) (alist_values revoked))"

definition rv_persist :: "bool \<Rightarrow> revocation_store \<Rightarrow> 'r \<Rightarrow> (store_error + 'r) \<times> revocation_store" where
  "rv_persist disk s r =
     (if disk then (Inr r, s\<lparr>rv_file := Document (rv_document (rv_revoked s))\<rparr>) else (Inl WriteFailed, s))"

definition rv_isRevoked :: "revocation_store \<Rightarrow> agent_id \<Rightarrow> bool" where
  "rv_isRevoked s agentId \<longleftrightarrow> map_of (rv_revoked s) agentId \<noteq> None"

definition rv_get :: "revocation_store \<Rightarrow> agent_id \<Rightarrow> revocation_record option" where
  "rv_get s agentId = map_of (rv_revoked s) agentId"

definition rv_list :: "revocation_store \<Rightarrow> revocation_record list" where
  "rv_list s = sort_desc rr_ts (alist_values (rv_revoked s))"

definition rv_revoke :: "bool \<Rightarrow> agent_id \<Rightarrow> string \<Rightarrow> ms \<Rightarrow> revocation_store
    \<Rightarrow> (store_error + revocation_record) \<times> revocation_store" where
  "rv_revoke disk agentId reason now s =
     (let rec = \<lparr>rr_agentId = agentId, rr_ts = now, rr_reason = take 200 reason\<rparr>
      in rv_persist disk (s\<lparr>rv_revoked := AList.update agentId rec (rv_revoked s)\<rparr>) rec)"

definition rv_restore :: "bool \<Rightarrow> agent_id \<Rightarrow> revocation_store \<Rightarrow> (store_error + bool) \<times> revocation_store" where
  "rv_restore disk agentId s =
     (let had = rv_isRevoked s agentId; s' = s\<lparr>rv_revoked := AList.delete agentId (rv_revoked s)\<rparr>
      in if had then rv_persist disk s' True else (Inr False, s'))"

definition rv_reload :: "revocation_store \<Rightarrow> (store_error + unit) \<times> revocation_store" where
  "rv_reload s = (case rv_load (rv_file s) of Inl e \<Rightarrow> (Inl e, s) | Inr m \<Rightarrow> (Inr (), s\<lparr>rv_revoked := m\<rparr>))"

subsection \<open>The fleet kill set\<close>

record fleet_store =
  fl_revoked :: "string list"
  fl_ver :: int
  fl_expiry :: "int option"
  fl_file :: file_content

definition fleet_document :: "string list \<Rightarrow> int \<Rightarrow> int option \<Rightarrow> json" where
  "fleet_document agents version expiresAt = JObj
     [(''version'', JNum version), (''expiresAt'', null_or_num expiresAt),
      (''revokedAgents'', JArr (map JStr (sort agents)))]"

fun is_json_string :: "json \<Rightarrow> bool" where
  "is_json_string (JStr _) = True"
| "is_json_string _ = False"

definition fleet_load :: "file_content \<Rightarrow> store_error + (string list \<times> int \<times> int option)" where
  "fleet_load file =
     (case file of
        Absent \<Rightarrow> Inr ([], 0, None)
      | Unparsable \<Rightarrow> Inl InvalidJson
      | Document doc \<Rightarrow>
          if \<not> is_json_object doc then Inl Malformed
          else case num_field doc ''version'' of
            None \<Rightarrow> Inl Malformed
          | Some version \<Rightarrow>
              (case json_field doc ''revokedAgents'' of
                 Some (JArr xs) \<Rightarrow>
                   if \<not> list_all is_json_string xs then Inl Malformed
                   else (case json_field doc ''expiresAt'' of
                       None \<Rightarrow> Inr (remdups (json_strings xs), version, None)
                     | Some JNull \<Rightarrow> Inr (remdups (json_strings xs), version, None)
                     | Some (JNum n) \<Rightarrow> Inr (remdups (json_strings xs), version, Some n)
                     | Some _ \<Rightarrow> Inl Malformed)
               | _ \<Rightarrow> Inl Malformed))"

definition fleet_open :: "file_content \<Rightarrow> store_error + fleet_store" where
  "fleet_open file = (case fleet_load file of
       Inl e \<Rightarrow> Inl e
     | Inr (revoked, ver, expiry) \<Rightarrow> Inr \<lparr>fl_revoked = revoked, fl_ver = ver, fl_expiry = expiry, fl_file = file\<rparr>)"

definition fleet_has :: "fleet_store \<Rightarrow> agent_id \<Rightarrow> bool" where
  "fleet_has s agentId \<longleftrightarrow> agentId \<in> set (fl_revoked s)"

definition fleet_floor :: "fleet_store \<Rightarrow> int" where
  "fleet_floor s = fl_ver s"

definition fleet_count :: "fleet_store \<Rightarrow> nat" where
  "fleet_count s = length (fl_revoked s)"

definition fleet_list :: "fleet_store \<Rightarrow> string list" where
  "fleet_list s = sort (fl_revoked s)"

definition fleet_replace :: "bool \<Rightarrow> string list \<Rightarrow> int \<Rightarrow> int option \<Rightarrow> fleet_store \<Rightarrow> (store_error + unit) \<times> fleet_store" where
  "fleet_replace disk agents version expiresAt s =
     (let next = remdups agents in
      if \<not> disk then (Inl WriteFailed, s)
      else (Inr (), \<lparr>fl_revoked = next, fl_ver = version, fl_expiry = expiresAt,
                     fl_file = Document (fleet_document next version expiresAt)\<rparr>))"

subsection \<open>Roles\<close>

datatype role = Viewer | Approver | Admin

fun role_rank :: "role \<Rightarrow> nat" where
  "role_rank Viewer = 0" | "role_rank Approver = 1" | "role_rank Admin = 2"

lemma role_rank_inj [simp]: "role_rank a = role_rank b \<longleftrightarrow> a = b"
  by (cases a; cases b) auto

instantiation role :: linorder
begin

definition less_eq_role :: "role \<Rightarrow> role \<Rightarrow> bool" where "less_eq_role a b \<longleftrightarrow> role_rank a \<le> role_rank b"
definition less_role :: "role \<Rightarrow> role \<Rightarrow> bool" where "less_role a b \<longleftrightarrow> role_rank a < role_rank b"

instance
  by standard (auto simp: less_eq_role_def less_role_def)

end

definition hasRole :: "role \<Rightarrow> role \<Rightarrow> bool" where
  "hasRole held need \<longleftrightarrow> role_rank held \<ge> role_rank need"

definition starts_with :: "string \<Rightarrow> string \<Rightarrow> bool" where
  "starts_with s p \<longleftrightarrow> take (length p) s = p"

definition ends_with :: "string \<Rightarrow> string \<Rightarrow> bool" where
  "ends_with s p \<longleftrightarrow> starts_with (rev s) (rev p)"

text \<open>\<open>/^\/console\/approvals\/[^/]+\/(approve|deny)$/\<close>.\<close>

definition approval_decision_path :: "string \<Rightarrow> bool" where
  "approval_decision_path path \<longleftrightarrow> starts_with path ''/console/approvals/'' \<and>
     (let rest = drop (length ''/console/approvals/'') path;
          seg = takeWhile (\<lambda>c. c \<noteq> CHR ''/'') rest;
          verb = drop (Suc (length seg)) rest
      in seg \<noteq> [] \<and> length seg < length rest \<and> (verb = ''approve'' \<or> verb = ''deny''))"

definition requiredRole :: "string \<Rightarrow> string \<Rightarrow> role" where
  "requiredRole httpMethod path =
     (if path = ''/console/tokens'' \<or> starts_with path ''/console/tokens/'' then Admin
      else if httpMethod = ''GET'' \<and> (path = ''/metrics'' \<or> starts_with path ''/console/'') then Viewer
      else if httpMethod = ''POST'' \<and> approval_decision_path path then Approver
      else Admin)"

subsection \<open>Admin tokens\<close>

record admin_token =
  at_name :: string
  at_role :: role
  at_tokenHash :: string
  at_createdAt :: ms
  at_revokedAt :: "ms option"
  at_subject :: "string option"
  at_expiresAt :: "ms option"

type_synonym token_store = "admin_token list"

text \<open>\<open>create\<close> awaits the hash of the new secret between its duplicate check and its push, so
  it is two steps of the event loop.\<close>

definition token_create_check :: "string \<Rightarrow> token_store \<Rightarrow> store_error + unit" where
  "token_create_check name records =
     (if list_ex (\<lambda>r. at_name r = name \<and> at_revokedAt r = None) records then Inl (Duplicate name) else Inr ())"

definition token_create_push :: "string \<Rightarrow> role \<Rightarrow> string \<Rightarrow> ms \<Rightarrow> token_store \<Rightarrow> token_store" where
  "token_create_push name rl tokenHash now records = records @
     [\<lparr>at_name = name, at_role = rl, at_tokenHash = tokenHash, at_createdAt = now, at_revokedAt = None,
       at_subject = None, at_expiresAt = None\<rparr>]"

definition token_create :: "string \<Rightarrow> role \<Rightarrow> string \<Rightarrow> ms \<Rightarrow> token_store \<Rightarrow> (store_error + unit) \<times> token_store" where
  "token_create name rl tokenHash now records =
     (case token_create_check name records of
        Inl e \<Rightarrow> (Inl e, records)
      | Inr _ \<Rightarrow> (Inr (), token_create_push name rl tokenHash now records))"

definition token_live :: "ms \<Rightarrow> admin_token \<Rightarrow> bool" where
  "token_live now r \<longleftrightarrow> at_revokedAt r = None \<and> (case at_expiresAt r of None \<Rightarrow> True | Some e \<Rightarrow> e > now)"

definition token_resolve :: "string \<Rightarrow> ms \<Rightarrow> token_store \<Rightarrow> (string \<times> role \<times> string option) option" where
  "token_resolve tokenHash now records =
     map_option (\<lambda>r. (at_name r, at_role r, at_subject r))
       (List.find (\<lambda>r. at_tokenHash r = tokenHash \<and> token_live now r) records)"

definition token_list :: "token_store \<Rightarrow> admin_token list" where
  "token_list records = sort_desc at_createdAt records"

fun token_revoke :: "string \<Rightarrow> ms \<Rightarrow> token_store \<Rightarrow> bool \<times> token_store" where
  "token_revoke name now [] = (False, [])"
| "token_revoke name now (r # rs) =
     (if at_name r = name \<and> at_revokedAt r = None then (True, r\<lparr>at_revokedAt := Some now\<rparr> # rs)
      else (let (done, rs') = token_revoke name now rs in (done, r # rs')))"

subsection \<open>Agents, the version floor, expiry\<close>

record agent_config =
  ag_id :: agent_id
  ag_token_hash :: string
  ag_expiresAtMs :: "ms option"
  ag_decoy :: bool
  ag_targets :: "string list option"
  ag_actions :: "string list option"
  ag_policy :: "string option"

definition agents_has :: "agent_config list \<Rightarrow> agent_id \<Rightarrow> bool" where
  "agents_has agents k = list_ex (\<lambda>a. ag_id a = k) agents"

definition agents_add :: "agent_config \<Rightarrow> agent_config list \<Rightarrow> (store_error + unit) \<times> agent_config list" where
  "agents_add agent agents =
     (if agents_has agents (ag_id agent) then (Inl (Duplicate (ag_id agent)), agents) else (Inr (), agents @ [agent]))"

record version_store =
  vs_version :: int
  vs_file :: file_content

definition version_load :: "file_content \<Rightarrow> store_error + int" where
  "version_load file =
     (case file of
        Absent \<Rightarrow> Inr 0
      | Unparsable \<Rightarrow> Inl InvalidJson
      | Document doc \<Rightarrow> (case num_field doc ''version'' of None \<Rightarrow> Inl Malformed | Some v \<Rightarrow> Inr v))"

definition version_open :: "file_content \<Rightarrow> store_error + version_store" where
  "version_open file = (case version_load file of Inl e \<Rightarrow> Inl e | Inr v \<Rightarrow> Inr \<lparr>vs_version = v, vs_file = file\<rparr>)"

definition version_floor :: "version_store \<Rightarrow> int" where
  "version_floor s = vs_version s"

definition version_accept :: "bool \<Rightarrow> int \<Rightarrow> version_store \<Rightarrow> (store_error + unit) \<times> version_store" where
  "version_accept disk version s =
     (if version \<le> vs_version s then (Inr (), s)
      else let s' = s\<lparr>vs_version := version\<rparr> in
        if disk then (Inr (), s'\<lparr>vs_file := Document (JObj [(''version'', JNum version)])\<rparr>)
        else (Inl WriteFailed, s'))"

datatype expiry_status = NoExpiry | Expired | Soon | ExpiryOk

definition WEEK_MS :: ms where "WEEK_MS = 7 * 86400000"

definition expiryStatus :: "ms option \<Rightarrow> ms \<Rightarrow> ms \<Rightarrow> expiry_status" where
  "expiryStatus expiresAtMs now soonMs =
     (case expiresAtMs of
        None \<Rightarrow> NoExpiry
      | Some e \<Rightarrow> if e \<le> now then Expired else if e - now \<le> soonMs then Soon else ExpiryOk)"

end
