(* ===== verification/Access_Props.thy ===== *)
theory Access_Props
  imports Access_Stores
begin

text \<open>
  What the access stores guarantee: revocations and the anti-rollback floors survive restarts,
  a failed write of the fleet set leaves the last good one enforced, revoking a name cuts its
  token, roles are deny-by-default, and the one race the token store has.
\<close>

subsection \<open>The kill list\<close>

definition rv_wf :: "revocation_store \<Rightarrow> bool" where
  "rv_wf s \<longleftrightarrow> distinct (alist_keys (rv_revoked s))
     \<and> (\<forall>(k, r)\<in>set (rv_revoked s). rr_agentId r = k \<and> length (rr_reason r) \<le> 200)"

lemma obj_of_filter: "obj_of enc m = obj_of enc (filter (\<lambda>kv. fst kv \<noteq> proto) m)"
proof -
  have "foldl (\<lambda>props (k, v). obj_assign props k (enc v)) p m =
        foldl (\<lambda>props (k, v). obj_assign props k (enc v)) p (filter (\<lambda>kv. fst kv \<noteq> proto) m)" for p
    by (induction m arbitrary: p) (auto simp: obj_assign_def)
  then show ?thesis by (simp add: obj_of_def)
qed

lemma dec_enc_revocation:
  "length (rr_reason r) \<le> 200 \<Longrightarrow> dec_revocation (rr_agentId r) (enc_revocation r) = Some r"
  by (simp add: dec_revocation_def enc_revocation_def str_field_def num_field_def)

text \<open>What a restart reads back: everything but an agent called \<open>__proto__\<close>.\<close>

lemma rv_load_document:
  assumes "rv_wf s"
  shows "rv_load (Document (rv_document (rv_revoked s))) = Inr (filter (\<lambda>kr. fst kr \<noteq> proto) (rv_revoked s))"
proof -
  let ?m = "filter (\<lambda>kr. fst kr \<noteq> proto) (rv_revoked s)"
  have vals: "map (\<lambda>r. (rr_agentId r, r)) (alist_values (rv_revoked s)) = rv_revoked s"
    using assms by (auto simp: rv_wf_def intro!: map_idI)
  have "dec_revocation k (enc_revocation r) = Some r" if "(k, r) \<in> set ?m" for k r
    using assms that dec_enc_revocation [of r] by (auto simp: rv_wf_def)
  then have "load_entries dec_revocation (obj_of enc_revocation ?m) = ?m"
    using assms by (intro load_entries_roundtrip) (auto simp: rv_wf_def distinct_map_filter)
  then have "load_entries dec_revocation (obj_of enc_revocation (rv_revoked s)) = ?m"
    by (subst obj_of_filter)
  then show ?thesis unfolding rv_load_def rv_document_def vals by (subst load_store_doc) simp_all
qed

inductive rv_reachable :: "revocation_store \<Rightarrow> bool" where
  rv_start: "rv_open Absent = Inr s \<Longrightarrow> rv_reachable s"
| rv_revoked: "rv_reachable s \<Longrightarrow> rv_reachable (snd (rv_revoke True agent reason now s))"
| rv_restored: "rv_reachable s \<Longrightarrow> rv_reachable (snd (rv_restore True agent s))"
| rv_reloaded: "rv_reachable s \<Longrightarrow> rv_reachable (snd (rv_reload s))"

definition rv_synced :: "revocation_store \<Rightarrow> bool" where
  "rv_synced s \<longleftrightarrow> rv_wf s \<and> rv_load (rv_file s) = Inr (filter (\<lambda>kr. fst kr \<noteq> proto) (rv_revoked s))"

lemma rv_wf_update:
  assumes "rv_wf s" "length (rr_reason r) \<le> 200" "rr_agentId r = agent"
  shows "rv_wf (s\<lparr>rv_revoked := AList.update agent r (rv_revoked s)\<rparr>)"
proof -
  have "set (AList.update agent r m) \<subseteq> insert (agent, r) (set m)" for m :: "(string \<times> revocation_record) list"
    by (induction m) auto
  with assms show ?thesis by (fastforce simp: rv_wf_def distinct_update)
qed

lemma rv_wf_delete: "rv_wf s \<Longrightarrow> rv_wf (s\<lparr>rv_revoked := AList.delete agent (rv_revoked s)\<rparr>)"
  by (auto simp: rv_wf_def AList.delete_eq distinct_map_filter)

lemma rv_reachable_synced: "rv_reachable s \<Longrightarrow> rv_synced s"
proof (induction rule: rv_reachable.induct)
  case (rv_start s)
  then show ?case by (auto simp: rv_open_def rv_load_def load_store_def rv_synced_def rv_wf_def)
next
  case (rv_revoked s agent reason now)
  let ?r = "\<lparr>rr_agentId = agent, rr_ts = now, rr_reason = take 200 reason\<rparr>"
  have "rv_wf (s\<lparr>rv_revoked := AList.update agent ?r (rv_revoked s)\<rparr>)"
    using rv_revoked by (intro rv_wf_update) (auto simp: rv_synced_def)
  with rv_load_document [OF this] show ?case
    by (simp add: rv_synced_def rv_revoke_def Let_def rv_persist_def rv_wf_def)
next
  case (rv_restored s agent)
  have wf: "rv_wf (s\<lparr>rv_revoked := AList.delete agent (rv_revoked s)\<rparr>)"
    using rv_restored by (intro rv_wf_delete) (auto simp: rv_synced_def)
  show ?case
  proof (cases "rv_isRevoked s agent")
    case True
    with wf rv_load_document [OF wf] show ?thesis
      by (simp add: rv_synced_def rv_restore_def Let_def rv_persist_def rv_wf_def)
  next
    case False
    then have "AList.delete agent (rv_revoked s) = rv_revoked s"
      by (intro delete_fresh) (simp add: rv_isRevoked_def map_of_eq_None_iff)
    with False rv_restored show ?thesis by (simp add: rv_restore_def)
  qed
next
  case (rv_reloaded s)
  then show ?case by (auto simp: rv_synced_def rv_reload_def rv_wf_def distinct_map_filter)
qed

lemma map_of_filter_key: "map_of (filter (\<lambda>kv. P (fst kv)) m) k = (if P k then map_of m k else None)"
  by (induction m) auto

text \<open>C36: the kill switch survives a restart: whatever revocations and restorations happened, opening the
  file again gives a store that cuts off exactly the same agents, the name \<open>__proto__\<close> excepted.\<close>
theorem kill_list_survives_restart:
  assumes "rv_reachable s"
  shows "\<exists>s'. rv_open (rv_file s) = Inr s' \<and> (\<forall>agent. rv_isRevoked s' agent \<longleftrightarrow> rv_isRevoked s agent \<and> agent \<noteq> proto)"
proof -
  from rv_reachable_synced [OF assms]
  have "rv_open (rv_file s) = Inr \<lparr>rv_revoked = filter (\<lambda>kr. fst kr \<noteq> proto) (rv_revoked s), rv_file = rv_file s\<rparr>"
    by (simp add: rv_synced_def rv_open_def)
  moreover have "map_of (filter (\<lambda>kr. fst kr \<noteq> proto) (rv_revoked s)) agent =
      (if agent \<noteq> proto then map_of (rv_revoked s) agent else None)" for agent
    by (rule map_of_filter_key)
  ultimately show ?thesis unfolding rv_isRevoked_def by auto
qed

text \<open>the effect of a revocation is immediate and confined: in the running store it cuts off the agent
  and changes nobody else, even when the write to disk fails.\<close>
theorem revoke_is_immediate:
  "rv_isRevoked (snd (rv_revoke disk agent reason now s)) other \<longleftrightarrow> other = agent \<or> rv_isRevoked s other"
  by (simp add: rv_isRevoked_def rv_revoke_def Let_def rv_persist_def)

subsection \<open>Floors\<close>

text \<open>A store whose floor only rises and is what a restart reads back.\<close>

locale version_floor_store =
  fixes flr :: "'s \<Rightarrow> int"
    and accept :: "int \<Rightarrow> 's \<Rightarrow> 's"
    and restart :: "'s \<Rightarrow> 's option"
    and ok :: "'s \<Rightarrow> bool"
  assumes accept_floor: "flr (accept v s) = max (flr s) v"
    and accept_ok: "ok s \<Longrightarrow> ok (accept v s)"
    and restart_ok: "ok s \<Longrightarrow> \<exists>s'. restart s = Some s' \<and> flr s' = flr s \<and> ok s'"
begin

lemma floor_fold: "flr (foldl (\<lambda>s v. accept v s) s vs) = Max (insert (flr s) (set vs))"
proof (induction vs arbitrary: s)
  case Nil
  then show ?case by simp
next
  case (Cons v vs)
  then show ?case by (simp add: accept_floor Max_insert_max del: Max_insert)
qed

lemma ok_fold: "ok s \<Longrightarrow> ok (foldl (\<lambda>s v. accept v s) s vs)"
  by (induction vs arbitrary: s) (auto intro: accept_ok)

lemma no_rollback:
  assumes "ok s" "v \<in> set vs"
  shows "\<exists>s'. restart (foldl (\<lambda>s v. accept v s) s vs) = Some s' \<and> v \<le> flr s'"
proof -
  obtain s' where "restart (foldl (\<lambda>s v. accept v s) s vs) = Some s'"
    "flr s' = flr (foldl (\<lambda>s v. accept v s) s vs)"
    using restart_ok [OF ok_fold [OF assms(1)]] by blast
  with assms(2) show ?thesis unfolding floor_fold by auto
qed

end

definition version_ok :: "version_store \<Rightarrow> bool" where
  "version_ok s \<longleftrightarrow> version_load (vs_file s) = Inr (vs_version s)"

definition version_restart :: "version_store \<Rightarrow> version_store option" where
  "version_restart s = (case version_open (vs_file s) of Inl _ \<Rightarrow> None | Inr s' \<Rightarrow> Some s')"

interpretation policy_floor: version_floor_store version_floor "\<lambda>v s. snd (version_accept True v s)" version_restart version_ok
  by unfold_locales
     (auto simp: version_floor_def version_accept_def version_ok_def version_restart_def version_open_def Let_def
        version_load_def num_field_def)

text \<open>no replay across restarts: after accepting versions in any order, a restarted proxy still has a
  floor at least as high as every version it ever accepted.\<close>
theorem accepted_version_is_floor_after_restart:
  assumes "version_ok s" "v \<in> set vs"
  shows "\<exists>s'. version_open (vs_file (foldl (\<lambda>s v. snd (version_accept True v s)) s vs)) = Inr s' \<and> v \<le> version_floor s'"
  using policy_floor.no_rollback [OF assms] by (auto simp: version_restart_def split: sum.splits)

subsection \<open>The fleet set\<close>

lemma fleet_load_document:
  "fleet_load (Document (fleet_document agents v e)) = Inr (remdups (sort agents), v, e)"
  by (cases e) (simp_all add: fleet_load_def fleet_document_def num_field_def list_all_iff)

text \<open>the fleet kill set is replaced all or nothing: a failed write leaves the enforced set, version and
  file as they were; a successful one enforces exactly the new set, and so does the next restart.\<close>
theorem fleet_replace_atomic:
  "case fleet_replace disk agents v e s of
     (Inl _, s') \<Rightarrow> s' = s
   | (Inr _, s') \<Rightarrow> (\<forall>a. fleet_has s' a \<longleftrightarrow> a \<in> set agents) \<and> fleet_floor s' = v \<and>
       (\<exists>s''. fleet_open (fl_file s') = Inr s'' \<and> (\<forall>a. fleet_has s'' a \<longleftrightarrow> a \<in> set agents) \<and> fleet_floor s'' = v)"
  by (cases disk) (simp_all add: fleet_replace_def fleet_has_def fleet_floor_def fleet_open_def fleet_load_document Let_def)

subsection \<open>Roles and admin tokens\<close>

text \<open>the console is deny-by-default: every route needs the admin role, except reads outside the operator
  roster (viewer) and the two decisions on an approval (approver).\<close>
theorem requiredRole_deny_by_default:
  "requiredRole m p = Admin \<longleftrightarrow>
     (p = ''/console/tokens'' \<or> starts_with p ''/console/tokens/'')
     \<or> \<not> (m = ''GET'' \<and> (p = ''/metrics'' \<or> starts_with p ''/console/''))
       \<and> \<not> (m = ''POST'' \<and> approval_decision_path p)"
  by (auto simp: requiredRole_def)

definition one_live_per_name :: "token_store \<Rightarrow> bool" where
  "one_live_per_name records \<longleftrightarrow> distinct (map at_name (filter (\<lambda>r. at_revokedAt r = None) records))"

lemma one_live_create: "one_live_per_name records \<Longrightarrow> one_live_per_name (snd (token_create name rl h now records))"
  by (auto simp: one_live_per_name_def token_create_def token_create_check_def token_create_push_def list_ex_iff
      split: sum.splits if_splits)

lemma token_revoke_names:
  "map at_name (filter (\<lambda>r. at_revokedAt r = None) (snd (token_revoke name now records))) =
   remove1 name (map at_name (filter (\<lambda>r. at_revokedAt r = None) records))"
  by (induction records) (auto simp: case_prod_beta)

lemma one_live_revoke: "one_live_per_name records \<Longrightarrow> one_live_per_name (snd (token_revoke name now records))"
  unfolding one_live_per_name_def token_revoke_names by (rule distinct_remove1)

lemma token_resolve_live:
  "token_resolve h now records = Some (name, rl, sub) \<Longrightarrow> name \<in> set (map at_name (filter (\<lambda>r. at_revokedAt r = None) records))"
  by (auto simp: token_resolve_def token_live_def dest!: find_SomeD)

text \<open>The states of the token store when creations do not overlap.\<close>

inductive tokens_reachable :: "token_store \<Rightarrow> bool" where
  tokens_none: "tokens_reachable []"
| tokens_create: "tokens_reachable records \<Longrightarrow> tokens_reachable (snd (token_create name rl h now records))"
| tokens_revoke: "tokens_reachable records \<Longrightarrow> tokens_reachable (snd (token_revoke name now records))"

lemma tokens_reachable_one_live: "tokens_reachable records \<Longrightarrow> one_live_per_name records"
  by (induction rule: tokens_reachable.induct)
     (auto simp: one_live_per_name_def [of "[]"] intro: one_live_create one_live_revoke)

text \<open>revoking a name cuts it off: in every state that creations and revocations reach without
  overlapping, once a name is revoked no token resolves to it.\<close>
theorem revoked_name_never_resolves:
  assumes "tokens_reachable records"
  shows "token_resolve h t (snd (token_revoke name now records)) \<noteq> Some (name, rl, sub)"
proof -
  have "name \<notin> set (map at_name (filter (\<lambda>r. at_revokedAt r = None) (snd (token_revoke name now records))))"
    using tokens_reachable_one_live [OF assms] unfolding token_revoke_names one_live_per_name_def by simp
  then show ?thesis by (blast dest: token_resolve_live)
qed

lemma find_append_None: "List.find P xs = None \<Longrightarrow> List.find P (xs @ ys) = List.find P ys"
  by (induction xs) (auto split: if_splits)

lemma token_revoke_skips:
  "\<exists>r\<in>set xs. at_name r = name \<and> at_revokedAt r = None \<Longrightarrow>
   snd (token_revoke name now (xs @ ys)) = snd (token_revoke name now xs) @ ys"
  by (induction xs) (auto simp: case_prod_beta)

lemma token_revoke_hashes: "map at_tokenHash (snd (token_revoke name now rs)) = map at_tokenHash rs"
  by (induction rs) (auto simp: case_prod_beta)

text \<open>two overlapping requests to create the same name both pass the duplicate check, because the secret
  is hashed between the check and the push: both tokens live, and revoking the name leaves the
  second one valid.\<close>
theorem concurrent_create_escapes_revoke:
  assumes "token_create_check name records = Inr ()" "h1 \<noteq> h2" "h2 \<notin> set (map at_tokenHash records)"
  shows "token_resolve h2 later (snd (token_revoke name now
           (token_create_push name rl2 h2 t2 (token_create_push name rl1 h1 t1 records)))) = Some (name, rl2, None)"
proof -
  let ?r2 = "\<lparr>at_name = name, at_role = rl2, at_tokenHash = h2, at_createdAt = t2, at_revokedAt = None,
       at_subject = None, at_expiresAt = None\<rparr>"
  let ?xs = "token_create_push name rl1 h1 t1 records"
  have "\<exists>r\<in>set ?xs. at_name r = name \<and> at_revokedAt r = None" by (simp add: token_create_push_def)
  then have "snd (token_revoke name now (?xs @ [?r2])) = snd (token_revoke name now ?xs) @ [?r2]"
    by (rule token_revoke_skips)
  moreover have "h2 \<notin> set (map at_tokenHash (snd (token_revoke name now ?xs)))"
    unfolding token_revoke_hashes using assms(2,3) by (auto simp: token_create_push_def)
  then have "List.find (\<lambda>r. at_tokenHash r = h2 \<and> token_live later r) (snd (token_revoke name now ?xs)) = None"
    by (auto simp: find_None_iff)
  then have "List.find (\<lambda>r. at_tokenHash r = h2 \<and> token_live later r) (snd (token_revoke name now ?xs) @ [?r2]) = Some ?r2"
    by (simp add: find_append_None token_live_def)
  ultimately show ?thesis by (simp add: token_resolve_def token_create_push_def)
qed

text \<open>agent ids stay unique: adding an agent keeps ids distinct, refuses a known id and otherwise makes
  the agent known.\<close>
theorem agents_add_unique:
  assumes "distinct (map ag_id agents)"
  shows "distinct (map ag_id (snd (agents_add a agents))) \<and> agents_has (snd (agents_add a agents)) (ag_id a)
     \<and> (agents_has agents (ag_id a) \<longrightarrow> snd (agents_add a agents) = agents)"
  using assms by (auto simp: agents_add_def agents_has_def list_ex_iff)

end
