(* ===== verification/Approvals.thy ===== *)
theory Approvals
  imports Grenz_Prelude
begin

text \<open>
  The approval broker (\<^verbatim>\<open>approvals/broker.ts\<close>) and the memory of human decisions
  (\<^verbatim>\<open>approvals/memory.ts\<close>). The promise a held request waits on is modelled by the log of
  outcomes the broker resolved, the armed timer of an entry by the event that fires it. Ids
  and clock readings are arguments. Operations are the methods of the class; a history of
  the broker is a list of events.
\<close>

subsection \<open>The broker\<close>

datatype approval_state = Pending | Approved | Denied | ApprovalExpired | Abandoned

record approval_input =
  ai_agentId :: agent_id
  ai_upstream :: string
  ai_tool :: string
  ai_action :: string
  ai_target :: string
  ai_method :: string
  ai_context :: "string option"

record approval_record =
  ap_input :: approval_input
  ap_id :: string
  ap_requestedAt :: ms
  ap_expiresAt :: ms
  ap_state :: approval_state
  ap_decidedBy :: "string option"
  ap_quorum :: int
  ap_approvedBy :: "string list"

record approval_outcome =
  ao_state :: approval_state
  ao_decidedBy :: "string option"

datatype approve_status = Settled | Recorded | DuplicateApprover | NotFound

record approve_result =
  as_status :: approve_status
  as_approvals :: int
  as_quorum :: int

record broker =
  br_ttlMs :: ms
  br_maxPending :: nat
  br_entries :: "(string \<times> approval_record) list"
  br_settled :: "(string \<times> approval_outcome) list"

definition new_broker :: "ms \<Rightarrow> nat \<Rightarrow> broker" where
  "new_broker ttlMs maxPending = \<lparr>br_ttlMs = ttlMs, br_maxPending = maxPending, br_entries = [], br_settled = []\<rparr>"

definition br_atCapacity :: "broker \<Rightarrow> bool" where
  "br_atCapacity b \<longleftrightarrow> length (br_entries b) \<ge> br_maxPending b"

definition br_create :: "string \<Rightarrow> ms \<Rightarrow> approval_input \<Rightarrow> int \<Rightarrow> broker \<Rightarrow> broker" where
  "br_create newId now inp quorum b =
     (let rec = \<lparr>ap_input = inp, ap_id = newId, ap_requestedAt = now, ap_expiresAt = now + br_ttlMs b,
                 ap_state = Pending, ap_decidedBy = None, ap_quorum = max 1 quorum, ap_approvedBy = []\<rparr>
      in b\<lparr>br_entries := AList.update newId rec (br_entries b)\<rparr>)"

definition br_settle :: "string \<Rightarrow> approval_state \<Rightarrow> string option \<Rightarrow> broker \<Rightarrow> bool \<times> broker" where
  "br_settle k st decidedBy b =
     (case map_of (br_entries b) k of
        None \<Rightarrow> (False, b)
      | Some rec \<Rightarrow>
          if ap_state rec \<noteq> Pending then (False, b)
          else (True, b\<lparr>br_entries := AList.delete k (br_entries b),
                        br_settled := br_settled b @ [(k, \<lparr>ao_state = st, ao_decidedBy = decidedBy\<rparr>)]\<rparr>))"

definition br_approveBy :: "string \<Rightarrow> string \<Rightarrow> broker \<Rightarrow> approve_result \<times> broker" where
  "br_approveBy k approver b =
     (case map_of (br_entries b) k of
        None \<Rightarrow> (\<lparr>as_status = NotFound, as_approvals = 0, as_quorum = 0\<rparr>, b)
      | Some rec \<Rightarrow>
          if ap_state rec \<noteq> Pending then (\<lparr>as_status = NotFound, as_approvals = 0, as_quorum = 0\<rparr>, b)
          else
            let duplicate = approver \<in> set (ap_approvedBy rec);
                approvedBy = (if duplicate then ap_approvedBy rec else ap_approvedBy rec @ [approver]);
                b' = b\<lparr>br_entries := AList.update k (rec\<lparr>ap_approvedBy := approvedBy\<rparr>) (br_entries b)\<rparr>;
                n = int (length approvedBy)
            in if n \<ge> ap_quorum rec
               then (\<lparr>as_status = Settled, as_approvals = n, as_quorum = ap_quorum rec\<rparr>,
                     snd (br_settle k Approved (Some approver) b'))
               else (\<lparr>as_status = (if duplicate then DuplicateApprover else Recorded),
                      as_approvals = n, as_quorum = ap_quorum rec\<rparr>, b'))"

definition br_approve :: "string \<Rightarrow> string \<Rightarrow> broker \<Rightarrow> bool \<times> broker" where
  "br_approve k approver b = (let (r, b') = br_approveBy k approver b in (as_status r = Settled, b'))"

definition br_deny :: "string \<Rightarrow> string \<Rightarrow> broker \<Rightarrow> bool \<times> broker" where
  "br_deny k approver b = br_settle k Denied (Some approver) b"

definition br_cancel :: "string \<Rightarrow> broker \<Rightarrow> bool \<times> broker" where
  "br_cancel k b = br_settle k Abandoned None b"

definition br_list :: "broker \<Rightarrow> approval_record list" where
  "br_list b = sort_key ap_requestedAt (alist_values (br_entries b))"

definition br_get :: "broker \<Rightarrow> string \<Rightarrow> approval_record option" where
  "br_get b k = map_of (br_entries b) k"

definition br_pendingCount :: "broker \<Rightarrow> nat" where
  "br_pendingCount b = length (br_entries b)"

definition br_drain :: "broker \<Rightarrow> broker" where
  "br_drain b = foldl (\<lambda>b k. snd (br_settle k ApprovalExpired None b)) b (alist_keys (br_entries b))"

subsection \<open>Histories\<close>

datatype broker_event =
    Create string ms approval_input int
  | Approve string string
  | Reject string string
  | Cancel string
  | TimerFires string
  | Drain

fun br_event :: "broker \<Rightarrow> broker_event \<Rightarrow> broker" where
  "br_event b (Create k now inp q) = br_create k now inp q b"
| "br_event b (Approve k approver) = snd (br_approveBy k approver b)"
| "br_event b (Reject k approver) = snd (br_deny k approver b)"
| "br_event b (Cancel k) = snd (br_cancel k b)"
| "br_event b (TimerFires k) = snd (br_settle k ApprovalExpired None b)"
| "br_event b Drain = br_drain b"

definition br_run :: "broker \<Rightarrow> broker_event list \<Rightarrow> broker" where
  "br_run b evs = foldl br_event b evs"

fun created_ids :: "broker_event list \<Rightarrow> string list" where
  "created_ids [] = []"
| "created_ids (Create k now inp q # evs) = k # created_ids evs"
| "created_ids (_ # evs) = created_ids evs"

definition approvers_of :: "string \<Rightarrow> broker_event list \<Rightarrow> string set" where
  "approvers_of k evs = {approver. Approve k approver \<in> set evs}"

subsection \<open>The memory of decisions\<close>

datatype remembered = RememberApproved | RememberDenied

record memory_key_input =
  mk_agentId :: agent_id
  mk_tool :: string
  mk_action :: string
  mk_target :: string

record approval_memory =
  am_ttlMs :: ms
  am_entries :: "(string \<times> remembered \<times> ms) list"

definition NUL :: char where "NUL = CHR 0x00"

definition memory_key :: "memory_key_input \<Rightarrow> string" where
  "memory_key inp = mk_agentId inp @ NUL # mk_tool inp @ NUL # mk_action inp @ NUL # mk_target inp"

definition MAX_ENTRIES :: nat where "MAX_ENTRIES = 1000"

definition am_remember :: "ms \<Rightarrow> memory_key_input \<Rightarrow> remembered \<Rightarrow> approval_memory \<Rightarrow> approval_memory" where
  "am_remember now inp outcome m =
     (if am_ttlMs m \<le> 0 then m
      else
        let key = memory_key inp;
            es = AList.update key (outcome, now + am_ttlMs m) (AList.delete key (am_entries m));
            es' = (if length es > MAX_ENTRIES
                   then (case es of [] \<Rightarrow> es | (oldest, _) # _ \<Rightarrow> AList.delete oldest es) else es)
        in m\<lparr>am_entries := es'\<rparr>)"

definition am_recall :: "ms \<Rightarrow> memory_key_input \<Rightarrow> approval_memory \<Rightarrow> remembered option \<times> approval_memory" where
  "am_recall now inp m =
     (let key = memory_key inp in
      case map_of (am_entries m) key of
        None \<Rightarrow> (None, m)
      | Some (outcome, expiresAt) \<Rightarrow>
          if expiresAt \<le> now then (None, m\<lparr>am_entries := AList.delete key (am_entries m)\<rparr>)
          else (Some outcome, m))"

definition am_clear :: "approval_memory \<Rightarrow> approval_memory" where
  "am_clear m = m\<lparr>am_entries := []\<rparr>"

definition am_size :: "approval_memory \<Rightarrow> nat" where
  "am_size m = length (am_entries m)"

subsection \<open>Invariants of the broker\<close>

definition record_ok :: "string \<times> approval_record \<Rightarrow> bool" where
  "record_ok kr \<longleftrightarrow> ap_id (snd kr) = fst kr \<and> ap_state (snd kr) = Pending \<and> 1 \<le> ap_quorum (snd kr)
     \<and> distinct (ap_approvedBy (snd kr)) \<and> int (length (ap_approvedBy (snd kr))) < ap_quorum (snd kr)"

definition br_wf :: "broker \<Rightarrow> bool" where
  "br_wf b \<longleftrightarrow> distinct (alist_keys (br_entries b)) \<and> (\<forall>kr\<in>set (br_entries b). record_ok kr)
     \<and> distinct (map fst (br_settled b)) \<and> set (map fst (br_settled b)) \<inter> set (alist_keys (br_entries b)) = {}"

lemma br_wf_settle:
  assumes "br_wf b" shows "br_wf (snd (br_settle k st d b))"
proof (cases "map_of (br_entries b) k")
  case None
  with assms show ?thesis by (simp add: br_settle_def)
next
  case (Some rec)
  then have "k \<in> set (alist_keys (br_entries b))" by (force dest: map_of_SomeD)
  with assms Some show ?thesis
    by (auto simp: br_wf_def br_settle_def set_alist_delete keys_alist_delete distinct_delete
        simp del: set_map)
qed

end
