(* ===== verification/Approvals_Props.thy ===== *)
theory Approvals_Props
  imports Approvals
begin

text \<open>
  What the broker and the memory guarantee over every history: an approval needs its quorum of
  distinct humans, a request is settled at most once and its outcome is final, shutdown leaves
  nobody waiting; only human decisions are remembered, exactly for the window.
\<close>

subsection \<open>Histories of the broker\<close>

lemma approveBy_state:
  "snd (br_approveBy k a b) =
     (case map_of (br_entries b) k of
        None \<Rightarrow> b
      | Some rec \<Rightarrow>
          if ap_state rec \<noteq> Pending then b
          else let approvedBy = (if a \<in> set (ap_approvedBy rec) then ap_approvedBy rec else ap_approvedBy rec @ [a]) in
            if int (length approvedBy) \<ge> ap_quorum rec
            then b\<lparr>br_entries := AList.delete k (br_entries b),
                   br_settled := br_settled b @ [(k, \<lparr>ao_state = Approved, ao_decidedBy = Some a\<rparr>)]\<rparr>
            else b\<lparr>br_entries := AList.update k (rec\<lparr>ap_approvedBy := approvedBy\<rparr>) (br_entries b)\<rparr>)"
  by (auto simp: br_approveBy_def br_settle_def Let_def delete_update_same split: option.splits)

text \<open>What a history has established about one broker state.\<close>

definition created_with :: "broker_event list \<Rightarrow> string \<Rightarrow> int \<Rightarrow> bool" where
  "created_with evs k q \<longleftrightarrow> (\<exists>now inp n. Create k now inp n \<in> set evs \<and> q = max 1 n)"

definition entry_hist :: "broker_event list \<Rightarrow> string \<times> approval_record \<Rightarrow> bool" where
  "entry_hist evs kr \<longleftrightarrow> record_ok kr \<and> created_with evs (fst kr) (ap_quorum (snd kr))
     \<and> set (ap_approvedBy (snd kr)) \<subseteq> approvers_of (fst kr) evs"

definition settled_hist :: "broker_event list \<Rightarrow> string \<times> approval_outcome \<Rightarrow> bool" where
  "settled_hist evs ko \<longleftrightarrow> (\<exists>q. created_with evs (fst ko) q) \<and> (ao_state (snd ko) = Approved \<longrightarrow>
     (\<exists>q. created_with evs (fst ko) q \<and> q \<le> int (card (approvers_of (fst ko) evs))))"

definition hist :: "broker_event list \<Rightarrow> broker \<Rightarrow> bool" where
  "hist evs b \<longleftrightarrow> distinct (alist_keys (br_entries b)) \<and> distinct (alist_keys (br_settled b))
     \<and> set (alist_keys (br_settled b)) \<inter> set (alist_keys (br_entries b)) = {}
     \<and> (\<forall>kr\<in>set (br_entries b). entry_hist evs kr) \<and> (\<forall>ko\<in>set (br_settled b). settled_hist evs ko)"

lemma created_with_mono: "set evs \<subseteq> set evs' \<Longrightarrow> created_with evs k q \<Longrightarrow> created_with evs' k q"
  by (auto simp: created_with_def)

lemma approvers_mono: "set evs \<subseteq> set evs' \<Longrightarrow> approvers_of k evs \<subseteq> approvers_of k evs'"
  by (auto simp: approvers_of_def)

lemma finite_approvers [simp]: "finite (approvers_of k evs)"
proof -
  have "approvers_of k evs \<subseteq> (\<lambda>e. case e of Approve _ a \<Rightarrow> a | _ \<Rightarrow> []) ` set evs"
    by (force simp: approvers_of_def)
  then show ?thesis by (rule finite_subset) simp
qed

lemma entry_hist_mono: "set evs \<subseteq> set evs' \<Longrightarrow> entry_hist evs kr \<Longrightarrow> entry_hist evs' kr"
  unfolding entry_hist_def using created_with_mono approvers_mono by blast

lemma settled_hist_mono:
  assumes "set evs \<subseteq> set evs'" "settled_hist evs ko" shows "settled_hist evs' ko"
proof -
  have "card (approvers_of (fst ko) evs) \<le> card (approvers_of (fst ko) evs')"
    by (rule card_mono) (auto simp: approvers_mono [OF assms(1)])
  with assms show ?thesis unfolding settled_hist_def using created_with_mono by (meson of_nat_mono order_trans)
qed

lemma hist_mono: "set evs \<subseteq> set evs' \<Longrightarrow> hist evs b \<Longrightarrow> hist evs' b"
  unfolding hist_def using entry_hist_mono settled_hist_mono by blast

lemma hist_settle_as:
  assumes "hist evs b" "map_of (br_entries b) k = Some rec" "settled_hist evs (k, out)"
  shows "hist evs (b\<lparr>br_entries := AList.delete k (br_entries b), br_settled := br_settled b @ [(k, out)]\<rparr>)"
proof -
  have "k \<in> set (alist_keys (br_entries b))" using assms(2) by (force dest: map_of_SomeD)
  with assms show ?thesis
    by (auto simp: hist_def set_alist_delete keys_alist_delete distinct_delete simp del: set_map)
qed

lemma hist_settle:
  assumes "hist evs b" "st \<noteq> Approved" shows "hist evs (snd (br_settle k st d b))"
proof (cases "map_of (br_entries b) k")
  case None
  with assms show ?thesis by (simp add: br_settle_def)
next
  case (Some rec)
  then have "entry_hist evs (k, rec)" using assms(1) by (auto simp: hist_def dest: map_of_SomeD)
  then have "settled_hist evs (k, \<lparr>ao_state = st, ao_decidedBy = d\<rparr>)"
    using assms(2) by (auto simp: settled_hist_def entry_hist_def)
  with hist_settle_as [OF assms(1) Some] Some assms(1) show ?thesis by (simp add: br_settle_def)
qed

lemma hist_update:
  assumes "hist evs b" "entry_hist evs (k, rec)" "k \<notin> set (alist_keys (br_settled b))"
  shows "hist evs (b\<lparr>br_entries := AList.update k rec (br_entries b)\<rparr>)"
  using assms by (auto simp: hist_def set_alist_update keys_alist_update distinct_update simp del: set_map)

lemma hist_approve:
  assumes h: "hist evs b" shows "hist (evs @ [Approve k a]) (snd (br_approveBy k a b))"
proof (cases "map_of (br_entries b) k")
  case None
  with h show ?thesis by (auto simp: approveBy_state intro: hist_mono [of evs])
next
  case (Some rec)
  let ?evs = "evs @ [Approve k a]"
  let ?by = "if a \<in> set (ap_approvedBy rec) then ap_approvedBy rec else ap_approvedBy rec @ [a]"
  have h': "hist ?evs b" using h by (rule hist_mono [rotated]) auto
  have e: "entry_hist evs (k, rec)" using h Some by (auto simp: hist_def dest: map_of_SomeD)
  then have rec: "ap_state rec = Pending" "created_with ?evs k (ap_quorum rec)" "distinct ?by" "ap_id rec = k" "1 \<le> ap_quorum rec"
    "set ?by \<subseteq> approvers_of k ?evs"
    by (auto simp: entry_hist_def record_ok_def approvers_of_def created_with_def)
  have kin: "k \<notin> set (alist_keys (br_settled b))" using h Some by (force simp: hist_def dest: map_of_SomeD)
  show ?thesis
  proof (cases "ap_quorum rec \<le> int (length ?by)")
    case True
    have "length ?by \<le> card (approvers_of k ?evs)"
      using rec(3,6) by (metis card_mono distinct_card finite_approvers)
    with True have "ap_quorum rec \<le> int (card (approvers_of k ?evs))" by linarith
    with rec(2) have "settled_hist ?evs (k, \<lparr>ao_state = Approved, ao_decidedBy = Some a\<rparr>)"
      by (auto simp: settled_hist_def)
    from hist_settle_as [OF h' Some this] True rec(1) Some show ?thesis
      by (simp add: approveBy_state Let_def)
  next
    case False
    have "entry_hist ?evs (k, rec\<lparr>ap_approvedBy := ?by\<rparr>)"
      using rec False by (simp add: entry_hist_def record_ok_def)
    from hist_update [OF h' this kin] False rec(1) Some show ?thesis
      by (simp add: approveBy_state Let_def)
  qed
qed

lemma hist_create:
  assumes h: "hist evs b" and fresh: "\<And>q. \<not> created_with evs k q"
  shows "hist (evs @ [Create k now inp q]) (br_create k now inp q b)"
proof -
  let ?evs = "evs @ [Create k now inp q]"
  have h': "hist ?evs b" using h by (rule hist_mono [rotated]) auto
  have "k \<notin> set (alist_keys (br_settled b))" using h fresh by (force simp: hist_def settled_hist_def)
  moreover have "entry_hist ?evs (k, \<lparr>ap_input = inp, ap_id = k, ap_requestedAt = now, ap_expiresAt = now + br_ttlMs b,
                 ap_state = Pending, ap_decidedBy = None, ap_quorum = max 1 q, ap_approvedBy = []\<rparr>)"
    by (auto simp: entry_hist_def record_ok_def created_with_def)
  ultimately show ?thesis using hist_update [OF h'] by (simp add: br_create_def Let_def)
qed

lemma drain_fold:
  assumes "hist evs b"
  shows "hist evs (foldl (\<lambda>b k. snd (br_settle k ApprovalExpired None b)) b ks)"
  using assms by (induction ks arbitrary: b) (auto intro: hist_settle)

lemma created_ids_iff: "k \<in> set (created_ids evs) \<longleftrightarrow> (\<exists>q. created_with evs k q)"
  by (induction evs rule: created_ids.induct) (auto simp: created_with_def)

lemma created_ids_append: "created_ids (evs @ evs') = created_ids evs @ created_ids evs'"
  by (induction evs rule: created_ids.induct) auto

lemma hist_run:
  "distinct (created_ids evs) \<Longrightarrow> hist evs (br_run (new_broker ttl cap) evs)"
proof (induction evs rule: rev_induct)
  case Nil
  then show ?case by (simp add: br_run_def new_broker_def hist_def)
next
  case (snoc e evs)
  let ?b = "br_run (new_broker ttl cap) evs"
  have "distinct (created_ids evs)" using snoc.prems by (simp add: created_ids_append)
  with snoc.IH have h: "hist evs ?b" .
  have run: "br_run (new_broker ttl cap) (evs @ [e]) = br_event ?b e" by (simp add: br_run_def)
  have mono: "hist evs b \<Longrightarrow> hist (evs @ [e]) b" for b by (rule hist_mono) auto
  show ?case
  proof (cases e)
    case (Create k now inp q)
    then have "k \<notin> set (created_ids evs)" using snoc.prems by (simp add: created_ids_append)
    then have "\<not> created_with evs k q'" for q' using created_ids_iff by blast
    from hist_create [OF h this] show ?thesis unfolding run unfolding Create by simp
  next
    case (Approve k a)
    then show ?thesis unfolding run using hist_approve [OF h] by simp
  next
    case (Reject k a)
    have "hist (evs @ [e]) (snd (br_settle k Denied (Some a) ?b))" using h by (intro mono hist_settle) auto
    then show ?thesis unfolding run unfolding Reject by (simp add: br_deny_def)
  next
    case (Cancel k)
    have "hist (evs @ [e]) (snd (br_settle k Abandoned None ?b))" using h by (intro mono hist_settle) auto
    then show ?thesis unfolding run unfolding Cancel by (simp add: br_cancel_def)
  next
    case (TimerFires k)
    have "hist (evs @ [e]) (snd (br_settle k ApprovalExpired None ?b))" using h by (intro mono hist_settle) auto
    then show ?thesis unfolding run unfolding TimerFires by simp
  next
    case Drain
    have "hist (evs @ [e]) (br_drain ?b)" unfolding br_drain_def using h by (intro mono drain_fold)
    then show ?thesis unfolding run unfolding Drain by simp
  qed
qed

lemma settle_keys: "br_entries (snd (br_settle k st d b)) = AList.delete k (br_entries b) \<or>
    br_entries (snd (br_settle k st d b)) = br_entries b"
  by (auto simp: br_settle_def split: option.splits)

subsection \<open>Properties of the broker\<close>

text \<open>no approval without its quorum: over every history with fresh ids, a request that was settled
  approved had been approved by at least its quorum of distinct humans (at least one).\<close>
theorem approval_needs_distinct_quorum:
  assumes "distinct (created_ids evs)"
    and "(k, out) \<in> set (br_settled (br_run (new_broker ttl cap) evs))" and "ao_state out = Approved"
  shows "\<exists>now inp q. Create k now inp q \<in> set evs \<and> max 1 q \<le> int (card (approvers_of k evs))"
proof -
  from hist_run [OF assms(1)] assms(2) have "settled_hist evs (k, out)" by (auto simp: hist_def)
  with assms(3) obtain q where q: "created_with evs k q" "q \<le> int (card (approvers_of k evs))"
    by (auto simp: settled_hist_def)
  from q(1) obtain now inp n where "Create k now inp n \<in> set evs" "q = max 1 n" unfolding created_with_def by blast
  with q(2) show ?thesis by blast
qed

text \<open>C37: a held request is settled at most once, whatever races between approvers, the timer, a client that
  hangs up and shutdown, and what is settled is no longer pending.\<close>
theorem settled_at_most_once:
  assumes "distinct (created_ids evs)"
  shows "distinct (map fst (br_settled (br_run (new_broker ttl cap) evs)))
     \<and> set (map fst (br_settled (br_run (new_broker ttl cap) evs)))
         \<inter> set (map fst (br_entries (br_run (new_broker ttl cap) evs))) = {}"
  using hist_run [OF assms] by (simp add: hist_def)

lemma drain_gen:
  assumes "\<forall>kr\<in>set (br_entries b). ap_state (snd kr) = Pending" "distinct ks" "set ks \<subseteq> set (alist_keys (br_entries b))"
  shows "br_entries (foldl (\<lambda>b k. snd (br_settle k ApprovalExpired None b)) b ks) =
           filter (\<lambda>kr. fst kr \<notin> set ks) (br_entries b)
     \<and> br_settled (foldl (\<lambda>b k. snd (br_settle k ApprovalExpired None b)) b ks) =
           br_settled b @ map (\<lambda>k. (k, \<lparr>ao_state = ApprovalExpired, ao_decidedBy = None\<rparr>)) ks"
  using assms
proof (induction ks arbitrary: b)
  case Nil
  then show ?case by simp
next
  case (Cons k ks)
  let ?b = "snd (br_settle k ApprovalExpired None b)"
  from Cons.prems(3) obtain rec where rec: "map_of (br_entries b) k = Some rec" by (auto simp: map_of_eq_None_iff dest: weak_map_of_SomeI)
  with Cons.prems(1) have "ap_state rec = Pending" by (metis map_of_SomeD snd_conv)
  with rec have b: "br_entries ?b = filter (\<lambda>kr. fst kr \<noteq> k) (br_entries b)"
    "br_settled ?b = br_settled b @ [(k, \<lparr>ao_state = ApprovalExpired, ao_decidedBy = None\<rparr>)]"
    by (simp_all add: br_settle_def AList.delete_eq) (rule filter_cong, auto)
  have "\<forall>kr\<in>set (br_entries ?b). ap_state (snd kr) = Pending" using Cons.prems(1) by (simp add: b)
  moreover have "set ks \<subseteq> set (alist_keys (br_entries ?b))" using Cons.prems(2,3) by (force simp: b)
  ultimately show ?case using Cons.IH [of ?b] Cons.prems(2) by (simp add: b conj_commute)
qed

text \<open>shutdown strands nobody: draining leaves no pending request and resolves every one that was pending
  as expired, so each held request gets its denial.\<close>
theorem drain_settles_everyone:
  assumes "distinct (created_ids evs)"
  shows "br_entries (br_run (new_broker ttl cap) (evs @ [Drain])) = []
     \<and> (\<forall>k\<in>set (map fst (br_entries (br_run (new_broker ttl cap) evs))).
          (k, \<lparr>ao_state = ApprovalExpired, ao_decidedBy = None\<rparr>) \<in> set (br_settled (br_run (new_broker ttl cap) (evs @ [Drain]))))"
proof -
  let ?b = "br_run (new_broker ttl cap) evs"
  have h: "hist evs ?b" using assms by (rule hist_run)
  have run: "br_run (new_broker ttl cap) (evs @ [Drain]) = br_drain ?b" by (simp add: br_run_def)
  have "\<forall>kr\<in>set (br_entries ?b). ap_state (snd kr) = Pending" "distinct (alist_keys (br_entries ?b))"
    using h by (auto simp: hist_def entry_hist_def record_ok_def)
  from drain_gen [OF this subset_refl] show ?thesis unfolding run br_drain_def by (auto simp: filter_empty_conv)
qed

subsection \<open>Properties of the memory\<close>

lemma nul_split:
  assumes "NUL \<notin> set a" "NUL \<notin> set b" "a @ NUL # xs = b @ NUL # ys" shows "a = b \<and> xs = ys"
proof -
  have "takeWhile (\<lambda>c. c \<noteq> NUL) (a @ NUL # xs) = a" "takeWhile (\<lambda>c. c \<noteq> NUL) (b @ NUL # ys) = b"
    using assms(1,2) by (simp_all add: takeWhile_append2 takeWhile_append)
  with assms(3) show ?thesis by auto
qed

text \<open>decisions are remembered under the exact request: two requests share a key only if they agree on
  agent, tool, action and target, as long as the first three contain no NUL.\<close>
theorem memory_key_injective:
  assumes "memory_key x = memory_key y"
    and "\<forall>m\<in>{x, y}. NUL \<notin> set (mk_agentId m) \<union> set (mk_tool m) \<union> set (mk_action m)"
  shows "x = y"
proof -
  have k: "mk_agentId x @ NUL # (mk_tool x @ NUL # (mk_action x @ NUL # mk_target x)) =
        mk_agentId y @ NUL # (mk_tool y @ NUL # (mk_action y @ NUL # mk_target y))"
    using assms(1) by (simp add: memory_key_def)
  have n: "NUL \<notin> set (mk_agentId x)" "NUL \<notin> set (mk_agentId y)" "NUL \<notin> set (mk_tool x)" "NUL \<notin> set (mk_tool y)"
    "NUL \<notin> set (mk_action x)" "NUL \<notin> set (mk_action y)" using assms(2) by auto
  have 1: "mk_agentId x = mk_agentId y"
    and t: "mk_tool x @ NUL # (mk_action x @ NUL # mk_target x) = mk_tool y @ NUL # (mk_action y @ NUL # mk_target y)"
    using nul_split [OF n(1,2) k] by auto
  have 2: "mk_tool x = mk_tool y" and a: "mk_action x @ NUL # mk_target x = mk_action y @ NUL # mk_target y"
    using nul_split [OF n(3,4) t] by auto
  have "mk_action x = mk_action y \<and> mk_target x = mk_target y" using nul_split [OF n(5,6) a] .
  with 1 2 show ?thesis by (cases x; cases y) simp
qed

text \<open>What the memory may hold: no two entries for one key, at most 1000 of them.\<close>

definition am_wf :: "approval_memory \<Rightarrow> bool" where
  "am_wf m \<longleftrightarrow> distinct (alist_keys (am_entries m)) \<and> length (am_entries m) \<le> MAX_ENTRIES"

lemma am_remember_entries:
  fixes now :: ms and inp :: memory_key_input and out :: remembered
  assumes "am_wf m" "0 < am_ttlMs m"
  defines "es \<equiv> AList.delete (memory_key inp) (am_entries m) @ [(memory_key inp, out, now + am_ttlMs m)]"
  shows "am_entries (am_remember now inp out m) = (if length es > MAX_ENTRIES then tl es else es)"
proof -
  have upd: "AList.update (memory_key inp) (out, now + am_ttlMs m) (AList.delete (memory_key inp) (am_entries m)) = es"
    unfolding es_def by (rule update_fresh) (simp add: keys_alist_delete del: set_map)
  have dist: "distinct (alist_keys es)"
    using assms(1) by (auto simp: es_def am_wf_def distinct_delete keys_alist_delete simp del: set_map)
  have "es \<noteq> []" by (simp add: es_def)
  then obtain k v rest where es: "es = (k, v) # rest" by (cases es) auto
  with dist have "AList.delete k es = rest" using delete_fresh [of k rest] by auto
  with upd es assms(2) show ?thesis by (simp add: am_remember_def Let_def)
qed

lemma am_wf_remember: "am_wf m \<Longrightarrow> am_wf (am_remember now inp out m)"
proof (cases "0 < am_ttlMs m")
  case True
  assume wf: "am_wf m"
  let ?es = "AList.delete (memory_key inp) (am_entries m) @ [(memory_key inp, out, now + am_ttlMs m)]"
  have "distinct (alist_keys ?es)"
    using wf by (auto simp: am_wf_def distinct_delete keys_alist_delete simp del: set_map)
  moreover have "length ?es \<le> Suc MAX_ENTRIES"
    using wf length_alist_delete_le [of "memory_key inp" "am_entries m"] by (simp add: am_wf_def)
  ultimately show ?thesis unfolding am_wf_def am_remember_entries [OF wf True]
    by (auto simp: map_tl distinct_tl)
qed (simp add: am_remember_def)

lemma am_wf_recall: "am_wf m \<Longrightarrow> am_wf (snd (am_recall now inp m))"
  using length_alist_delete_le [of "memory_key inp" "am_entries m"]
  by (auto simp: am_recall_def am_wf_def Let_def distinct_delete split: option.splits)

text \<open>a remembered decision answers the identical retry exactly for the window: right after a human
  decided, a recall at a later time returns that decision if and only if the window has not passed,
  even when the memory was full.\<close>
theorem remembered_for_exactly_the_window:
  assumes "am_wf m" "0 < am_ttlMs m"
  shows "fst (am_recall later inp (am_remember now inp out m)) = (if later < now + am_ttlMs m then Some out else None)"
proof -
  let ?k = "memory_key inp"
  let ?es = "AList.delete ?k (am_entries m) @ [(?k, out, now + am_ttlMs m)]"
  have dist: "distinct (alist_keys ?es)"
    using assms(1) by (auto simp: am_wf_def distinct_delete keys_alist_delete simp del: set_map)
  have mem: "(?k, out, now + am_ttlMs m) \<in> set (am_entries (am_remember now inp out m))"
  proof (cases "length ?es > MAX_ENTRIES")
    case True
    then have "AList.delete ?k (am_entries m) \<noteq> []" by (auto simp: MAX_ENTRIES_def)
    then show ?thesis unfolding am_remember_entries [OF assms] by (cases "AList.delete ?k (am_entries m)") auto
  next
    case False
    then show ?thesis unfolding am_remember_entries [OF assms] by simp
  qed
  have "distinct (alist_keys (am_entries (am_remember now inp out m)))"
    using am_wf_remember [OF assms(1)] by (simp add: am_wf_def)
  with mem have "map_of (am_entries (am_remember now inp out m)) ?k = Some (out, now + am_ttlMs m)" by simp
  then show ?thesis by (simp add: am_recall_def Let_def not_less)
qed

text \<open>remembering one decision never invents another: for any other request the memory answers what it
  answered before, or nothing (it was evicted).\<close>
theorem remember_touches_one_request:
  assumes "am_wf m" "memory_key other \<noteq> memory_key inp"
  shows "fst (am_recall t other (am_remember now inp out m)) \<in> {fst (am_recall t other m), None}"
proof (cases "0 < am_ttlMs m")
  case False
  then show ?thesis by (simp add: am_remember_def)
next
  case True
  let ?k = "memory_key inp"
  let ?es = "AList.delete ?k (am_entries m) @ [(?k, out, now + am_ttlMs m)]"
  have full: "map_of ?es (memory_key other) = map_of (am_entries m) (memory_key other)"
    unfolding map_of_append map_of_delete_eq using assms(2) by (simp add: map_add_def split: option.splits)
  have dist: "distinct (alist_keys ?es)"
    using assms(1) by (auto simp: am_wf_def distinct_delete keys_alist_delete simp del: set_map)
  have "map_of (tl ?es) (memory_key other) \<in> {map_of ?es (memory_key other), None}"
    using dist by (cases ?es) (auto simp: map_of_eq_None_iff)
  with full have "map_of (am_entries (am_remember now inp out m)) (memory_key other)
      \<in> {map_of (am_entries m) (memory_key other), None}"
    unfolding am_remember_entries [OF assms(1) True] by auto
  then show ?thesis by (auto simp: am_recall_def Let_def split: option.splits)
qed

end
