(* ===== verification/Adapters.thy ===== *)
theory Adapters
  imports Json_Files
begin

text \<open>
  The adapters under \<^verbatim>\<open>proxy/src/adapters\<close>: how a wire request becomes normalized actions,
  each with its own target. A request carries its body as text together with the parsed JSON
  document (\<open>None\<close> when \<open>JSON.parse\<close> throws).
\<close>

record adapter_request =
  aq_method :: string
  aq_path :: string
  aq_query :: string
  aq_text :: string
  aq_json :: "json option"

record adapter_mapping =
  am_actions :: "string list"
  am_targets :: "string list"
  am_target :: string
  am_label :: string

datatype adapter_outcome = Unsupported | Mapped adapter_mapping

subsection \<open>String helpers of the standard library\<close>

fun split_on :: "char \<Rightarrow> string \<Rightarrow> string list" where
  "split_on sep [] = [[]]"
| "split_on sep (c # cs) =
     (if c = sep then [] # split_on sep cs
      else case split_on sep cs of [] \<Rightarrow> [[c]] | w # ws \<Rightarrow> (c # w) # ws)"

definition ascii_lower :: "char \<Rightarrow> char" where
  "ascii_lower c = (let n = (of_char c :: nat) in if 65 \<le> n \<and> n \<le> 90 then char_of (n + 32) else c)"

definition has_prefix :: "string \<Rightarrow> string \<Rightarrow> bool" where
  "has_prefix p s \<longleftrightarrow> take (length p) s = p"

fun join_with :: "string \<Rightarrow> string list \<Rightarrow> string" where
  "join_with sep [] = []"
| "join_with sep [x] = x"
| "join_with sep (x # y # ys) = x @ sep @ join_with sep (y # ys)"

subsection \<open>MCP\<close>

text \<open>
  A tool table is an object literal read with \<open>TABLE[name] ?? null\<close>: a name that
  \<open>Object.prototype\<close> answers (in lower case only \<open>constructor\<close> and \<open>__proto__\<close>) gives something
  that is not a string.
\<close>

datatype tool_mapping = NoTool | ToolAction string | NotAString

type_synonym tool_mapper = "string \<Rightarrow> tool_mapping"

definition table_lookup :: "(string \<times> string) list \<Rightarrow> string \<Rightarrow> tool_mapping" where
  "table_lookup table name =
     (case map_of table name of
        Some a \<Rightarrow> ToolAction a
      | None \<Rightarrow> if name = ''constructor'' \<or> name = proto then NotAString else NoTool)"

definition MCP_TRANSPORT_ACTIONS :: "string list" where
  "MCP_TRANSPORT_ACTIONS = [''session:initialize'', ''session:ping'', ''session:stream'', ''session:end'', ''tools:list'']"

definition toolName :: "json \<Rightarrow> string option" where
  "toolName msg =
     (case json_field msg ''params'' of
        None \<Rightarrow> None
      | Some params \<Rightarrow>
          (case json_field params ''name'' of Some (JStr (c # cs)) \<Rightarrow> Some (c # cs) | _ \<Rightarrow> None))"

definition actionForMessage :: "tool_mapper \<Rightarrow> json \<Rightarrow> string option" where
  "actionForMessage mapTool msg =
     (case json_field msg ''method'' of
        Some (JStr meth) \<Rightarrow>
          if meth = [] then None
          else if meth = ''tools/call'' then
            (case toolName msg of
               None \<Rightarrow> None
             | Some name \<Rightarrow> (case mapTool name of
                   ToolAction a \<Rightarrow> Some a
                 | NoTool \<Rightarrow> Some (''call:'' @ name)
                 | NotAString \<Rightarrow> None))
          else if meth = ''initialize'' then Some ''session:initialize''
          else if meth = ''ping'' then Some ''session:ping''
          else if has_prefix ''notifications/'' meth then Some (''notify:'' @ drop (length ''notifications/'') meth)
          else
            let pre = takeWhile (\<lambda>c. c \<noteq> CHR ''/'') meth in
            if 0 < length pre \<and> length pre < length meth
            then Some (pre @ '':'' @ drop (Suc (length pre)) meth) else Some meth
      | _ \<Rightarrow> None)"

definition labelForMessage :: "json \<Rightarrow> string" where
  "labelForMessage msg =
     (let meth = (case json_field msg ''method'' of Some (JStr m) \<Rightarrow> m | _ \<Rightarrow> ''?'') in
      if meth = ''tools/call'' then
        (case toolName msg of Some name \<Rightarrow> ''tools/call '' @ name | None \<Rightarrow> meth)
      else meth)"

definition BATCH_LABEL_MEMBERS :: nat where "BATCH_LABEL_MEMBERS = 3"

definition batchLabel :: "string list \<Rightarrow> string" where
  "batchLabel labels =
     (let hd3 = join_with '', '' (take BATCH_LABEL_MEMBERS labels)
      in ''batch('' @ show_nat (length labels) @ ''): '' @ hd3 @
         (if length labels > BATCH_LABEL_MEMBERS
          then '', +'' @ show_nat (length labels - BATCH_LABEL_MEMBERS) @ '' more'' else []))"

fun map_messages :: "tool_mapper \<Rightarrow> json list \<Rightarrow> (string list \<times> string list) option" where
  "map_messages mapTool [] = Some ([], [])"
| "map_messages mapTool (msg # msgs) =
     (if \<not> is_json_object msg then None
      else case actionForMessage mapTool msg of
        None \<Rightarrow> None
      | Some a \<Rightarrow> map_option (\<lambda>(as, ls). (a # as, labelForMessage msg # ls)) (map_messages mapTool msgs))"

definition mcp_map :: "tool_mapper \<Rightarrow> adapter_request \<Rightarrow> adapter_outcome" where
  "mcp_map mapTool req =
     (if aq_method req = ''GET'' then
        Mapped \<lparr>am_actions = [''session:stream''], am_targets = [''GET stream''], am_target = ''GET stream'', am_label = ''GET''\<rparr>
      else if aq_method req = ''DELETE'' then
        Mapped \<lparr>am_actions = [''session:end''], am_targets = [''DELETE session''], am_target = ''DELETE session'', am_label = ''DELETE''\<rparr>
      else if aq_method req \<noteq> ''POST'' then Unsupported
      else case aq_json req of
        None \<Rightarrow> Unsupported
      | Some parsed \<Rightarrow>
          let messages = (case parsed of JArr ms \<Rightarrow> ms | _ \<Rightarrow> [parsed]) in
          if messages = [] then Unsupported
          else case map_messages mapTool messages of
            None \<Rightarrow> Unsupported
          | Some (actions, labels) \<Rightarrow> Mapped
              \<lparr>am_actions = actions, am_targets = labels,
               am_target = (if length messages = 1 then hd labels else batchLabel labels),
               am_label = (if length messages = 1 then ''POST'' else ''POST batch'')\<rparr>)"

definition LINEAR_ACTIONS :: "(string \<times> string) list" where
  "LINEAR_ACTIONS =
     [(''get_issue'', ''issue:read''),
      (''list_issues'', ''issue:read''),
      (''save_issue'', ''issue:write''),
      (''list_comments'', ''comment:read''),
      (''save_comment'', ''comment:write''),
      (''delete_comment'', ''comment:delete''),
      (''get_project'', ''project:read''),
      (''list_projects'', ''project:read''),
      (''save_project'', ''project:write''),
      (''get_document'', ''doc:read''),
      (''list_documents'', ''doc:read''),
      (''search_documentation'', ''doc:read''),
      (''save_document'', ''doc:write''),
      (''get_milestone'', ''milestone:read''),
      (''list_milestones'', ''milestone:read''),
      (''save_milestone'', ''milestone:write''),
      (''get_status_updates'', ''status:read''),
      (''save_status_update'', ''status:write''),
      (''delete_status_update'', ''status:delete''),
      (''get_attachment'', ''attachment:read''),
      (''create_attachment'', ''attachment:write''),
      (''create_attachment_from_upload'', ''attachment:write''),
      (''prepare_attachment_upload'', ''attachment:write''),
      (''delete_attachment'', ''attachment:delete''),
      (''get_diff'', ''diff:read''),
      (''get_diff_threads'', ''diff:read''),
      (''get_release'', ''release:read''),
      (''list_releases'', ''release:read''),
      (''get_release_note'', ''release:read''),
      (''list_release_notes'', ''release:read''),
      (''list_release_pipelines'', ''release:read''),
      (''save_release'', ''release:write''),
      (''save_release_note'', ''release:write''),
      (''get_team'', ''directory:read''),
      (''list_teams'', ''directory:read''),
      (''get_user'', ''directory:read''),
      (''list_users'', ''directory:read''),
      (''list_cycles'', ''directory:read''),
      (''list_issue_labels'', ''directory:read''),
      (''list_issue_statuses'', ''directory:read''),
      (''get_issue_status'', ''directory:read''),
      (''list_project_labels'', ''directory:read''),
      (''list_agent_skills'', ''directory:read''),
      (''get_agent_skill'', ''directory:read''),
      (''create_issue_label'', ''directory:write'')]"

definition LINEAR_ACTION_LIST :: "string list" where
  "LINEAR_ACTION_LIST = rev (remdups (rev (map snd LINEAR_ACTIONS)))"

definition mapLinearTool :: tool_mapper where
  "mapLinearTool name = table_lookup LINEAR_ACTIONS (map ascii_lower name)"

definition SLACK_ACTIONS :: "(string \<times> string) list" where
  "SLACK_ACTIONS =
     [(''list_channels'', ''channel:read''),
      (''get_channel_history'', ''message:read''),
      (''get_thread_replies'', ''message:read''),
      (''get_messages'', ''message:read''),
      (''search_messages'', ''message:read''),
      (''post_message'', ''message:send''),
      (''send_message'', ''message:send''),
      (''reply_to_thread'', ''message:send''),
      (''update_message'', ''message:update''),
      (''add_reaction'', ''reaction:add''),
      (''upload_file'', ''file:upload''),
      (''list_users'', ''directory:read''),
      (''get_users'', ''directory:read''),
      (''get_user_profile'', ''directory:read'')]"

definition SLACK_ACTION_LIST :: "string list" where
  "SLACK_ACTION_LIST = rev (remdups (rev (map snd SLACK_ACTIONS)))"

definition mapSlackTool :: tool_mapper where
  "mapSlackTool name =
     (let lower = map ascii_lower name;
          n = (if has_prefix ''slack_'' lower then drop (length ''slack_'') lower else lower)
      in table_lookup SLACK_ACTIONS n)"

subsection \<open>GitHub\<close>

text \<open>
  The rules are regular expressions over \<open>/\<close>-separated segments, so they are tests of the list
  of segments: \<open>repo_tail\<close> is what follows \<open>/repos/<owner>/<name>\<close> when that prefix matches.
\<close>

definition WRITE_METHODS :: "string list" where
  "WRITE_METHODS = [''POST'', ''PUT'', ''PATCH'', ''DELETE'']"

definition ANY_METHODS :: "string list" where
  "ANY_METHODS = [''GET'', ''POST'', ''PUT'', ''PATCH'', ''DELETE'', ''HEAD'']"

definition all_digits :: "string \<Rightarrow> bool" where
  "all_digits s \<longleftrightarrow> s \<noteq> [] \<and> list_all (\<lambda>c. 48 \<le> (of_char c :: nat) \<and> (of_char c :: nat) \<le> 57) s"

definition repo_tail :: "string \<Rightarrow> string list option" where
  "repo_tail path =
     (case split_on (CHR ''/'') path of
        e # r # owner # name # rest \<Rightarrow>
          if e = [] \<and> r = ''repos'' \<and> owner \<noteq> [] \<and> name \<noteq> [] then Some rest else None
      | _ \<Rightarrow> None)"

definition repo_rule :: "(string list \<Rightarrow> bool) \<Rightarrow> string \<Rightarrow> bool" where
  "repo_rule P path = (case repo_tail path of None \<Rightarrow> False | Some rest \<Rightarrow> P rest)"

definition under :: "string \<Rightarrow> string \<Rightarrow> bool" where
  "under root path = (case split_on (CHR ''/'') path of e # r # rest \<Rightarrow> e = [] \<and> r = root | _ \<Rightarrow> False)"

definition beneath :: "string \<Rightarrow> string \<Rightarrow> bool" where
  "beneath root path = (case split_on (CHR ''/'') path of e # r # x # rest \<Rightarrow> e = [] \<and> r = root | _ \<Rightarrow> False)"

definition GITHUB_RULES :: "(string list \<times> (string \<Rightarrow> bool) \<times> string) list" where
  "GITHUB_RULES =
     [([''DELETE''], repo_rule (\<lambda>r. r = []), ''repo:delete''),
      ([''GET''], repo_rule (\<lambda>r. r \<noteq> [] \<and> hd r = ''actions''), ''actions:read''),
      (WRITE_METHODS, repo_rule (\<lambda>r. r \<noteq> [] \<and> hd r = ''actions''), ''actions:write''),
      ([''PUT''], repo_rule (\<lambda>r. case r of [p, n, m] \<Rightarrow> p = ''pulls'' \<and> all_digits n \<and> m = ''merge'' | _ \<Rightarrow> False), ''pr:merge''),
      ([''POST''], repo_rule (\<lambda>r. r = [''pulls'']), ''pr:create''),
      ([''PATCH''], repo_rule (\<lambda>r. case r of [p, n] \<Rightarrow> p = ''pulls'' \<and> all_digits n | _ \<Rightarrow> False), ''pr:update''),
      ([''POST''], repo_rule (\<lambda>r. case r of [p, n, c] \<Rightarrow> (p = ''issues'' \<or> p = ''pulls'') \<and> all_digits n \<and> c = ''comments'' | _ \<Rightarrow> False),
         ''pr:comment''),
      ([''GET''], repo_rule (\<lambda>r. r \<noteq> [] \<and> hd r = ''pulls''), ''pr:read''),
      ([''POST''], repo_rule (\<lambda>r. r = [''issues'']), ''issue:create''),
      ([''PATCH''], repo_rule (\<lambda>r. case r of [p, n] \<Rightarrow> p = ''issues'' \<and> all_digits n | _ \<Rightarrow> False), ''issue:update''),
      ([''GET''], repo_rule (\<lambda>r. r \<noteq> [] \<and> hd r = ''issues''), ''issue:read''),
      (WRITE_METHODS, repo_rule (\<lambda>r. case r of p # x # xs \<Rightarrow> p = ''contents'' | _ \<Rightarrow> False), ''repo:write''),
      ([''GET'', ''HEAD''], repo_rule (\<lambda>r. True), ''repo:read''),
      (WRITE_METHODS, repo_rule (\<lambda>r. True), ''repo:write''),
      ([''GET'', ''HEAD''], under ''user'', ''user:read''),
      ([''GET'', ''HEAD''], beneath ''orgs'', ''org:read''),
      ([''GET'', ''HEAD''], beneath ''search'', ''search:read'')]"

definition GITHUB_ACTIONS :: "string list" where
  "GITHUB_ACTIONS = rev (remdups (rev (map (\<lambda>(ms, p, a). a) GITHUB_RULES @ [''api:read'', ''api:write''])))"

fun collapse_slashes :: "string \<Rightarrow> string" where
  "collapse_slashes [] = []"
| "collapse_slashes [c] = [c]"
| "collapse_slashes (c # d # cs) =
     (if c = CHR ''/'' \<and> d = CHR ''/'' then collapse_slashes (d # cs) else c # collapse_slashes (d # cs))"

definition strip_trailing_slashes :: "string \<Rightarrow> string" where
  "strip_trailing_slashes s = rev (dropWhile (\<lambda>c. c = CHR ''/'') (rev s))"

definition normalizeForMatch :: "string \<Rightarrow> string" where
  "normalizeForMatch path =
     (let collapsed = strip_trailing_slashes (collapse_slashes path) in if collapsed = [] then ''/'' else collapsed)"

fun first_rule :: "(string list \<times> (string \<Rightarrow> bool) \<times> string) list \<Rightarrow> string \<Rightarrow> string \<Rightarrow> string option" where
  "first_rule [] meth path = None"
| "first_rule ((ms, re, a) # rules) meth path =
     (if meth \<in> set ms \<and> re path then Some a else first_rule rules meth path)"

definition github_classify :: "string \<Rightarrow> string \<Rightarrow> string" where
  "github_classify meth path =
     (case first_rule GITHUB_RULES meth path of
        Some a \<Rightarrow> a
      | None \<Rightarrow> if meth = ''GET'' \<or> meth = ''HEAD'' then ''api:read'' else ''api:write'')"

definition github_map :: "adapter_request \<Rightarrow> adapter_outcome" where
  "github_map req =
     (if aq_method req \<notin> set ANY_METHODS then Unsupported
      else Mapped \<lparr>am_actions = [github_classify (aq_method req) (normalizeForMatch (aq_path req))],
                   am_targets = [aq_path req], am_target = aq_path req, am_label = aq_method req\<rparr>)"

subsection \<open>The registry\<close>

definition adapterFor :: "string \<Rightarrow> (adapter_request \<Rightarrow> adapter_outcome) option" where
  "adapterFor ty = map_of
     [(''github'', github_map), (''mcp'', mcp_map (\<lambda>_. NoTool)), (''linear'', mcp_map mapLinearTool),
      (''slack'', mcp_map mapSlackTool)] ty"

definition actionVocabulary :: "string \<Rightarrow> string list option" where
  "actionVocabulary ty = map_of
     [(''github'', GITHUB_ACTIONS), (''linear'', LINEAR_ACTION_LIST @ MCP_TRANSPORT_ACTIONS),
      (''slack'', SLACK_ACTION_LIST @ MCP_TRANSPORT_ACTIONS)] ty"

end
