(* ===== verification/Adapters_Props.thy ===== *)
theory Adapters_Props
  imports Adapters
begin

text \<open>
  What the adapters guarantee: every action has its own target, a batch maps member by member,
  and the spelling of a GitHub path (repeated or trailing slashes) never changes its action.
\<close>

subsection \<open>Actions and targets are paired\<close>

lemma map_messages_lengths:
  "map_messages f ms = Some (as, ls) \<Longrightarrow> length as = length ms \<and> length ls = length ms"
  by (induction ms arbitrary: as ls) (auto split: if_splits option.splits)

lemma mcp_map_paired: "mcp_map f req = Mapped m \<Longrightarrow> length (am_actions m) = length (am_targets m) \<and> am_actions m \<noteq> []"
  by (auto simp: mcp_map_def Let_def split: if_splits option.splits prod.splits json.splits dest!: map_messages_lengths)

lemma github_map_paired: "github_map req = Mapped m \<Longrightarrow> length (am_actions m) = length (am_targets m) \<and> am_actions m \<noteq> []"
  by (auto simp: github_map_def split: if_splits)

lemma adapterFor_paired:
  "adapterFor ty = Some f \<Longrightarrow> f req = Mapped m \<Longrightarrow> length (am_actions m) = length (am_targets m) \<and> am_actions m \<noteq> []"
  by (auto simp: adapterFor_def mcp_map_paired github_map_paired split: if_splits)

text \<open>every adapter that maps a request gives at least one action and exactly one target per action, so
  no action of a request escapes the target-scoped gates.\<close>
theorem every_action_has_its_target:
  assumes "adapterFor ty = Some f" "f req = Mapped m"
  shows "am_actions m \<noteq> [] \<and> length (am_targets m) = length (am_actions m)"
  using adapterFor_paired [OF assms] by simp

subsection \<open>The spelling of a path\<close>

definition segments :: "string \<Rightarrow> string list" where
  "segments path = filter (\<lambda>s. s \<noteq> []) (split_on (CHR ''/'') path)"

definition slash_join :: "string list \<Rightarrow> string" where
  "slash_join ss = concat (map (\<lambda>s. CHR ''/'' # s) ss)"

lemma split_on_ne: "split_on sep s \<noteq> []"
  by (induction s) (auto split: list.splits)

lemma split_on_word:
  "sep \<notin> set w \<Longrightarrow> split_on sep (w @ sep # r) = w # split_on sep r"
  by (induction w) auto

lemma split_on_no_sep: "sep \<notin> set w \<Longrightarrow> split_on sep w = [w]"
  by (induction w) auto

lemma collapse_other: "c \<noteq> CHR ''/'' \<Longrightarrow> collapse_slashes (c # s) = c # collapse_slashes s"
  by (cases s) auto

lemma collapse_word: "CHR ''/'' \<notin> set w \<Longrightarrow> collapse_slashes (w @ r) = w @ collapse_slashes r"
  by (induction w) (auto simp: collapse_other)

lemma word_split:
  obtains (all) "CHR ''/'' \<notin> set s"
    | (slash) w r where "s = w @ CHR ''/'' # r" "CHR ''/'' \<notin> set w"
proof (cases "CHR ''/'' \<in> set s")
  case True
  then obtain w r where "s = w @ CHR ''/'' # r" "CHR ''/'' \<notin> set w" by (metis split_list_first)
  then show ?thesis by (rule slash)
qed (rule all)

lemma collapse_segments:
  "collapse_slashes (CHR ''/'' # s) = slash_join (segments s) @ (if s = [] \<or> last s = CHR ''/'' then ''/'' else [])"
proof (induction s rule: length_induct)
  case (1 s)
  show ?case
  proof (cases s rule: word_split)
    case all
    then have "s \<noteq> [] \<Longrightarrow> last s \<noteq> CHR ''/''" using last_in_set by force
    moreover have "s \<noteq> [] \<Longrightarrow> collapse_slashes (CHR ''/'' # s) = CHR ''/'' # s"
      using all collapse_word [OF all, of "[]"] by (cases s) auto
    ultimately show ?thesis using all by (auto simp: segments_def slash_join_def split_on_no_sep)
  next
    case (slash w r)
    have IH: "collapse_slashes (CHR ''/'' # r) = slash_join (segments r) @ (if r = [] \<or> last r = CHR ''/'' then ''/'' else [])"
      using 1 slash(1) by simp
    have l: "last s = (if r = [] then CHR ''/'' else last r)" "s \<noteq> []" using slash(1) by auto
    show ?thesis
    proof (cases w)
      case Nil
      with slash have "collapse_slashes (CHR ''/'' # s) = collapse_slashes (CHR ''/'' # r)" "segments s = segments r"
        by (simp_all add: segments_def)
      with IH l show ?thesis by auto
    next
      case (Cons c cs)
      then have "collapse_slashes (CHR ''/'' # s) = CHR ''/'' # w @ collapse_slashes (CHR ''/'' # r)"
        using slash collapse_word [OF slash(2), of "CHR ''/'' # r"] by auto
      moreover have "segments s = w # segments r" using Cons slash split_on_word [OF slash(2)] by (simp add: segments_def)
      ultimately show ?thesis using IH l by (auto simp: slash_join_def)
    qed
  qed
qed

lemma split_on_words: "x \<in> set (split_on sep s) \<Longrightarrow> sep \<notin> set x"
  by (induction s arbitrary: x) (auto split: if_splits list.splits)

lemma strip_slash_join:
  assumes "\<forall>s\<in>set ss. s \<noteq> [] \<and> CHR ''/'' \<notin> set s"
  shows "strip_trailing_slashes (slash_join ss @ (if b then ''/'' else [])) = slash_join ss"
proof -
  have "strip_trailing_slashes (slash_join ss) = slash_join ss"
  proof (cases ss rule: rev_cases)
    case Nil
    then show ?thesis by (simp add: slash_join_def strip_trailing_slashes_def)
  next
    case (snoc xs x)
    with assms have "x \<noteq> []" "CHR ''/'' \<notin> set x" by auto
    then have "x = butlast x @ [last x]" "last x \<noteq> CHR ''/''" using last_in_set by (auto, force)
    then obtain y c where "x = y @ [c]" "c \<noteq> CHR ''/''" by blast
    then show ?thesis using snoc by (simp add: slash_join_def strip_trailing_slashes_def)
  qed
  moreover have "strip_trailing_slashes (s @ ''/'') = strip_trailing_slashes s" for s
    by (simp add: strip_trailing_slashes_def)
  ultimately show ?thesis by simp
qed

lemma normalize_segments:
  "normalizeForMatch (CHR ''/'' # s) = (if segments s = [] then ''/'' else slash_join (segments s))"
proof -
  have "\<forall>x\<in>set (segments s). x \<noteq> [] \<and> CHR ''/'' \<notin> set x" by (auto simp: segments_def dest: split_on_words)
  from strip_slash_join [OF this] have "strip_trailing_slashes (collapse_slashes (CHR ''/'' # s)) = slash_join (segments s)"
    unfolding collapse_segments .
  moreover have "slash_join ss = [] \<longleftrightarrow> ss = []" for ss by (cases ss) (auto simp: slash_join_def)
  ultimately show ?thesis by (simp add: normalizeForMatch_def Let_def)
qed

text \<open>two rooted GitHub paths with the same non-empty segments always map to the same action: repeated or
  trailing slashes cannot dress a precise action (deleting a repository) up as a cheaper one.\<close>
theorem github_action_ignores_slash_spelling:
  assumes "aq_method r = aq_method r'" and "aq_path r = CHR ''/'' # p" "aq_path r' = CHR ''/'' # p'"
    and "segments p = segments p'" and "github_map r = Mapped m" "github_map r' = Mapped m'"
  shows "am_actions m = am_actions m'"
  using assms by (auto simp: github_map_def normalize_segments split: if_splits)

text \<open>deleting a repository is always recognised, whatever the slashes of its path.\<close>
theorem github_repo_delete_recognised:
  assumes "segments p = [''repos'', owner, repo]"
  shows "github_map \<lparr>aq_method = ''DELETE'', aq_path = CHR ''/'' # p, aq_query = q, aq_text = t, aq_json = j\<rparr> =
    Mapped \<lparr>am_actions = [''repo:delete''], am_targets = [CHR ''/'' # p], am_target = CHR ''/'' # p, am_label = ''DELETE''\<rparr>"
proof -
  have ok: "\<forall>x\<in>set (segments p). x \<noteq> [] \<and> CHR ''/'' \<notin> set x" by (auto simp: segments_def dest: split_on_words)
  then have words: "owner \<noteq> []" "repo \<noteq> []" "CHR ''/'' \<notin> set owner" "CHR ''/'' \<notin> set repo" using assms by auto
  have "split_on (CHR ''/'') (CHR ''/'' # ''repos'' @ CHR ''/'' # owner @ CHR ''/'' # repo) = [[], ''repos'', owner, repo]"
    using split_on_word [OF words(3)] split_on_no_sep [OF words(4)] by simp
  then have "repo_tail (slash_join [''repos'', owner, repo]) = Some []"
    using words by (simp add: repo_tail_def slash_join_def)
  then show ?thesis
    using assms by (simp add: github_map_def normalize_segments github_classify_def GITHUB_RULES_def repo_rule_def ANY_METHODS_def)
qed

subsection \<open>Labels are not identities\<close>

text \<open>the display label of a batch names its first three members only: two batches of the same length
  that start with the same three labels have the same label, whatever their other members do.\<close>
theorem batch_label_hides_members:
  assumes "length ls = length ls'" "take 3 ls = take 3 ls'"
  shows "batchLabel ls = batchLabel ls'"
  using assms by (simp add: batchLabel_def BATCH_LABEL_MEMBERS_def)

end
