(* ===== verification/Policy_Store.thy ===== *)
theory Policy_Store
  imports Policy_Compile
begin

text \<open>
  The live policy set: the merge of profile entries over the default (\<^verbatim>\<open>policy/merge.ts\<close>) and
  the store the proxy selects from (\<^verbatim>\<open>policy/store.ts\<close>). \<open>compileYaml\<close> is
  \<^verbatim>\<open>compilePolicyYaml\<close> of \<open>Policy_Compile\<close> applied to its library parameters.
\<close>

record profile_entry =
  pe_name :: string
  pe_policy :: string

datatype merge_code = MergeParseError | MergeUndeclared | MergeDuplicate

type_synonym yaml_compiler = "string \<Rightarrow> compile_error + compiled_policy"

fun merge_loop :: "yaml_compiler \<Rightarrow> compiled_policy \<Rightarrow> string set \<Rightarrow> profile_entry list
    \<Rightarrow> (string \<times> compiled_policy) list \<Rightarrow> (string \<times> merge_code) + (string \<times> compiled_policy) list" where
  "merge_loop compileYaml def declaredNames [] out = Inr out"
| "merge_loop compileYaml def declaredNames (e # es) out =
     (if pe_name e \<notin> declaredNames then Inl (pe_name e, MergeUndeclared)
      else if map_of out (pe_name e) \<noteq> None then Inl (pe_name e, MergeDuplicate)
      else case compileYaml (pe_policy e) of
        Inl _ \<Rightarrow> Inl (pe_name e, MergeParseError)
      | Inr p \<Rightarrow> merge_loop compileYaml def declaredNames es
          (AList.update (pe_name e) (def\<lparr>cp_grants := cp_grants p, cp_source := cp_source p\<rparr>) out))"

definition mergeProfilesOverDefault :: "yaml_compiler \<Rightarrow> compiled_policy \<Rightarrow> profile_entry list \<Rightarrow> string set
    \<Rightarrow> (string \<times> merge_code) + (string \<times> compiled_policy) list" where
  "mergeProfilesOverDefault compileYaml def entries declaredNames = merge_loop compileYaml def declaredNames entries []"

record policy_store =
  pol_def :: compiled_policy
  pol_entries :: "profile_entry list"
  pol_profiles :: "(string \<times> compiled_policy) list"
  pol_declaredNames :: "string set"
  pol_closed :: "compiled_policy option"

datatype reload_error = DefaultRejected compile_error | ProfileRejected string merge_code

definition new_policy_store :: "yaml_compiler \<Rightarrow> compiled_policy \<Rightarrow> string set \<Rightarrow> profile_entry list
    \<Rightarrow> reload_error + policy_store" where
  "new_policy_store compileYaml def declaredNames entries =
     (case mergeProfilesOverDefault compileYaml def entries declaredNames of
        Inl (name, code) \<Rightarrow> Inl (ProfileRejected name code)
      | Inr profiles \<Rightarrow> Inr \<lparr>pol_def = def, pol_entries = entries, pol_profiles = profiles,
            pol_declaredNames = declaredNames, pol_closed = None\<rparr>)"

definition policyFor :: "policy_store \<Rightarrow> string option \<Rightarrow> compiled_policy option" where
  "policyFor s profile =
     (case pol_closed s of
        Some c \<Rightarrow> Some c
      | None \<Rightarrow> (case profile of None \<Rightarrow> Some (pol_def s) | Some n \<Rightarrow> map_of (pol_profiles s) n))"

definition isClosed :: "policy_store \<Rightarrow> bool" where
  "isClosed s \<longleftrightarrow> pol_closed s \<noteq> None"

definition policy_reload :: "yaml_compiler \<Rightarrow> string \<Rightarrow> profile_entry list option \<Rightarrow> policy_store
    \<Rightarrow> (reload_error + nat \<times> nat) \<times> policy_store" where
  "policy_reload compileYaml defaultYaml profiles s =
     (case compileYaml defaultYaml of
        Inl e \<Rightarrow> (Inl (DefaultRejected e), s)
      | Inr def \<Rightarrow>
          let nextEntries = (case profiles of None \<Rightarrow> pol_entries s | Some es \<Rightarrow> es) in
          case mergeProfilesOverDefault compileYaml def nextEntries (pol_declaredNames s) of
            Inl (name, code) \<Rightarrow> (Inl (ProfileRejected name code), s)
          | Inr merged \<Rightarrow>
              (Inr (length (cp_grants def), length (cp_grants (pol_def s))),
               s\<lparr>pol_def := def, pol_entries := nextEntries, pol_profiles := merged, pol_closed := None\<rparr>))"

definition closeAll :: "compiled_policy \<Rightarrow> policy_store \<Rightarrow> policy_store" where
  "closeAll denyAll s = s\<lparr>pol_closed := Some denyAll\<rparr>"

subsection \<open>Properties\<close>

text \<open>A profile differs from the default in its grants and its source only.\<close>

definition inherits :: "compiled_policy \<Rightarrow> compiled_policy \<Rightarrow> bool" where
  "inherits def p \<longleftrightarrow> p = def\<lparr>cp_grants := cp_grants p, cp_source := cp_source p\<rparr>"

definition store_inv :: "policy_store \<Rightarrow> bool" where
  "store_inv s \<longleftrightarrow> (\<forall>n p. map_of (pol_profiles s) n = Some p \<longrightarrow> n \<in> pol_declaredNames s \<and> inherits (pol_def s) p)"

lemma merge_loop_inv:
  assumes "merge_loop cy def names es out = Inr out'"
    and "\<forall>n p. map_of out n = Some p \<longrightarrow> n \<in> names \<and> inherits def p"
  shows "\<forall>n p. map_of out' n = Some p \<longrightarrow> n \<in> names \<and> inherits def p"
  using assms
proof (induction es arbitrary: out)
  case Nil
  then show ?case by simp
next
  case (Cons e es)
  from Cons.prems(1) obtain p where p: "cy (pe_policy e) = Inr p"
    by (cases "cy (pe_policy e)") (auto split: if_splits)
  with Cons.prems(1) have e: "pe_name e \<in> names"
    and rec: "merge_loop cy def names es
      (AList.update (pe_name e) (def\<lparr>cp_grants := cp_grants p, cp_source := cp_source p\<rparr>) out) = Inr out'"
    by (auto split: if_splits)
  show ?case
    by (rule Cons.IH [OF rec]) (use Cons.prems(2) e in \<open>auto simp: inherits_def split: if_splits\<close>)
qed

lemma merge_inv:
  assumes "mergeProfilesOverDefault cy def es names = Inr out" "map_of out n = Some p"
  shows "n \<in> names \<and> inherits def p"
  using merge_loop_inv [of cy def names es "[]" out] assms by (auto simp: mergeProfilesOverDefault_def)

inductive policy_store_reachable :: "yaml_compiler \<Rightarrow> policy_store \<Rightarrow> bool" for cy where
  ps_new: "new_policy_store cy def names es = Inr s \<Longrightarrow> policy_store_reachable cy s"
| ps_reload: "policy_store_reachable cy s \<Longrightarrow> policy_store_reachable cy (snd (policy_reload cy yaml es s))"
| ps_close: "policy_store_reachable cy s \<Longrightarrow> policy_store_reachable cy (closeAll d s)"

lemma policy_store_reachable_inv: "policy_store_reachable cy s \<Longrightarrow> store_inv s"
proof (induction rule: policy_store_reachable.induct)
  case (ps_new def names es s)
  then show ?case
    by (auto simp: new_policy_store_def store_inv_def dest: merge_inv split: sum.splits)
next
  case (ps_reload s yaml es)
  then show ?case
    by (auto simp: policy_reload_def Let_def store_inv_def dest: merge_inv split: sum.splits option.splits prod.splits)
next
  case (ps_close s d)
  then show ?case by (simp add: closeAll_def store_inv_def)
qed

text \<open>a profile cannot shed a protection: in every state the store reaches, the policy selected for a
  profile of an open store has the tripwires, flows, pins, schedule, first-use gate, budgets, quorums,
  caps and DLP settings of the live default; only grants come from the profile.\<close>
theorem profiles_inherit_protections:
  assumes "policy_store_reachable cy s" and "pol_closed s = None" and "policyFor s profile = Some p"
  shows "p = (pol_def s)\<lparr>cp_grants := cp_grants p, cp_source := cp_source p\<rparr>"
proof (cases profile)
  case None
  with assms show ?thesis by (auto simp: policyFor_def)
next
  case (Some n)
  with assms have "map_of (pol_profiles s) n = Some p" by (simp add: policyFor_def)
  with policy_store_reachable_inv [OF assms(1)] show ?thesis by (simp add: store_inv_def inherits_def)
qed

text \<open>a reload is all or nothing and fails closed: a rejected one leaves default, profiles and the
  closed state as they were; while the store is closed nobody selects anything but the deny-all
  policy, whatever the profile; only a successful reload reopens it.\<close>
theorem reload_all_or_nothing:
  "(case policy_reload cy yaml es s of
     (Inl e, s') \<Rightarrow> s' = s
   | (Inr _, s') \<Rightarrow> cy yaml = Inr (pol_def s') \<and> pol_closed s' = None \<and> policyFor s' None = Some (pol_def s'))
   \<and> policyFor (closeAll d s) profile = Some d"
  by (auto simp: policy_reload_def Let_def policyFor_def closeAll_def split: sum.splits option.splits prod.splits)

end
