(* ===== verification/Auth.thy ===== *)
theory Auth
  imports Delegation_Props Access_Stores Glob
begin

unbundle bit_operations_syntax

text \<open>
  Authentication (\<^verbatim>\<open>proxy/auth.ts\<close>, \<^verbatim>\<open>util/token.ts\<close>): the token of a request, the
  constant-time comparison, and the principal it resolves to. SHA-256 (\<open>hashToken\<close>) is a
  parameter; the request headers are a lookup by lower-case name.
\<close>

subsection \<open>Strings\<close>

definition is_space :: "char \<Rightarrow> bool" where
  "is_space c \<longleftrightarrow> (let n = (of_char c :: nat) in 9 \<le> n \<and> n \<le> 13 \<or> n = 32 \<or> n = 160)"

definition js_trim :: "string \<Rightarrow> string" where
  "js_trim s = rev (dropWhile is_space (rev (dropWhile is_space s)))"

text \<open>\<open>diff |= a.charCodeAt(i) ^ b.charCodeAt(i)\<close> over all positions.\<close>

definition constantTimeEqual :: "string \<Rightarrow> string \<Rightarrow> bool" where
  "constantTimeEqual a b =
     (if length a \<noteq> length b then False
      else foldl (\<lambda>diff (x, y). diff OR (of_char x XOR of_char y)) (0::int) (zip a b) = 0)"

lemma constantTimeEqual_iff: "constantTimeEqual a b \<longleftrightarrow> a = b"
proof -
  have xor: "(x XOR y = 0) = (x = y)" for x y :: int
    by (auto simp: bit_eq_iff bit_xor_iff)
  have or0: "(x OR y = 0) = (x = 0 \<and> y = 0)" for x y :: int
    by (auto simp: bit_eq_iff bit_or_iff)
  have "length a = length b \<Longrightarrow>
     (foldl (\<lambda>diff (x, y). diff OR (of_char x XOR of_char y)) d (zip a b) = 0) = (d = 0 \<and> a = b)" for d :: int
    by (induction a b arbitrary: d rule: list_induct2) (auto simp: or0 xor)
  then show ?thesis by (auto simp: constantTimeEqual_def)
qed

subsection \<open>The presented token\<close>

type_synonym headers = "string \<Rightarrow> string option"

definition to_lower :: "char \<Rightarrow> char" where
  "to_lower c = (let n = (of_char c :: nat) in if 65 \<le> n \<and> n \<le> 90 then char_of (n + 32) else c)"

text \<open>Group 1 of \<open>/^Bearer\s+(.+)$/i\<close> on a trimmed value.\<close>

definition bearer_group :: "string \<Rightarrow> string option" where
  "bearer_group s =
     (if map to_lower (take 6 s) \<noteq> ''bearer'' then None
      else case drop 6 s of
        [] \<Rightarrow> None
      | c # cs \<Rightarrow>
          if \<not> is_space c then None
          else let rest = dropWhile is_space cs in
            if rest = [] \<or> list_ex line_terminator rest then None else Some rest)"

definition extractToken :: "headers \<Rightarrow> string option" where
  "extractToken hs =
     (let xheader = (case hs ''x-grenz-token'' of None \<Rightarrow> [] | Some v \<Rightarrow> js_trim v) in
      if length xheader > 0 then Some xheader
      else case hs ''authorization'' of
        None \<Rightarrow> None
      | Some auth \<Rightarrow> if auth = [] then None else map_option js_trim (bearer_group (js_trim auth)))"

subsection \<open>Principals\<close>

datatype principal =
    AgentPrincipal (pr_agentId: agent_id) (pr_decoy: bool) (pr_agentTargets: "string list")
      (pr_agentActions: "string list") (pr_policyProfile: "string option")
  | DelegationPrincipal (pr_agentId: agent_id) (pr_agentTargets: "string list") (pr_agentActions: "string list")
      (pr_delegationId: string) (pr_chainIds: "string list") (pr_actionsChain: "string list list")
      (pr_targetsChain: "string list list") (pr_policyProfile: "string option")

record resolution =
  rs_principal :: "principal option"
  rs_expiredAgentId :: "agent_id option"
  rs_orphanRootAgentId :: "agent_id option"

definition agent_expired :: "agent_config \<Rightarrow> ms \<Rightarrow> bool" where
  "agent_expired a now = (case ag_expiresAtMs a of None \<Rightarrow> False | Some e \<Rightarrow> e \<le> now)"

text \<open>The full loop without an early break: the last match wins.\<close>

definition match_agent :: "agent_config list \<Rightarrow> string \<Rightarrow> agent_config option" where
  "match_agent agents hash =
     foldl (\<lambda>matched a. if constantTimeEqual hash (ag_token_hash a) then Some a else matched) None agents"

definition resolve_delegation ::
    "agent_config list \<Rightarrow> delegation_store option \<Rightarrow> string \<Rightarrow> ms \<Rightarrow> agent_id option \<Rightarrow> resolution" where
  "resolve_delegation agents delegations hash now expiredAgentId =
     (case Option.bind delegations (\<lambda>s. del_resolveChain s hash now) of
        None \<Rightarrow> \<lparr>rs_principal = None, rs_expiredAgentId = expiredAgentId, rs_orphanRootAgentId = None\<rparr>
      | Some (chain, rootAgentId, policyProfile) \<Rightarrow>
          (case List.find (\<lambda>a. ag_id a = rootAgentId) agents of
             None \<Rightarrow> \<lparr>rs_principal = None, rs_expiredAgentId = expiredAgentId, rs_orphanRootAgentId = Some rootAgentId\<rparr>
           | Some rootAgent \<Rightarrow>
               if agent_expired rootAgent now
               then \<lparr>rs_principal = None, rs_expiredAgentId = expiredAgentId, rs_orphanRootAgentId = Some rootAgentId\<rparr>
               else \<lparr>rs_principal = Some (DelegationPrincipal rootAgentId (some_or [] (ag_targets rootAgent))
                        (some_or [] (ag_actions rootAgent)) (dl_id (hd chain)) (map dl_id chain)
                        (map dl_actions chain) (map dl_targets chain) policyProfile),
                     rs_expiredAgentId = expiredAgentId, rs_orphanRootAgentId = None\<rparr>))"

definition resolvePrincipal :: "(string \<Rightarrow> string) \<Rightarrow> agent_config list \<Rightarrow> delegation_store option
    \<Rightarrow> string option \<Rightarrow> ms \<Rightarrow> resolution" where
  "resolvePrincipal hashToken agents delegations token now =
     (case token of
        None \<Rightarrow> \<lparr>rs_principal = None, rs_expiredAgentId = None, rs_orphanRootAgentId = None\<rparr>
      | Some t \<Rightarrow>
          if t = [] then \<lparr>rs_principal = None, rs_expiredAgentId = None, rs_orphanRootAgentId = None\<rparr>
          else
            let hash = hashToken t in
            case match_agent agents hash of
              None \<Rightarrow> resolve_delegation agents delegations hash now None
            | Some matched \<Rightarrow>
                if agent_expired matched now
                then resolve_delegation agents delegations hash now (Some (ag_id matched))
                else \<lparr>rs_principal = Some (AgentPrincipal (ag_id matched) (ag_decoy matched)
                         (some_or [] (ag_targets matched)) (some_or [] (ag_actions matched)) (ag_policy matched)),
                      rs_expiredAgentId = None, rs_orphanRootAgentId = None\<rparr>)"

subsection \<open>Properties\<close>

lemma match_agent_Some: "match_agent agents hash = Some a \<Longrightarrow> a \<in> set agents \<and> ag_token_hash a = hash"
proof -
  have "foldl (\<lambda>matched a. if constantTimeEqual hash (ag_token_hash a) then Some a else matched) m agents = Some a \<Longrightarrow>
    m = Some a \<or> a \<in> set agents \<and> ag_token_hash a = hash" for m
    by (induction agents arbitrary: m) (auto simp: constantTimeEqual_iff split: if_splits)
  then show "match_agent agents hash = Some a \<Longrightarrow> a \<in> set agents \<and> ag_token_hash a = hash"
    by (auto simp: match_agent_def)
qed

lemma match_agent_None: "match_agent agents hash = None \<longleftrightarrow> (\<forall>a\<in>set agents. ag_token_hash a \<noteq> hash)"
proof -
  have "foldl (\<lambda>matched a. if constantTimeEqual hash (ag_token_hash a) then Some a else matched) m agents = None \<longleftrightarrow>
    m = None \<and> (\<forall>a\<in>set agents. ag_token_hash a \<noteq> hash)" for m
    by (induction agents arbitrary: m) (auto simp: constantTimeEqual_iff)
  then show ?thesis by (simp add: match_agent_def)
qed

lemma resolve_delegation_principal:
  "rs_principal (resolve_delegation agents dels hash now e) = Some p \<longleftrightarrow>
   (\<exists>s chain root profile agent. dels = Some s \<and> del_resolveChain s hash now = Some (chain, root, profile)
      \<and> List.find (\<lambda>a. ag_id a = root) agents = Some agent \<and> \<not> agent_expired agent now
      \<and> p = DelegationPrincipal root (some_or [] (ag_targets agent)) (some_or [] (ag_actions agent))
              (dl_id (hd chain)) (map dl_id chain) (map dl_actions chain) (map dl_targets chain) profile)"
  by (cases dels) (auto simp: resolve_delegation_def split: option.splits)

lemma resolvePrincipal_cases:
  assumes "rs_principal (resolvePrincipal hf agents dels tok now) = Some p"
  obtains (agent) t a where "tok = Some t" "t \<noteq> []" "a \<in> set agents" "ag_token_hash a = hf t" "\<not> agent_expired a now"
      "p = AgentPrincipal (ag_id a) (ag_decoy a) (some_or [] (ag_targets a)) (some_or [] (ag_actions a)) (ag_policy a)"
    | (delegation) t e where "tok = Some t" "t \<noteq> []" "rs_principal (resolve_delegation agents dels (hf t) now e) = Some p"
proof (cases tok)
  case None
  with assms show ?thesis by (simp add: resolvePrincipal_def)
next
  case (Some t)
  with assms have t: "t \<noteq> []" by (auto simp: resolvePrincipal_def)
  show ?thesis
  proof (cases "match_agent agents (hf t)")
    case None
    with assms Some t show ?thesis using delegation by (auto simp: resolvePrincipal_def Let_def)
  next
    case (Some a)
    with assms \<open>tok = Some t\<close> t match_agent_Some [OF Some] show ?thesis using delegation agent
      by (auto simp: resolvePrincipal_def Let_def split: if_splits)
  qed
qed

text \<open>every principal answers to a configured, unexpired agent and carries that agent's own scope; a
  sub-token's principal moreover names exactly the hops of a live chain, leaf first.\<close>
theorem principal_is_backed_by_live_agent:
  assumes "rs_principal (resolvePrincipal hf agents dels tok now) = Some p"
  shows "\<exists>a\<in>set agents. ag_id a = pr_agentId p \<and> \<not> agent_expired a now
      \<and> pr_agentTargets p = some_or [] (ag_targets a) \<and> pr_agentActions p = some_or [] (ag_actions a)
      \<and> (case p of AgentPrincipal _ _ _ _ _ \<Rightarrow> \<exists>t. tok = Some t \<and> ag_token_hash a = hf t
         | DelegationPrincipal _ _ _ leaf ids acts tgts _ \<Rightarrow>
             (\<exists>s chain. dels = Some s \<and> chain \<noteq> [] \<and> length chain \<le> MAX_DEPTH
                \<and> chain_links (map_of (ds_byId s)) now (ds_hashToId s (hf (the tok))) chain
                \<and> leaf = dl_id (hd chain) \<and> ids = map dl_id chain \<and> acts = map dl_actions chain \<and> tgts = map dl_targets chain))"
  using assms
proof (cases rule: resolvePrincipal_cases)
  case (agent t a)
  then show ?thesis by (intro bexI [of _ a]) auto
next
  case (delegation t e)
  then obtain s chain root profile a where d: "dels = Some s" "del_resolveChain s (hf t) now = Some (chain, root, profile)"
    "List.find (\<lambda>a. ag_id a = root) agents = Some a" "\<not> agent_expired a now"
    "p = DelegationPrincipal root (some_or [] (ag_targets a)) (some_or [] (ag_actions a))
              (dl_id (hd chain)) (map dl_id chain) (map dl_actions chain) (map dl_targets chain) profile"
    unfolding resolve_delegation_principal by blast
  from d(2) obtain k where k: "ds_hashToId s (hf t) = Some k" "length chain \<le> MAX_DEPTH"
    "chain_links (map_of (ds_byId s)) now (Some k) chain" by (auto simp: del_resolveChain_iff del_lookup_iff)
  then have "chain \<noteq> []" by (auto dest: chain_links_ne)
  with d k delegation(1) find_SomeD [OF d(3)] show ?thesis by (intro bexI [of _ a]) auto
qed

text \<open>a sub-token dies with its root agent: if the root of the chain is not configured any more, or has
  expired, the token of a delegation resolves to no principal (instead of an unrestricted one).\<close>
theorem orphaned_delegation_has_no_principal:
  assumes "del_resolveChain s (hf t) now = Some (chain, root, profile)"
    and "\<forall>a\<in>set agents. ag_id a = root \<longrightarrow> agent_expired a now" and "\<forall>a\<in>set agents. ag_token_hash a \<noteq> hf t" and "t \<noteq> []"
  shows "resolvePrincipal hf agents (Some s) (Some t) now =
     \<lparr>rs_principal = None, rs_expiredAgentId = None, rs_orphanRootAgentId = Some root\<rparr>"
proof -
  have m: "match_agent agents (hf t) = None" using assms(3) by (simp add: match_agent_None)
  show ?thesis
  proof (cases "List.find (\<lambda>a. ag_id a = root) agents")
    case None
    with m assms(1,4) show ?thesis by (simp add: resolvePrincipal_def resolve_delegation_def)
  next
    case (Some a)
    then have "agent_expired a now" using assms(2) by (auto dest: find_SomeD)
    with Some m assms(1,4) show ?thesis by (simp add: resolvePrincipal_def resolve_delegation_def)
  qed
qed

end
