(* ===== verification/Dlp.thy ===== *)
theory Dlp
  imports Auth
begin

text \<open>
  Outbound content inspection (\<^verbatim>\<open>proxy/src/dlp/scan.ts\<close>). The detectors are regular
  expressions; they are written in a small regular-expression language with the semantics of a
  JavaScript match (alternatives in order, greedy repetition, word boundaries), and
  \<open>String.match\<close> with the \<open>g\<close> flag counts the non-overlapping matches from the left.
\<close>

subsection \<open>Regular expressions\<close>

datatype rx =
    RxEmpty
  | RxClass "char \<Rightarrow> bool"
  | RxSeq rx rx
  | RxAlt rx rx
  | RxRep "char \<Rightarrow> bool" nat "nat option"
  | RxWordB

definition code :: "char \<Rightarrow> nat" where
  "code c = of_char c"

definition in_range :: "char \<Rightarrow> char \<Rightarrow> char \<Rightarrow> bool" where
  "in_range lo hi c \<longleftrightarrow> code lo \<le> code c \<and> code c \<le> code hi"

definition is_digit_char :: "char \<Rightarrow> bool" where "is_digit_char = in_range (CHR ''0'') (CHR ''9'')"
definition is_upper :: "char \<Rightarrow> bool" where "is_upper = in_range (CHR ''A'') (CHR ''Z'')"
definition is_lower :: "char \<Rightarrow> bool" where "is_lower = in_range (CHR ''a'') (CHR ''z'')"

definition is_alnum :: "char \<Rightarrow> bool" where
  "is_alnum c \<longleftrightarrow> is_digit_char c \<or> is_upper c \<or> is_lower c"

definition is_word :: "char \<Rightarrow> bool" where
  "is_word c \<longleftrightarrow> is_alnum c \<or> c = CHR ''_''"

definition word_opt :: "char option \<Rightarrow> bool" where
  "word_opt c = (case c of None \<Rightarrow> False | Some x \<Rightarrow> is_word x)"

definition head_opt :: "string \<Rightarrow> char option" where
  "head_opt s = (case s of [] \<Rightarrow> None | c # _ \<Rightarrow> Some c)"

definition prev_after :: "char option \<Rightarrow> string \<Rightarrow> nat \<Rightarrow> char option" where
  "prev_after prev s n = (if n = 0 then prev else Some (s ! (n - 1)))"

text \<open>The lengths a match at the head of \<open>s\<close> can have, in the order the engine tries them.\<close>

fun rx_match :: "rx \<Rightarrow> char option \<Rightarrow> string \<Rightarrow> nat list" where
  "rx_match RxEmpty prev s = [0]"
| "rx_match (RxClass P) prev s = (case s of [] \<Rightarrow> [] | c # _ \<Rightarrow> if P c then [1] else [])"
| "rx_match (RxSeq a b) prev s =
     concat (map (\<lambda>n. map (\<lambda>m. n + m) (rx_match b (prev_after prev s n) (drop n s))) (rx_match a prev s))"
| "rx_match (RxAlt a b) prev s = rx_match a prev s @ rx_match b prev s"
| "rx_match (RxRep P lo hi) prev s =
     (let run = length (takeWhile P s); top = (case hi of None \<Rightarrow> run | Some h \<Rightarrow> min run h)
      in if lo \<le> top then rev [lo..<Suc top] else [])"
| "rx_match RxWordB prev s = (if word_opt prev \<noteq> word_opt (head_opt s) then [0] else [])"

text \<open>The number of matches of a pattern that never matches the empty string.\<close>

function rx_count :: "rx \<Rightarrow> char option \<Rightarrow> string \<Rightarrow> nat" where
  "rx_count r prev [] = 0"
| "rx_count r prev (c # cs) =
     (case rx_match r prev (c # cs) of
        [] \<Rightarrow> rx_count r (Some c) cs
      | 0 # _ \<Rightarrow> rx_count r (Some c) cs
      | Suc n # _ \<Rightarrow> Suc (rx_count r (prev_after (Some c) cs n) (drop n cs)))"
  by pat_completeness auto
termination by (relation "measure (\<lambda>(r, prev, s). length s)") auto

fun rx_lit :: "string \<Rightarrow> rx" where
  "rx_lit [] = RxEmpty"
| "rx_lit (c # cs) = RxSeq (RxClass (\<lambda>d. d = c)) (rx_lit cs)"

fun rx_lit_ci :: "string \<Rightarrow> rx" where
  "rx_lit_ci [] = RxEmpty"
| "rx_lit_ci (c # cs) = RxSeq (RxClass (\<lambda>d. js_canonicalize True d = js_canonicalize True c)) (rx_lit_ci cs)"

fun rx_seq :: "rx list \<Rightarrow> rx" where
  "rx_seq [] = RxEmpty"
| "rx_seq (r # rs) = RxSeq r (rx_seq rs)"

fun rx_alts :: "rx list \<Rightarrow> rx" where
  "rx_alts [] = RxEmpty"
| "rx_alts [r] = r"
| "rx_alts (r # rs) = RxAlt r (rx_alts rs)"

definition rx_opt :: "(char \<Rightarrow> bool) \<Rightarrow> rx" where
  "rx_opt P = RxRep P 0 (Some 1)"

subsection \<open>The detectors\<close>

definition is_quote :: "char \<Rightarrow> bool" where
  "is_quote c \<longleftrightarrow> code c = 34 \<or> code c = 39"

definition aws_access_key :: rx where
  "aws_access_key = rx_seq [RxWordB, rx_lit ''AKIA'', RxRep (\<lambda>c. is_digit_char c \<or> is_upper c) 16 (Some 16), RxWordB]"

definition generic_secret_assignment :: rx where
  "generic_secret_assignment = rx_seq
     [rx_alts [rx_lit_ci ''password'', rx_lit_ci ''passwd'', rx_lit_ci ''secret'',
               rx_seq [rx_lit_ci ''api'', rx_opt (\<lambda>c. c = CHR ''_'' \<or> c = CHR ''-''), rx_lit_ci ''key''],
               rx_seq [rx_lit_ci ''access'', rx_opt (\<lambda>c. c = CHR ''_'' \<or> c = CHR ''-''), rx_lit_ci ''token'']],
      rx_opt is_quote, RxRep is_space 0 None, RxClass (\<lambda>c. c = CHR ''='' \<or> c = CHR '':''),
      RxRep is_space 0 None, rx_opt is_quote,
      RxRep (\<lambda>c. \<not> is_space c \<and> \<not> is_quote c \<and> c \<noteq> CHR ''&'' \<and> c \<noteq> CHR '','' \<and> c \<noteq> CHR '';'') 12 None]"

definition DETECTORS :: "(string \<times> rx) list" where
  "DETECTORS =
     [(''aws_access_key'', aws_access_key),
      (''github_token'', rx_seq [RxWordB, rx_lit ''gh'', RxClass (\<lambda>c. c \<in> set ''pousr''), rx_lit ''_'', RxRep is_alnum 36 None, RxWordB]),
      (''github_pat'', rx_seq [RxWordB, rx_lit ''github_pat_'', RxRep is_word 50 None, RxWordB]),
      (''slack_token'', rx_seq [RxWordB, rx_lit ''xox'', RxClass (\<lambda>c. c \<in> set ''baprs''), rx_lit ''-'',
         RxRep (\<lambda>c. is_alnum c \<or> c = CHR ''-'') 10 None, RxWordB]),
      (''google_api_key'', rx_seq [RxWordB, rx_lit ''AIza'', RxRep (\<lambda>c. is_word c \<or> c = CHR ''-'') 35 (Some 35), RxWordB]),
      (''stripe_secret_key'', rx_seq [RxWordB, rx_lit ''sk_live_'', RxRep is_alnum 24 None, RxWordB]),
      (''openai_key'', rx_seq [RxWordB, rx_lit ''sk-'', RxAlt (rx_lit ''proj-'') RxEmpty,
         RxRep (\<lambda>c. is_word c \<or> c = CHR ''-'') 32 None, RxWordB]),
      (''private_key'', rx_seq [rx_lit ''-----BEGIN '',
         rx_alts [rx_lit ''RSA '', rx_lit ''EC '', rx_lit ''OPENSSH '', rx_lit ''DSA '', rx_lit ''PGP '', RxEmpty],
         rx_lit ''PRIVATE KEY-----'']),
      (''generic_secret_assignment'', generic_secret_assignment)]"

definition MAX_SCAN_BYTES :: nat where "MAX_SCAN_BYTES = 1000000"

definition scanForSecrets :: "string \<Rightarrow> (string \<times> nat) list" where
  "scanForSecrets text =
     (let hay = (if length text > MAX_SCAN_BYTES then take MAX_SCAN_BYTES text else text)
      in filter (\<lambda>(d, n). n > 0) (map (\<lambda>(name, re). (name, rx_count re None hay)) DETECTORS))"

definition findingLabel :: "(string \<times> nat) list \<Rightarrow> string" where
  "findingLabel findings = (case map fst findings of [] \<Rightarrow> [] | d # ds \<Rightarrow> d @ concat (map (\<lambda>x. '','' @ x) ds))"

subsection \<open>Properties\<close>

lemma rx_match_lit: "rx_match (rx_lit w) prev (w @ s) = [length w]"
proof (induction w arbitrary: prev)
  case Nil
  then show ?case by simp
next
  case (Cons c w)
  then show ?case by (simp add: prev_after_def)
qed

lemma rx_match_seq1:
  "rx_match a prev s = [n] \<Longrightarrow> rx_match (RxSeq a b) prev s = map ((+) n) (rx_match b (prev_after prev s n) (drop n s))"
  by simp

lemma drop_4: "drop 4 (''AKIA'' @ s) = s"
  by simp

lemma prev_after_app: "w \<noteq> [] \<Longrightarrow> prev_after prev (w @ s) (length w) = Some (last w)"
  by (simp add: prev_after_def nth_append last_conv_nth)

text \<open>A match somewhere means a positive count.\<close>

lemma rx_count_found:
  assumes "rx_match r (if pre = [] then prev else Some (last pre)) s = n # ns" "n \<noteq> 0" "s \<noteq> []"
  shows "0 < rx_count r prev (pre @ s)"
  using assms
proof (induction pre arbitrary: prev)
  case Nil
  then obtain c cs m where "s = c # cs" "n = Suc m" by (cases s; cases n) auto
  with Nil show ?case by simp
next
  case (Cons c pre)
  then have IH: "0 < rx_count r (Some c) (pre @ s)" by (auto split: if_splits)
  show ?case
  proof (cases "rx_match r prev (c # pre @ s)")
    case Nil
    with IH show ?thesis by simp
  next
    case (Cons m ms)
    with IH show ?thesis by (cases m) simp_all
  qed
qed

lemma scan_detects:
  assumes "(name, re) \<in> set DETECTORS" "length text \<le> MAX_SCAN_BYTES" "0 < rx_count re None text"
  shows "name \<in> set (map fst (scanForSecrets text))"
  using assms by (force simp: scanForSecrets_def)

lemma aws_match:
  assumes "length k = 16" "\<forall>c\<in>set k. is_digit_char c \<or> is_upper c" "\<not> word_opt prev" "\<not> word_opt (head_opt rest)"
  shows "rx_match aws_access_key prev (''AKIA'' @ k @ rest) = [20]"
proof -
  let ?P = "\<lambda>c. is_digit_char c \<or> is_upper c"
  have w: "is_word (CHR ''A'')" by (simp add: is_word_def is_alnum_def is_upper_def in_range_def code_def)
  have kw: "is_word (last k)" using assms(1,2) by (cases k rule: rev_cases) (auto simp: is_word_def is_alnum_def)
  have run: "16 \<le> length (takeWhile ?P (k @ rest))" using assms(1,2) by (simp add: takeWhile_append2)
  have rep: "rx_match (RxRep ?P 16 (Some 16)) (Some (CHR ''A'')) (k @ rest) = [16]"
    using run by (simp add: Let_def min_def)
  have last4: "prev_after prev (''AKIA'' @ k @ rest) 4 = Some (CHR ''A'')"
    by (simp add: prev_after_def)
  have lastk: "prev_after (Some (CHR ''A'')) (k @ rest) 16 = Some (last k)"
  proof -
    have "k \<noteq> []" using assms(1) by auto
    from prev_after_app [OF this, of "Some (CHR ''A'')" rest] assms(1) show ?thesis by simp
  qed
  have b1: "rx_match RxWordB prev (''AKIA'' @ k @ rest) = [0]" using assms(3) w by (simp add: head_opt_def word_opt_def)
  have b2: "rx_match RxWordB (Some (last k)) rest = [0]" using assms(4) kw by (simp add: word_opt_def)
  have lit: "rx_match (rx_lit ''AKIA'') prev (''AKIA'' @ k @ rest) = [4]"
    using rx_match_lit [of "''AKIA''" prev "k @ rest"] by simp
  have tail: "rx_match (RxSeq RxWordB RxEmpty) (Some (last k)) rest = [0]" using b2 by simp
  have rep2: "rx_match (RxSeq (RxRep ?P 16 (Some 16)) (RxSeq RxWordB RxEmpty)) (Some (CHR ''A'')) (k @ rest) = [16]"
    unfolding rx_match_seq1 [OF rep] lastk using tail assms(1) by simp
  have lit2: "rx_match (RxSeq (rx_lit ''AKIA'') (RxSeq (RxRep ?P 16 (Some 16)) (RxSeq RxWordB RxEmpty))) prev (''AKIA'' @ k @ rest) = [20]"
    unfolding rx_match_seq1 [OF lit] last4 using rep2 by (simp only: drop_4) simp
  show ?thesis unfolding aws_access_key_def rx_seq.simps rx_match_seq1 [OF b1]
    using lit2 by (simp only: prev_after_def drop_0 if_True) simp
qed

text \<open>an AWS access key is never missed: a body of at most the scanned size that contains one anywhere,
  not glued to other word characters, is flagged by its detector.\<close>
theorem aws_key_is_flagged:
  assumes "length k = 16" "\<forall>c\<in>set k. is_digit_char c \<or> is_upper c"
    and "pre = [] \<or> \<not> is_word (last pre)" "rest = [] \<or> \<not> is_word (hd rest)"
    and "length (pre @ ''AKIA'' @ k @ rest) \<le> MAX_SCAN_BYTES"
  shows "''aws_access_key'' \<in> set (map fst (scanForSecrets (pre @ ''AKIA'' @ k @ rest)))"
proof -
  have "\<not> word_opt (if pre = [] then None else Some (last pre))" using assms(3) by (auto simp: word_opt_def)
  moreover have "\<not> word_opt (head_opt rest)" using assms(4) by (cases rest) (auto simp: word_opt_def head_opt_def)
  ultimately have "rx_match aws_access_key (if pre = [] then None else Some (last pre)) (''AKIA'' @ k @ rest) = [20]"
    using assms(1,2) by (intro aws_match)
  then have "0 < rx_count aws_access_key None (pre @ (''AKIA'' @ k @ rest))"
    by (rule rx_count_found) simp_all
  moreover have "(''aws_access_key'', aws_access_key) \<in> set DETECTORS" by (simp add: DETECTORS_def)
  ultimately show ?thesis using assms(5) by (intro scan_detects) auto
qed

end
