(* ===== verification/Forward.thy ===== *)
theory Forward
  imports Gates Auth
begin

text \<open>
  The outbound side: the egress guard (\<^verbatim>\<open>proxy/egress.ts\<close>) and the forwarding of an allowed
  request with the real credential (\<^verbatim>\<open>proxy/forward.ts\<close>). Header lists hold lower-case names,
  as the \<open>Headers\<close> class iterates them. The URL parser (\<open>new URL(...).origin\<close>, \<open>None\<close> when it
  throws) is a parameter, and what the upstream answers is an argument.
\<close>

subsection \<open>The egress guard\<close>

definition strip_slashes :: "string \<Rightarrow> string" where
  "strip_slashes s = rev (dropWhile (\<lambda>c. c = CHR ''/'') (rev s))"

definition buildTargetUrl :: "string \<Rightarrow> string \<Rightarrow> string \<Rightarrow> string" where
  "buildTargetUrl baseUrl path query =
     (let base = strip_slashes baseUrl;
          suffix = (if take 1 path = ''/'' then path else CHR ''/'' # path)
      in if query \<noteq> [] then base @ suffix @ ''?'' @ query else base @ suffix)"

definition resolveUpstreamUrl :: "(string \<Rightarrow> string option) \<Rightarrow> string \<Rightarrow> string \<Rightarrow> string \<Rightarrow> string option" where
  "resolveUpstreamUrl urlOrigin baseUrl path query =
     (if take 1 path \<noteq> ''/'' \<or> take 2 path = ''//'' then None
      else let candidate = buildTargetUrl baseUrl path query in
        case (urlOrigin baseUrl, urlOrigin candidate) of
          (Some base, Some target) \<Rightarrow> if target \<noteq> base then None else Some candidate
        | _ \<Rightarrow> None)"

subsection \<open>Headers\<close>

type_synonym header_list = "(string \<times> string) list"

definition STRIP_REQUEST_HEADERS :: "string list" where
  "STRIP_REQUEST_HEADERS =
     [''host'', ''authorization'', ''x-grenz-token'', ''connection'', ''keep-alive'', ''proxy-authenticate'',
      ''proxy-authorization'', ''te'', ''trailer'', ''transfer-encoding'', ''upgrade'', ''content-length'']"

definition STRIP_RESPONSE_HEADERS :: "string list" where
  "STRIP_RESPONSE_HEADERS =
     [''connection'', ''keep-alive'', ''proxy-authenticate'', ''proxy-authorization'', ''te'', ''trailer'',
      ''transfer-encoding'', ''upgrade'', ''content-encoding'', ''content-length'', ''set-cookie'']"

definition header_set :: "header_list \<Rightarrow> string \<Rightarrow> string \<Rightarrow> header_list" where
  "header_set hs name v = AList.update (map to_lower name) v hs"

definition copy_headers :: "string list \<Rightarrow> header_list \<Rightarrow> header_list" where
  "copy_headers strip from =
     foldl (\<lambda>hs (k, v). if map to_lower k \<in> set strip then hs else header_set hs k v) [] from"

subsection \<open>Forwarding\<close>

record upstream_config =
  up_type :: string
  up_base_url :: string
  up_credential :: string
  up_inject_header :: string
  up_inject_scheme :: string

record outbound =
  ob_method :: string
  ob_url :: string
  ob_headers :: header_list
  ob_body :: "string option"

record upstream_answer =
  ua_status :: int
  ua_headers :: header_list
  ua_body :: "string list option"

record client_response =
  cl_status :: int
  cl_headers :: header_list
  cl_body :: "string list option"

datatype forward_result = FwdOk client_response int | FwdTruncated client_response int | FwdTooLarge int

definition injected_value :: "upstream_config \<Rightarrow> string \<Rightarrow> string" where
  "injected_value upstream credential =
     (if length (up_inject_scheme upstream) > 0 then up_inject_scheme upstream @ '' '' @ credential else credential)"

definition forward_request ::
    "upstream_config \<Rightarrow> string \<Rightarrow> string \<Rightarrow> string \<Rightarrow> header_list \<Rightarrow> string option \<Rightarrow> outbound" where
  "forward_request upstream credential httpMethod url requestHeaders body =
     (let hs1 = header_set (copy_headers STRIP_REQUEST_HEADERS requestHeaders)
                  (up_inject_header upstream) (injected_value upstream credential);
          hs2 = (if up_type upstream = ''github'' \<and> map_of hs1 ''user-agent'' = None
                 then header_set hs1 ''user-agent'' ''grenz-proxy'' else hs1)
      in \<lparr>ob_method = httpMethod, ob_url = url, ob_headers = hs2,
          ob_body = (case body of Some (b # bs) \<Rightarrow> Some (b # bs) | _ \<Rightarrow> None)\<rparr>)"

text \<open>\<open>/^\d+$/\<close> and \<open>Number\<close> on the declared length; a number too large for a double stays larger than any cap.\<close>

definition declared_length :: "header_list \<Rightarrow> int option" where
  "declared_length hs =
     (case map_of hs ''content-length'' of
        None \<Rightarrow> None
      | Some t \<Rightarrow> if t \<noteq> [] \<and> list_all is_digit t then Some (foldl (\<lambda>n c. 10 * n + digit_val c) 0 t) else None)"

definition forward_response :: "response_limit option \<Rightarrow> upstream_answer \<Rightarrow> forward_result" where
  "forward_response responseLimit answer =
     (let hs = header_set (copy_headers STRIP_RESPONSE_HEADERS (ua_headers answer)) ''x-grenz-decision'' ''allow'' in
      case responseLimit of
        None \<Rightarrow> FwdOk \<lparr>cl_status = ua_status answer, cl_headers = hs, cl_body = ua_body answer\<rparr> (ua_status answer)
      | Some limit \<Rightarrow>
          let declared = declared_length (ua_headers answer);
              exceeds = (case declared of None \<Rightarrow> False | Some n \<Rightarrow> n > rl_maxBytes limit)
          in if rl_onExceed limit = RefuseExceed \<and> exceeds then FwdTooLarge (ua_status answer)
             else
               let hs' = header_set hs ''x-grenz-response-limit'' (show_nat (nat (rl_maxBytes limit)));
                   hs'' = (if exceeds then header_set hs' ''x-grenz-truncated'' ''true'' else hs');
                   response = \<lparr>cl_status = ua_status answer, cl_headers = hs'',
                               cl_body = capResponseBody (ua_body answer) (nat (rl_maxBytes limit))\<rparr>
               in (if exceeds then FwdTruncated else FwdOk) response (ua_status answer))"

subsection \<open>Properties\<close>

lemma copy_headers_stripped:
  assumes "name \<in> set strip" shows "map_of (copy_headers strip from) name = None"
proof -
  have "map_of hs name = None \<Longrightarrow>
     map_of (foldl (\<lambda>hs (k, v). if map to_lower k \<in> set strip then hs else header_set hs k v) hs from) name = None" for hs
  proof (induction "from" arbitrary: hs)
    case Nil
    then show ?case by simp
  next
    case (Cons kv rest)
    obtain k v where kv: "kv = (k, v)" by (cases kv)
    have "map to_lower k \<notin> set strip \<Longrightarrow> map_of (header_set hs k v) name = None"
      unfolding header_set_def map_of_update_eq using Cons.prems assms by auto
    with Cons kv show ?case by auto
  qed
  from this [of "[]"] show ?thesis by (simp add: copy_headers_def)
qed

lemma header_set_get: "map_of (header_set hs k v) n = (if n = map to_lower k then Some v else map_of hs n)"
  unfolding header_set_def map_of_update_eq by simp

end
