(* ===== verification/Request_Log.thy ===== *)
theory Request_Log
  imports Gates "HOL-Library.List_Lexorder" "HOL-Library.Char_ord" "HOL-Library.Product_Lexorder"
begin

text \<open>
  The request log (\<^verbatim>\<open>proxy/src/log/request-log.ts\<close>): the table is the list of its rows in
  insertion order (the position is the row id), and each SQL query is the list expression with
  the same meaning. The queries feed budgets, first use, the risk score and the reports.
\<close>

record log_entry =
  le_ts :: ms
  le_agentId :: agent_id
  le_upstream :: string
  le_tool :: string
  le_action :: string
  le_method :: string
  le_target :: string
  le_decision :: decision
  le_reason :: reason_code
  le_forwarded :: bool
  le_status :: "int option"
  le_count :: int
  le_shadow :: bool
  le_delegationId :: "string option"

type_synonym request_log = "log_entry list"

definition log_record :: "log_entry \<Rightarrow> request_log \<Rightarrow> request_log" where
  "log_record entry rows = rows @ [entry]"

subsection \<open>Budgets and first use\<close>

definition sum_count :: "(log_entry \<Rightarrow> bool) \<Rightarrow> request_log \<Rightarrow> int" where
  "sum_count P rows = sum_list (map le_count (filter P rows))"

definition countAllowedSince :: "request_log \<Rightarrow> agent_id \<Rightarrow> ms \<Rightarrow> int" where
  "countAllowedSince rows agentId sinceTs =
     sum_count (\<lambda>r. le_agentId r = agentId \<and> le_decision r = Allow \<and> le_ts r \<ge> sinceTs) rows"

definition countAllowedSinceForUpstream :: "request_log \<Rightarrow> agent_id \<Rightarrow> string \<Rightarrow> ms \<Rightarrow> int" where
  "countAllowedSinceForUpstream rows agentId upstream sinceTs =
     sum_count (\<lambda>r. le_agentId r = agentId \<and> le_upstream r = upstream \<and> le_decision r = Allow \<and> le_ts r \<ge> sinceTs) rows"

definition countAllowedSinceForDelegation :: "request_log \<Rightarrow> string \<Rightarrow> ms \<Rightarrow> int" where
  "countAllowedSinceForDelegation rows delegationId sinceTs =
     sum_count (\<lambda>r. le_delegationId r = Some delegationId \<and> le_decision r = Allow \<and> le_ts r \<ge> sinceTs) rows"

definition hasForwardedActionSince :: "request_log \<Rightarrow> agent_id \<Rightarrow> string \<Rightarrow> string \<Rightarrow> ms \<Rightarrow> bool" where
  "hasForwardedActionSince rows agentId tool action sinceTs =
     list_ex (\<lambda>r. le_agentId r = agentId \<and> le_tool r = tool \<and> le_action r = action \<and> le_forwarded r
        \<and> le_ts r \<ge> sinceTs) rows"

subsection \<open>Reports\<close>

definition count_rows :: "(log_entry \<Rightarrow> bool) \<Rightarrow> request_log \<Rightarrow> int" where
  "count_rows P rows = int (length (filter P rows))"

record log_summary =
  sm_total :: int
  sm_allow :: int
  sm_deny :: int
  sm_approvalGranted :: int
  sm_approvalDenied :: int
  sm_approvalExpired :: int
  sm_rememberedGrant :: int
  sm_rememberedDeny :: int

definition log_summary_since :: "request_log \<Rightarrow> ms \<Rightarrow> log_summary" where
  "log_summary_since rows sinceTs =
     (let rs = filter (\<lambda>r. le_ts r \<ge> sinceTs) rows in
      \<lparr>sm_total = count_rows (\<lambda>_. True) rs,
       sm_allow = count_rows (\<lambda>r. le_decision r = Allow) rs,
       sm_deny = count_rows (\<lambda>r. le_decision r = Deny) rs,
       sm_approvalGranted = count_rows (\<lambda>r. le_reason r = R_approval_granted) rs,
       sm_approvalDenied = count_rows (\<lambda>r. le_reason r = R_approval_denied) rs,
       sm_approvalExpired = count_rows (\<lambda>r. le_reason r = R_approval_expired) rs,
       sm_rememberedGrant = count_rows (\<lambda>r. le_reason r = R_approval_remembered_grant) rs,
       sm_rememberedDeny = count_rows (\<lambda>r. le_reason r = R_approval_remembered_deny) rs\<rparr>)"

text \<open>\<open>GROUP BY\<close> / \<open>DISTINCT\<close> on a key, in the order of the key.\<close>

definition groups :: "(log_entry \<Rightarrow> 'k::linorder) \<Rightarrow> request_log \<Rightarrow> ('k \<times> request_log) list" where
  "groups key rows = map (\<lambda>k. (k, filter (\<lambda>r. key r = k) rows)) (sort (remdups (map key rows)))"

abbreviation tool_action :: "log_entry \<Rightarrow> string \<times> string" where
  "tool_action r \<equiv> (le_tool r, le_action r)"

definition usedActions :: "request_log \<Rightarrow> agent_id \<Rightarrow> ms \<Rightarrow> (string \<times> string) list" where
  "usedActions rows agentId sinceTs =
     sort (remdups (map tool_action (filter (\<lambda>r. le_agentId r = agentId \<and> le_reason r = R_explicit_allow \<and> le_ts r \<ge> sinceTs) rows)))"

definition max_ts :: "request_log \<Rightarrow> ms" where
  "max_ts rows = foldr (\<lambda>r m. max (le_ts r) m) (tl rows) (le_ts (hd rows))"

definition lastUsedActions :: "request_log \<Rightarrow> agent_id \<Rightarrow> ((string \<times> string) \<times> ms \<times> int) list" where
  "lastUsedActions rows agentId =
     map (\<lambda>(k, rs). (k, max_ts rs, int (length rs)))
       (groups tool_action (filter (\<lambda>r. le_agentId r = agentId \<and> le_forwarded r \<and> \<not> le_shadow r) rows))"

definition coverageStart :: "request_log \<Rightarrow> agent_id option \<Rightarrow> ms option" where
  "coverageStart rows agentId =
     (case filter (\<lambda>r. case agentId of None \<Rightarrow> True | Some a \<Rightarrow> le_agentId r = a) rows of
        [] \<Rightarrow> None
      | r # rs \<Rightarrow> Some (foldr (\<lambda>r m. min (le_ts r) m) rs (le_ts r)))"

definition log_aggregate :: "request_log \<Rightarrow> ms \<Rightarrow> ((string \<times> string) \<times> int \<times> int \<times> int) list" where
  "log_aggregate rows sinceTs =
     map (\<lambda>(k, rs). (k, count_rows (\<lambda>r. le_decision r = Allow) rs, count_rows (\<lambda>r. le_decision r = Deny) rs,
            count_rows (\<lambda>r. le_decision r = RequireApproval) rs))
       (groups tool_action (filter (\<lambda>r. le_ts r \<ge> sinceTs) rows))"

definition decision_text :: "decision \<Rightarrow> string" where
  "decision_text d = (case d of Allow \<Rightarrow> ''allow'' | Deny \<Rightarrow> ''deny'' | RequireApproval \<Rightarrow> ''require_approval'')"

definition shadowWouldBlock :: "request_log \<Rightarrow> ms \<Rightarrow> ((string \<times> string \<times> string) \<times> int) list" where
  "shadowWouldBlock rows sinceTs =
     map (\<lambda>(k, rs). (k, int (length rs)))
       (groups (\<lambda>r. (le_tool r, le_action r, decision_text (le_decision r)))
          (filter (\<lambda>r. le_shadow r \<and> le_ts r \<ge> sinceTs) rows))"

definition agentActivity :: "request_log \<Rightarrow> agent_id \<Rightarrow> ms \<Rightarrow> agent_activity" where
  "agentActivity rows agentId sinceTs =
     (let rs = filter (\<lambda>r. le_agentId r = agentId \<and> le_ts r \<ge> sinceTs) rows in
      \<lparr>aa_total = int (length rs),
       aa_allow = count_rows (\<lambda>r. le_decision r = Allow) rs,
       aa_deny = count_rows (\<lambda>r. le_decision r = Deny) rs,
       aa_require_approval = count_rows (\<lambda>r. le_decision r = RequireApproval) rs,
       aa_distinctDenied = int (length (remdups (map le_action (filter (\<lambda>r. le_decision r = Deny) rs))))\<rparr>)"

definition log_recent :: "request_log \<Rightarrow> nat \<Rightarrow> request_log" where
  "log_recent rows limit = take limit (rev rows)"

definition recentByReasons :: "request_log \<Rightarrow> reason_code list \<Rightarrow> nat \<Rightarrow> (nat \<times> log_entry) list" where
  "recentByReasons rows reasons limit =
     (if reasons = [] then []
      else take limit (filter (\<lambda>(rowid, r). le_reason r \<in> set reasons) (rev (enumerate 1 rows))))"

subsection \<open>Properties\<close>

lemma agentActivity_bounds:
  "0 \<le> aa_distinctDenied (agentActivity rows a t)"
  "aa_distinctDenied (agentActivity rows a t) \<le> aa_deny (agentActivity rows a t)"
proof -
  have "length (remdups (map le_action xs)) \<le> length xs" for xs
    by (metis length_map length_remdups_leq)
  then show "aa_distinctDenied (agentActivity rows a t) \<le> aa_deny (agentActivity rows a t)"
    by (simp add: agentActivity_def Let_def count_rows_def)
qed (simp add: agentActivity_def Let_def)

text \<open>the risk score of an agent's log window is a number from 0 to 100, and the agent is rated high only
  if the window holds at least five denied requests of that agent.\<close>
theorem high_risk_needs_five_denials:
  "0 \<le> ra_score (scoreRisk (agentActivity rows agent since)) \<and> ra_score (scoreRisk (agentActivity rows agent since)) \<le> 100
   \<and> (if ra_level (scoreRisk (agentActivity rows agent since)) = High
      then 5 \<le> count_rows (\<lambda>r. le_agentId r = agent \<and> le_ts r \<ge> since \<and> le_decision r = Deny) rows else True)"
proof -
  let ?a = "agentActivity rows agent since"
  have "aa_deny ?a = count_rows (\<lambda>r. le_agentId r = agent \<and> le_ts r \<ge> since \<and> le_decision r = Deny) rows"
    by (simp add: agentActivity_def Let_def count_rows_def conj_ac)
  moreover have "0 \<le> ra_score (scoreRisk ?a)" "ra_score (scoreRisk ?a) \<le> 100"
    "ra_level (scoreRisk ?a) = High \<Longrightarrow> 5 \<le> aa_deny ?a"
    using agentActivity_bounds [of rows agent since] by (auto simp: scoreRisk_def Let_def split: if_splits)
  ultimately show ?thesis by auto
qed

lemma sum_count_record:
  "sum_count P (log_record e rows) = sum_count P rows + (if P e then le_count e else 0)"
  by (simp add: sum_count_def log_record_def)

end
