(* ===== verification/Canary.thy ===== *)
theory Canary
  imports Policy_Types "HOL-Library.List_Lexorder" "HOL-Library.Char_ord"
begin

text \<open>
  The divergence counters of the shadow policy (\<^verbatim>\<open>proxy/src/canary/store.ts\<close>).
\<close>

record canary_cell =
  cn_tool :: string
  cn_action :: string
  cn_live :: decision
  cn_candidate :: decision
  cn_count :: int

record canary_store =
  cy_requests :: int
  cy_divergences :: int
  cy_cells :: "(string \<times> canary_cell) list"
  cy_maxKeys :: nat

definition new_canary :: "nat \<Rightarrow> canary_store" where
  "new_canary maxKeys = \<lparr>cy_requests = 0, cy_divergences = 0, cy_cells = [], cy_maxKeys = maxKeys\<rparr>"

definition decision_name :: "decision \<Rightarrow> string" where
  "decision_name d = (case d of Allow \<Rightarrow> ''allow'' | Deny \<Rightarrow> ''deny'' | RequireApproval \<Rightarrow> ''require_approval'')"

definition canary_key :: "string \<Rightarrow> string \<Rightarrow> decision \<Rightarrow> decision \<Rightarrow> string" where
  "canary_key tool action live candidate =
     tool @ '' '' @ action @ '' '' @ decision_name live @ '' '' @ decision_name candidate"

definition canary_observe :: "string \<Rightarrow> string \<Rightarrow> decision \<Rightarrow> decision \<Rightarrow> canary_store \<Rightarrow> canary_store" where
  "canary_observe tool action live candidate s =
     (let s1 = s\<lparr>cy_requests := cy_requests s + 1\<rparr> in
      if live = candidate then s1
      else
        let s2 = s1\<lparr>cy_divergences := cy_divergences s1 + 1\<rparr>; key = canary_key tool action live candidate in
        case map_of (cy_cells s2) key of
          Some cell \<Rightarrow> s2\<lparr>cy_cells := AList.update key (cell\<lparr>cn_count := cn_count cell + 1\<rparr>) (cy_cells s2)\<rparr>
        | None \<Rightarrow>
            if length (cy_cells s2) \<ge> cy_maxKeys s2 then s2
            else s2\<lparr>cy_cells := AList.update key
                  \<lparr>cn_tool = tool, cn_action = action, cn_live = live, cn_candidate = candidate, cn_count = 1\<rparr>
                  (cy_cells s2)\<rparr>)"

datatype canary_direction = Stricter | Looser

definition direction_of :: "canary_cell \<Rightarrow> canary_direction" where
  "direction_of c = (if decision_rank (cn_candidate c) > decision_rank (cn_live c) then Stricter else Looser)"

text \<open>The comparator of the snapshot, as the position a row sorts by.\<close>

definition canary_before :: "canary_cell \<Rightarrow> canary_cell \<Rightarrow> bool" where
  "canary_before a b =
     (if direction_of a \<noteq> direction_of b then direction_of a = Stricter
      else if cn_count a \<noteq> cn_count b then cn_count b < cn_count a
      else if cn_tool a \<noteq> cn_tool b then cn_tool a < cn_tool b
      else cn_action a < cn_action b)"

fun insert_row :: "canary_cell \<Rightarrow> canary_cell list \<Rightarrow> canary_cell list" where
  "insert_row c [] = [c]"
| "insert_row c (d # ds) = (if canary_before c d then c # d # ds else d # insert_row c ds)"

definition canary_snapshot :: "canary_store \<Rightarrow> int \<times> int \<times> canary_cell list" where
  "canary_snapshot s =
     (cy_requests s, cy_divergences s, foldl (\<lambda>rows c. insert_row c rows) [] (map snd (cy_cells s)))"

subsection \<open>Properties\<close>

definition cell_total :: "canary_store \<Rightarrow> int" where
  "cell_total s = sum_list (map (\<lambda>kc. cn_count (snd kc)) (cy_cells s))"

lemma sum_update:
  "distinct (alist_keys m) \<Longrightarrow> map_of m k = Some c \<Longrightarrow>
   sum_list (map (\<lambda>kc. f (snd kc)) (AList.update k c' m)) = sum_list (map (\<lambda>kc. f (snd kc)) m) - f c + (f c' :: int)"
  by (induction m) auto

definition canary_inv :: "canary_store \<Rightarrow> bool" where
  "canary_inv s \<longleftrightarrow> distinct (alist_keys (cy_cells s)) \<and> length (cy_cells s) \<le> cy_maxKeys s
     \<and> cell_total s \<le> cy_divergences s \<and> cy_divergences s \<le> cy_requests s
     \<and> (length (cy_cells s) < cy_maxKeys s \<longrightarrow> cell_total s = cy_divergences s)"

lemma canary_observe_inv:
  assumes "canary_inv s" shows "canary_inv (canary_observe tool action live candidate s)"
proof -
  let ?key = "canary_key tool action live candidate"
  show ?thesis
  proof (cases "live = candidate")
    case True
    with assms show ?thesis by (auto simp: canary_inv_def canary_observe_def Let_def cell_total_def)
  next
    case neq: False
    show ?thesis
    proof (cases "map_of (cy_cells s) ?key")
      case None
      then have "?key \<notin> set (alist_keys (cy_cells s))" by (simp add: map_of_eq_None_iff)
      with None neq assms show ?thesis
        by (auto simp: canary_inv_def canary_observe_def Let_def cell_total_def update_fresh)
    next
      case (Some c)
      then have "?key \<in> set (alist_keys (cy_cells s))" by (force dest: map_of_SomeD)
      with Some neq assms show ?thesis
        by (auto simp: canary_inv_def canary_observe_def Let_def cell_total_def sum_update distinct_update
            length_alist_update_present simp del: set_map)
    qed
  qed
qed

lemma canary_run_inv:
  "canary_inv s \<Longrightarrow> canary_inv (foldl (\<lambda>s (t, a, l, c). canary_observe t a l c s) s obs)"
  by (induction obs arbitrary: s) (auto intro: canary_observe_inv)

text \<open>the shadow-policy preview never overstates: after any observations the counts of its cells add up to
  at most the divergences counted (exactly that while the key cap is not reached), which are at most
  the requests, and the number of cells respects the cap.\<close>
theorem canary_counts_consistent:
  "let s = foldl (\<lambda>s (t, a, l, c). canary_observe t a l c s) (new_canary maxKeys) obs in
   length (cy_cells s) \<le> maxKeys \<and> cell_total s \<le> cy_divergences s \<and> cy_divergences s \<le> cy_requests s
   \<and> cy_requests s = int (length obs)"
proof -
  let ?run = "foldl (\<lambda>s (t, a, l, c). canary_observe t a l c s)"
  have "canary_inv (?run (new_canary maxKeys) obs)"
    by (rule canary_run_inv) (simp add: canary_inv_def new_canary_def cell_total_def)
  moreover have "cy_maxKeys (?run s obs) = cy_maxKeys s \<and> cy_requests (?run s obs) = cy_requests s + int (length obs)" for s
  proof (induction obs arbitrary: s)
    case Nil
    then show ?case by simp
  next
    case (Cons ob obs)
    obtain t a l c where "ob = (t, a, l, c)" by (cases ob)
    moreover have "cy_maxKeys (canary_observe t a l c s) = cy_maxKeys s"
      "cy_requests (canary_observe t a l c s) = cy_requests s + 1"
      by (auto simp: canary_observe_def Let_def split: option.splits)
    ultimately show ?case using Cons.IH by simp
  qed
  ultimately show ?thesis by (simp add: canary_inv_def new_canary_def Let_def)
qed

end
