(* ===== verification/Server_State.thy ===== *)
theory Server_State
  imports Forward Request_Log Policy_Store Canary Dlp Adapters Approvals
begin

text \<open>
  What one request of \<^verbatim>\<open>proxy/server.ts\<close> runs on: the stores the handler was built with, which
  every other request shares (\<open>pstate\<close>); its configuration (\<open>server_config\<close>); the wire request;
  and the outside of one request (\<open>world\<close>): the clock, whether the disk accepts writes, what the
  vault and the upstream answer, and, for each \<open>await\<close> of the handler, what the rest of the
  process does to the shared stores before the handler resumes.

  A stage of the handler is a \<open>step\<close>: it ends the request with an outcome, or goes on with a
  value, and threads the shared stores.
\<close>

subsection \<open>Configuration\<close>

datatype upstream = DecoyUpstream string | RealUpstream upstream_config

record server_config =
  sc_upstreams :: "(string \<times> upstream) list"
  sc_policy :: compiled_policy
  sc_canaryPolicy :: "compiled_policy option"
  sc_shadow :: bool
  sc_agentRoutes :: bool
  sc_hashToken :: "string \<Rightarrow> string"
  sc_wallClock :: wall_clock
  sc_urlOrigin :: "string \<Rightarrow> string option"

text \<open>
  \<open>upstreams[name]\<close> reads a plain object: a name of \<open>Object.prototype\<close> that is not configured
  gives something that is no upstream and has no \<open>type\<close>.
\<close>

definition OBJECT_PROTOTYPE :: "string list" where
  "OBJECT_PROTOTYPE =
     [''constructor'', ''__proto__'', ''hasOwnProperty'', ''isPrototypeOf'', ''propertyIsEnumerable'',
      ''toLocaleString'', ''toString'', ''valueOf'', ''__defineGetter__'', ''__defineSetter__'',
      ''__lookupGetter__'', ''__lookupSetter__'']"

datatype upstream_lookup = NoUpstream | Inherited | Configured upstream

definition upstream_named :: "server_config \<Rightarrow> string \<Rightarrow> upstream_lookup" where
  "upstream_named cfg name =
     (case map_of (sc_upstreams cfg) name of
        Some u \<Rightarrow> Configured u
      | None \<Rightarrow> if name \<in> set OBJECT_PROTOTYPE then Inherited else NoUpstream)"

subsection \<open>Shared state\<close>

record pstate =
  px_agents :: "agent_config list"
  px_delegations :: "delegation_store option"
  px_revocations :: "revocation_store option"
  px_fleet :: "fleet_store option"
  px_staleClosed :: bool
  px_wrongListener :: "agent_id list"
  px_policyStore :: "policy_store option"
  px_grants :: "grant_store option"
  px_breakGlass :: "break_glass_store option"
  px_flowFacts :: "flow_store option"
  px_pinFacts :: "pin_store option"
  px_canary :: "canary_store option"
  px_broker :: "broker option"
  px_memory :: "approval_memory option"
  px_log :: request_log

subsection \<open>A request and the outside\<close>

record request =
  rq_method :: string
  rq_upstream :: string
  rq_path :: string
  rq_query :: string
  rq_headers :: header_list
  rq_body :: string
  rq_json :: "json option"

text \<open>One wait of \<open>awaitApproval\<close>: the id drawn, the clock when it is created and when it resumes,
  whether the client is already gone at either end, and what happens meanwhile.\<close>

record hold =
  ho_id :: string
  ho_now :: ms
  ho_goneBefore :: bool
  ho_meanwhile :: "pstate \<Rightarrow> pstate"
  ho_goneAfter :: bool
  ho_resumedAt :: ms

datatype vault_answer = VaultError | VaultThrows | VaultValue "string option"

record world =
  w_ts :: ms
  w_disk :: bool
  w_logOk :: bool
  w_afterAuth :: "pstate \<Rightarrow> pstate"
  w_afterBody :: "pstate \<Rightarrow> pstate"
  w_hold :: hold
  w_dlpHold :: hold
  w_afterVault :: "pstate \<Rightarrow> pstate"
  w_vault :: "string \<Rightarrow> vault_answer"
  w_afterForward :: "pstate \<Rightarrow> pstate"
  w_upstream :: "outbound \<Rightarrow> upstream_answer option"

text \<open>
  How a request ends. \<open>Refused\<close> is a response of \<open>deny\<close>: the decision, the wire reason, the
  status, the hint, and the action and tool of the body. The outcomes that reached the upstream
  carry the outbound request, which the client never sees. \<open>Held\<close> is an approval that is never
  decided.
\<close>

datatype outcome =
    Refused decision reason_code int "string option" string string
  | Relayed outbound client_response
  | TooLarge outbound
  | UpstreamFailed outbound
  | InternalError
  | Held

subsection \<open>Steps\<close>

type_synonym 'a step = "pstate \<Rightarrow> (outcome + 'a) \<times> pstate"

definition s_return :: "'a \<Rightarrow> 'a step" where "s_return x s = (Inr x, s)"
definition s_stop :: "outcome \<Rightarrow> 'a step" where "s_stop out s = (Inl out, s)"

definition s_bind :: "'a step \<Rightarrow> ('a \<Rightarrow> 'b step) \<Rightarrow> 'b step" where
  "s_bind m f s = (case m s of (Inl out, s') \<Rightarrow> (Inl out, s') | (Inr x, s') \<Rightarrow> f x s')"

lemma s_bind_simps [simp]:
  "s_bind (s_return x) f = f x"
  "s_bind (s_stop out) f = s_stop out"
  "s_return x s = (Inr x, s)"
  "s_stop out s = (Inl out, s)"
  by (auto simp: fun_eq_iff s_bind_def s_return_def s_stop_def)

lemma s_bind_Inl: "m s = (Inl out, s') \<Longrightarrow> s_bind m f s = (Inl out, s')"
  by (simp add: s_bind_def)

lemma s_bind_Inr: "m s = (Inr x, s') \<Longrightarrow> s_bind m f s = f x s'"
  by (simp add: s_bind_def)

lemma s_bind_cases:
  assumes "s_bind m f s = (r, t)"
  obtains (stopped) out where "m s = (Inl out, t)" "r = Inl out"
    | (went_on) x s' where "m s = (Inr x, s')" "f x s' = (r, t)"
  using assms by (auto simp: s_bind_def split: prod.splits sum.splits)

end
