(* ===== verification/Server.thy ===== *)
theory Server
  imports Server_State
begin

text \<open>
  The request pipeline of \<^verbatim>\<open>proxy/server.ts\<close>, stage by stage in the order of \<open>dispatch\<close>:
  authentication, the decoy and kill-switch gates, routing, the adapter, the scope gates, the
  policy and the gates around it, approval, budget, content inspection, egress, credential,
  forward. Literals that are not ASCII are written in UTF-8.
\<close>

subsection \<open>Recording and denying\<close>

definition record_row :: "world \<Rightarrow> log_entry \<Rightarrow> pstate \<Rightarrow> pstate" where
  "record_row w entry s = (if w_logOk w then s\<lparr>px_log := log_record entry (px_log s)\<rparr> else s)"

fun denyStatus :: "reason_code \<Rightarrow> int" where
  "denyStatus R_invalid_token = 401"
| "denyStatus R_agent_token_expired = 401"
| "denyStatus R_delegation_root_missing = 401"
| "denyStatus R_unsupported_request = 400"
| "denyStatus R_budget_exceeded = 429"
| "denyStatus R_upstream_budget_exceeded = 429"
| "denyStatus R_agent_budget_exceeded = 429"
| "denyStatus R_delegation_budget_exceeded = 429"
| "denyStatus R_approval_capacity = 429"
| "denyStatus R_approval_abandoned = 499"
| "denyStatus R_decoy_token = 401"
| "denyStatus R_exec_parse_failed = 400"
| "denyStatus R_credential_missing = 502"
| "denyStatus R_vault_error = 502"
| "denyStatus R_upstream_error = 502"
| "denyStatus R_internal_error = 500"
| "denyStatus R_response_too_large = 413"
| "denyStatus _ = 403"

definition deny_as :: "world \<Rightarrow> log_entry \<Rightarrow> decision \<Rightarrow> reason_code \<Rightarrow> int \<Rightarrow> string option
    \<Rightarrow> reason_code option \<Rightarrow> 'a step" where
  "deny_as w base dec reason httpStatus hint wireReason s =
     (Inl (Refused dec (case wireReason of None \<Rightarrow> reason | Some r \<Rightarrow> r) httpStatus
            (if hint = Some [] then None else hint) (le_action base) (le_tool base)),
      record_row w (base\<lparr>le_decision := dec, le_reason := reason, le_forwarded := False, le_status := None,
                        le_count := 0, le_shadow := False\<rparr>) s)"

abbreviation refuse :: "world \<Rightarrow> log_entry \<Rightarrow> reason_code \<Rightarrow> 'a step" where
  "refuse w base reason \<equiv> deny_as w base Deny reason (denyStatus reason) None None"

text \<open>The row before anything is known of the request.\<close>

definition base_log :: "world \<Rightarrow> request \<Rightarrow> log_entry" where
  "base_log w req = \<lparr>le_ts = w_ts w, le_agentId = ''-'', le_upstream = rq_upstream req, le_tool = rq_upstream req,
     le_action = ''-'', le_method = rq_method req, le_target = rq_path req, le_decision = Deny,
     le_reason = R_internal_error, le_forwarded = False, le_status = None, le_count = 0, le_shadow = False,
     le_delegationId = None\<rparr>"

text \<open>A revocation the pipeline writes itself: a failed write throws, and the request ends as 500.\<close>

definition revoke_now :: "world \<Rightarrow> agent_id \<Rightarrow> string \<Rightarrow> unit step" where
  "revoke_now w k reason s =
     (case px_revocations s of
        None \<Rightarrow> (Inr (), s)
      | Some rv \<Rightarrow>
          (case rv_revoke (w_disk w) k reason (w_ts w) rv of
             (Inl e, rv') \<Rightarrow> (Inl InternalError, s\<lparr>px_revocations := Some rv'\<rparr>)
           | (Inr r, rv') \<Rightarrow> (Inr (), s\<lparr>px_revocations := Some rv'\<rparr>)))"

definition locally_revoked :: "pstate \<Rightarrow> agent_id \<Rightarrow> bool" where
  "locally_revoked s k = (case px_revocations s of None \<Rightarrow> False | Some rv \<Rightarrow> rv_isRevoked rv k)"

definition fleet_revoked :: "pstate \<Rightarrow> agent_id \<Rightarrow> bool" where
  "fleet_revoked s k = (case px_fleet s of None \<Rightarrow> False | Some fl \<Rightarrow> fleet_has fl k)"

subsection \<open>Waiting for a human\<close>

definition memory_input :: "approval_input \<Rightarrow> memory_key_input" where
  "memory_input inp = \<lparr>mk_agentId = ai_agentId inp, mk_tool = ai_tool inp, mk_action = ai_action inp,
     mk_target = ai_target inp\<rparr>"

definition remember_if :: "bool \<Rightarrow> ms \<Rightarrow> approval_input \<Rightarrow> remembered \<Rightarrow> pstate \<Rightarrow> pstate" where
  "remember_if useMemory now inp outcome s =
     (if useMemory then s\<lparr>px_memory := map_option (am_remember now (memory_input inp) outcome) (px_memory s)\<rparr> else s)"

definition recall_if :: "bool \<Rightarrow> ms \<Rightarrow> approval_input \<Rightarrow> pstate \<Rightarrow> remembered option \<times> pstate" where
  "recall_if useMemory now inp s =
     (case (useMemory, px_memory s) of
        (True, Some m) \<Rightarrow> (let (r, m') = am_recall now (memory_input inp) m in (r, s\<lparr>px_memory := Some m'\<rparr>))
      | _ \<Rightarrow> (None, s))"

text \<open>
  What follows the wait: the outcome the broker resolved for this id decides. The value of an
  approval is whether it was remembered.
\<close>

definition approval_resumes :: "world \<Rightarrow> hold \<Rightarrow> log_entry \<Rightarrow> approval_input \<Rightarrow> bool \<Rightarrow> int \<Rightarrow> bool step" where
  "approval_resumes w h decided inp useMemory quorum s =
     (case Option.bind (px_broker s) (\<lambda>b. map_of (br_settled b) (ho_id h)) of
        None \<Rightarrow> (Inl Held, s)
      | Some out \<Rightarrow>
          (case ao_state out of
             Abandoned \<Rightarrow> refuse w decided R_approval_abandoned s
           | Approved \<Rightarrow>
               if ho_goneAfter h then refuse w decided R_approval_abandoned s
               else (Inr False, if quorum \<le> 1 then remember_if useMemory (ho_resumedAt h) inp RememberApproved s else s)
           | Denied \<Rightarrow>
               deny_as w decided Deny R_approval_denied 403 None None
                 (remember_if useMemory (ho_resumedAt h) inp RememberDenied s)
           | _ \<Rightarrow> deny_as w decided Deny R_approval_expired 403 None None s))"

definition awaitApproval :: "world \<Rightarrow> hold \<Rightarrow> log_entry \<Rightarrow> approval_input \<Rightarrow> bool \<Rightarrow> int \<Rightarrow> bool step" where
  "awaitApproval w h decided inp useMemory quorum s =
     (case px_broker s of
        None \<Rightarrow> deny_as w decided RequireApproval R_approvals_unavailable 403 None None s
      | Some b \<Rightarrow>
          let (recalled, s1) = recall_if useMemory (ho_now h) inp s in
          if recalled = Some RememberApproved \<and> quorum \<le> 1 then (Inr True, s1)
          else if recalled = Some RememberDenied
          then deny_as w decided Deny R_approval_remembered_deny 403 None None s1
          else if br_atCapacity b then deny_as w decided Deny R_approval_capacity 429 None None s1
          else
            let b1 = br_create (ho_id h) (ho_now h) inp quorum b;
                b2 = (if ho_goneBefore h then snd (br_cancel (ho_id h) b1) else b1)
            in approval_resumes w h decided inp useMemory quorum (ho_meanwhile h (s1\<lparr>px_broker := Some b2\<rparr>)))"

subsection \<open>At the door\<close>

definition authenticate :: "server_config \<Rightarrow> world \<Rightarrow> request \<Rightarrow> principal step" where
  "authenticate cfg w req s =
     (let s' = w_afterAuth w s;
          res = resolvePrincipal (sc_hashToken cfg) (px_agents s) (px_delegations s')
                  (extractToken (map_of (rq_headers req))) (w_ts w)
      in case rs_principal res of
           Some p \<Rightarrow> (Inr p, s')
         | None \<Rightarrow>
             (case (rs_expiredAgentId res, rs_orphanRootAgentId res) of
                (Some k, _) \<Rightarrow> deny_as w ((base_log w req)\<lparr>le_agentId := k\<rparr>) Deny R_agent_token_expired 401 None
                  (Some R_invalid_token) s'
              | (None, Some k) \<Rightarrow> deny_as w ((base_log w req)\<lparr>le_agentId := k\<rparr>) Deny R_delegation_root_missing 401 None
                  (Some R_invalid_token) s'
              | (None, None) \<Rightarrow> deny_as w (base_log w req) Deny R_invalid_token 401 None None s'))"

fun session_key :: "principal \<Rightarrow> string" where
  "session_key (AgentPrincipal k d ts as pol) = k"
| "session_key (DelegationPrincipal k ts as del chain ach tch pol) = del"

fun chain_ids :: "principal \<Rightarrow> string list" where
  "chain_ids (AgentPrincipal k d ts as pol) = []"
| "chain_ids (DelegationPrincipal k ts as del chain ach tch pol) = chain"

definition pin_scope :: "principal \<Rightarrow> string list" where
  "pin_scope p = chain_ids p @ [pr_agentId p]"

fun delegation_of :: "principal \<Rightarrow> string option" where
  "delegation_of (AgentPrincipal k d ts as pol) = None"
| "delegation_of (DelegationPrincipal k ts as del chain ach tch pol) = Some del"

fun is_decoy :: "principal \<Rightarrow> bool" where
  "is_decoy (AgentPrincipal k d ts as pol) = d"
| "is_decoy (DelegationPrincipal k ts as del chain ach tch pol) = False"

definition authed_log :: "world \<Rightarrow> request \<Rightarrow> principal \<Rightarrow> log_entry" where
  "authed_log w req p = (base_log w req)\<lparr>le_agentId := pr_agentId p, le_delegationId := delegation_of p\<rparr>"

definition decoy_gate :: "world \<Rightarrow> request \<Rightarrow> principal \<Rightarrow> unit step" where
  "decoy_gate w req p s =
     (if \<not> is_decoy p then (Inr (), s)
      else
        s_bind (if \<not> locally_revoked s (pr_agentId p)
                then revoke_now w (pr_agentId p) ''decoy: token presented'' else s_return ())
          (\<lambda>_. deny_as w (authed_log w req p) Deny R_decoy_token 401 None (Some R_invalid_token)) s)"

definition is_cut_off :: "pstate \<Rightarrow> principal \<Rightarrow> bool" where
  "is_cut_off s p \<longleftrightarrow>
     (px_revocations s \<noteq> None \<and> (locally_revoked s (pr_agentId p) \<or> list_ex (locally_revoked s) (chain_ids p)))
     \<or> fleet_revoked s (pr_agentId p) \<or> list_ex (fleet_revoked s) (chain_ids p)"

definition kill_switch :: "world \<Rightarrow> request \<Rightarrow> principal \<Rightarrow> unit step" where
  "kill_switch w req p s =
     (if is_cut_off s p then refuse w (authed_log w req p) R_token_revoked s
      else if px_staleClosed s then refuse w (authed_log w req p) R_revocation_stale s
      else (Inr (), s))"

definition listener_gate :: "server_config \<Rightarrow> world \<Rightarrow> request \<Rightarrow> principal \<Rightarrow> unit step" where
  "listener_gate cfg w req p s =
     (if sc_agentRoutes cfg then (Inr (), s)
      else refuse w (authed_log w req p) R_wrong_listener
             (if pr_agentId p \<in> set (px_wrongListener s) then s
              else s\<lparr>px_wrongListener := px_wrongListener s @ [pr_agentId p]\<rparr>))"

subsection \<open>Routing and mapping\<close>

definition via :: "string \<Rightarrow> string \<Rightarrow> string" where
  "via hit actor = (if actor \<noteq> hit then '' (via '' @ actor @ '')'' else [])"

definition resolve_upstream :: "server_config \<Rightarrow> world \<Rightarrow> request \<Rightarrow> principal
    \<Rightarrow> (upstream_config \<times> (adapter_request \<Rightarrow> adapter_outcome)) step" where
  "resolve_upstream cfg w req p s =
     (case upstream_named cfg (rq_upstream req) of
        NoUpstream \<Rightarrow> refuse w (authed_log w req p) R_unknown_upstream s
      | Inherited \<Rightarrow> refuse w (authed_log w req p) R_internal_error s
      | Configured (DecoyUpstream ty) \<Rightarrow>
          s_bind (revoke_now w (pr_agentId p)
                   (''decoy: upstream '' @ rq_upstream req @ '' touched'' @ via (pr_agentId p) (session_key p)))
            (\<lambda>_. deny_as w (authed_log w req p) Deny R_decoy_upstream 403 None (Some R_no_matching_allow)) s
      | Configured (RealUpstream u) \<Rightarrow>
          (case adapterFor (up_type u) of
             None \<Rightarrow> refuse w (authed_log w req p) R_internal_error s
           | Some adapter \<Rightarrow> (Inr (u, adapter), s)))"

definition has_body :: "request \<Rightarrow> bool" where
  "has_body req \<longleftrightarrow> rq_method req \<noteq> ''GET'' \<and> rq_method req \<noteq> ''HEAD''"

definition adapter_input :: "request \<Rightarrow> adapter_request" where
  "adapter_input req = \<lparr>aq_method = rq_method req, aq_path = rq_path req, aq_query = rq_query req,
     aq_text = (if has_body req then rq_body req else []), aq_json = (if has_body req then rq_json req else None)\<rparr>"

definition map_request :: "world \<Rightarrow> request \<Rightarrow> principal \<Rightarrow> (adapter_request \<Rightarrow> adapter_outcome) \<Rightarrow> adapter_mapping step" where
  "map_request w req p adapter s =
     (let s' = (if has_body req then w_afterBody w s else s) in
      case adapter (adapter_input req) of
        Unsupported \<Rightarrow> refuse w (authed_log w req p) R_unsupported_request s'
      | Mapped m \<Rightarrow> (Inr m, s'))"

definition mapped_log :: "world \<Rightarrow> request \<Rightarrow> principal \<Rightarrow> adapter_mapping \<Rightarrow> log_entry" where
  "mapped_log w req p m = (authed_log w req p)\<lparr>le_target := am_target m, le_method := am_label m\<rparr>"

definition pairs_of :: "adapter_mapping \<Rightarrow> (string \<times> string) list" where
  "pairs_of m = zip (am_actions m) (am_targets m)"

subsection \<open>Scope\<close>

definition in_scope :: "string list \<Rightarrow> string \<Rightarrow> bool" where
  "in_scope patterns v = list_ex (\<lambda>pattern. globMatch pattern v) patterns"

definition agent_scope :: "world \<Rightarrow> log_entry \<Rightarrow> principal \<Rightarrow> adapter_mapping \<Rightarrow> unit step" where
  "agent_scope w lg p m s =
     (case (if pr_agentActions p = [] then None
            else List.find (\<lambda>a. \<not> in_scope (pr_agentActions p) a) (am_actions m)) of
        Some beyond \<Rightarrow> refuse w (lg\<lparr>le_action := beyond\<rparr>) R_agent_action_scope s
      | None \<Rightarrow>
          (case (if pr_agentTargets p = [] then None
                 else List.find (\<lambda>t. \<not> in_scope (pr_agentTargets p) t) (am_targets m)) of
             Some beyond \<Rightarrow> refuse w (lg\<lparr>le_target := beyond\<rparr>) R_agent_target_scope s
           | None \<Rightarrow> (Inr (), s)))"

fun delegation_fold :: "world \<Rightarrow> log_entry \<Rightarrow> principal \<Rightarrow> adapter_mapping \<Rightarrow> unit step" where
  "delegation_fold w lg (AgentPrincipal k d ts as pol) m s = (Inr (), s)"
| "delegation_fold w lg (DelegationPrincipal k ts as del chain actionsChain targetsChain pol) m s =
     (case List.find (\<lambda>a. \<not> list_all (\<lambda>hop. in_scope hop a) actionsChain) (am_actions m) of
        Some beyond \<Rightarrow> refuse w (lg\<lparr>le_action := beyond\<rparr>) R_delegation_scope s
      | None \<Rightarrow>
          (case List.find (\<lambda>t. list_ex (\<lambda>hop. hop \<noteq> [] \<and> \<not> in_scope hop t) targetsChain) (am_targets m) of
             Some blocked \<Rightarrow> refuse w (lg\<lparr>le_target := blocked\<rparr>) R_delegation_target_scope s
           | None \<Rightarrow> (Inr (), s)))"

subsection \<open>Policy, tripwires, canary\<close>

definition select_policy :: "server_config \<Rightarrow> world \<Rightarrow> log_entry \<Rightarrow> principal \<Rightarrow> compiled_policy step" where
  "select_policy cfg w lg p s =
     (case (case px_policyStore s of None \<Rightarrow> Some (sc_policy cfg) | Some store \<Rightarrow> policyFor store (pr_policyProfile p)) of
        None \<Rightarrow> refuse w lg R_agent_policy_unresolved s
      | Some policy \<Rightarrow> (Inr policy, s))"

fun first_trip :: "compiled_tripwire list \<Rightarrow> (string \<times> string) list \<Rightarrow> (string \<times> string \<times> compiled_tripwire) option" where
  "first_trip wires [] = None"
| "first_trip wires ((a, t) # pairs) =
     (case matchTripwire wires a (Some t) of Some wire \<Rightarrow> Some (a, t, wire) | None \<Rightarrow> first_trip wires pairs)"

definition em_dash :: string where
  "em_dash = [CHR '' '', CHR 0xE2, CHR 0x80, CHR 0x94, CHR '' '']"

definition tripwire_gate :: "world \<Rightarrow> log_entry \<Rightarrow> principal \<Rightarrow> compiled_policy \<Rightarrow> adapter_mapping \<Rightarrow> unit step" where
  "tripwire_gate w lg p policy m s =
     (case first_trip (cp_tripwires policy) (pairs_of m) of
        None \<Rightarrow> (Inr (), s)
      | Some (a, t, wire) \<Rightarrow>
          let revokeTarget = (if tw_onTrip wire = Leaf then session_key p else pr_agentId p);
              note = (case tw_note wire of None \<Rightarrow> [] | Some n \<Rightarrow> if n = [] then [] else em_dash @ n)
          in s_bind (revoke_now w revokeTarget (''tripwire: '' @ a @ note @ via revokeTarget (session_key p)))
               (\<lambda>_. deny_as w (lg\<lparr>le_action := a, le_target := t\<rparr>) Deny R_tripwire 403 (tw_note wire) None) s)"

definition observe_canary :: "server_config \<Rightarrow> request \<Rightarrow> adapter_mapping \<Rightarrow> engine_result \<times> string \<Rightarrow> pstate \<Rightarrow> pstate" where
  "observe_canary cfg req m live s =
     (case (sc_canaryPolicy cfg, px_canary s) of
        (Some candidate, Some store) \<Rightarrow>
          s\<lparr>px_canary := Some (canary_observe (rq_upstream req) (snd live) (er_decision (fst live))
               (er_decision (fst (combine candidate (rq_upstream req) (pairs_of m)))) store)\<rparr>
      | _ \<Rightarrow> s)"

subsection \<open>The verdict and the gates around the engine\<close>

text \<open>What the gates read: the request with its snapshot of the policy, and combine's action.\<close>

record gate_ctx =
  cx_cfg :: server_config
  cx_world :: world
  cx_req :: request
  cx_principal :: principal
  cx_mapping :: adapter_mapping
  cx_policy :: compiled_policy
  cx_action :: string

definition cx_log :: "gate_ctx \<Rightarrow> log_entry" where
  "cx_log cx = mapped_log (cx_world cx) (cx_req cx) (cx_principal cx) (cx_mapping cx)"

definition decided :: "gate_ctx \<Rightarrow> log_entry" where
  "decided cx = (cx_log cx)\<lparr>le_action := cx_action cx\<rparr>"

text \<open>The verdict so far, with the tags and the context the approval prompt carries.\<close>

record verdict =
  vd_result :: engine_result
  vd_quorum :: int
  vd_viaGrant :: bool
  vd_breakGlass :: bool
  vd_schedule :: bool
  vd_firstUse :: bool
  vd_stepUp :: bool
  vd_agent :: bool
  vd_flow :: bool
  vd_pin :: bool
  vd_flowContext :: "string option"
  vd_pinContext :: "string option"

definition verdict_of :: "decision \<Rightarrow> reason_code \<Rightarrow> engine_result" where
  "verdict_of d r = \<lparr>er_decision = d, er_reason = r, er_matched = None, er_pattern = None, er_message = None\<rparr>"

abbreviation vd_decision :: "verdict \<Rightarrow> decision" where
  "vd_decision v \<equiv> er_decision (vd_result v)"

definition clamped :: "verdict \<Rightarrow> verdict" where
  "clamped v = v\<lparr>vd_result := verdict_of RequireApproval R_approval_required\<rparr>"

definition request_quorum :: "compiled_policy \<Rightarrow> string list \<Rightarrow> int" where
  "request_quorum policy actions = foldl (\<lambda>n a. max n (approvalQuorum policy a)) 1 actions"

definition billable :: "compiled_policy \<Rightarrow> string list \<Rightarrow> int" where
  "billable policy actions = foldl (\<lambda>sum a. sum + actionCost policy a) 0 actions"

definition initial_verdict :: "compiled_policy \<Rightarrow> adapter_mapping \<Rightarrow> engine_result \<Rightarrow> verdict" where
  "initial_verdict policy m result =
     \<lparr>vd_result = result, vd_quorum = request_quorum policy (am_actions m), vd_viaGrant = False,
      vd_breakGlass = False, vd_schedule = False, vd_firstUse = False, vd_stepUp = False, vd_agent = False,
      vd_flow = False, vd_pin = False, vd_flowContext = None, vd_pinContext = None\<rparr>"

definition jit_gate :: "gate_ctx \<Rightarrow> verdict \<Rightarrow> verdict step" where
  "jit_gate cx v s =
     (case px_grants s of
        None \<Rightarrow> (Inr v, s)
      | Some gs \<Rightarrow>
          if vd_decision v \<noteq> Allow \<and> er_reason (vd_result v) \<noteq> R_explicit_deny then
            (let active = filter (\<lambda>g. tg_agentId g = pr_agentId (cx_principal cx) \<and> \<not> locally_revoked s (tg_id g))
                  (grant_list gs (w_ts (cx_world cx)))
             in if list_ex (\<lambda>g. in_scope (tg_actions g) (cx_action cx)) active
                then (Inr (v\<lparr>vd_result := verdict_of Allow R_jit_grant, vd_viaGrant := True\<rparr>), s)
                else (Inr v, s))
          else (Inr v, s))"

definition break_glass_gate :: "gate_ctx \<Rightarrow> verdict \<Rightarrow> verdict step" where
  "break_glass_gate cx v s =
     (case px_breakGlass s of
        None \<Rightarrow> (Inr v, s)
      | Some bs \<Rightarrow>
          if vd_decision v = Deny then
            (let active = filter (\<lambda>b. bg_agentId b = pr_agentId (cx_principal cx) \<and> \<not> locally_revoked s (bg_id b))
                  (bg_list bs (w_ts (cx_world cx)))
             in case List.find (\<lambda>b. list_all (in_scope (bg_actions b)) (am_actions (cx_mapping cx))) active of
                  Some b \<Rightarrow> (Inr ((clamped v)\<lparr>vd_breakGlass := True, vd_quorum := bg_quorum b\<rparr>), s)
                | None \<Rightarrow> (Inr v, s))
          else (Inr v, s))"

definition engine_gate :: "gate_ctx \<Rightarrow> verdict \<Rightarrow> verdict step" where
  "engine_gate cx v s =
     (if vd_decision v = Deny \<and> \<not> sc_shadow (cx_cfg cx)
      then deny_as (cx_world cx) (decided cx) Deny (er_reason (vd_result v)) (denyStatus (er_reason (vd_result v)))
             (er_message (vd_result v)) None s
      else (Inr v, s))"

text \<open>A gate that fired: deny (observed only, under shadow), or ask a human with a tag.\<close>

definition escalate :: "gate_ctx \<Rightarrow> log_entry \<Rightarrow> effect \<Rightarrow> reason_code \<Rightarrow> (verdict \<Rightarrow> verdict) \<Rightarrow> verdict \<Rightarrow> verdict step" where
  "escalate cx base eff reason tag v s =
     (case eff of
        EDeny \<Rightarrow>
          if \<not> sc_shadow (cx_cfg cx) then refuse (cx_world cx) base reason s
          else (Inr (v\<lparr>vd_result := verdict_of Deny reason\<rparr>), s)
      | ERequireApproval \<Rightarrow> (Inr (tag (clamped v)), s))"

definition schedule_gate :: "gate_ctx \<Rightarrow> verdict \<Rightarrow> verdict step" where
  "schedule_gate cx v s =
     (case cp_schedule (cx_policy cx) of
        None \<Rightarrow> (Inr v, s)
      | Some sch \<Rightarrow>
          if vd_decision v \<noteq> Deny \<and> \<not> withinSchedule (sc_wallClock (cx_cfg cx)) sch (w_ts (cx_world cx))
             \<and> \<not> vd_breakGlass v
          then escalate cx (decided cx) (cs_onClosed sch) R_schedule_closed (\<lambda>v. v\<lparr>vd_schedule := True\<rparr>) v s
          else (Inr v, s))"

definition first_use_gate :: "gate_ctx \<Rightarrow> verdict \<Rightarrow> verdict step" where
  "first_use_gate cx v s =
     (case cp_firstUse (cx_policy cx) of
        None \<Rightarrow> (Inr v, s)
      | Some fu \<Rightarrow>
          if vd_decision v \<noteq> Deny \<and> \<not> vd_viaGrant v \<and> \<not> vd_breakGlass v then
            (let since = (case cf_windowMs fu of None \<Rightarrow> 0 | Some ms \<Rightarrow> w_ts (cx_world cx) - ms) in
             case List.find (\<lambda>a. firstUseInScope fu a
                    \<and> \<not> hasForwardedActionSince (px_log s) (pr_agentId (cx_principal cx)) (rq_upstream (cx_req cx)) a since)
                  (am_actions (cx_mapping cx)) of
               None \<Rightarrow> (Inr v, s)
             | Some novel \<Rightarrow>
                 escalate cx ((cx_log cx)\<lparr>le_action := novel\<rparr>) (cf_onFirst fu) R_first_use_denied
                   (\<lambda>v. v\<lparr>vd_firstUse := True\<rparr>) v s)
          else (Inr v, s))"

definition step_up_gate :: "gate_ctx \<Rightarrow> verdict \<Rightarrow> verdict step" where
  "step_up_gate cx v s =
     (case cp_stepUp (cx_policy cx) of
        None \<Rightarrow> (Inr v, s)
      | Some windowMs \<Rightarrow>
          if vd_decision v = Allow
             \<and> ra_level (scoreRisk (agentActivity (px_log s) (pr_agentId (cx_principal cx)) (w_ts (cx_world cx) - windowMs))) = High
          then (Inr ((clamped v)\<lparr>vd_stepUp := True\<rparr>), s) else (Inr v, s))"

definition overlay_gate :: "gate_ctx \<Rightarrow> verdict \<Rightarrow> verdict step" where
  "overlay_gate cx v s =
     (if vd_decision v = Allow
         \<and> list_ex (\<lambda>(a, t). agentRequiresApproval (cx_policy cx) (pr_agentId (cx_principal cx)) a (Some t)) (pairs_of (cx_mapping cx))
      then (Inr ((clamped v)\<lparr>vd_agent := True\<rparr>), s) else (Inr v, s))"

definition flow_context :: "flow_hit \<times> string \<Rightarrow> string" where
  "flow_context = (\<lambda>(hit, action). ''triggered by '' @ backticked (fst (fh_source hit)) @ '' earlier this session ''
     @ [CHR 0xE2, CHR 0x86, CHR 0x92] @ '' now '' @ backticked action)"

definition flow_gate :: "gate_ctx \<Rightarrow> verdict \<Rightarrow> verdict step" where
  "flow_gate cx v s =
     (case px_flowFacts s of
        None \<Rightarrow> (Inr v, s)
      | Some store \<Rightarrow>
          if vd_decision v \<noteq> Deny \<and> cp_flows (cx_policy cx) \<noteq> [] then
            (let ts = w_ts (cx_world cx); flows = cp_flows (cx_policy cx);
                 facts = flow_factsSince store (session_key (cx_principal cx)) (ts - maxWithinMs flows)
             in case evaluateFlowsBatch flows facts (pairs_of (cx_mapping cx)) ts of
                  None \<Rightarrow> (Inr v, s)
                | Some hit \<Rightarrow> escalate cx (decided cx) (fh_effect (fst hit)) R_flow_denied (\<lambda>v. v\<lparr>vd_flow := True\<rparr>)
                    (v\<lparr>vd_flowContext := Some (flow_context hit)\<rparr>) s)
          else (Inr v, s))"

definition pin_gate :: "gate_ctx \<Rightarrow> verdict \<Rightarrow> verdict step" where
  "pin_gate cx v s =
     (case px_pinFacts s of
        None \<Rightarrow> (Inr v, s)
      | Some store \<Rightarrow>
          if vd_decision v \<noteq> Deny \<and> cp_pins (cx_policy cx) \<noteq> [] then
            (let ts = w_ts (cx_world cx); pins = cp_pins (cx_policy cx);
                 facts = concat (map (\<lambda>k. pin_factsSince store k (ts - maxPinWithinMs pins)) (pin_scope (cx_principal cx)))
             in case evaluatePinBatch pins facts (pairs_of (cx_mapping cx)) ts of
                  None \<Rightarrow> (Inr v, s)
                | Some hit \<Rightarrow> escalate cx (decided cx) (ph_effect hit) R_pin_violation (\<lambda>v. v\<lparr>vd_pin := True\<rparr>)
                    (v\<lparr>vd_pinContext := Some (''session pinned away from '' @ backticked (ph_unit hit)
                         @ '' (pin rule '' @ show_nat (ph_ruleIndex hit) @ '')'')\<rparr>) s)
          else (Inr v, s))"

text \<open>Every gate between the engine and the shadow switch, in order.\<close>

definition policy_gates :: "gate_ctx \<Rightarrow> verdict \<Rightarrow> verdict step" where
  "policy_gates cx v =
     s_bind (jit_gate cx v) (\<lambda>v. s_bind (break_glass_gate cx v) (\<lambda>v. s_bind (engine_gate cx v) (\<lambda>v.
     s_bind (schedule_gate cx v) (\<lambda>v. s_bind (first_use_gate cx v) (\<lambda>v. s_bind (step_up_gate cx v) (\<lambda>v.
     s_bind (overlay_gate cx v) (\<lambda>v. s_bind (flow_gate cx v) (\<lambda>v. pin_gate cx v))))))))"

definition shadow_switch :: "gate_ctx \<Rightarrow> verdict \<Rightarrow> (decision \<times> reason_code) option \<times> verdict" where
  "shadow_switch cx v =
     (if sc_shadow (cx_cfg cx) \<and> vd_decision v \<noteq> Allow
      then (Some (vd_decision v, er_reason (vd_result v)),
            v\<lparr>vd_result := \<lparr>er_decision = Allow, er_reason = R_explicit_allow, er_matched = Some CAllow,
                            er_pattern = None, er_message = None\<rparr>\<rparr>)
      else (None, v))"

subsection \<open>Budget, approval, content\<close>

definition BUDGET_WINDOW_MS :: int where "BUDGET_WINDOW_MS = 60 * 60 * 1000"

definition budgetDenyReason :: "gate_ctx \<Rightarrow> pstate \<Rightarrow> reason_code option" where
  "budgetDenyReason cx s =
     (let policy = cx_policy cx; agentId = pr_agentId (cx_principal cx); since = w_ts (cx_world cx) - BUDGET_WINDOW_MS;
          cost = billable policy (am_actions (cx_mapping cx));
          spent = countAllowedSince (px_log s) agentId since; ceiling = agentCeiling policy agentId;
          up = rq_upstream (cx_req cx)
      in if (case ac_limit ceiling of None \<Rightarrow> False | Some limit \<Rightarrow> spent + cost > limit)
         then Some (if ac_override ceiling then R_agent_budget_exceeded else R_budget_exceeded)
         else if (case delegation_of (cx_principal cx) of None \<Rightarrow> False
                  | Some del \<Rightarrow> cp_perDelegation policy \<noteq> None
                      \<and> \<not> withinDelegationBudget policy (countAllowedSinceForDelegation (px_log s) del since) cost)
         then Some R_delegation_budget_exceeded
         else if cp_perUpstream policy up \<noteq> None
              \<and> \<not> withinUpstreamBudget policy up (countAllowedSinceForUpstream (px_log s) agentId up since) cost
         then Some R_upstream_budget_exceeded
         else None)"

definition budget_gate :: "gate_ctx \<Rightarrow> unit step" where
  "budget_gate cx s =
     (case budgetDenyReason cx s of None \<Rightarrow> (Inr (), s) | Some reason \<Rightarrow> refuse (cx_world cx) (decided cx) reason s)"

definition gate_tag :: "verdict \<Rightarrow> string option" where
  "gate_tag v =
     (if vd_agent v then Some ''agent'' else if vd_stepUp v then Some ''risk:high''
      else if vd_schedule v then Some ''schedule:closed'' else if vd_firstUse v then Some ''first_use''
      else if vd_flow v then Some ''flow'' else if vd_pin v then Some ''pin''
      else if vd_breakGlass v then Some ''break_glass'' else None)"

definition tagged :: "string \<Rightarrow> string \<Rightarrow> string" where
  "tagged action tag = action @ '' ['' @ tag @ '']''"

definition approval_prompt :: "gate_ctx \<Rightarrow> string \<Rightarrow> string option \<Rightarrow> approval_input" where
  "approval_prompt cx action context =
     \<lparr>ai_agentId = pr_agentId (cx_principal cx), ai_upstream = rq_upstream (cx_req cx), ai_tool = rq_upstream (cx_req cx),
      ai_action = action, ai_target = am_target (cx_mapping cx), ai_method = am_label (cx_mapping cx), ai_context = context\<rparr>"

definition prompt_context :: "verdict \<Rightarrow> string option \<Rightarrow> string option" where
  "prompt_context v ruleMessage =
     (case vd_flowContext v of Some c \<Rightarrow> Some c | None \<Rightarrow> (case vd_pinContext v of Some c \<Rightarrow> Some c | None \<Rightarrow> ruleMessage))"

text \<open>The values carried on: whether an approval let the request through, and whether it was remembered.\<close>

definition approval_gate :: "gate_ctx \<Rightarrow> string option \<Rightarrow> verdict \<Rightarrow> (bool \<times> bool) step" where
  "approval_gate cx ruleMessage v s =
     (if vd_decision v \<noteq> RequireApproval then (Inr (False, False), s)
      else
        s_bind (budget_gate cx) (\<lambda>_.
        s_bind (awaitApproval (cx_world cx) (w_hold (cx_world cx)) (decided cx)
                  (approval_prompt cx (case gate_tag v of None \<Rightarrow> cx_action cx | Some tag \<Rightarrow> tagged (cx_action cx) tag)
                     (prompt_context v ruleMessage))
                  (gate_tag v = None) (vd_quorum v))
          (\<lambda>remembered. s_return (True, remembered))) s)"

definition dlp_gate :: "gate_ctx \<Rightarrow> string option \<Rightarrow> verdict \<Rightarrow> bool step" where
  "dlp_gate cx ruleMessage v s =
     (case cp_dlp (cx_policy cx) of
        None \<Rightarrow> (Inr False, s)
      | Some dlp \<Rightarrow>
          if \<not> (dl_scanBodies dlp \<and> has_body (cx_req cx) \<and> rq_body (cx_req cx) \<noteq> []) then (Inr False, s)
          else let findings = scanForSecrets (rq_body (cx_req cx)) in
            if findings = [] then (Inr False, s)
            else (case dl_onMatch dlp of
                ERequireApproval \<Rightarrow>
                  s_bind (awaitApproval (cx_world cx) (w_dlpHold (cx_world cx)) (decided cx)
                      (approval_prompt cx (tagged (cx_action cx) (''dlp:'' @ findingLabel findings)) ruleMessage)
                      False (vd_quorum v)) (\<lambda>_. s_return True) s
              | EDeny \<Rightarrow> refuse (cx_world cx) (decided cx) R_dlp_secret_detected s))"

subsection \<open>Egress, credential, forward\<close>

definition egress_gate :: "gate_ctx \<Rightarrow> upstream_config \<Rightarrow> string step" where
  "egress_gate cx u s =
     (case resolveUpstreamUrl (sc_urlOrigin (cx_cfg cx)) (up_base_url u) (rq_path (cx_req cx)) (rq_query (cx_req cx)) of
        None \<Rightarrow> refuse (cx_world cx) (decided cx) R_egress_blocked s
      | Some url \<Rightarrow> (Inr url, s))"

definition fetch_credential :: "gate_ctx \<Rightarrow> upstream_config \<Rightarrow> string step" where
  "fetch_credential cx u s =
     (let s' = w_afterVault (cx_world cx) s in
      case w_vault (cx_world cx) (up_credential u) of
        VaultError \<Rightarrow> refuse (cx_world cx) (decided cx) R_vault_error s'
      | VaultThrows \<Rightarrow> refuse (cx_world cx) (decided cx) R_internal_error s'
      | VaultValue (Some (c # cs)) \<Rightarrow> (Inr (c # cs), s')
      | VaultValue _ \<Rightarrow> refuse (cx_world cx) (decided cx) R_credential_missing s')"

text \<open>The tightest cap over every pair of the request.\<close>

fun request_limit :: "compiled_policy \<Rightarrow> (string \<times> string) list \<Rightarrow> response_limit option \<Rightarrow> response_limit option" where
  "request_limit policy [] best = best"
| "request_limit policy ((a, t) # pairs) best =
     request_limit policy pairs
       (case resolveResponseLimit policy a (Some t) of
          None \<Rightarrow> best
        | Some l \<Rightarrow>
            (case best of
               None \<Rightarrow> Some l
             | Some b \<Rightarrow> if rl_maxBytes l < rl_maxBytes b \<or> rl_maxBytes l = rl_maxBytes b \<and> rl_onExceed l = RefuseExceed
                         then Some l else Some b))"

definition seed_flow :: "gate_ctx \<Rightarrow> pstate \<Rightarrow> pstate" where
  "seed_flow cx s = s\<lparr>px_flowFacts := map_option (\<lambda>store.
       foldl (\<lambda>st (a, t). if is_flow_source (cp_flows (cx_policy cx)) a
                then flow_record st (session_key (cx_principal cx)) a (Some t) (w_ts (cx_world cx)) else st)
         store (pairs_of (cx_mapping cx))) (px_flowFacts s)\<rparr>"

definition seed_pin :: "gate_ctx \<Rightarrow> pstate \<Rightarrow> pstate" where
  "seed_pin cx s = s\<lparr>px_pinFacts := map_option (\<lambda>store.
       foldl (\<lambda>st (a, t). foldl (\<lambda>st (i, u). pin_record st (session_key (cx_principal cx)) i u (w_ts (cx_world cx)))
                st (pinUnitsFor (cp_pins (cx_policy cx)) a t))
         store (pairs_of (cx_mapping cx))) (px_pinFacts s)\<rparr>"

definition forwarded_reason :: "bool \<Rightarrow> bool \<Rightarrow> bool \<Rightarrow> reason_code" where
  "forwarded_reason viaApproval viaRemembered viaGrant =
     (if viaApproval then (if viaRemembered then R_approval_remembered_grant else R_approval_granted)
      else if viaGrant then R_jit_grant else R_explicit_allow)"

definition outbound_of :: "gate_ctx \<Rightarrow> upstream_config \<Rightarrow> string \<Rightarrow> string \<Rightarrow> outbound" where
  "outbound_of cx u credential url =
     forward_request u credential (rq_method (cx_req cx)) url (rq_headers (cx_req cx))
       (if has_body (cx_req cx) then Some (rq_body (cx_req cx)) else None)"

definition forward_step :: "gate_ctx \<Rightarrow> upstream_config \<Rightarrow> (decision \<times> reason_code) option \<Rightarrow> reason_code
    \<Rightarrow> string \<Rightarrow> string \<Rightarrow> outcome step" where
  "forward_step cx u shadowVerdict okReason credential url s =
     (let w = cx_world cx; out = outbound_of cx u credential url; s' = w_afterForward w s;
          lim = request_limit (cx_policy cx) (pairs_of (cx_mapping cx)) None in
      case w_upstream w out of
        None \<Rightarrow>
          (Inr (UpstreamFailed out),
           record_row w ((decided cx)\<lparr>le_decision := (case shadowVerdict of None \<Rightarrow> Allow | Some (d, r) \<Rightarrow> d),
             le_reason := (case shadowVerdict of None \<Rightarrow> R_upstream_error | Some (d, r) \<Rightarrow> r), le_forwarded := False,
             le_status := None, le_count := 0, le_shadow := shadowVerdict \<noteq> None\<rparr>) s')
      | Some answer \<Rightarrow>
          let relay = (\<lambda>response status.
            (Inr (Relayed out response), seed_pin cx (seed_flow cx
               (record_row w ((decided cx)\<lparr>le_decision := (case shadowVerdict of None \<Rightarrow> Allow | Some (d, r) \<Rightarrow> d),
                  le_reason := (case shadowVerdict of None \<Rightarrow> okReason | Some (d, r) \<Rightarrow> r), le_forwarded := True,
                  le_status := Some status,
                  le_count := (if shadowVerdict \<noteq> None then 0
                               else billable (cx_policy cx) (am_actions (cx_mapping cx))),
                  le_shadow := shadowVerdict \<noteq> None\<rparr>) s'))))
          in (case forward_response lim answer of
               FwdTooLarge status \<Rightarrow>
                 (Inr (TooLarge out),
                  record_row w ((decided cx)\<lparr>le_decision := Deny, le_reason := R_response_too_large, le_forwarded := True,
                    le_status := Some 413, le_count := 0, le_shadow := False\<rparr>) s')
             | FwdOk response status \<Rightarrow> relay response status
             | FwdTruncated response status \<Rightarrow> relay response status))"

subsection \<open>The pipeline\<close>

definition enforce :: "gate_ctx \<Rightarrow> upstream_config \<Rightarrow> string option \<Rightarrow> verdict \<Rightarrow> outcome step" where
  "enforce cx u ruleMessage v =
     s_bind (policy_gates cx v) (\<lambda>v.
       let (shadowVerdict, v') = shadow_switch cx v in
       s_bind (approval_gate cx ruleMessage v') (\<lambda>(viaApproval, viaRemembered).
       s_bind (budget_gate cx) (\<lambda>_.
       s_bind (dlp_gate cx ruleMessage v') (\<lambda>viaDlp.
       s_bind (egress_gate cx u) (\<lambda>url.
       s_bind (fetch_credential cx u) (\<lambda>credential.
         forward_step cx u shadowVerdict
           (forwarded_reason (viaApproval \<or> viaDlp) viaRemembered (vd_viaGrant v')) credential url))))))"

definition decide :: "server_config \<Rightarrow> world \<Rightarrow> request \<Rightarrow> principal \<Rightarrow> upstream_config \<Rightarrow> adapter_mapping
    \<Rightarrow> compiled_policy \<Rightarrow> outcome step" where
  "decide cfg w req p u m policy s =
     (let live = combine policy (rq_upstream req) (pairs_of m);
          cx = \<lparr>cx_cfg = cfg, cx_world = w, cx_req = req, cx_principal = p, cx_mapping = m, cx_policy = policy,
                cx_action = snd live\<rparr>
      in enforce cx u (er_message (fst live)) (initial_verdict policy m (fst live)) (observe_canary cfg req m live s))"

definition at_door :: "server_config \<Rightarrow> world \<Rightarrow> request \<Rightarrow> principal step" where
  "at_door cfg w req =
     s_bind (authenticate cfg w req) (\<lambda>p. s_bind (decoy_gate w req p) (\<lambda>_. s_bind (kill_switch w req p) (\<lambda>_.
     s_bind (listener_gate cfg w req p) (\<lambda>_. s_return p))))"

definition dispatch :: "server_config \<Rightarrow> world \<Rightarrow> request \<Rightarrow> outcome step" where
  "dispatch cfg w req =
     s_bind (at_door cfg w req) (\<lambda>p.
     s_bind (resolve_upstream cfg w req p) (\<lambda>(u, adapter).
     s_bind (map_request w req p adapter) (\<lambda>m.
       let lg = mapped_log w req p m in
       s_bind (agent_scope w lg p m) (\<lambda>_.
       s_bind (delegation_fold w lg p m) (\<lambda>_.
       s_bind (select_policy cfg w lg p) (\<lambda>policy.
       s_bind (tripwire_gate w lg p policy m) (\<lambda>_.
         decide cfg w req p u m policy)))))))"

text \<open>One handled request: how it ended, and the stores after it.\<close>

definition handle :: "server_config \<Rightarrow> world \<Rightarrow> request \<Rightarrow> pstate \<Rightarrow> outcome \<times> pstate" where
  "handle cfg w req s =
     (case dispatch cfg w req s of (Inl out, s') \<Rightarrow> (out, s') | (Inr out, s') \<Rightarrow> (out, s'))"

end
