(* ===== verification/Delegate_Route.thy ===== *)
theory Delegate_Route
  imports Server
begin

text \<open>
  \<^verbatim>\<open>POST /delegate\<close> (\<open>handleDelegate\<close> of \<^verbatim>\<open>proxy/server.ts\<close>): an agent, or a sub-agent, mints an
  attenuated child token. The request body is its parsed JSON document (\<open>None\<close> when parsing
  throws), and the schema of the body is the function \<open>parse_delegate\<close>.
\<close>

subsection \<open>The request body\<close>

record delegate_request =
  dr_actions :: "string list"
  dr_targets :: "string list option"
  dr_ttl_seconds :: "int option"
  dr_note :: "string option"

definition string_list :: "json \<Rightarrow> string list option" where
  "string_list v = (case v of
      JArr xs \<Rightarrow> if list_all is_json_string xs \<and> [] \<notin> set (json_strings xs) \<and> xs \<noteq> [] \<and> length xs \<le> 100
                 then Some (json_strings xs) else None
    | _ \<Rightarrow> None)"

definition ttl_value :: "json \<Rightarrow> int option" where
  "ttl_value v = (case v of JNum n \<Rightarrow> if 0 < n \<and> n \<le> 3600 then Some n else None | _ \<Rightarrow> None)"

definition note_value :: "json \<Rightarrow> string option" where
  "note_value v = (case v of JStr t \<Rightarrow> if length t \<le> 200 then Some t else None | _ \<Rightarrow> None)"

text \<open>An optional field: absent, or present and valid; the outer \<open>None\<close> is a validation error.\<close>

definition optional_field :: "(json \<Rightarrow> 'a option) \<Rightarrow> json option \<Rightarrow> 'a option option" where
  "optional_field valid field = (case field of None \<Rightarrow> Some None | Some v \<Rightarrow> map_option Some (valid v))"

definition parse_delegate :: "json \<Rightarrow> delegate_request option" where
  "parse_delegate body = (case body of
      JObj props \<Rightarrow>
        if \<not> set (map fst props) \<subseteq> {''actions'', ''targets'', ''ttl_seconds'', ''note''} then None
        else (case (Option.bind (map_of props ''actions'') string_list,
                    optional_field string_list (map_of props ''targets''),
                    optional_field ttl_value (map_of props ''ttl_seconds''),
                    optional_field note_value (map_of props ''note'')) of
            (Some actions, Some targets, Some ttl, Some note) \<Rightarrow>
              Some \<lparr>dr_actions = actions, dr_targets = targets, dr_ttl_seconds = ttl, dr_note = note\<rparr>
          | _ \<Rightarrow> None)
    | _ \<Rightarrow> None)"

subsection \<open>The handler\<close>

text \<open>The outside of one mint: the clock at each reading, the drawn id and token, and what the rest
  of the process does while the handler awaits.\<close>

record mint_world =
  mw_disk :: bool
  mw_logOk :: bool
  mw_authAt :: ms
  mw_afterAuth :: "pstate \<Rightarrow> pstate"
  mw_gateAt :: ms
  mw_capacityAt :: ms
  mw_afterBody :: "pstate \<Rightarrow> pstate"
  mw_mintAt :: ms
  mw_newId :: string
  mw_token :: string
  mw_afterHash :: "pstate \<Rightarrow> pstate"

datatype delegate_outcome =
    MethodNotAllowed | DelegationDisabled | InvalidToken | DepthExceeded | TokenRevoked | WrongListener
  | DelegationCapacity | InvalidJsonBody | InvalidRequest | MintCrashed | Minted string delegation

text \<open>Where the mint hangs in the tree: the minter's own grant, and the remaining life it leaves.\<close>

definition child_ttl :: "delegation_store \<Rightarrow> string option \<Rightarrow> ms \<Rightarrow> ms \<Rightarrow> ms option" where
  "child_ttl dels parent requested now =
     (case parent of
        None \<Rightarrow> Some requested
      | Some k \<Rightarrow>
          (case del_get dels k of
             None \<Rightarrow> None
           | Some d \<Rightarrow> (let ttl = min requested (dl_expiresAt d - now) in if ttl \<le> 0 then None else Some ttl)))"

definition mint_child :: "server_config \<Rightarrow> mint_world \<Rightarrow> principal \<Rightarrow> delegate_request \<Rightarrow> pstate \<Rightarrow> delegate_outcome \<times> pstate" where
  "mint_child cfg w p body s =
     (case px_delegations s of
        None \<Rightarrow> (DelegationDisabled, s)
      | Some dels \<Rightarrow>
     (case child_ttl dels (delegation_of p) (some_or 900 (dr_ttl_seconds body) * 1000) (mw_mintAt w) of
        None \<Rightarrow> (TokenRevoked, s)
      | Some ttl \<Rightarrow>
          let s' = mw_afterHash w s;
              inp = \<lparr>mi_parentAgentId = pr_agentId p, mi_parentDelegationId = delegation_of p,
                     mi_actions = dr_actions body, mi_targets = dr_targets body,
                     mi_policyProfile = pr_policyProfile p, mi_ttlMs = ttl,
                     mi_note = some_or [] (dr_note body), mi_now = mw_mintAt w\<rparr>
          in case px_delegations s' of
               None \<Rightarrow> (DelegationDisabled, s')
             | Some dels' \<Rightarrow>
                 (case del_mint (mw_disk w) (mw_newId w) (sc_hashToken cfg (mw_token w)) inp dels' of
                    (Inl e, dels'') \<Rightarrow> (MintCrashed, s'\<lparr>px_delegations := Some dels''\<rparr>)
                  | (Inr d, dels'') \<Rightarrow> (Minted (mw_token w) d, s'\<lparr>px_delegations := Some dels''\<rparr>))))"

definition delegate_decoy :: "mint_world \<Rightarrow> principal \<Rightarrow> pstate \<Rightarrow> delegate_outcome \<times> pstate" where
  "delegate_decoy w p s =
     (if locally_revoked s (pr_agentId p) then (InvalidToken, s)
      else case px_revocations s of
        None \<Rightarrow> (InvalidToken, s)
      | Some rv \<Rightarrow>
          (case rv_revoke (mw_disk w) (pr_agentId p) ''decoy: token presented (delegate)'' (mw_gateAt w) rv of
             (Inl e, rv') \<Rightarrow> (MintCrashed, s\<lparr>px_revocations := Some rv'\<rparr>)
           | (Inr r, rv') \<Rightarrow> (InvalidToken, s\<lparr>px_revocations := Some rv'\<rparr>)))"

definition delegate_wrong_listener :: "mint_world \<Rightarrow> principal \<Rightarrow> pstate \<Rightarrow> delegate_outcome \<times> pstate" where
  "delegate_wrong_listener w p s =
     (let entry = \<lparr>le_ts = mw_gateAt w, le_agentId = pr_agentId p, le_upstream = ''-'', le_tool = ''-'',
             le_action = ''delegate'', le_method = ''POST'', le_target = ''/delegate'', le_decision = Deny,
             le_reason = R_wrong_listener, le_forwarded = False, le_status = None, le_count = 0, le_shadow = False,
             le_delegationId = None\<rparr>;
          s1 = (if mw_logOk w then s\<lparr>px_log := log_record entry (px_log s)\<rparr> else s)
      in (WrongListener,
          if pr_agentId p \<in> set (px_wrongListener s1) then s1
          else s1\<lparr>px_wrongListener := px_wrongListener s1 @ [pr_agentId p]\<rparr>))"

definition delegate_body :: "server_config \<Rightarrow> mint_world \<Rightarrow> principal \<Rightarrow> json option \<Rightarrow> pstate \<Rightarrow> delegate_outcome \<times> pstate" where
  "delegate_body cfg w p body s =
     (case px_delegations s of
        None \<Rightarrow> (DelegationDisabled, s)
      | Some dels \<Rightarrow>
          if del_atCapacity dels (mw_capacityAt w) then (DelegationCapacity, s)
          else let s' = mw_afterBody w s in
            (case body of
               None \<Rightarrow> (InvalidJsonBody, s')
             | Some v \<Rightarrow> (case parse_delegate v of None \<Rightarrow> (InvalidRequest, s') | Some r \<Rightarrow> mint_child cfg w p r s')))"

definition handleDelegate :: "server_config \<Rightarrow> mint_world \<Rightarrow> string \<Rightarrow> header_list \<Rightarrow> json option \<Rightarrow> pstate
    \<Rightarrow> delegate_outcome \<times> pstate" where
  "handleDelegate cfg w httpMethod hs body s =
     (if httpMethod \<noteq> ''POST'' then (MethodNotAllowed, s)
      else if px_delegations s = None then (DelegationDisabled, s)
      else
        let s' = mw_afterAuth w s in
        case rs_principal (resolvePrincipal (sc_hashToken cfg) (px_agents s) (px_delegations s')
               (extractToken (map_of hs)) (mw_authAt w)) of
          None \<Rightarrow> (InvalidToken, s')
        | Some p \<Rightarrow>
            if is_decoy p then delegate_decoy w p s'
            else if delegation_of p \<noteq> None \<and> length (chain_ids p) \<ge> MAX_DEPTH then (DepthExceeded, s')
            else if is_cut_off s' p \<or> px_staleClosed s' then (TokenRevoked, s')
            else if \<not> sc_agentRoutes cfg then delegate_wrong_listener w p s'
            else delegate_body cfg w p body s')"

end
