(* ===== verification/Scenario.thy ===== *)
theory Scenario
  imports Delegate_Route
begin

text \<open>
  One concrete installation, small enough to evaluate: a GitHub and an MCP upstream and a decoy,
  two agents, and a policy. The witnesses of the properties run the pipeline on it.
\<close>

definition sc_rule :: "string \<Rightarrow> compiled_rule" where
  "sc_rule a = \<lparr>cr_action = compilePattern False a, cr_targets = None, cr_message = None, cr_onUnresolved = UDeny\<rparr>"

definition sc_grant :: "string \<Rightarrow> string list \<Rightarrow> string list \<Rightarrow> string list \<Rightarrow> string \<times> compiled_grant" where
  "sc_grant tool deny ask allow = (tool, \<lparr>cg_tool = tool, cg_deny = map sc_rule deny,
     cg_requireApproval = map sc_rule ask, cg_allow = map sc_rule allow\<rparr>)"

definition sc_source :: policy_source where
  "sc_source = \<lparr>src_agent = ''bot'', src_on_behalf_of = ''ops'', src_grants = [], src_budget = None,
     src_approvals = None, src_dlp = None, src_step_up = None, src_schedule = None, src_first_use = None,
     src_quorum = None, src_flows = None, src_tripwires = None, src_pins = [], src_responses = []\<rparr>"

definition sc_live :: compiled_policy where
  "sc_live = \<lparr>cp_agent = ''bot'', cp_onBehalfOf = ''ops'',
     cp_grants = [sc_grant ''gh'' [''repo:delete''] [''pr:merge''] [''repo:*''], sc_grant ''mcp'' [''rm''] [] [''ls'']],
     cp_maxActionsPerHour = Some 10, cp_perUpstream = Map.empty, cp_perAgent = Map.empty,
     cp_perAgentApproval = Map.empty, cp_perDelegation = None, cp_budgetWeights = [], cp_quorums = [],
     cp_dlp = None, cp_stepUp = None, cp_schedule = None, cp_firstUse = None, cp_flows = [], cp_pins = [],
     cp_tripwires = [], cp_responses = [], cp_source = sc_source\<rparr>"

definition sc_agent :: agent_config where
  "sc_agent = \<lparr>ag_id = ''bot'', ag_token_hash = ''h1'', ag_expiresAtMs = None, ag_decoy = False,
     ag_targets = None, ag_actions = None, ag_policy = None\<rparr>"

definition sc_bait :: agent_config where
  "sc_bait = sc_agent\<lparr>ag_id := ''bait'', ag_token_hash := ''h2'', ag_decoy := True\<rparr>"

definition sc_github :: upstream_config where
  "sc_github = \<lparr>up_type = ''github'', up_base_url = ''https://api'', up_credential = ''key'',
     up_inject_header = ''Authorization'', up_inject_scheme = ''Bearer''\<rparr>"

definition sc_config :: server_config where
  "sc_config = \<lparr>sc_upstreams = [(''gh'', RealUpstream sc_github), (''mcp'', RealUpstream (sc_github\<lparr>up_type := ''mcp''\<rparr>)),
       (''trap'', DecoyUpstream ''github'')],
     sc_policy = sc_live, sc_canaryPolicy = None, sc_shadow = False, sc_agentRoutes = True,
     sc_hashToken = (\<lambda>t. CHR ''h'' # t), sc_wallClock = (\<lambda>z t. (None, 0, 0)), sc_urlOrigin = (\<lambda>u. Some (take 11 u))\<rparr>"

definition sc_state :: pstate where
  "sc_state = \<lparr>px_agents = [sc_agent, sc_bait], px_delegations = None,
     px_revocations = Some \<lparr>rv_revoked = [], rv_file = Absent\<rparr>, px_fleet = None, px_staleClosed = False,
     px_wrongListener = [], px_policyStore = None, px_grants = None, px_breakGlass = None, px_flowFacts = None,
     px_pinFacts = None, px_canary = None, px_broker = Some (new_broker 1000 5), px_memory = None, px_log = []\<rparr>"

definition sc_hold :: hold where
  "sc_hold = \<lparr>ho_id = ''a1'', ho_now = 100, ho_goneBefore = False, ho_meanwhile = id, ho_goneAfter = False, ho_resumedAt = 100\<rparr>"

definition sc_world :: world where
  "sc_world = \<lparr>w_ts = 100, w_disk = True, w_logOk = True, w_afterAuth = id, w_afterBody = id, w_hold = sc_hold,
     w_dlpHold = sc_hold, w_afterVault = id, w_vault = (\<lambda>k. VaultValue (Some ''s3cret'')), w_afterForward = id,
     w_upstream = (\<lambda>out. Some \<lparr>ua_status = 200, ua_headers = [], ua_body = None\<rparr>)\<rparr>"

definition sc_request :: "string \<Rightarrow> string \<Rightarrow> string \<Rightarrow> string \<Rightarrow> request" where
  "sc_request token httpMethod up path = \<lparr>rq_method = httpMethod, rq_upstream = up, rq_path = path, rq_query = [],
     rq_headers = [(''x-grenz-token'', token)], rq_body = [], rq_json = None\<rparr>"

lemmas sc_defs = sc_rule_def sc_grant_def sc_source_def sc_live_def sc_agent_def sc_bait_def sc_github_def
  sc_config_def sc_state_def sc_hold_def sc_world_def sc_request_def

end
