(* ===== verification/Claim_Witnesses.thy ===== *)
theory Claim_Witnesses
  imports Policy_Props Gates_Claims Delegation_Props Access_Props Approvals_Props Adapters_Props Policy_Store Dlp Scenario
begin

text \<open>
  The witnesses of the properties of the components: each applies its theorem to concrete
  policies, stores and requests where the hypotheses hold.
\<close>

subsection \<open>Policy\<close>

definition wit_policy :: "string list \<Rightarrow> string list \<Rightarrow> string list \<Rightarrow> compiled_policy" where
  "wit_policy no ask yes = sc_live\<lparr>cp_grants := [sc_grant ''gh'' no ask yes]\<rparr>"

definition wit_input :: "string \<Rightarrow> eval_input" where
  "wit_input a = \<lparr>ei_tool = ''gh'', ei_action = a, ei_target = Some ''/x'', ei_unresolved = False\<rparr>"

lemma wit_grant: "map_of (cp_grants (wit_policy no ask yes)) (ei_tool (wit_input a)) = Some (snd (sc_grant ''gh'' no ask yes))"
  by (simp add: wit_policy_def wit_input_def sc_grant_def)

theorem evaluate_rule_order_irrelevant_witness:
  "er_decision (evaluate (wit_policy [] [] [''repo:*'', ''pr:*'']) (wit_input ''pr:read'')) =
   er_decision (evaluate (wit_policy [] [] [''pr:*'', ''repo:*'']) (wit_input ''pr:read''))"
  by (rule evaluate_rule_order_irrelevant [OF wit_grant wit_grant]) (auto simp: sc_grant_def)

theorem evaluate_reachability_sound_witness:
  "er_decision (evaluate_at sc_live ''gh'' ''repo:delete'' (Some ''/repos/a/b'')) = Deny"
proof -
  have "er_decision (evaluate_at sc_live ''gh'' ''repo:delete'' None) = Deny" by code_simp
  then show ?thesis by (rule evaluate_reachability_sound)
qed

theorem evaluate_tighter_mono_witness:
  "er_decision (evaluate (wit_policy [] [] [''repo:*'']) (wit_input ''repo:read''))
   \<le> er_decision (evaluate (wit_policy [''repo:delete''] [] [''repo:*'']) (wit_input ''repo:read''))"
  by (rule evaluate_tighter_mono [OF wit_grant wit_grant]) (simp add: tighter_def sc_grant_def)

subsection \<open>Gates\<close>

definition wit_flow :: compiled_flow where
  "wit_flow = \<lparr>fw_when = [compilePattern False ''mail:read''], fw_then = [compilePattern False ''http:*''],
     fw_effect = EDeny, fw_withinMs = 60000\<rparr>"

theorem batch_cannot_launder_flow_witness:
  "\<exists>hit. evaluateFlowsBatch [wit_flow] [] ([] @ (''mail:read'', ''inbox'') # [] @ (''http:post'', ''evil'') # []) 5 = Some hit
     \<and> fh_effect (fst hit) = EDeny"
proof -
  have "wit_flow \<in> set [wit_flow]" "fw_effect wit_flow = EDeny" "0 \<le> fw_withinMs wit_flow"
    by (simp_all add: wit_flow_def)
  moreover have "matches_any (fw_when wit_flow) (fst (''mail:read'', ''inbox''))"
    "matches_any (fw_then wit_flow) (fst (''http:post'', ''evil''))" by code_simp+
  ultimately show ?thesis by (rule batch_cannot_launder_flow)
qed

definition wit_pin :: compiled_pin where
  "wit_pin = \<lparr>pn_key = (\<lambda>t. Some (take 3 t)), pn_on = [compilePattern False ''repo:*''], pn_effect = EDeny, pn_withinMs = 60000\<rparr>"

theorem batch_cannot_pivot_witness:
  "\<exists>hit. evaluatePinBatch [wit_pin] [] ([] @ (''repo:read'', ''/a/x'') # [] @ (''repo:read'', ''/b/y'') # []) 5 = Some hit
     \<and> ph_effect hit = EDeny"
proof -
  have "0 < length [wit_pin]" "pn_effect ([wit_pin] ! 0) = EDeny" "0 \<le> pn_withinMs ([wit_pin] ! 0)"
    by (simp_all add: wit_pin_def)
  moreover have "(0, ''/a/'') \<in> set (pinUnitsFor [wit_pin] (fst (''repo:read'', ''/a/x'')) (snd (''repo:read'', ''/a/x'')))"
    "(0, ''/b/'') \<in> set (pinUnitsFor [wit_pin] (fst (''repo:read'', ''/b/y'')) (snd (''repo:read'', ''/b/y'')))"
    "''/b/'' \<noteq> ''/a/''"
    "\<forall>r\<in>set [] \<union> {(''repo:read'', ''/a/x'')} \<union> set []. (0, ''/b/'') \<notin> set (pinUnitsFor [wit_pin] (fst r) (snd r))"
    "''/b/'' \<notin> set (pinned_units 0 ([wit_pin] ! 0) [] 5)"
    by (code_simp)+
  ultimately show ?thesis by (rule batch_cannot_pivot)
qed

definition wit_capped :: compiled_policy where
  "wit_capped = sc_live\<lparr>cp_responses := [\<lparr>rr_on = [compilePattern False ''repo:*''], rr_targets = None, rr_maxBytes = 10, rr_onExceed = Truncate\<rparr>,
     \<lparr>rr_on = [compilePattern False ''*''], rr_targets = None, rr_maxBytes = 5, rr_onExceed = Truncate\<rparr>]\<rparr>"

theorem response_limit_is_tightest_witness:
  "limit_le \<lparr>rl_maxBytes = 5, rl_onExceed = Truncate\<rparr> (rule_limit (hd (cp_responses wit_capped)))"
proof -
  have found: "resolveResponseLimit wit_capped ''repo:read'' None = Some \<lparr>rl_maxBytes = 5, rl_onExceed = Truncate\<rparr>" by code_simp
  have "response_matches (hd (cp_responses wit_capped)) ''repo:read'' None" by code_simp
  moreover have "hd (cp_responses wit_capped) \<in> set (cp_responses wit_capped)" by (simp add: wit_capped_def)
  ultimately show ?thesis using response_limit_is_tightest [of wit_capped "''repo:read''" None] found by simp
qed

subsection \<open>Stores\<close>

definition wit_delegation :: "string \<Rightarrow> string option \<Rightarrow> ms \<Rightarrow> delegation" where
  "wit_delegation k parent expires = \<lparr>dl_id = k, dl_parentAgentId = ''bot'', dl_parentDelegationId = parent,
     dl_tokenHash = ''h'' @ k, dl_actions = [''*''], dl_targets = [], dl_policyProfile = None, dl_note = [],
     dl_createdAt = 0, dl_expiresAt = expires\<rparr>"

definition wit_delegations :: delegation_store where
  "wit_delegations = \<lparr>ds_byId = [(''1'', wit_delegation ''1'' None 100), (''2'', wit_delegation ''2'' (Some ''1'') 50)],
     ds_hashToId = [''h1'' \<mapsto> ''1'', ''h2'' \<mapsto> ''2''], ds_file = Absent\<rparr>"

lemma wit_chain: "del_resolveChain wit_delegations ''h2'' 10 =
    Some ([wit_delegation ''2'' (Some ''1'') 50, wit_delegation ''1'' None 100], ''bot'', None)"
  by code_simp

theorem resolved_chain_is_live_witness: "1 \<le> length [wit_delegation ''2'' (Some ''1'') 50, wit_delegation ''1'' None 100]"
  using resolved_chain_is_live [OF wit_chain] by blast

theorem dead_ancestor_kills_descendants_witness: "del_resolveChain wit_delegations ''h2'' 100 = None"
proof -
  have "wit_delegation ''1'' None 100 \<in> set [wit_delegation ''2'' (Some ''1'') 50, wit_delegation ''1'' None 100]"
    "dl_expiresAt (wit_delegation ''1'' None 100) \<le> 100" by (simp_all add: wit_delegation_def)
  with wit_chain show ?thesis by (rule dead_ancestor_kills_descendants)
qed

definition wit_empty :: delegation_store where
  "wit_empty = \<lparr>ds_byId = [], ds_hashToId = Map.empty, ds_file = Absent\<rparr>"

definition wit_mint :: mint_input where
  "wit_mint = \<lparr>mi_parentAgentId = ''bot'', mi_parentDelegationId = None, mi_actions = [''*''], mi_targets = None,
     mi_policyProfile = None, mi_ttlMs = 100, mi_note = [], mi_now = 0\<rparr>"

theorem delegations_survive_restart_witness:
  "del_open (ds_file (snd (del_mint True ''1'' ''h1'' wit_mint wit_empty))) = Inr (snd (del_mint True ''1'' ''h1'' wit_mint wit_empty))"
proof (rule delegations_survive_restart)
  have "del_open Absent = Inr wit_empty"
    by (auto simp: del_open_def del_load_def load_store_def wit_empty_def hash_index_def)
  then have "del_reachable wit_empty" by (rule del_start)
  then show "del_reachable (snd (del_mint True ''1'' ''h1'' wit_mint wit_empty))"
    by (rule del_minted) (simp_all add: wit_empty_def proto_def)
qed

definition wit_kill :: revocation_store where
  "wit_kill = snd (rv_revoke True ''bot'' ''leaked'' 7 \<lparr>rv_revoked = [], rv_file = Absent\<rparr>)"

theorem kill_list_survives_restart_witness:
  "\<exists>s'. rv_open (rv_file wit_kill) = Inr s' \<and> rv_isRevoked s' ''bot''"
proof -
  have "rv_open Absent = Inr \<lparr>rv_revoked = [], rv_file = Absent\<rparr>" by (simp add: rv_open_def rv_load_def load_store_def)
  then have "rv_reachable wit_kill" unfolding wit_kill_def by (intro rv_revoked rv_start)
  from kill_list_survives_restart [OF this]
  obtain s' where "rv_open (rv_file wit_kill) = Inr s'" "rv_isRevoked s' ''bot'' \<longleftrightarrow> rv_isRevoked wit_kill ''bot'' \<and> ''bot'' \<noteq> proto"
    by blast
  moreover have "rv_isRevoked wit_kill ''bot'' \<and> ''bot'' \<noteq> proto" by code_simp
  ultimately show ?thesis by blast
qed

theorem accepted_version_is_floor_after_restart_witness:
  "\<exists>s'. version_open (vs_file (foldl (\<lambda>s v. snd (version_accept True v s)) \<lparr>vs_version = 0, vs_file = Absent\<rparr> [3, 5])) = Inr s'
     \<and> 5 \<le> version_floor s'"
proof -
  have "version_ok \<lparr>vs_version = 0, vs_file = Absent\<rparr>" by (simp add: version_ok_def version_load_def)
  moreover have "(5::int) \<in> set [3, 5]" by simp
  ultimately show ?thesis by (rule accepted_version_is_floor_after_restart)
qed

theorem concurrent_create_escapes_revoke_witness:
  "token_resolve ''h2'' 30 (snd (token_revoke ''ann'' 20
     (token_create_push ''ann'' Admin ''h2'' 10 (token_create_push ''ann'' Admin ''h1'' 10 [])))) = Some (''ann'', Admin, None)"
proof -
  have "token_create_check ''ann'' [] = Inr ()" by (simp add: token_create_check_def)
  then show ?thesis by (rule concurrent_create_escapes_revoke) simp_all
qed

subsection \<open>Approvals\<close>

definition wit_prompt :: approval_input where
  "wit_prompt = \<lparr>ai_agentId = ''bot'', ai_upstream = ''gh'', ai_tool = ''gh'', ai_action = ''pr:merge'', ai_target = ''/x'',
     ai_method = ''PUT'', ai_context = None\<rparr>"

definition wit_events :: "broker_event list" where
  "wit_events = [Create ''a'' 1 wit_prompt 1, Create ''b'' 2 wit_prompt 2, Approve ''a'' ''ann'', Cancel ''b'', Approve ''b'' ''bob'']"

theorem settled_at_most_once_witness:
  "distinct (map fst (br_settled (br_run (new_broker 100 5) wit_events)))"
proof -
  have "distinct (created_ids wit_events)" by (simp add: wit_events_def)
  from settled_at_most_once [OF this] show ?thesis by blast
qed

definition wit_key :: memory_key_input where
  "wit_key = \<lparr>mk_agentId = ''bot'', mk_tool = ''gh'', mk_action = ''pr:merge'', mk_target = ''/x''\<rparr>"

theorem remembered_for_exactly_the_window_witness:
  "fst (am_recall 50 wit_key (am_remember 10 wit_key RememberDenied \<lparr>am_ttlMs = 100, am_entries = []\<rparr>)) = Some RememberDenied"
proof -
  have "am_wf \<lparr>am_ttlMs = 100, am_entries = []\<rparr>" "0 < am_ttlMs \<lparr>am_ttlMs = 100, am_entries = []\<rparr>"
    by (simp_all add: am_wf_def)
  from remembered_for_exactly_the_window [OF this, of 50 wit_key 10 RememberDenied] show ?thesis by simp
qed

theorem memory_key_injective_witness: "wit_key = \<lparr>mk_agentId = ''bot'', mk_tool = ''gh'', mk_action = ''pr:merge'', mk_target = ''/x''\<rparr>"
proof -
  have "memory_key wit_key = memory_key \<lparr>mk_agentId = ''bot'', mk_tool = ''gh'', mk_action = ''pr:merge'', mk_target = ''/x''\<rparr>"
    by (simp add: wit_key_def)
  then show ?thesis by (rule memory_key_injective) (simp add: wit_key_def NUL_def)
qed

subsection \<open>Adapters, profiles, content\<close>

definition wit_get :: "string \<Rightarrow> adapter_request" where
  "wit_get path = \<lparr>aq_method = ''GET'', aq_path = path, aq_query = [], aq_text = [], aq_json = None\<rparr>"

definition wit_mapped :: "string \<Rightarrow> adapter_mapping" where
  "wit_mapped path = \<lparr>am_actions = [''repo:read''], am_targets = [path], am_target = path, am_label = ''GET''\<rparr>"

lemma wit_mapped_eqs:
  "github_map (wit_get ''/repos/a/b'') = Mapped (wit_mapped ''/repos/a/b'')"
  "github_map (wit_get ''/repos//a/b/'') = Mapped (wit_mapped ''/repos//a/b/'')"
  by code_simp+

theorem every_action_has_its_target_witness: "length (am_targets (wit_mapped ''/repos/a/b'')) = length (am_actions (wit_mapped ''/repos/a/b''))"
proof -
  have "adapterFor ''github'' = Some github_map" by (simp add: adapterFor_def)
  from every_action_has_its_target [OF this wit_mapped_eqs(1)] show ?thesis by blast
qed

theorem github_action_ignores_slash_spelling_witness:
  "am_actions (wit_mapped ''/repos/a/b'') = am_actions (wit_mapped ''/repos//a/b/'')"
proof -
  have "aq_method (wit_get ''/repos/a/b'') = aq_method (wit_get ''/repos//a/b/'')"
    "aq_path (wit_get ''/repos/a/b'') = CHR ''/'' # ''repos/a/b''"
    "aq_path (wit_get ''/repos//a/b/'') = CHR ''/'' # ''repos//a/b/''"
    by (simp_all add: wit_get_def)
  moreover have "segments ''repos/a/b'' = segments ''repos//a/b/''" by code_simp
  ultimately show ?thesis using wit_mapped_eqs by (rule github_action_ignores_slash_spelling)
qed

definition wit_yaml :: yaml_compiler where
  "wit_yaml t = Inr (wit_policy [] [] [t])"

definition wit_ci :: compiled_policy where
  "wit_ci = sc_live\<lparr>cp_grants := cp_grants (wit_policy [] [] [''repo:*'']), cp_source := cp_source (wit_policy [] [] [''repo:*''])\<rparr>"

definition wit_profiles :: policy_store where
  "wit_profiles = \<lparr>pol_def = sc_live, pol_entries = [\<lparr>pe_name = ''ci'', pe_policy = ''repo:*''\<rparr>],
     pol_profiles = [(''ci'', wit_ci)], pol_declaredNames = {''ci''}, pol_closed = None\<rparr>"

theorem profiles_inherit_protections_witness:
  "wit_ci = sc_live\<lparr>cp_grants := cp_grants wit_ci, cp_source := cp_source wit_ci\<rparr>"
proof -
  have "new_policy_store wit_yaml sc_live {''ci''} [\<lparr>pe_name = ''ci'', pe_policy = ''repo:*''\<rparr>] = Inr wit_profiles"
    by (simp add: new_policy_store_def mergeProfilesOverDefault_def wit_yaml_def wit_profiles_def wit_ci_def)
  then have "policy_store_reachable wit_yaml wit_profiles" by (rule ps_new)
  moreover have "pol_closed wit_profiles = None" "policyFor wit_profiles (Some ''ci'') = Some wit_ci"
    by (simp_all add: wit_profiles_def policyFor_def)
  ultimately have "wit_ci = (pol_def wit_profiles)\<lparr>cp_grants := cp_grants wit_ci, cp_source := cp_source wit_ci\<rparr>"
    by (rule profiles_inherit_protections)
  then show ?thesis by (simp add: wit_profiles_def)
qed

theorem aws_key_is_flagged_witness: "''aws_access_key'' \<in> set (map fst (scanForSecrets (''k='' @ ''AKIA'' @ ''ABCDEFGHIJ012345'' @ [])))"
proof (rule aws_key_is_flagged)
  show "\<forall>c\<in>set ''ABCDEFGHIJ012345''. is_digit_char c \<or> is_upper c" by code_simp
  show "''k='' = [] \<or> \<not> is_word (last ''k='')" by code_simp
qed (simp_all add: MAX_SCAN_BYTES_def)

end
