(* ===== verification/Server_Props.thy ===== *)
theory Server_Props
  imports Scenario
begin

text \<open>
  The proof library of the pipeline. Every stage either refuses, and then has logged what it
  refused as the last row, or passes, and then what it checks holds (the inversion lemmas). A
  gate between the engine and the approval is a \<open>policy_gate\<close>: it keeps the stores, it never
  turns a verdict into an allow, and outside shadow mode it never passes a deny on.
\<close>

named_theorems ends "stages that log what they refuse"

subsection \<open>Refusals are logged\<close>

fun reached :: "outcome \<Rightarrow> outbound option" where
  "reached (Relayed ob r) = Some ob"
| "reached (TooLarge ob) = Some ob"
| "reached (UpstreamFailed ob) = Some ob"
| "reached _ = None"

fun logged :: "world \<Rightarrow> outcome \<Rightarrow> pstate \<Rightarrow> bool" where
  "logged w (Refused d r st hint a tool) s \<longleftrightarrow> w_logOk w \<longrightarrow>
     (\<exists>rows e. px_log s = rows @ [e] \<and> le_decision e = d \<and> le_action e = a \<and> le_tool e = tool
        \<and> \<not> le_forwarded e \<and> le_count e = 0)"
| "logged w (Relayed ob r) s \<longleftrightarrow> w_logOk w \<longrightarrow> (\<exists>rows e. px_log s = rows @ [e] \<and> le_forwarded e)"
| "logged w (TooLarge ob) s \<longleftrightarrow> w_logOk w \<longrightarrow> (\<exists>rows e. px_log s = rows @ [e] \<and> le_forwarded e \<and> le_count e = 0)"
| "logged w (UpstreamFailed ob) s \<longleftrightarrow> w_logOk w \<longrightarrow>
     (\<exists>rows e. px_log s = rows @ [e] \<and> \<not> le_forwarded e \<and> le_count e = 0)"
| "logged w _ s \<longleftrightarrow> True"

definition ends_well :: "world \<Rightarrow> 'a step \<Rightarrow> bool" where
  "ends_well w m \<longleftrightarrow> (\<forall>s out s'. m s = (Inl out, s') \<longrightarrow> reached out = None \<and> logged w out s')"

lemma ends_wellD: "ends_well w m \<Longrightarrow> m s = (Inl out, s') \<Longrightarrow> reached out = None \<and> logged w out s'"
  by (simp add: ends_well_def)

lemma ends_wellI: "(\<And>s out s'. m s = (Inl out, s') \<Longrightarrow> reached out = None \<and> logged w out s') \<Longrightarrow> ends_well w m"
  by (simp add: ends_well_def)

lemma deny_as_eq: "deny_as w base d r st hint wire s = (res, s') \<Longrightarrow>
    (\<exists>r' hint'. res = Inl (Refused d r' st hint' (le_action base) (le_tool base)))
    \<and> logged w (projl res) s'"
  by (auto simp: deny_as_def record_row_def log_record_def)

lemma deny_as_never_passes [simp]: "deny_as w base d r st hint wire s \<noteq> (Inr x, s')"
  by (simp add: deny_as_def)

lemma deny_as_ends [ends]: "ends_well w (deny_as w base d r st hint wire)"
  by (auto simp: ends_well_def dest!: deny_as_eq)

lemma deny_as_out: "deny_as w base d r st hint wire s = (Inl out, s') \<Longrightarrow> reached out = None \<and> logged w out s'"
  using deny_as_ends ends_wellD by blast

lemma bind_ends [ends]:
  assumes "ends_well w m" "\<And>x. ends_well w (f x)"
  shows "ends_well w (s_bind m f)"
  using assms by (auto simp: ends_well_def elim!: s_bind_cases)

lemma return_ends [ends]: "ends_well w (s_return x)"
  by (simp add: ends_well_def)

lemma revoke_now_ends [ends]: "ends_well w (revoke_now w k reason)"
  by (auto simp: ends_well_def revoke_now_def split: option.splits sum.splits prod.splits)

lemma authenticate_ends [ends]: "ends_well w (authenticate cfg w req)"
  by (auto simp: ends_well_def authenticate_def Let_def dest: deny_as_out split: option.splits prod.splits)

lemma revoke_then_deny_ends [ends]: "ends_well w (s_bind (revoke_now w k x) (\<lambda>_. deny_as w b d r st h wi))"
  by (intro ends)

lemma decoy_gate_ends [ends]: "ends_well w (decoy_gate w req p)"
proof (rule ends_wellI)
  fix s out s' assume "decoy_gate w req p s = (Inl out, s')"
  then show "reached out = None \<and> logged w out s'"
    by (auto simp: decoy_gate_def dest: deny_as_out dest!: ends_wellD [OF revoke_then_deny_ends] split: if_splits)
qed

lemma kill_switch_ends [ends]: "ends_well w (kill_switch w req p)"
  by (auto simp: ends_well_def kill_switch_def dest: deny_as_out split: if_splits)

lemma listener_gate_ends [ends]: "ends_well w (listener_gate cfg w req p)"
  by (auto simp: ends_well_def listener_gate_def dest: deny_as_out split: if_splits)

lemma resolve_upstream_ends [ends]: "ends_well w (resolve_upstream cfg w req p)"
proof (rule ends_wellI)
  fix s out s' assume "resolve_upstream cfg w req p s = (Inl out, s')"
  then show "reached out = None \<and> logged w out s'"
    by (auto simp: resolve_upstream_def dest: deny_as_out dest!: ends_wellD [OF revoke_then_deny_ends]
        split: upstream_lookup.splits upstream.splits option.splits)
qed

lemma map_request_ends [ends]: "ends_well w (map_request w req p adapter)"
  by (auto simp: ends_well_def map_request_def Let_def dest: deny_as_out split: adapter_outcome.splits)

lemma agent_scope_ends [ends]: "ends_well w (agent_scope w lg p m)"
  by (auto simp: ends_well_def agent_scope_def dest: deny_as_out split: option.splits)

lemma delegation_fold_ends [ends]: "ends_well w (delegation_fold w lg p m)"
  by (cases p) (auto simp: ends_well_def dest: deny_as_out split: option.splits)

lemma select_policy_ends [ends]: "ends_well w (select_policy cfg w lg p)"
  by (auto simp: ends_well_def select_policy_def dest: deny_as_out split: option.splits)

lemma tripwire_gate_ends [ends]: "ends_well w (tripwire_gate w lg p policy m)"
proof (rule ends_wellI)
  fix s out s' assume "tripwire_gate w lg p policy m s = (Inl out, s')"
  then show "reached out = None \<and> logged w out s'"
    by (auto simp: tripwire_gate_def Let_def dest!: ends_wellD [OF revoke_then_deny_ends] split: option.splits prod.splits)
qed

subsection \<open>Waiting for a human\<close>

lemma approval_resumes_ends: "ends_well w (approval_resumes w h d inp um q)"
  by (auto simp: ends_well_def approval_resumes_def dest: deny_as_out
      split: option.splits approval_state.splits if_splits)

lemma awaitApproval_ends [ends]: "ends_well w (awaitApproval w h d inp um q)"
  by (auto simp: ends_well_def awaitApproval_def Let_def dest: deny_as_out dest!: ends_wellD [OF approval_resumes_ends]
      split: option.splits prod.splits if_splits)

text \<open>The state the broker is in when the request resumes, if the request was held at all.\<close>

definition resumed :: "hold \<Rightarrow> approval_input \<Rightarrow> bool \<Rightarrow> int \<Rightarrow> pstate \<Rightarrow> pstate" where
  "resumed h inp um q s =
     (let s1 = snd (recall_if um (ho_now h) inp s);
          b1 = br_create (ho_id h) (ho_now h) inp q (the (px_broker s));
          b2 = (if ho_goneBefore h then snd (br_cancel (ho_id h) b1) else b1)
      in ho_meanwhile h (s1\<lparr>px_broker := Some b2\<rparr>))"

definition approved_in :: "hold \<Rightarrow> pstate \<Rightarrow> bool" where
  "approved_in h s \<longleftrightarrow> (\<exists>b out. px_broker s = Some b \<and> map_of (br_settled b) (ho_id h) = Some out \<and> ao_state out = Approved)"

lemma approval_resumes_passes:
  "approval_resumes w h d inp um q s = (Inr r, s') \<longleftrightarrow>
     approved_in h s \<and> \<not> ho_goneAfter h \<and> \<not> r
     \<and> s' = (if q \<le> 1 then remember_if um (ho_resumedAt h) inp RememberApproved s else s)"
  by (cases "px_broker s") (auto simp: approval_resumes_def approved_in_def split: option.splits approval_state.splits)

lemma awaitApproval_passes:
  "awaitApproval w h d inp um q s = (Inr r, s') \<longleftrightarrow>
     px_broker s \<noteq> None \<and>
     (if fst (recall_if um (ho_now h) inp s) = Some RememberApproved \<and> q \<le> 1
      then r \<and> s' = snd (recall_if um (ho_now h) inp s)
      else fst (recall_if um (ho_now h) inp s) \<noteq> Some RememberDenied \<and> \<not> br_atCapacity (the (px_broker s))
        \<and> approved_in h (resumed h inp um q s) \<and> \<not> ho_goneAfter h \<and> \<not> r
        \<and> s' = (if q \<le> 1 then remember_if um (ho_resumedAt h) inp RememberApproved (resumed h inp um q s)
                else resumed h inp um q s))"
proof (cases "px_broker s")
  case None
  then show ?thesis by (simp add: awaitApproval_def)
next
  case (Some b)
  obtain rc s1 where rc: "recall_if um (ho_now h) inp s = (rc, s1)" by (cases "recall_if um (ho_now h) inp s")
  from Some rc show ?thesis
    by (auto simp: awaitApproval_def resumed_def Let_def approval_resumes_passes)
qed

subsection \<open>Gates around the engine\<close>

locale policy_gate =
  fixes gate :: "gate_ctx \<Rightarrow> verdict \<Rightarrow> verdict step"
  assumes keeps_stores: "gate cx v s = (Inr v', s') \<Longrightarrow> s' = s"
    and never_allows: "gate cx v s = (Inr v', s') \<Longrightarrow> vd_decision v' = Allow \<Longrightarrow> v' = v"
    and never_undenies: "gate cx v s = (Inr v', s') \<Longrightarrow> \<not> sc_shadow (cx_cfg cx) \<Longrightarrow> vd_decision v \<noteq> Deny \<Longrightarrow> vd_decision v' \<noteq> Deny"
    and keeps_grant: "gate cx v s = (Inr v', s') \<Longrightarrow> vd_viaGrant v' = vd_viaGrant v"
    and ends_gate: "ends_well (cx_world cx) (gate cx v)"
begin

lemma passes_allow:
  assumes "gate cx v s = (Inr v', s')" "vd_decision v' = Allow" shows "s' = s \<and> v' = v"
  using assms keeps_stores never_allows by blast

lemma keeps_live:
  assumes "gate cx v s = (Inr v', s')" "vd_decision v \<noteq> Deny" "\<not> sc_shadow (cx_cfg cx)"
  shows "vd_decision v' = Allow \<or> vd_decision v' = RequireApproval"
  using never_undenies [OF assms(1,3,2)] by (cases "vd_decision v'") auto

end

text \<open>Running two gates one after the other is a gate.\<close>

lemma policy_gate_seq:
  assumes "policy_gate g" "policy_gate h"
  shows "policy_gate (\<lambda>cx v. s_bind (g cx v) (h cx))"
proof (rule policy_gate.intro)
  fix cx v s v' s' assume run: "s_bind (g cx v) (h cx) s = (Inr v', s')"
  then obtain v1 s1 where g1: "g cx v s = (Inr v1, s1)" and h1: "h cx v1 s1 = (Inr v', s')"
    by (auto elim: s_bind_cases)
  note G = policy_gate.keeps_stores [OF assms(1) g1] policy_gate.keeps_grant [OF assms(1) g1]
    policy_gate.never_allows [OF assms(1) g1] policy_gate.never_undenies [OF assms(1) g1]
  note H = policy_gate.keeps_stores [OF assms(2) h1] policy_gate.keeps_grant [OF assms(2) h1]
    policy_gate.never_allows [OF assms(2) h1] policy_gate.never_undenies [OF assms(2) h1]
  show "s' = s" using G(1) H(1) by simp
  show "vd_viaGrant v' = vd_viaGrant v" using G(2) H(2) by simp
  show "v' = v" if "vd_decision v' = Allow" using H(3) G(3) that by simp
  show "vd_decision v' \<noteq> Deny" if "\<not> sc_shadow (cx_cfg cx)" "vd_decision v \<noteq> Deny"
    using G(4) H(4) that by blast
next
  show "ends_well (cx_world cx) (s_bind (g cx v) (h cx))" for cx v
    using policy_gate.ends_gate [OF assms(1)] policy_gate.ends_gate [OF assms(2)] by (rule bind_ends)
qed

subsection \<open>The gates of the code\<close>

lemma escalate_passes:
  assumes "escalate cx base eff reason tag v s = (Inr v', s')"
  shows "s' = s \<and> ((v' = tag (clamped v) \<and> eff = ERequireApproval)
      \<or> (sc_shadow (cx_cfg cx) \<and> eff = EDeny \<and> v' = v\<lparr>vd_result := verdict_of Deny reason\<rparr>))"
  using assms by (auto simp: escalate_def split: effect.splits if_splits)

lemma escalate_ends: "ends_well (cx_world cx) (escalate cx base eff reason tag v)"
  by (auto simp: ends_well_def escalate_def dest: deny_as_out split: effect.splits if_splits)

lemma clamped_simps [simp]:
  "vd_decision (clamped v) = RequireApproval" "vd_viaGrant (clamped v) = vd_viaGrant v"
  by (simp_all add: clamped_def verdict_of_def)

lemma verdict_of_simps [simp]: "er_decision (verdict_of d r) = d" "er_reason (verdict_of d r) = r"
  by (simp_all add: verdict_of_def)

interpretation schedule_pg: policy_gate schedule_gate
  by unfold_locales
     (auto simp: schedule_gate_def ends_well_def dest!: escalate_passes dest: ends_wellD [OF escalate_ends]
       split: option.splits if_splits)

interpretation first_use_pg: policy_gate first_use_gate
  by unfold_locales
     (auto simp: first_use_gate_def ends_well_def Let_def dest!: escalate_passes dest: ends_wellD [OF escalate_ends]
       split: option.splits if_splits)

interpretation step_up_pg: policy_gate step_up_gate
  by unfold_locales (auto simp: step_up_gate_def ends_well_def split: option.splits if_splits)

interpretation overlay_pg: policy_gate overlay_gate
  by unfold_locales (auto simp: overlay_gate_def ends_well_def split: if_splits)

interpretation flow_pg: policy_gate flow_gate
  by unfold_locales
     (auto simp: flow_gate_def ends_well_def Let_def dest!: escalate_passes dest: ends_wellD [OF escalate_ends]
       split: option.splits if_splits)

interpretation pin_pg: policy_gate pin_gate
  by unfold_locales
     (auto simp: pin_gate_def ends_well_def Let_def dest!: escalate_passes dest: ends_wellD [OF escalate_ends]
       split: option.splits if_splits)

interpretation engine_pg: policy_gate engine_gate
  by unfold_locales (auto simp: engine_gate_def ends_well_def dest: deny_as_out split: if_splits)

interpretation break_glass_pg: policy_gate break_glass_gate
  by unfold_locales (auto simp: break_glass_gate_def ends_well_def Let_def split: option.splits if_splits)

subsection \<open>The whole row of gates\<close>

lemmas gates_pg = break_glass_pg.policy_gate_axioms engine_pg.policy_gate_axioms schedule_pg.policy_gate_axioms
  first_use_pg.policy_gate_axioms step_up_pg.policy_gate_axioms overlay_pg.policy_gate_axioms
  flow_pg.policy_gate_axioms pin_pg.policy_gate_axioms

definition after_engine :: "gate_ctx \<Rightarrow> verdict \<Rightarrow> verdict step" where
  "after_engine cx v = s_bind (schedule_gate cx v) (\<lambda>v. s_bind (first_use_gate cx v) (\<lambda>v.
    s_bind (step_up_gate cx v) (\<lambda>v. s_bind (overlay_gate cx v) (\<lambda>v. s_bind (flow_gate cx v) (pin_gate cx)))))"

definition after_jit :: "gate_ctx \<Rightarrow> verdict \<Rightarrow> verdict step" where
  "after_jit cx v = s_bind (break_glass_gate cx v) (\<lambda>v. s_bind (engine_gate cx v) (after_engine cx))"

interpretation after_engine: policy_gate after_engine
  unfolding after_engine_def by (intro policy_gate_seq gates_pg)

interpretation after_jit: policy_gate after_jit
  unfolding after_jit_def by (intro policy_gate_seq gates_pg after_engine.policy_gate_axioms)

lemma after_jit_not_deny:
  assumes "after_jit cx v s = (Inr v', s')" "\<not> sc_shadow (cx_cfg cx)" shows "vd_decision v' \<noteq> Deny"
proof -
  from assms(1) obtain v1 s1 v2 s2 where e: "engine_gate cx v1 s1 = (Inr v2, s2)"
    and rest: "after_engine cx v2 s2 = (Inr v', s')"
    unfolding after_jit_def by (elim s_bind_cases) simp_all
  from e assms(2) have "vd_decision v2 \<noteq> Deny" by (auto simp: engine_gate_def split: if_splits)
  from after_engine.never_undenies [OF rest assms(2) this] show ?thesis .
qed

text \<open>A live temporary grant of the agent whose patterns cover the representative action.\<close>

definition jit_covers :: "gate_ctx \<Rightarrow> verdict \<Rightarrow> pstate \<Rightarrow> bool" where
  "jit_covers cx v s \<longleftrightarrow> (\<exists>gs g. px_grants s = Some gs \<and> g \<in> set (grant_list gs (w_ts (cx_world cx)))
     \<and> tg_agentId g = pr_agentId (cx_principal cx) \<and> \<not> locally_revoked s (tg_id g)
     \<and> in_scope (tg_actions g) (cx_action cx) \<and> er_reason (vd_result v) \<noteq> R_explicit_deny)"

lemma jit_gate_passes:
  "jit_gate cx v s = (Inr v', s') \<longleftrightarrow> s' = s \<and>
     v' = (if vd_decision v \<noteq> Allow \<and> jit_covers cx v s
           then v\<lparr>vd_result := verdict_of Allow R_jit_grant, vd_viaGrant := True\<rparr> else v)"
  by (auto simp: jit_gate_def jit_covers_def Let_def list_ex_iff split: option.splits)

lemma jit_gate_ends: "ends_well w (jit_gate cx v)"
  by (auto simp: ends_well_def jit_gate_def Let_def split: option.splits if_splits)

lemma policy_gates_split: "policy_gates cx v = s_bind (jit_gate cx v) (after_jit cx)"
  unfolding policy_gates_def after_jit_def [abs_def] after_engine_def [abs_def] ..

lemma policy_gates_ends [ends]: "ends_well (cx_world cx) (policy_gates cx v)"
  unfolding policy_gates_split using jit_gate_ends after_jit.ends_gate by (rule bind_ends)

lemma policy_gates_passes:
  assumes "policy_gates cx v s = (Inr v', s')"
  shows "s' = s \<and> (vd_decision v' = Allow \<longrightarrow> vd_decision v = Allow \<or> jit_covers cx v s)
    \<and> (\<not> sc_shadow (cx_cfg cx) \<longrightarrow> vd_decision v' \<noteq> Deny)"
proof -
  from assms obtain v1 s1 where j: "jit_gate cx v s = (Inr v1, s1)" and a: "after_jit cx v1 s1 = (Inr v', s')"
    unfolding policy_gates_split by (auto elim: s_bind_cases)
  from j have s1: "s1 = s" and v1: "v1 = (if vd_decision v \<noteq> Allow \<and> jit_covers cx v s
           then v\<lparr>vd_result := verdict_of Allow R_jit_grant, vd_viaGrant := True\<rparr> else v)"
    unfolding jit_gate_passes by simp_all
  from after_jit.keeps_stores [OF a] s1 have "s' = s" by simp
  moreover have "vd_decision v' = Allow \<longrightarrow> vd_decision v = Allow \<or> jit_covers cx v s"
    using after_jit.passes_allow [OF a] v1 by (auto split: if_splits)
  moreover from after_jit_not_deny [OF a] have "\<not> sc_shadow (cx_cfg cx) \<longrightarrow> vd_decision v' \<noteq> Deny" by blast
  ultimately show ?thesis by blast
qed

subsection \<open>What passing a stage means\<close>

lemma authenticate_passes:
  "authenticate cfg w req s = (Inr p, s') \<longleftrightarrow> s' = w_afterAuth w s \<and>
     rs_principal (resolvePrincipal (sc_hashToken cfg) (px_agents s) (px_delegations (w_afterAuth w s))
       (extractToken (map_of (rq_headers req))) (w_ts w)) = Some p"
  by (auto simp: authenticate_def Let_def split: option.splits)

lemma decoy_gate_passes: "decoy_gate w req p s = (Inr x, s') \<longleftrightarrow> s' = s \<and> \<not> is_decoy p"
  by (auto simp: decoy_gate_def elim: s_bind_cases split: if_splits)

lemma kill_switch_passes: "kill_switch w req p s = (Inr x, s') \<longleftrightarrow> s' = s \<and> \<not> is_cut_off s p \<and> \<not> px_staleClosed s"
  by (auto simp: kill_switch_def)

lemma listener_gate_passes: "listener_gate cfg w req p s = (Inr x, s') \<longleftrightarrow> s' = s \<and> sc_agentRoutes cfg"
  by (auto simp: listener_gate_def)

lemma resolve_upstream_passes:
  "resolve_upstream cfg w req p s = (Inr (u, adapter), s') \<longleftrightarrow> s' = s
     \<and> upstream_named cfg (rq_upstream req) = Configured (RealUpstream u) \<and> adapterFor (up_type u) = Some adapter"
  by (auto simp: resolve_upstream_def elim: s_bind_cases split: upstream_lookup.splits upstream.splits option.splits)

definition body_state :: "world \<Rightarrow> request \<Rightarrow> pstate \<Rightarrow> pstate" where
  "body_state w req s = (if has_body req then w_afterBody w s else s)"

lemma map_request_passes:
  "map_request w req p adapter s = (Inr m, s') \<longleftrightarrow> s' = body_state w req s \<and> adapter (adapter_input req) = Mapped m"
  by (auto simp: map_request_def body_state_def Let_def split: adapter_outcome.splits)

lemma agent_scope_passes:
  "agent_scope w lg p m s = (Inr x, s') \<longleftrightarrow> s' = s
     \<and> (pr_agentActions p = [] \<or> list_all (in_scope (pr_agentActions p)) (am_actions m))
     \<and> (pr_agentTargets p = [] \<or> list_all (in_scope (pr_agentTargets p)) (am_targets m))"
  by (auto simp: agent_scope_def find_None_iff list_all_iff dest!: find_SomeD split: option.splits if_splits)

text \<open>The hops of a principal: every list of patterns that constrains an action, and a target.\<close>

fun action_hops :: "principal \<Rightarrow> string list list" where
  "action_hops (AgentPrincipal k d ts as pol) = []"
| "action_hops (DelegationPrincipal k ts as del chain ach tch pol) = ach"

fun target_hops :: "principal \<Rightarrow> string list list" where
  "target_hops (AgentPrincipal k d ts as pol) = []"
| "target_hops (DelegationPrincipal k ts as del chain ach tch pol) = tch"

lemma delegation_fold_passes:
  "delegation_fold w lg p m s = (Inr x, s') \<longleftrightarrow> s' = s
     \<and> (\<forall>a\<in>set (am_actions m). \<forall>hop\<in>set (action_hops p). in_scope hop a)
     \<and> (\<forall>t\<in>set (am_targets m). \<forall>hop\<in>set (target_hops p). hop = [] \<or> in_scope hop t)"
  by (cases p) (auto simp: find_None_iff list_all_iff list_ex_iff dest!: find_SomeD split: option.splits)

lemma select_policy_passes:
  "select_policy cfg w lg p s = (Inr policy, s') \<longleftrightarrow> s' = s \<and>
     (case px_policyStore s of None \<Rightarrow> policy = sc_policy cfg | Some store \<Rightarrow> policyFor store (pr_policyProfile p) = Some policy)"
  by (auto simp: select_policy_def split: option.splits)

lemma tripwire_gate_passes:
  "tripwire_gate w lg p policy m s = (Inr x, s') \<longleftrightarrow> s' = s \<and> first_trip (cp_tripwires policy) (pairs_of m) = None"
  by (auto simp: tripwire_gate_def Let_def elim: s_bind_cases split: option.splits prod.splits)

subsection \<open>After the policy gates\<close>

lemma budget_gate_passes: "budget_gate cx s = (Inr x, s') \<longleftrightarrow> s' = s \<and> budgetDenyReason cx s = None"
  by (auto simp: budget_gate_def split: option.splits)

lemma budget_gate_ends [ends]: "ends_well (cx_world cx) (budget_gate cx)"
  by (auto simp: ends_well_def budget_gate_def dest: deny_as_out split: option.splits)

lemma approval_gate_ends [ends]: "ends_well (cx_world cx) (approval_gate cx rm v)"
proof -
  have "ends_well (cx_world cx) (s_bind (budget_gate cx) (\<lambda>_. s_bind (awaitApproval (cx_world cx) h d inp um q)
      (\<lambda>r. s_return (True, r))))" for h d inp um q
    by (intro ends)
  then show ?thesis by (auto simp: ends_well_def approval_gate_def)
qed

lemma dlp_gate_ends [ends]: "ends_well (cx_world cx) (dlp_gate cx rm v)"
proof (rule ends_wellI)
  have ask: "ends_well (cx_world cx) (s_bind (awaitApproval (cx_world cx) h d inp um q) (\<lambda>_. s_return True))" for h d inp um q
    by (intro ends)
  fix s out s' assume "dlp_gate cx rm v s = (Inl out, s')"
  then show "reached out = None \<and> logged (cx_world cx) out s'"
    by (auto simp: dlp_gate_def Let_def dest: deny_as_out dest!: ends_wellD [OF ask]
        split: option.splits effect.splits if_splits)
qed

lemma egress_gate_passes: "egress_gate cx u s = (Inr url, s') \<longleftrightarrow> s' = s \<and>
    resolveUpstreamUrl (sc_urlOrigin (cx_cfg cx)) (up_base_url u) (rq_path (cx_req cx)) (rq_query (cx_req cx)) = Some url"
  by (auto simp: egress_gate_def split: option.splits)

lemma egress_gate_ends [ends]: "ends_well (cx_world cx) (egress_gate cx u)"
  by (auto simp: ends_well_def egress_gate_def dest: deny_as_out split: option.splits)

lemma fetch_credential_passes: "fetch_credential cx u s = (Inr c, s') \<longleftrightarrow> s' = w_afterVault (cx_world cx) s \<and> c \<noteq> []
    \<and> w_vault (cx_world cx) (up_credential u) = VaultValue (Some c)"
  by (auto simp: fetch_credential_def Let_def split: vault_answer.splits option.splits list.splits)

lemma fetch_credential_ends [ends]: "ends_well (cx_world cx) (fetch_credential cx u)"
  by (auto simp: ends_well_def fetch_credential_def Let_def dest: deny_as_out
      split: vault_answer.splits option.splits list.splits)

lemma seed_log [simp]: "px_log (seed_pin cx s) = px_log s" "px_log (seed_flow cx s) = px_log s"
  by (simp_all add: seed_pin_def seed_flow_def)

lemma forward_step_result:
  assumes "forward_step cx u sv r c url s = (res, t)"
  obtains out where "res = Inr out" "reached out = Some (outbound_of cx u c url)" "logged (cx_world cx) out t"
  using assms
  by (auto simp: forward_step_def Let_def record_row_def log_record_def split: option.splits forward_result.splits)

lemma forward_step_ends [ends]: "ends_well w (forward_step cx u sv r c url)"
  by (auto simp: ends_well_def elim: forward_step_result)

lemma enforce_ends [ends]: "ends_well (cx_world cx) (enforce cx u rm v)"
  unfolding enforce_def by (intro ends) (auto simp: split_def Let_def intro!: ends)

lemma enforce_passes:
  assumes "enforce cx u rm v s = (Inr out, t)"
  obtains v1 sv v2 s1 s2 va vr vd url c where
    "policy_gates cx v s = (Inr v1, s)" "shadow_switch cx v1 = (sv, v2)"
    "approval_gate cx rm v2 s = (Inr (va, vr), s1)" "budgetDenyReason cx s1 = None"
    "dlp_gate cx rm v2 s1 = (Inr vd, s2)" "egress_gate cx u s2 = (Inr url, s2)"
    "fetch_credential cx u s2 = (Inr c, w_afterVault (cx_world cx) s2)"
    "forward_step cx u sv (forwarded_reason (va \<or> vd) vr (vd_viaGrant v2)) c url (w_afterVault (cx_world cx) s2) = (Inr out, t)"
proof -
  from assms obtain v1 s0 sv v2 where g: "policy_gates cx v s = (Inr v1, s0)" and sh: "shadow_switch cx v1 = (sv, v2)"
    and rest: "s_bind (approval_gate cx rm v2) (\<lambda>(va, vr). s_bind (budget_gate cx) (\<lambda>_. s_bind (dlp_gate cx rm v2) (\<lambda>vd.
       s_bind (egress_gate cx u) (\<lambda>url. s_bind (fetch_credential cx u) (\<lambda>c.
         forward_step cx u sv (forwarded_reason (va \<or> vd) vr (vd_viaGrant v2)) c url))))) s0 = (Inr out, t)"
    unfolding enforce_def by (elim s_bind_cases) (auto simp: Let_def split: prod.splits)
  from policy_gates_passes [OF g] have s0: "s0 = s" by simp
  from rest obtain va vr s1 s2 vd url c s3 s4 where a: "approval_gate cx rm v2 s0 = (Inr (va, vr), s1)"
    and b: "budgetDenyReason cx s1 = None" and d: "dlp_gate cx rm v2 s1 = (Inr vd, s2)"
    and e: "egress_gate cx u s2 = (Inr url, s3)" and f: "fetch_credential cx u s3 = (Inr c, s4)"
    and fw: "forward_step cx u sv (forwarded_reason (va \<or> vd) vr (vd_viaGrant v2)) c url s4 = (Inr out, t)"
    by (elim s_bind_cases; simp split: prod.splits; elim s_bind_cases; simp add: budget_gate_passes)
  from e have "s3 = s2" unfolding egress_gate_passes by simp
  with f have "s4 = w_afterVault (cx_world cx) s2" unfolding fetch_credential_passes by simp
  with that g sh a b d e f fw s0 \<open>s3 = s2\<close> show thesis by blast
qed

subsection \<open>The whole pipeline\<close>

lemma decide_ends [ends]: "ends_well w (decide cfg w req p u m policy)"
proof (rule ends_wellI)
  fix s out s' assume run: "decide cfg w req p u m policy s = (Inl out, s')"
  let ?cx = "\<lparr>cx_cfg = cfg, cx_world = w, cx_req = req, cx_principal = p, cx_mapping = m, cx_policy = policy,
    cx_action = snd (combine policy (rq_upstream req) (pairs_of m))\<rparr>"
  from ends_wellD [OF enforce_ends [of ?cx]] run show "reached out = None \<and> logged w out s'"
    by (simp add: decide_def Let_def)
qed

lemma at_door_ends [ends]: "ends_well w (at_door cfg w req)"
  unfolding at_door_def by (intro ends)

lemma dispatch_ends: "ends_well w (dispatch cfg w req)"
  unfolding dispatch_def by (intro ends) (auto simp: split_def Let_def intro!: ends)

text \<open>The state after the door and the body read, and the door's verdict.\<close>

definition admitted :: "server_config \<Rightarrow> world \<Rightarrow> request \<Rightarrow> pstate \<Rightarrow> principal \<Rightarrow> bool" where
  "admitted cfg w req s p \<longleftrightarrow>
     rs_principal (resolvePrincipal (sc_hashToken cfg) (px_agents s) (px_delegations (w_afterAuth w s))
       (extractToken (map_of (rq_headers req))) (w_ts w)) = Some p
     \<and> \<not> is_decoy p \<and> \<not> is_cut_off (w_afterAuth w s) p \<and> \<not> px_staleClosed (w_afterAuth w s) \<and> sc_agentRoutes cfg"

lemma at_door_passes: "at_door cfg w req s = (Inr p, s') \<longleftrightarrow> s' = w_afterAuth w s \<and> admitted cfg w req s p"
proof
  assume "at_door cfg w req s = (Inr p, s')"
  then show "s' = w_afterAuth w s \<and> admitted cfg w req s p"
    unfolding at_door_def admitted_def
    by (elim s_bind_cases) (simp_all add: authenticate_passes decoy_gate_passes kill_switch_passes listener_gate_passes)
next
  assume "s' = w_afterAuth w s \<and> admitted cfg w req s p"
  then have "authenticate cfg w req s = (Inr p, w_afterAuth w s)"
      "decoy_gate w req p (w_afterAuth w s) = (Inr (), w_afterAuth w s)"
      "kill_switch w req p (w_afterAuth w s) = (Inr (), w_afterAuth w s)"
      "listener_gate cfg w req p (w_afterAuth w s) = (Inr (), w_afterAuth w s)" and "s' = w_afterAuth w s"
    by (simp_all add: admitted_def authenticate_passes decoy_gate_passes kill_switch_passes listener_gate_passes)
  then show "at_door cfg w req s = (Inr p, s')"
    by (simp add: at_door_def s_bind_def)
qed

definition within_scope :: "principal \<Rightarrow> adapter_mapping \<Rightarrow> bool" where
  "within_scope p m \<longleftrightarrow>
     (pr_agentActions p = [] \<or> list_all (in_scope (pr_agentActions p)) (am_actions m))
     \<and> (pr_agentTargets p = [] \<or> list_all (in_scope (pr_agentTargets p)) (am_targets m))
     \<and> (\<forall>a\<in>set (am_actions m). \<forall>hop\<in>set (action_hops p). in_scope hop a)
     \<and> (\<forall>t\<in>set (am_targets m). \<forall>hop\<in>set (target_hops p). hop = [] \<or> in_scope hop t)"

definition selects :: "server_config \<Rightarrow> pstate \<Rightarrow> principal \<Rightarrow> compiled_policy \<Rightarrow> bool" where
  "selects cfg s p policy \<longleftrightarrow>
     (case px_policyStore s of None \<Rightarrow> policy = sc_policy cfg | Some store \<Rightarrow> policyFor store (pr_policyProfile p) = Some policy)"

lemma dispatch_passes:
  assumes "dispatch cfg w req s = (Inr out, t)"
  obtains p u adapter m policy s1 where "admitted cfg w req s p"
    "upstream_named cfg (rq_upstream req) = Configured (RealUpstream u)" "adapterFor (up_type u) = Some adapter"
    "adapter (adapter_input req) = Mapped m" "s1 = body_state w req (w_afterAuth w s)" "within_scope p m"
    "selects cfg s1 p policy" "first_trip (cp_tripwires policy) (pairs_of m) = None"
    "decide cfg w req p u m policy s1 = (Inr out, t)"
proof -
  from assms obtain p sa where d: "at_door cfg w req s = (Inr p, sa)"
    and r1: "s_bind (resolve_upstream cfg w req p) (\<lambda>(u, adapter). s_bind (map_request w req p adapter) (\<lambda>m.
       let lg = mapped_log w req p m in s_bind (agent_scope w lg p m) (\<lambda>_. s_bind (delegation_fold w lg p m) (\<lambda>_.
       s_bind (select_policy cfg w lg p) (\<lambda>policy. s_bind (tripwire_gate w lg p policy m) (\<lambda>_.
         decide cfg w req p u m policy)))))) sa = (Inr out, t)"
    unfolding dispatch_def by (rule s_bind_cases) auto
  from r1 obtain u adapter sb where ru: "resolve_upstream cfg w req p sa = (Inr (u, adapter), sb)"
    and r2: "s_bind (map_request w req p adapter) (\<lambda>m.
       let lg = mapped_log w req p m in s_bind (agent_scope w lg p m) (\<lambda>_. s_bind (delegation_fold w lg p m) (\<lambda>_.
       s_bind (select_policy cfg w lg p) (\<lambda>policy. s_bind (tripwire_gate w lg p policy m) (\<lambda>_.
         decide cfg w req p u m policy))))) sb = (Inr out, t)"
    by (rule s_bind_cases) auto
  from ru have u: "sb = sa" "upstream_named cfg (rq_upstream req) = Configured (RealUpstream u)"
      "adapterFor (up_type u) = Some adapter" by (simp_all add: resolve_upstream_passes)
  from r2 obtain m sc where mr: "map_request w req p adapter sb = (Inr m, sc)"
    and r3: "s_bind (agent_scope w (mapped_log w req p m) p m) (\<lambda>_. s_bind (delegation_fold w (mapped_log w req p m) p m) (\<lambda>_.
       s_bind (select_policy cfg w (mapped_log w req p m) p) (\<lambda>policy.
       s_bind (tripwire_gate w (mapped_log w req p m) p policy m) (\<lambda>_. decide cfg w req p u m policy)))) sc = (Inr out, t)"
    by (auto simp: Let_def elim: s_bind_cases)
  from mr have m: "sc = body_state w req sb" "adapter (adapter_input req) = Mapped m" by (simp_all add: map_request_passes)
  from r3 obtain policy where "within_scope p m" "selects cfg sc p policy"
      "first_trip (cp_tripwires policy) (pairs_of m) = None" "decide cfg w req p u m policy sc = (Inr out, t)"
    unfolding within_scope_def selects_def
    by (elim s_bind_cases) (simp_all add: agent_scope_passes delegation_fold_passes select_policy_passes tripwire_gate_passes)
  moreover from d have "sa = w_afterAuth w s" "admitted cfg w req s p" by (simp_all add: at_door_passes)
  ultimately show thesis using that [of p u adapter m sc policy] u m by simp
qed

lemma handle_reached:
  assumes "handle cfg w req s = (out, t)" "reached out = Some ob"
  shows "dispatch cfg w req s = (Inr out, t)"
  using assms dispatch_ends [of w cfg req] by (auto simp: handle_def ends_well_def split: prod.splits sum.splits)

end
