(* ===== verification/Server_Claims.thy ===== *)
theory Server_Claims
  imports Server_Props
begin

text \<open>
  The properties of the request pipeline: nothing reaches an upstream unless every stage let it
  through, where the credential can go, what a revoked or a decoy identity sees, budgets and the
  log. The last section runs the pipeline on inputs where the code does less than it promises.
\<close>

subsection \<open>Complete mediation\<close>

text \<open>The representative action and verdict of a mapped request.\<close>

definition live_verdict :: "compiled_policy \<Rightarrow> request \<Rightarrow> adapter_mapping \<Rightarrow> engine_result \<times> string" where
  "live_verdict policy req m = combine policy (rq_upstream req) (pairs_of m)"

definition gate_ctx_of :: "server_config \<Rightarrow> world \<Rightarrow> request \<Rightarrow> principal \<Rightarrow> adapter_mapping \<Rightarrow> compiled_policy \<Rightarrow> gate_ctx" where
  "gate_ctx_of cfg w req p m policy =
     \<lparr>cx_cfg = cfg, cx_world = w, cx_req = req, cx_principal = p, cx_mapping = m, cx_policy = policy,
      cx_action = snd (live_verdict policy req m)\<rparr>"

text \<open>Why a request may be forwarded: the engine allows it, a live temporary grant covers it, or a
  human approved this request (or this prompt, within the memory's window).\<close>

definition permitted :: "gate_ctx \<Rightarrow> pstate \<Rightarrow> bool" where
  "permitted cx s \<longleftrightarrow>
     (let live = live_verdict (cx_policy cx) (cx_req cx) (cx_mapping cx) in
      er_decision (fst live) = Allow
      \<or> jit_covers cx (initial_verdict (cx_policy cx) (cx_mapping cx) (fst live)) s
      \<or> (\<exists>inp useMemory quorum r s'. ai_agentId inp = pr_agentId (cx_principal cx)
           \<and> awaitApproval (cx_world cx) (w_hold (cx_world cx)) (decided cx) inp useMemory quorum s = (Inr r, s')))"

lemma decide_enforce:
  "decide cfg w req p u m policy s =
     enforce (gate_ctx_of cfg w req p m policy) u (er_message (fst (live_verdict policy req m)))
       (initial_verdict policy m (fst (live_verdict policy req m))) (observe_canary cfg req m (live_verdict policy req m) s)"
  by (simp add: decide_def gate_ctx_of_def live_verdict_def Let_def)

lemma gate_ctx_of_simps [simp]:
  "cx_cfg (gate_ctx_of cfg w req p m policy) = cfg" "cx_world (gate_ctx_of cfg w req p m policy) = w"
  "cx_req (gate_ctx_of cfg w req p m policy) = req" "cx_principal (gate_ctx_of cfg w req p m policy) = p"
  "cx_mapping (gate_ctx_of cfg w req p m policy) = m" "cx_policy (gate_ctx_of cfg w req p m policy) = policy"
  "cx_action (gate_ctx_of cfg w req p m policy) = snd (live_verdict policy req m)"
  by (simp_all add: gate_ctx_of_def)

lemma initial_decision [simp]: "vd_decision (initial_verdict policy m r) = er_decision r"
  by (simp add: initial_verdict_def)

lemma enforce_permitted:
  assumes "enforce (gate_ctx_of cfg w req p m policy) u rm
      (initial_verdict policy m (fst (live_verdict policy req m))) s = (Inr out, t)" "\<not> sc_shadow cfg"
  shows "permitted (gate_ctx_of cfg w req p m policy) s"
proof -
  let ?cx = "gate_ctx_of cfg w req p m policy"
  from assms(1) obtain v1 sv v2 s1 va vr where g: "policy_gates ?cx (initial_verdict policy m (fst (live_verdict policy req m))) s = (Inr v1, s)"
    and sh: "shadow_switch ?cx v1 = (sv, v2)" and a: "approval_gate ?cx rm v2 s = (Inr (va, vr), s1)"
    by (rule enforce_passes)
  from sh assms(2) have v2: "v2 = v1" by (simp add: shadow_switch_def)
  show ?thesis
  proof (cases "vd_decision v1 = Allow")
    case True
    with policy_gates_passes [OF g] show ?thesis by (auto simp: permitted_def Let_def)
  next
    case False
    with policy_gates_passes [OF g] assms(2) have "vd_decision v1 = RequireApproval"
      by (cases "vd_decision v1") auto
    with a v2 show ?thesis
      by (auto simp: approval_gate_def permitted_def Let_def approval_prompt_def budget_gate_passes elim!: s_bind_cases)
  qed
qed

text \<open>C1: complete mediation: outside shadow mode, whenever a request reaches an upstream in any way,
  its token resolved to a live principal that is neither a decoy nor revoked, the upstream is configured, every
  action and every target is within the scope of the agent and of every delegation hop, no tripwire matched, and
  the request was permitted by the policy selected for the principal, by a live grant, or by a human.\<close>
theorem forward_is_authorized:
  assumes "handle cfg w req s = (out, t)" "reached out = Some ob" "\<not> sc_shadow cfg"
  shows "\<exists>p u adapter m policy. admitted cfg w req s p
     \<and> upstream_named cfg (rq_upstream req) = Configured (RealUpstream u)
     \<and> adapterFor (up_type u) = Some adapter \<and> adapter (adapter_input req) = Mapped m
     \<and> within_scope p m \<and> selects cfg (body_state w req (w_afterAuth w s)) p policy
     \<and> first_trip (cp_tripwires policy) (pairs_of m) = None
     \<and> permitted (gate_ctx_of cfg w req p m policy)
         (observe_canary cfg req m (live_verdict policy req m) (body_state w req (w_afterAuth w s)))"
proof -
  from handle_reached [OF assms(1,2)] have "dispatch cfg w req s = (Inr out, t)" .
  then show ?thesis
  proof (rule dispatch_passes)
    fix p u adapter m policy s1
    assume facts: "admitted cfg w req s p" "upstream_named cfg (rq_upstream req) = Configured (RealUpstream u)"
      "adapterFor (up_type u) = Some adapter" "adapter (adapter_input req) = Mapped m"
      "s1 = body_state w req (w_afterAuth w s)" "within_scope p m" "selects cfg s1 p policy"
      "first_trip (cp_tripwires policy) (pairs_of m) = None" "decide cfg w req p u m policy s1 = (Inr out, t)"
    from enforce_permitted [OF facts(9) [unfolded decide_enforce] assms(3)] facts show ?thesis by blast
  qed
qed

text \<open>A plain read that the policy of the scenario allows, and what it sends.\<close>

definition sc_get :: request where
  "sc_get = sc_request ''1'' ''GET'' ''gh'' ''/repos/a/b''"

definition sc_sent :: outbound where
  "sc_sent = \<lparr>ob_method = ''GET'', ob_url = ''https://api/repos/a/b'',
     ob_headers = [(''authorization'', ''Bearer s3cret''), (''user-agent'', ''grenz-proxy'')], ob_body = None\<rparr>"

lemma sc_get_reached: "reached (fst (handle sc_config sc_world sc_get sc_state)) = Some sc_sent"
  by code_simp

lemma sc_not_shadow: "\<not> sc_shadow sc_config"
  by (simp add: sc_config_def)

theorem forward_is_authorized_witness:
  "\<exists>p u adapter m policy. admitted sc_config sc_world sc_get sc_state p
     \<and> upstream_named sc_config (rq_upstream sc_get) = Configured (RealUpstream u)
     \<and> adapterFor (up_type u) = Some adapter \<and> adapter (adapter_input sc_get) = Mapped m
     \<and> within_scope p m \<and> selects sc_config (body_state sc_world sc_get (w_afterAuth sc_world sc_state)) p policy
     \<and> first_trip (cp_tripwires policy) (pairs_of m) = None
     \<and> permitted (gate_ctx_of sc_config sc_world sc_get p m policy)
         (observe_canary sc_config sc_get m (live_verdict policy sc_get m)
            (body_state sc_world sc_get (w_afterAuth sc_world sc_state)))"
  by (rule forward_is_authorized [OF prod.collapse [symmetric] sc_get_reached sc_not_shadow])

subsection \<open>Where the credential goes\<close>

lemma outbound_stripped:
  assumes "n \<in> set STRIP_REQUEST_HEADERS"
  shows "map_of (ob_headers (forward_request u c me url hs b)) n
    = (if n = map to_lower (up_inject_header u) then Some (injected_value u c) else None)"
proof -
  have ua: "map to_lower ''user-agent'' = ''user-agent''" "''user-agent'' \<notin> set STRIP_REQUEST_HEADERS" by code_simp+
  with assms have "n \<noteq> map to_lower ''user-agent''" by metis
  with copy_headers_stripped [OF assms] show ?thesis
    by (simp add: forward_request_def Let_def header_set_get)
qed

lemma outbound_injected: "map_of (ob_headers (forward_request u c me url hs b)) (map to_lower (up_inject_header u)) = Some (injected_value u c)"
proof -
  have "map to_lower ''user-agent'' = ''user-agent''" by code_simp
  then show ?thesis by (auto simp: forward_request_def Let_def header_set_get)
qed

lemma outbound_url: "ob_url (forward_request u c me url hs b) = url"
  by (simp add: forward_request_def Let_def)

lemma resolveUpstreamUrl_origin:
  assumes "resolveUpstreamUrl origin base path query = Some url"
  shows "origin url = origin base \<and> origin base \<noteq> None"
  using assms by (auto simp: resolveUpstreamUrl_def Let_def split: if_splits option.splits)

text \<open>C2: the credential is confined: whatever reaches an upstream goes to the configured origin of that upstream,
  carries the non-empty credential the vault holds under that upstream's own key and nothing else of it, and
  carries neither the agent's token header nor its authorization header (unless that header is the injected one).\<close>
theorem credential_is_confined:
  assumes "handle cfg w req s = (out, t)" "reached out = Some ob"
  shows "\<exists>u c. upstream_named cfg (rq_upstream req) = Configured (RealUpstream u)
     \<and> w_vault w (up_credential u) = VaultValue (Some c) \<and> c \<noteq> []
     \<and> sc_urlOrigin cfg (ob_url ob) = sc_urlOrigin cfg (up_base_url u) \<and> sc_urlOrigin cfg (up_base_url u) \<noteq> None
     \<and> map_of (ob_headers ob) (map to_lower (up_inject_header u)) = Some (injected_value u c)
     \<and> (\<forall>h\<in>set STRIP_REQUEST_HEADERS. h \<noteq> map to_lower (up_inject_header u) \<longrightarrow> map_of (ob_headers ob) h = None)"
proof -
  from handle_reached [OF assms] have "dispatch cfg w req s = (Inr out, t)" .
  then obtain p u m policy s1 where u: "upstream_named cfg (rq_upstream req) = Configured (RealUpstream u)"
    and d: "decide cfg w req p u m policy s1 = (Inr out, t)"
    by (rule dispatch_passes)
  let ?cx = "gate_ctx_of cfg w req p m policy"
  from d [unfolded decide_enforce] obtain s2 sv r url c where e: "egress_gate ?cx u s2 = (Inr url, s2)"
    and f: "fetch_credential ?cx u s2 = (Inr c, w_afterVault w s2)"
    and fw: "forward_step ?cx u sv r c url (w_afterVault w s2) = (Inr out, t)"
    by (rule enforce_passes) simp
  from fw obtain "reached out = Some (outbound_of ?cx u c url)" by (rule forward_step_result) simp
  with assms(2) have ob: "ob = outbound_of ?cx u c url" by simp
  from e have "resolveUpstreamUrl (sc_urlOrigin cfg) (up_base_url u) (rq_path req) (rq_query req) = Some url"
    by (simp add: egress_gate_passes)
  from resolveUpstreamUrl_origin [OF this] f u ob show ?thesis
    by (intro exI [of _ u] exI [of _ c])
       (simp add: fetch_credential_passes outbound_of_def outbound_stripped outbound_injected outbound_url)
qed

theorem credential_is_confined_witness:
  "sc_urlOrigin sc_config (ob_url sc_sent) = sc_urlOrigin sc_config (up_base_url sc_github)
     \<and> map_of (ob_headers sc_sent) ''authorization'' = Some (injected_value sc_github ''s3cret'')
     \<and> map_of (ob_headers sc_sent) ''x-grenz-token'' = None"
proof -
  have named: "upstream_named sc_config (rq_upstream sc_get) = Configured (RealUpstream sc_github)"
    by (simp add: upstream_named_def sc_config_def sc_get_def sc_request_def)
  have header: "map to_lower (up_inject_header sc_github) = ''authorization''" by code_simp
  have strip: "''x-grenz-token'' \<in> set STRIP_REQUEST_HEADERS" by code_simp
  obtain u c where u: "upstream_named sc_config (rq_upstream sc_get) = Configured (RealUpstream u)"
    and c: "w_vault sc_world (up_credential u) = VaultValue (Some c)"
    and facts: "sc_urlOrigin sc_config (ob_url sc_sent) = sc_urlOrigin sc_config (up_base_url u)"
      "map_of (ob_headers sc_sent) (map to_lower (up_inject_header u)) = Some (injected_value u c)"
      "\<forall>h\<in>set STRIP_REQUEST_HEADERS. h \<noteq> map to_lower (up_inject_header u) \<longrightarrow> map_of (ob_headers sc_sent) h = None"
    using credential_is_confined [OF prod.collapse [symmetric] sc_get_reached] by blast
  from u named c have "u = sc_github" "c = ''s3cret''" by (simp_all add: sc_world_def)
  with facts header strip show ?thesis by fastforce
qed

subsection \<open>At the door\<close>

definition resolved :: "server_config \<Rightarrow> world \<Rightarrow> request \<Rightarrow> pstate \<Rightarrow> resolution" where
  "resolved cfg w req s = resolvePrincipal (sc_hashToken cfg) (px_agents s) (px_delegations (w_afterAuth w s))
     (extractToken (map_of (rq_headers req))) (w_ts w)"

lemma authenticate_Some: "rs_principal (resolved cfg w req s) = Some p \<Longrightarrow> authenticate cfg w req s = (Inr p, w_afterAuth w s)"
  by (simp add: authenticate_def resolved_def Let_def)

lemma locally_revoked_store: "locally_revoked s k \<Longrightarrow> px_revocations s \<noteq> None"
  by (cases "px_revocations s") (auto simp: locally_revoked_def)

lemma cut_off_iff: "is_cut_off s p \<longleftrightarrow> (\<exists>k\<in>set (pr_agentId p # chain_ids p). locally_revoked s k \<or> fleet_revoked s k)"
  by (auto simp: is_cut_off_def list_ex_iff dest: locally_revoked_store)

text \<open>C3: a revoked identity is cut off before anything else happens: if the agent of the request, or any
  delegation of its chain, is on the kill list or in the fleet kill set, then the answer is 403 token_revoked, one row
  is logged, and the request touches no other state: no upstream, body, policy, vault or approval is reached.\<close>
theorem revoked_is_refused_at_the_door:
  assumes "rs_principal (resolved cfg w req s) = Some p" "\<not> is_decoy p"
    and "k \<in> set (pr_agentId p # chain_ids p)"
    and "locally_revoked (w_afterAuth w s) k \<or> fleet_revoked (w_afterAuth w s) k"
  shows "handle cfg w req s =
    (Refused Deny R_token_revoked 403 None ''-'' (rq_upstream req),
     record_row w ((authed_log w req p)\<lparr>le_decision := Deny, le_reason := R_token_revoked, le_forwarded := False,
       le_status := None, le_count := 0, le_shadow := False\<rparr>) (w_afterAuth w s))"
proof -
  from assms(3,4) have "is_cut_off (w_afterAuth w s) p" unfolding cut_off_iff by blast
  with assms(2) have "at_door cfg w req s = refuse w (authed_log w req p) R_token_revoked (w_afterAuth w s)"
    by (simp add: at_door_def s_bind_def authenticate_Some [OF assms(1)] decoy_gate_def kill_switch_def deny_as_def)
  then show ?thesis
    by (simp add: handle_def dispatch_def s_bind_def deny_as_def authed_log_def base_log_def)
qed

definition sc_revoked :: pstate where
  "sc_revoked = sc_state\<lparr>px_revocations := Some \<lparr>rv_revoked = [(''bot'', \<lparr>rr_agentId = ''bot'', rr_ts = 1, rr_reason = ''x''\<rparr>)],
     rv_file = Absent\<rparr>\<rparr>"

definition sc_bot :: principal where
  "sc_bot = AgentPrincipal ''bot'' False [] [] None"

theorem revoked_is_refused_at_the_door_witness:
  "fst (handle sc_config sc_world sc_get sc_revoked) = Refused Deny R_token_revoked 403 None ''-'' ''gh''"
proof -
  have "rs_principal (resolved sc_config sc_world sc_get sc_revoked) = Some sc_bot" "\<not> is_decoy sc_bot"
    "''bot'' \<in> set (pr_agentId sc_bot # chain_ids sc_bot)"
    "locally_revoked (w_afterAuth sc_world sc_revoked) ''bot'' \<or> fleet_revoked (w_afterAuth sc_world sc_revoked) ''bot''"
    "rq_upstream sc_get = ''gh''"
    by code_simp+
  from revoked_is_refused_at_the_door [OF this(1-4)] this(5) show ?thesis by simp
qed

lemma unknown_token_outcome:
  assumes "rs_principal (resolved cfg w req s) = None"
  shows "fst (handle cfg w req s) = Refused Deny R_invalid_token 401 None ''-'' (rq_upstream req)"
  using assms
  by (simp add: handle_def dispatch_def at_door_def s_bind_def authenticate_def resolved_def Let_def deny_as_def base_log_def
      split: option.splits)

lemma revoke_now_revokes:
  assumes "w_disk w" obtains s' where "revoke_now w k r s = (Inr (), s')" "px_revocations s \<noteq> None \<Longrightarrow> locally_revoked s' k"
proof (cases "px_revocations s")
  case None
  then have "revoke_now w k r s = (Inr (), s)" by (simp add: revoke_now_def)
  with None that show thesis by simp
next
  case (Some rv)
  with assms that show thesis
    by (auto simp: revoke_now_def rv_revoke_def rv_persist_def Let_def locally_revoked_def rv_isRevoked_def)
qed

lemma decoy_handled:
  assumes "rs_principal (resolved cfg w req s) = Some p" "is_decoy p" "w_disk w"
  shows "fst (handle cfg w req s) = Refused Deny R_invalid_token 401 None ''-'' (rq_upstream req)
    \<and> (px_revocations (w_afterAuth w s) \<noteq> None \<longrightarrow> locally_revoked (snd (handle cfg w req s)) (pr_agentId p))"
proof -
  obtain s1 where r: "revoke_now w (pr_agentId p) ''decoy: token presented'' (w_afterAuth w s) = (Inr (), s1)"
    and rev: "px_revocations (w_afterAuth w s) \<noteq> None \<Longrightarrow> locally_revoked s1 (pr_agentId p)"
    using revoke_now_revokes [OF assms(3)] by metis
  define s2 where "s2 = (if locally_revoked (w_afterAuth w s) (pr_agentId p) then w_afterAuth w s else s1)"
  from assms(2) r have "decoy_gate w req p (w_afterAuth w s) =
      deny_as w (authed_log w req p) Deny R_decoy_token 401 None (Some R_invalid_token) s2"
    by (simp add: decoy_gate_def s2_def s_bind_def)
  then have "handle cfg w req s = (Refused Deny R_invalid_token 401 None ''-'' (rq_upstream req),
      record_row w ((authed_log w req p)\<lparr>le_decision := Deny, le_reason := R_decoy_token, le_forwarded := False,
        le_status := None, le_count := 0, le_shadow := False\<rparr>) s2)"
    by (simp add: handle_def dispatch_def at_door_def s_bind_def authenticate_Some [OF assms(1)] deny_as_def
        authed_log_def base_log_def)
  moreover have "px_revocations (w_afterAuth w s) \<noteq> None \<Longrightarrow> locally_revoked s2 (pr_agentId p)"
    using rev by (simp add: s2_def)
  ultimately show ?thesis by (simp add: record_row_def locally_revoked_def)
qed

text \<open>C8: a decoy token answers like a token nobody holds, at the first probe and at every later one, whatever the
  state: the same wire answer as the same request where the token resolves to nothing; and the decoy's identity is on
  the kill list afterwards. (The disk accepts the write; when it does not, the answer is a 500.)\<close>
theorem decoy_token_is_masked:
  assumes "rs_principal (resolved cfg w req s) = Some p" "is_decoy p" "w_disk w"
  shows "(\<forall>s'. rs_principal (resolved cfg w req s') = None \<longrightarrow> fst (handle cfg w req s) = fst (handle cfg w req s'))
    \<and> (px_revocations (w_afterAuth w s) \<noteq> None \<longrightarrow> locally_revoked (snd (handle cfg w req s)) (pr_agentId p))"
  using decoy_handled [OF assms] unknown_token_outcome by simp

definition sc_probe :: request where
  "sc_probe = sc_request ''2'' ''GET'' ''gh'' ''/repos/a/b''"

theorem decoy_token_is_masked_witness:
  "fst (handle sc_config sc_world sc_probe sc_state) = fst (handle sc_config sc_world sc_probe (sc_state\<lparr>px_agents := []\<rparr>))
    \<and> locally_revoked (snd (handle sc_config sc_world sc_probe sc_state)) ''bait''"
proof -
  have "rs_principal (resolved sc_config sc_world sc_probe sc_state) = Some (AgentPrincipal ''bait'' True [] [] None)"
    "is_decoy (AgentPrincipal ''bait'' True [] [] None)" "w_disk sc_world"
    by code_simp+
  note both = decoy_token_is_masked [OF this]
  then have masked: "rs_principal (resolved sc_config sc_world sc_probe s') = None \<Longrightarrow>
      fst (handle sc_config sc_world sc_probe sc_state) = fst (handle sc_config sc_world sc_probe s')" for s'
    by blast
  from both have cut: "px_revocations (w_afterAuth sc_world sc_state) \<noteq> None \<Longrightarrow>
      locally_revoked (snd (handle sc_config sc_world sc_probe sc_state)) ''bait''"
    by simp
  have "rs_principal (resolved sc_config sc_world sc_probe (sc_state\<lparr>px_agents := []\<rparr>)) = None" by code_simp
  moreover have "px_revocations (w_afterAuth sc_world sc_state) \<noteq> None" by (simp add: sc_world_def sc_state_def)
  ultimately show ?thesis using masked cut by blast
qed

subsection \<open>The log\<close>



subsection \<open>Budget\<close>

text \<open>What the rest of the process does meanwhile leaves the log alone.\<close>

definition quiet :: "(pstate \<Rightarrow> pstate) \<Rightarrow> bool" where
  "quiet f \<longleftrightarrow> (\<forall>s. px_log (f s) = px_log s)"

lemma await_quiet:
  assumes "awaitApproval w h d inp um q s = (Inr r, s')" "quiet (ho_meanwhile h)"
  shows "px_log s' = px_log s"
proof -
  have rc: "px_log (snd (recall_if um n inp s)) = px_log s" for n
    by (auto simp: recall_if_def split_def Let_def split: bool.splits option.splits)
  have rm: "px_log (remember_if um n inp a x) = px_log x" for n a x
    by (simp add: remember_if_def)
  from assms rc rm show ?thesis
    by (auto simp: awaitApproval_passes resumed_def Let_def quiet_def split: if_splits)
qed

lemma dlp_quiet:
  assumes "dlp_gate cx rm v s = (Inr x, s')" "quiet (ho_meanwhile (w_dlpHold (cx_world cx)))"
  shows "px_log s' = px_log s"
  using assms(1) await_quiet [OF _ assms(2)]
  by (auto simp: dlp_gate_def Let_def elim!: s_bind_cases split: option.splits if_splits effect.splits)

lemma countAllowed_snoc:
  "countAllowedSince (rows @ [e]) k since = countAllowedSince rows k since
     + (if le_agentId e = k \<and> le_decision e = Allow \<and> le_ts e \<ge> since then le_count e else 0)"
  by (simp add: countAllowedSince_def sum_count_def)

lemma raise_matching_ge: "c \<le> raise_matching ws a c"
proof (induction ws arbitrary: c)
  case Nil
  then show ?case by simp
next
  case (Cons x ws)
  obtain pat v where "x = (pat, v)" by (cases x)
  with Cons [of c] Cons [of v] show ?case by auto
qed

lemma billable_nonneg: "0 \<le> billable policy actions"
proof -
  have "0 \<le> n \<Longrightarrow> 0 \<le> foldl (\<lambda>sum a. sum + actionCost policy a) n actions" for n
    by (induction actions arbitrary: n) (use raise_matching_ge [of 1] in \<open>simp_all add: actionCost_def add_nonneg_nonneg order.trans [of 0 1]\<close>)
  then show ?thesis by (simp add: billable_def)
qed

lemma budget_within:
  assumes "budgetDenyReason cx s = None" "ac_limit (agentCeiling (cx_policy cx) (pr_agentId (cx_principal cx))) = Some limit"
  shows "countAllowedSince (px_log s) (pr_agentId (cx_principal cx)) (w_ts (cx_world cx) - BUDGET_WINDOW_MS)
    + billable (cx_policy cx) (am_actions (cx_mapping cx)) \<le> limit"
  using assms by (auto simp: budgetDenyReason_def Let_def split: if_splits)

lemma relayed_row:
  assumes "forward_step cx u sv r c url s = (Inr (Relayed ob resp), t)" "quiet (w_afterForward (cx_world cx))"
    "w_logOk (cx_world cx)"
  obtains e where "px_log t = px_log s @ [e]" "le_agentId e = pr_agentId (cx_principal cx)" "le_ts e = w_ts (cx_world cx)"
    "le_count e = (if sv = None then billable (cx_policy cx) (am_actions (cx_mapping cx)) else 0)"
  using assms
  by (auto simp: forward_step_def Let_def record_row_def log_record_def quiet_def decided_def cx_log_def mapped_log_def
      authed_log_def base_log_def split: option.splits forward_result.splits)

text \<open>C9: the hourly ceiling holds whenever requests do not overlap between the check and the record: outside shadow
  mode, if nothing else writes the log while this request waits, then after a relayed request what the agent was
  billed in the last hour, this request included, is at most its ceiling.\<close>
theorem budget_ceiling_holds_serialized:
  assumes "handle cfg w req s = (Relayed ob resp, t)" "\<not> sc_shadow cfg" "w_logOk w"
    and "quiet (ho_meanwhile (w_dlpHold w))" "quiet (w_afterVault w)" "quiet (w_afterForward w)"
  shows "\<exists>p policy. admitted cfg w req s p \<and> selects cfg (body_state w req (w_afterAuth w s)) p policy
    \<and> (\<forall>limit. ac_limit (agentCeiling policy (pr_agentId p)) = Some limit \<longrightarrow>
         countAllowedSince (px_log t) (pr_agentId p) (w_ts w - BUDGET_WINDOW_MS) \<le> limit)"
proof -
  from handle_reached [OF assms(1)] have "dispatch cfg w req s = (Inr (Relayed ob resp), t)" by simp
  then obtain p u m policy s0 where p: "admitted cfg w req s p" "selects cfg s0 p policy"
      "s0 = body_state w req (w_afterAuth w s)" and d: "decide cfg w req p u m policy s0 = (Inr (Relayed ob resp), t)"
    by (rule dispatch_passes)
  let ?cx = "gate_ctx_of cfg w req p m policy" and ?k = "pr_agentId p" and ?since = "w_ts w - BUDGET_WINDOW_MS"
  from d [unfolded decide_enforce] obtain rm v2 vd s1 s2 sv r c url where b: "budgetDenyReason ?cx s1 = None"
    and dl: "dlp_gate ?cx rm v2 s1 = (Inr vd, s2)"
    and fw: "forward_step ?cx u sv r c url (w_afterVault w s2) = (Inr (Relayed ob resp), t)"
    and sv: "sv = None"
    by (rule enforce_passes) (use assms(2) in \<open>simp add: shadow_switch_def\<close>)
  from dlp_quiet [OF dl] assms(4,5) have same: "px_log (w_afterVault w s2) = px_log s1" by (simp add: quiet_def)
  from fw obtain e where e: "px_log t = px_log (w_afterVault w s2) @ [e]" "le_agentId e = ?k"
      "le_count e = billable policy (am_actions m)"
    by (rule relayed_row) (use assms sv in simp_all)
  have "countAllowedSince (px_log t) ?k ?since \<le> limit" if "ac_limit (agentCeiling policy ?k) = Some limit" for limit
  proof -
    have "0 \<le> billable policy (am_actions m)" by (rule billable_nonneg)
    with budget_within [OF b, of limit] that same e show ?thesis by (simp add: countAllowed_snoc)
  qed
  with p show ?thesis by blast
qed

lemma sc_get_relayed: "handle sc_config sc_world sc_get sc_state =
    (Relayed sc_sent \<lparr>cl_status = 200, cl_headers = [(''x-grenz-decision'', ''allow'')], cl_body = None\<rparr>,
     snd (handle sc_config sc_world sc_get sc_state))"
proof -
  have "fst (handle sc_config sc_world sc_get sc_state) =
      Relayed sc_sent \<lparr>cl_status = 200, cl_headers = [(''x-grenz-decision'', ''allow'')], cl_body = None\<rparr>"
    by code_simp
  then show ?thesis by (metis prod.collapse)
qed

theorem budget_ceiling_holds_serialized_witness:
  "countAllowedSince (px_log (snd (handle sc_config sc_world sc_get sc_state))) ''bot'' (w_ts sc_world - BUDGET_WINDOW_MS) \<le> 10"
proof -
  have "w_logOk sc_world" "quiet (ho_meanwhile (w_dlpHold sc_world))" "quiet (w_afterVault sc_world)"
    "quiet (w_afterForward sc_world)"
    by (simp_all add: sc_world_def sc_hold_def quiet_def)
  from budget_ceiling_holds_serialized [OF sc_get_relayed sc_not_shadow this]
  obtain p policy where p: "admitted sc_config sc_world sc_get sc_state p"
    and policy: "selects sc_config (body_state sc_world sc_get (w_afterAuth sc_world sc_state)) p policy"
    and bound: "ac_limit (agentCeiling policy (pr_agentId p)) = Some 10 \<Longrightarrow>
      countAllowedSince (px_log (snd (handle sc_config sc_world sc_get sc_state))) (pr_agentId p)
        (w_ts sc_world - BUDGET_WINDOW_MS) \<le> 10"
    by blast
  have "rs_principal (resolvePrincipal (sc_hashToken sc_config) (px_agents sc_state) (px_delegations (w_afterAuth sc_world sc_state))
       (extractToken (map_of (rq_headers sc_get))) (w_ts sc_world)) = Some sc_bot" by code_simp
  with p have "p = sc_bot" by (simp add: admitted_def)
  moreover from policy have "policy = sc_live"
    by (simp add: selects_def body_state_def sc_world_def sc_state_def sc_config_def split: if_splits)
  ultimately show ?thesis using bound by (simp add: sc_bot_def sc_live_def agentCeiling_def)
qed

end
