(* ===== verification/Server_Findings.thy ===== *)
theory Server_Findings
  imports Server_Claims
begin

text \<open>
  Runs of the pipeline on inputs where the code does less than its comments promise. Each
  theorem evaluates the model on a concrete installation.
\<close>

subsection \<open>Batches and the narrow exceptions\<close>

definition sc_policy_with :: "string list \<Rightarrow> string list \<Rightarrow> string list \<Rightarrow> int \<Rightarrow> compiled_policy" where
  "sc_policy_with denied ask allowed limit = sc_live\<lparr>cp_grants :=
     [sc_grant ''gh'' [''repo:delete''] [''pr:merge''] [''repo:*''], sc_grant ''mcp'' denied ask allowed],
     cp_maxActionsPerHour := Some limit\<rparr>"

definition sc_call :: "string \<Rightarrow> json" where
  "sc_call tool = JObj [(''method'', JStr ''tools/call''), (''params'', JObj [(''name'', JStr tool)])]"

definition sc_batch :: "string list \<Rightarrow> request" where
  "sc_batch tools = (sc_request ''1'' ''POST'' ''mcp'' ''/'')\<lparr>rq_json := Some (JArr (map sc_call tools))\<rparr>"

definition sc_jit_state :: pstate where
  "sc_jit_state = sc_state\<lparr>px_broker := None, px_grants := Some
     \<lparr>gs_byId = [(''g1'', \<lparr>tg_id = ''g1'', tg_agentId = ''bot'', tg_actions = [''call:gap''], tg_reason = [],
        tg_createdAt = 0, tg_expiresAt = 1000\<rparr>)], gs_file = Absent\<rparr>\<rparr>"

definition sc_jit_config :: server_config where
  "sc_jit_config = sc_config\<lparr>sc_policy := sc_policy_with [''call:rm''] [] [''call:ls''] 10\<rparr>"


text \<open>The administrator decides while the request is held.\<close>

definition sc_decides :: "pstate \<Rightarrow> pstate" where
  "sc_decides s = s\<lparr>px_broker := map_option (\<lambda>b. snd (br_approve ''a1'' ''alice'' b)) (px_broker s)\<rparr>"

definition sc_revokes :: "pstate \<Rightarrow> pstate" where
  "sc_revokes s = s\<lparr>px_revocations := map_option (\<lambda>rv. snd (rv_revoke True ''bot'' ''stop'' 50 rv)) (px_revocations s)\<rparr>"

definition sc_merge :: request where
  "sc_merge = sc_request ''1'' ''PUT'' ''gh'' ''/repos/a/b/pulls/1/merge''"

definition sc_held_world :: "(pstate \<Rightarrow> pstate) \<Rightarrow> world" where
  "sc_held_world meanwhile = sc_world\<lparr>w_hold := sc_hold\<lparr>ho_meanwhile := meanwhile\<rparr>\<rparr>"


definition sc_ask_config :: server_config where
  "sc_ask_config = sc_config\<lparr>sc_policy := sc_policy_with [] [''call:*''] [] 100\<rparr>"

definition sc_memory_state :: pstate where
  "sc_memory_state = sc_state\<lparr>px_memory := Some \<lparr>am_ttlMs = 1000, am_entries = []\<rparr>\<rparr>"


definition sc_tight_config :: server_config where
  "sc_tight_config = sc_config\<lparr>sc_policy := sc_policy_with [] [] [] 1\<rparr>"

text \<open>overlapping requests overshoot the hourly ceiling: with a ceiling of one, a request that is handled while
  another waits for the vault is forwarded too, and both are billed.\<close>
theorem budget_overshoots_when_overlapping:
  "(let w = sc_world\<lparr>w_afterVault := (\<lambda>s. snd (handle sc_tight_config sc_world sc_get s))\<rparr>;
        result = handle sc_tight_config w sc_get sc_state
    in reached (fst result) \<noteq> None \<and> countAllowedSince (px_log (snd result)) ''bot'' 0 = 2
      \<and> cp_maxActionsPerHour (sc_policy sc_tight_config) = Some 1)"
  unfolding Let_def by (intro conjI; code_simp)

definition sc_user :: "string \<Rightarrow> request" where
  "sc_user up = sc_request ''1'' ''GET'' up ''/user''"

text \<open>a decoy upstream is recognisable: the masked answer carries the action \<open>-\<close>, while the refusal it imitates,
  of the same request by an upstream of the same type that grants nothing, names the action, so a caller can tell the
  trap from an ordinary refusal.\<close>
theorem decoy_upstream_answer_stands_out:
  "fst (handle sc_config sc_world (sc_user ''trap'') sc_state) = Refused Deny R_no_matching_allow 403 None ''-'' ''trap''
   \<and> fst (handle sc_config sc_world (sc_user ''gh'') sc_state) = Refused Deny R_no_matching_allow 403 None ''user:read'' ''gh''"
  by (intro conjI; code_simp)

end
