(* ===== verification/Delegate_Claims.thy ===== *)
theory Delegate_Claims
  imports Server_Claims
begin

text \<open>
  Properties of \<^verbatim>\<open>POST /delegate\<close>: what a minted child inherits from its minter, and that
  nothing is minted for an identity that is cut off, too deep, or unknown.
\<close>

definition minter :: "server_config \<Rightarrow> mint_world \<Rightarrow> header_list \<Rightarrow> pstate \<Rightarrow> principal option" where
  "minter cfg w hs s = rs_principal (resolvePrincipal (sc_hashToken cfg) (px_agents s)
     (px_delegations (mw_afterAuth w s)) (extractToken (map_of hs)) (mw_authAt w))"

lemma mint_child_Minted:
  assumes "mint_child cfg w p body s = (Minted tok d, t)"
  obtains dels ttl where "px_delegations s = Some dels"
    "child_ttl dels (delegation_of p) (some_or 900 (dr_ttl_seconds body) * 1000) (mw_mintAt w) = Some ttl"
    "tok = mw_token w" "dl_parentAgentId d = pr_agentId p" "dl_parentDelegationId d = delegation_of p"
    "dl_policyProfile d = pr_policyProfile p" "dl_expiresAt d = mw_mintAt w + ttl" "dl_createdAt d = mw_mintAt w"
    "dl_actions d = take 100 (dr_actions body)"
  using assms
  by (auto simp: mint_child_def Let_def del_mint_def del_persist_def split: option.splits sum.splits prod.splits if_splits)

lemma handleDelegate_Minted:
  assumes "handleDelegate cfg w me hs body s = (Minted tok d, t)"
  obtains p v r where "minter cfg w hs s = Some p" "\<not> is_decoy p" "\<not> is_cut_off (mw_afterAuth w s) p"
    "\<not> px_staleClosed (mw_afterAuth w s)" "delegation_of p \<noteq> None \<longrightarrow> length (chain_ids p) < MAX_DEPTH"
    "body = Some v" "parse_delegate v = Some r"
    "mint_child cfg w p r (mw_afterBody w (mw_afterAuth w s)) = (Minted tok d, t)"
proof -
  from assms obtain p where p: "minter cfg w hs s = Some p"
    by (auto simp: handleDelegate_def minter_def Let_def split: if_splits option.splits)
  from assms p have nd: "\<not> is_decoy p"
    by (auto simp: handleDelegate_def minter_def delegate_decoy_def Let_def
        split: if_splits option.splits sum.splits prod.splits)
  from assms p nd have gates: "\<not> is_cut_off (mw_afterAuth w s) p" "\<not> px_staleClosed (mw_afterAuth w s)"
      "delegation_of p \<noteq> None \<longrightarrow> length (chain_ids p) < MAX_DEPTH"
      "delegate_body cfg w p body (mw_afterAuth w s) = (Minted tok d, t)"
    by (auto simp: handleDelegate_def minter_def delegate_wrong_listener_def Let_def split: if_splits)
  from gates(4) obtain v r where "body = Some v" "parse_delegate v = Some r"
      "mint_child cfg w p r (mw_afterBody w (mw_afterAuth w s)) = (Minted tok d, t)"
    by (auto simp: delegate_body_def Let_def split: if_splits option.splits)
  with p nd gates that show thesis by blast
qed

lemma parse_delegate_ttl:
  assumes "parse_delegate v = Some r" "dr_ttl_seconds r = Some n" shows "0 < n \<and> n \<le> 3600"
proof -
  have opt: "optional_field ttl_value f = Some (Some n) \<Longrightarrow> 0 < n \<and> n \<le> 3600" for f n
    by (auto simp: optional_field_def ttl_value_def split: option.splits json.splits if_splits)
  with assms show ?thesis
    by (auto simp: parse_delegate_def split: json.splits if_splits option.splits)
qed

text \<open>C5: a minted child only narrows: it belongs to the minter's root agent, hangs under the minter's own grant,
  inherits its policy profile, lives at most an hour and never past that parent grant, and is minted only for a live
  principal that is neither a decoy nor revoked and whose chain is still shorter than the depth cap.\<close>
theorem minted_child_is_attenuated:
  assumes "handleDelegate cfg w me hs body s = (Minted tok d, t)"
  shows "\<exists>p dels. minter cfg w hs s = Some p \<and> \<not> is_decoy p \<and> \<not> is_cut_off (mw_afterAuth w s) p
    \<and> (delegation_of p \<noteq> None \<longrightarrow> length (chain_ids p) < MAX_DEPTH)
    \<and> dl_parentAgentId d = pr_agentId p \<and> dl_parentDelegationId d = delegation_of p
    \<and> dl_policyProfile d = pr_policyProfile p
    \<and> mw_mintAt w < dl_expiresAt d \<and> dl_expiresAt d \<le> mw_mintAt w + 3600 * 1000
    \<and> px_delegations (mw_afterBody w (mw_afterAuth w s)) = Some dels
    \<and> (\<forall>k. delegation_of p = Some k \<longrightarrow> (\<exists>parent. del_get dels k = Some parent \<and> dl_expiresAt d \<le> dl_expiresAt parent))"
  using assms
proof (rule handleDelegate_Minted)
  fix p v r
  assume p: "minter cfg w hs s = Some p" "\<not> is_decoy p" "\<not> is_cut_off (mw_afterAuth w s) p"
    and depth: "delegation_of p \<noteq> None \<longrightarrow> length (chain_ids p) < MAX_DEPTH" and r: "parse_delegate v = Some r"
    and m: "mint_child cfg w p r (mw_afterBody w (mw_afterAuth w s)) = (Minted tok d, t)"
  let ?req = "some_or 900 (dr_ttl_seconds r) * 1000"
  from m obtain dels ttl where dels: "px_delegations (mw_afterBody w (mw_afterAuth w s)) = Some dels"
    and ttl: "child_ttl dels (delegation_of p) ?req (mw_mintAt w) = Some ttl"
    and d: "dl_parentAgentId d = pr_agentId p" "dl_parentDelegationId d = delegation_of p"
      "dl_policyProfile d = pr_policyProfile p" "dl_expiresAt d = mw_mintAt w + ttl"
    by (rule mint_child_Minted)
  have req: "0 < ?req \<and> ?req \<le> 3600 * 1000"
    using parse_delegate_ttl [OF r] by (cases "dr_ttl_seconds r") (auto simp: some_or_def)
  from ttl req have "0 < ttl \<and> ttl \<le> 3600 * 1000"
    by (auto simp: child_ttl_def Let_def split: option.splits if_splits)
  moreover from ttl have "\<forall>k. delegation_of p = Some k \<longrightarrow>
      (\<exists>parent. del_get dels k = Some parent \<and> mw_mintAt w + ttl \<le> dl_expiresAt parent)"
    by (auto simp: child_ttl_def Let_def split: option.splits if_splits)
  ultimately show ?thesis using p depth d dels by auto
qed

definition sc_mint_world :: mint_world where
  "sc_mint_world = \<lparr>mw_disk = True, mw_logOk = True, mw_authAt = 100, mw_afterAuth = id, mw_gateAt = 100,
     mw_capacityAt = 100, mw_afterBody = id, mw_mintAt = 100, mw_newId = ''d2'', mw_token = ''kid'', mw_afterHash = id\<rparr>"

definition sc_parent :: delegation where
  "sc_parent = \<lparr>dl_id = ''d1'', dl_parentAgentId = ''bot'', dl_parentDelegationId = None, dl_tokenHash = ''h3'',
     dl_actions = [''repo:*''], dl_targets = [], dl_policyProfile = None, dl_note = [], dl_createdAt = 0, dl_expiresAt = 60100\<rparr>"

definition sc_mint_state :: pstate where
  "sc_mint_state = sc_state\<lparr>px_delegations := Some \<lparr>ds_byId = [(''d1'', sc_parent)],
     ds_hashToId = Map.empty(''h3'' \<mapsto> ''d1''), ds_file = Absent\<rparr>\<rparr>"

definition sc_mint_body :: json where
  "sc_mint_body = JObj [(''actions'', JArr [JStr ''*'']), (''ttl_seconds'', JNum 3600)]"

theorem minted_child_is_attenuated_witness:
  "\<exists>d t. handleDelegate sc_config sc_mint_world ''POST'' [(''x-grenz-token'', ''3'')] (Some sc_mint_body) sc_mint_state
      = (Minted ''kid'' d, t) \<and> dl_expiresAt d \<le> 60100"
proof -
  define run where "run = handleDelegate sc_config sc_mint_world ''POST'' [(''x-grenz-token'', ''3'')] (Some sc_mint_body) sc_mint_state"
  have "fst run = Minted ''kid'' (sc_parent\<lparr>dl_id := ''d2'', dl_parentDelegationId := Some ''d1'', dl_tokenHash := ''hkid'',
      dl_actions := [''*''], dl_createdAt := 100\<rparr>)"
    unfolding run_def by code_simp
  then obtain t where run: "run = (Minted ''kid'' (sc_parent\<lparr>dl_id := ''d2'', dl_parentDelegationId := Some ''d1'', dl_tokenHash := ''hkid'',
      dl_actions := [''*''], dl_createdAt := 100\<rparr>), t)" by (metis prod.collapse)
  from minted_child_is_attenuated [OF run [unfolded run_def]] run [unfolded run_def] show ?thesis
    by (auto simp: sc_parent_def)
qed

end
