(* ===== verification/Escalation_Claims.thy ===== *)
theory Escalation_Claims
  imports Server_Claims Approvals_Props
begin

text \<open>
  Properties that join the pipeline to the stores it escalates to: what an approval means in the
  broker's history, and what a tripwire does to the token tree.
\<close>

subsection \<open>Dual control end to end\<close>

lemma created_once:
  assumes "distinct (created_ids evs)" "Create k now inp q \<in> set evs" "Create k now' inp' q' \<in> set evs"
  shows "q = q'"
  using assms
proof (induction evs rule: created_ids.induct)
  case (2 k2 now2 inp2 q2 evs)
  have "Create k n i r \<in> set evs \<Longrightarrow> k \<in> set (created_ids evs)" for n i r
    by (auto simp: created_ids_iff created_with_def)
  with 2 show ?case by auto
qed auto

lemma history_quorum:
  assumes "distinct (created_ids evs)" "Create k now inp q \<in> set evs"
    and "map_of (br_settled (br_run (new_broker ttl cap) evs)) k = Some out" "ao_state out = Approved"
  shows "q \<le> int (card (approvers_of k evs))"
proof -
  from map_of_SomeD [OF assms(3)] hist_run [OF assms(1), of ttl cap] have "settled_hist evs (k, out)" by (auto simp: hist_def)
  with assms(4) obtain now' inp' n where "Create k now' inp' n \<in> set evs" "max 1 n \<le> int (card (approvers_of k evs))"
    by (auto simp: settled_hist_def created_with_def)
  with created_once [OF assms(1,2)] show ?thesis by fastforce
qed

text \<open>C4: dual control holds end to end: a request that needs two or more approvers passes the approval gate only
  on a fresh approval, never on a remembered one, and in the broker's history up to that moment, ids being fresh, at
  least that many distinct people approved exactly this request; nothing is remembered.\<close>
theorem dual_control_end_to_end:
  assumes "awaitApproval w h d inp um q s = (Inr remembered, s')" "2 \<le> q"
    and "px_broker (resumed h inp um q s) = Some (br_run (new_broker ttl cap) evs)"
    and "Create (ho_id h) (ho_now h) inp q \<in> set evs" "distinct (created_ids evs)"
  shows "\<not> remembered \<and> q \<le> int (card (approvers_of (ho_id h) evs)) \<and> s' = resumed h inp um q s"
proof -
  from assms(1,2) have ap: "approved_in h (resumed h inp um q s)" and "\<not> remembered" "s' = resumed h inp um q s"
    unfolding awaitApproval_passes by (auto split: if_splits)
  from ap assms(3) obtain out where "map_of (br_settled (br_run (new_broker ttl cap) evs)) (ho_id h) = Some out"
      "ao_state out = Approved"
    by (auto simp: approved_in_def)
  from history_quorum [OF assms(5,4) this] \<open>\<not> remembered\<close> \<open>s' = _\<close> show ?thesis by simp
qed

definition sc_two_approve :: "pstate \<Rightarrow> pstate" where
  "sc_two_approve s = s\<lparr>px_broker := map_option (\<lambda>b. br_event (br_event b (Approve ''a1'' ''alice'')) (Approve ''a1'' ''bob'')) (px_broker s)\<rparr>"

definition sc_two_hold :: hold where
  "sc_two_hold = sc_hold\<lparr>ho_meanwhile := sc_two_approve\<rparr>"

definition sc_prompt :: approval_input where
  "sc_prompt = \<lparr>ai_agentId = ''bot'', ai_upstream = ''gh'', ai_tool = ''gh'', ai_action = ''pr:merge'', ai_target = ''/x'',
     ai_method = ''PUT'', ai_context = None\<rparr>"

definition sc_history :: "broker_event list" where
  "sc_history = [Create ''a1'' 100 sc_prompt 2, Approve ''a1'' ''alice'', Approve ''a1'' ''bob'']"

theorem dual_control_end_to_end_witness:
  "2 \<le> int (card (approvers_of ''a1'' sc_history))"
proof -
  let ?s = "resumed sc_two_hold sc_prompt True 2 sc_state"
  have br: "px_broker ?s = Some (br_run (new_broker 1000 5) sc_history)"
    by (simp add: resumed_def Let_def sc_two_hold_def sc_hold_def sc_state_def sc_two_approve_def recall_if_def
        br_run_def sc_history_def)
  have ap: "approved_in sc_two_hold ?s"
  proof -
    have "map_of (br_settled (br_run (new_broker 1000 5) sc_history)) ''a1'' = Some \<lparr>ao_state = Approved, ao_decidedBy = Some ''bob''\<rparr>"
      by code_simp
    with br show ?thesis by (simp add: approved_in_def sc_two_hold_def sc_hold_def)
  qed
  have run: "awaitApproval sc_world sc_two_hold (base_log sc_world sc_get) sc_prompt True 2 sc_state = (Inr False, ?s)"
    unfolding awaitApproval_passes using ap
    by (simp add: recall_if_def sc_state_def sc_two_hold_def sc_hold_def br_atCapacity_def new_broker_def)
  have "Create (ho_id sc_two_hold) (ho_now sc_two_hold) sc_prompt 2 \<in> set sc_history" "distinct (created_ids sc_history)"
    by (simp_all add: sc_two_hold_def sc_hold_def sc_history_def)
  from dual_control_end_to_end [OF run _ br this] show ?thesis by (simp add: sc_two_hold_def sc_hold_def)
qed

subsection \<open>Tripwires\<close>

text \<open>C6: the mere attempt of a wired action cuts off the token tree: a live principal whose request reaches policy
  evaluation and matches a tripwire is refused with the reason tripwire, whatever the policy would have said, and
  afterwards the root agent (or, for a leaf wire, the presenting token) is on the kill list.\<close>
theorem tripwire_cuts_off:
  assumes "admitted cfg w req s p" "upstream_named cfg (rq_upstream req) = Configured (RealUpstream u)"
    and "adapterFor (up_type u) = Some adapter" "adapter (adapter_input req) = Mapped m" "within_scope p m"
    and "selects cfg (body_state w req (w_afterAuth w s)) p policy"
    and "first_trip (cp_tripwires policy) (pairs_of m) = Some (a, target, wire)"
    and "w_disk w" "px_revocations (body_state w req (w_afterAuth w s)) \<noteq> None"
  shows "(\<exists>hint. fst (handle cfg w req s) = Refused Deny R_tripwire 403 hint a (rq_upstream req))
    \<and> locally_revoked (snd (handle cfg w req s)) (if tw_onTrip wire = Leaf then session_key p else pr_agentId p)"
proof -
  let ?s1 = "w_afterAuth w s" and ?s = "body_state w req (w_afterAuth w s)" and ?lg = "mapped_log w req p m"
  let ?k = "if tw_onTrip wire = Leaf then session_key p else pr_agentId p"
  have stages: "at_door cfg w req s = (Inr p, ?s1)" "resolve_upstream cfg w req p ?s1 = (Inr (u, adapter), ?s1)"
      "map_request w req p adapter ?s1 = (Inr m, ?s)" "agent_scope w ?lg p m ?s = (Inr (), ?s)"
      "delegation_fold w ?lg p m ?s = (Inr (), ?s)" "select_policy cfg w ?lg p ?s = (Inr policy, ?s)"
    using assms by (auto simp: at_door_passes resolve_upstream_passes map_request_passes agent_scope_passes
        delegation_fold_passes select_policy_passes within_scope_def selects_def)
  define why where "why = ''tripwire: '' @ a @ (case tw_note wire of None \<Rightarrow> [] | Some n \<Rightarrow> if n = [] then [] else em_dash @ n)
      @ via ?k (session_key p)"
  have r: "tripwire_gate w ?lg p policy m ?s =
      s_bind (revoke_now w ?k why) (\<lambda>_. deny_as w (?lg\<lparr>le_action := a, le_target := target\<rparr>) Deny R_tripwire 403 (tw_note wire) None) ?s"
    by (simp add: tripwire_gate_def assms(7) why_def Let_def)
  obtain s2 where rv: "revoke_now w ?k why ?s = (Inr (), s2)" "locally_revoked s2 ?k"
    by (rule revoke_now_revokes [OF assms(8), of ?k why ?s]) (use assms(9) in blast)
  from r rv(1) have "tripwire_gate w ?lg p policy m ?s =
      deny_as w (?lg\<lparr>le_action := a, le_target := target\<rparr>) Deny R_tripwire 403 (tw_note wire) None s2"
    by (simp add: s_bind_def)
  with stages have "dispatch cfg w req s = deny_as w (?lg\<lparr>le_action := a, le_target := target\<rparr>) Deny R_tripwire 403 (tw_note wire) None s2"
    by (simp add: dispatch_def s_bind_def Let_def deny_as_def)
  then have "handle cfg w req s = (Refused Deny R_tripwire 403 (if tw_note wire = Some [] then None else tw_note wire) a (rq_upstream req),
      record_row w (?lg\<lparr>le_action := a, le_target := target, le_decision := Deny, le_reason := R_tripwire,
        le_forwarded := False, le_status := None, le_count := 0, le_shadow := False\<rparr>) s2)"
    by (simp add: handle_def deny_as_def mapped_log_def authed_log_def base_log_def)
  with rv(2) show ?thesis by (simp add: record_row_def locally_revoked_def)
qed

definition sc_wired_config :: server_config where
  "sc_wired_config = sc_config\<lparr>sc_policy := sc_live\<lparr>cp_tripwires :=
     [\<lparr>tw_action = compilePattern False ''repo:delete'', tw_targets = None, tw_note = None, tw_onTrip = Cascade\<rparr>]\<rparr>\<rparr>"

definition sc_delete :: request where
  "sc_delete = sc_request ''1'' ''DELETE'' ''gh'' ''/repos/a/b''"

definition sc_delete_mapping :: adapter_mapping where
  "sc_delete_mapping = \<lparr>am_actions = [''repo:delete''], am_targets = [''/repos/a/b''], am_target = ''/repos/a/b'', am_label = ''DELETE''\<rparr>"

theorem tripwire_cuts_off_witness:
  "locally_revoked (snd (handle sc_wired_config sc_world sc_delete sc_state)) ''bot''"
proof -
  let ?policy = "sc_policy sc_wired_config"
  have mapped: "github_map (adapter_input sc_delete) = Mapped sc_delete_mapping" by code_simp
  have trip: "first_trip (cp_tripwires ?policy) (pairs_of sc_delete_mapping) =
      Some (''repo:delete'', ''/repos/a/b'', hd (cp_tripwires ?policy))" by code_simp
  have adm: "admitted sc_wired_config sc_world sc_delete sc_state sc_bot" by code_simp
  have up: "upstream_named sc_wired_config (rq_upstream sc_delete) = Configured (RealUpstream sc_github)"
    by (simp add: sc_wired_config_def sc_config_def sc_delete_def sc_request_def upstream_named_def)
  have ad: "adapterFor (up_type sc_github) = Some github_map" by (simp add: sc_github_def adapterFor_def)
  have "within_scope sc_bot sc_delete_mapping" by (simp add: within_scope_def sc_bot_def)
  moreover have "selects sc_wired_config (body_state sc_world sc_delete (w_afterAuth sc_world sc_state)) sc_bot ?policy"
    by (simp add: selects_def body_state_def sc_world_def sc_state_def)
  moreover have "w_disk sc_world" by (simp add: sc_world_def)
  moreover have "px_revocations (body_state sc_world sc_delete (w_afterAuth sc_world sc_state)) \<noteq> None"
    by (simp add: body_state_def sc_world_def sc_state_def)
  ultimately have "locally_revoked (snd (handle sc_wired_config sc_world sc_delete sc_state))
      (if tw_onTrip (hd (cp_tripwires ?policy)) = Leaf then session_key sc_bot else pr_agentId sc_bot)"
    using tripwire_cuts_off [OF adm up ad mapped _ _ trip] by blast
  then show ?thesis by (simp add: sc_wired_config_def sc_config_def sc_bot_def)
qed

end
