(* ===== verification/Bash_Words.thy ===== *)
theory Bash_Words
  imports Adapters Auth
begin

text \<open>
  The words of the shell guard, \<^verbatim>\<open>adapters/bash.ts\<close>: the syntax tree of a command line, the
  tables of the guard, the folding of a word to its literal value and the source-text backstop
  that checks the fold. The parser (tree-sitter with its bash grammar, a
  WebAssembly blob) is not part of the model: a line arrives as the tree the parser returned.

  A node has its type, its source text, its offsets, whether it is named, whether the parse below
  it failed, the field it fills in its parent, and its children. The null entries the interface
  allows among children are left out, as every loop of the code skips them. An inert character
  range is a pair of offsets.
\<close>

subsection \<open>Syntax trees\<close>

record node_info =
  ni_type :: string
  ni_text :: string
  ni_startIndex :: int
  ni_endIndex :: int
  ni_isNamed :: bool
  ni_hasError :: bool
  ni_field :: "string option"

datatype syntax_node = Node (sn_info: node_info) (sn_children: "syntax_node list")

abbreviation "sn_type n \<equiv> ni_type (sn_info n)"
abbreviation "sn_text n \<equiv> ni_text (sn_info n)"
abbreviation "sn_startIndex n \<equiv> ni_startIndex (sn_info n)"
abbreviation "sn_endIndex n \<equiv> ni_endIndex (sn_info n)"
abbreviation "sn_isNamed n \<equiv> ni_isNamed (sn_info n)"
abbreviation "sn_hasError n \<equiv> ni_hasError (sn_info n)"
abbreviation "sn_field n \<equiv> ni_field (sn_info n)"

definition namedChildren :: "syntax_node \<Rightarrow> syntax_node list" where
  "namedChildren n = filter sn_isNamed (sn_children n)"

definition childForFieldName :: "syntax_node \<Rightarrow> string \<Rightarrow> syntax_node option" where
  "childForFieldName n name = List.find (\<lambda>c. sn_field c = Some name) (sn_children n)"

text \<open>A node and everything a walk over named children reaches from it.\<close>

fun nodes :: "syntax_node \<Rightarrow> syntax_node list" where
  "nodes (Node i cs) =
     Node i cs # concat (map (\<lambda>c. if sn_isNamed c then nodes c else []) cs)"

datatype undecidable_kind = Dynamic | CodeInArgv | StdinProgram | ShellScript | WrapperOpaque | GlobKind | LossyParse

record bash_mapping =
  bm_actions :: "string list"
  bm_targets :: "string list"
  bm_unresolved :: "bool list"
  bm_target :: string
  bm_label :: string

datatype bash_outcome = BashMapped bash_mapping | BashUndecidable undecidable_kind string | BashUnsupported string

subsection \<open>Tables\<close>

definition ALWAYS_REFUSE :: "(string \<times> undecidable_kind \<times> string) list" where
  "ALWAYS_REFUSE =
     [(''eval'', CodeInArgv, ''its arguments are shell source''),
      (''source'', CodeInArgv, ''it executes the named file in this shell''),
      (''.'', CodeInArgv, ''it executes the named file in this shell''),
      (''xargs'', StdinProgram, ''it builds its command line from stdin'')]"

definition SHELLS :: "string list" where
  "SHELLS = [''sh'', ''bash'', ''zsh'', ''dash'', ''ksh'', ''ash'', ''mksh'']"

definition PRINT_AND_EXIT :: "string list" where
  "PRINT_AND_EXIT = [''--version'', ''--help'', ''-h'']"

definition SHELL_STDIN :: "string list" where
  "SHELL_STDIN = [''-s'', ''-'']"

record wrapper_spec =
  ws_bool :: "string list"
  ws_value :: "string list"
  ws_positionals :: nat

definition WRAPPERS :: "(string \<times> wrapper_spec) list" where
  "WRAPPERS =
     [(''timeout'', \<lparr>ws_bool = [''--foreground'', ''--preserve-status'', ''-v'', ''--verbose''],
                    ws_value = [''-k'', ''--kill-after'', ''-s'', ''--signal''], ws_positionals = 1\<rparr>),
      (''nohup'', \<lparr>ws_bool = [], ws_value = [], ws_positionals = 0\<rparr>),
      (''setsid'', \<lparr>ws_bool = [''-f'', ''--fork'', ''-w'', ''--wait'', ''-c'', ''--ctty''], ws_value = [], ws_positionals = 0\<rparr>),
      (''nice'', \<lparr>ws_bool = [], ws_value = [''-n'', ''--adjustment''], ws_positionals = 0\<rparr>),
      (''stdbuf'', \<lparr>ws_bool = [], ws_value = [''-i'', ''-o'', ''-e'', ''--input'', ''--output'', ''--error''],
                   ws_positionals = 0\<rparr>)]"

definition SAFE_VARS :: "string list" where
  "SAFE_VARS = [''HOME'', ''PWD'', ''USER'', ''TMPDIR'']"

definition SAFE_VAR_MUTATORS :: "string list" where
  "SAFE_VAR_MUTATORS = [''cd'', ''pushd'', ''popd'', ''export'', ''declare'', ''typeset'', ''readonly'', ''local'', ''set'',
     ''unset'', ''read'', ''su'', ''sudo'', ''doas'', ''login'', ''chroot'', ''env'']"

definition DYNAMIC_NODES :: "string list" where
  "DYNAMIC_NODES = [''expansion'', ''simple_expansion'', ''command_substitution'', ''process_substitution'',
     ''arithmetic_expansion'', ''ansi_c_string'', ''translated_string'']"

subsection \<open>Characters and strings\<close>

abbreviation backslash :: char where "backslash \<equiv> CHR 0x5C"
abbreviation dollar :: char where "dollar \<equiv> CHR 0x24"
abbreviation backtick :: char where "backtick \<equiv> CHR 0x60"
abbreviation dquote :: char where "dquote \<equiv> CHR 0x22"
abbreviation squote :: char where "squote \<equiv> CHR 0x27"

definition is_letter :: "char \<Rightarrow> bool" where
  "is_letter c = (let n = (of_char c :: nat) in 65 \<le> n \<and> n \<le> 90 \<or> 97 \<le> n \<and> n \<le> 122)"

definition is_digit :: "char \<Rightarrow> bool" where
  "is_digit c = (let n = (of_char c :: nat) in 48 \<le> n \<and> n \<le> 57)"

definition name_start :: "char \<Rightarrow> bool" where "name_start c = (is_letter c \<or> c = CHR ''_'')"
definition name_char :: "char \<Rightarrow> bool" where "name_char c = (name_start c \<or> is_digit c)"

text \<open>\<open>[A-Za-z_][A-Za-z0-9_]*\<close> on a whole string.\<close>

definition is_name :: "string \<Rightarrow> bool" where
  "is_name s = (case s of [] \<Rightarrow> False | c # cs \<Rightarrow> name_start c \<and> list_all name_char cs)"

fun contains :: "string \<Rightarrow> string \<Rightarrow> bool" where
  "contains p [] \<longleftrightarrow> p = []"
| "contains p (c # cs) \<longleftrightarrow> has_prefix p (c # cs) \<or> contains p cs"

text \<open>\<^verbatim>\<open>basename\<close> of \<^verbatim>\<open>node:path\<close> (POSIX).\<close>

definition basename :: "string \<Rightarrow> string" where
  "basename p = rev (takeWhile (\<lambda>c. c \<noteq> CHR ''/'') (dropWhile (\<lambda>c. c = CHR ''/'') (rev p)))"

text \<open>\<^verbatim>\<open>replace(/\s+/g, " ")\<close>.\<close>

fun collapse_spaces :: "string \<Rightarrow> string" where
  "collapse_spaces [] = []"
| "collapse_spaces [c] = (if is_space c then '' '' else [c])"
| "collapse_spaces (c # d # cs) =
     (if is_space c then (if is_space d then collapse_spaces (d # cs) else CHR '' '' # collapse_spaces (d # cs))
      else c # collapse_spaces (d # cs))"

fun unescape :: "string \<Rightarrow> string" where
  "unescape [] = []"
| "unescape [c] = [c]"
| "unescape (c # d # cs) = (if c = backslash then d # unescape cs else c # unescape (d # cs))"

fun dropEscapes :: "string \<Rightarrow> string" where
  "dropEscapes [] = []"
| "dropEscapes [c] = [c]"
| "dropEscapes (c # d # cs) = (if c = backslash then dropEscapes cs else c # dropEscapes (d # cs))"

text \<open>The in-place form: both characters of an escape become spaces.\<close>

fun blank_escapes :: "string \<Rightarrow> string" where
  "blank_escapes [] = []"
| "blank_escapes [c] = [c]"
| "blank_escapes (c # d # cs) =
     (if c = backslash then CHR '' '' # CHR '' '' # blank_escapes cs else c # blank_escapes (d # cs))"

subsection \<open>Safe variables\<close>

definition safeVarName :: "syntax_node \<Rightarrow> string option" where
  "safeVarName n =
     (let m = (if sn_type n = ''simple_expansion'' then
                 (case sn_text n of c # v \<Rightarrow> if c = dollar \<and> is_name v then Some v else None | [] \<Rightarrow> None)
               else if sn_type n = ''expansion'' then
                 (case sn_text n of
                    c # d # v \<Rightarrow> if c = dollar \<and> d = CHR ''{'' \<and> v \<noteq> [] \<and> last v = CHR ''}'' \<and> is_name (butlast v)
                                then Some (butlast v) else None
                  | _ \<Rightarrow> None)
               else None)
      in case m of None \<Rightarrow> None | Some v \<Rightarrow> if v \<in> set SAFE_VARS then Some v else None)"

definition names_mutator :: "syntax_node \<Rightarrow> bool" where
  "names_mutator n =
     (case childForFieldName n ''name'' of
        None \<Rightarrow> False
      | Some name \<Rightarrow> basename (filter (\<lambda>c. c \<noteq> squote \<and> c \<noteq> dquote) (sn_text name)) \<in> set SAFE_VAR_MUTATORS)"

definition redefines :: "syntax_node \<Rightarrow> bool" where
  "redefines n \<longleftrightarrow> sn_type n \<in> {''variable_assignment'', ''declaration_command'', ''unset_command''}
     \<or> sn_type n = ''command'' \<and> names_mutator n"

definition safeVarsUsable :: "syntax_node \<Rightarrow> bool" where
  "safeVarsUsable root = (\<not> list_ex redefines (nodes root))"

subsection \<open>The source-text backstop\<close>

definition blank_range :: "int \<Rightarrow> int \<Rightarrow> string \<Rightarrow> string" where
  "blank_range lo hi s = map (\<lambda>(off, c). if lo \<le> int off \<and> int off < hi then CHR '' '' else c) (enumerate 0 s)"

text \<open>The walk of \<open>maskRegions\<close>: the characters left, and the spans of the double-quoted strings.\<close>

fun mask_node :: "bool \<Rightarrow> int \<Rightarrow> syntax_node \<Rightarrow> string \<times> (int \<times> int) list \<Rightarrow> string \<times> (int \<times> int) list"
and mask_nodes :: "bool \<Rightarrow> int \<Rightarrow> syntax_node list \<Rightarrow> string \<times> (int \<times> int) list \<Rightarrow> string \<times> (int \<times> int) list"
where
  "mask_node safeVars base (Node i cs) (masked, strings) =
     (if ni_type i = ''raw_string'' \<or> ni_type i = ''string_content''
         \<or> safeVars \<and> safeVarName (Node i cs) \<noteq> None
      then (blank_range (ni_startIndex i - base) (ni_endIndex i - base) masked, strings)
      else mask_nodes safeVars base cs
             (masked, if ni_type i = ''string'' then strings @ [(ni_startIndex i - base, ni_endIndex i - base)] else strings))"
| "mask_nodes safeVars base [] acc = acc"
| "mask_nodes safeVars base (c # cs) acc =
     mask_nodes safeVars base cs (if sn_isNamed c then mask_node safeVars base c acc else acc)"

definition maskRegions :: "syntax_node \<Rightarrow> bool \<Rightarrow> string \<times> (int \<times> int) list" where
  "maskRegions node safeVars =
     (let (masked, strings) = mask_node safeVars (sn_startIndex node) node (sn_text node, [])
      in (blank_escapes masked, strings))"

definition maskQuoted :: "syntax_node \<Rightarrow> bool \<Rightarrow> string" where
  "maskQuoted node safeVars = fst (maskRegions node safeVars)"

definition DOLLAR_EXPANDS :: "char \<Rightarrow> bool" where
  "DOLLAR_EXPANDS c \<longleftrightarrow> name_char c
     \<or> c \<in> set (''{([@*#?!-'' @ [dollar, squote, dquote])"

definition dollarExpands :: "string \<Rightarrow> nat \<Rightarrow> (int \<times> int) list \<Rightarrow> bool" where
  "dollarExpands tx i strings =
     (if Suc i < length tx then
        let nxt = tx ! Suc i; inDouble = list_ex (\<lambda>(s, e). int i > s \<and> int i < e - 1) strings in
        if inDouble \<and> (nxt = squote \<or> nxt = dquote) then False else DOLLAR_EXPANDS nxt
      else True)"

definition contradictsLiteral :: "syntax_node \<Rightarrow> bool \<Rightarrow> string option" where
  "contradictsLiteral node safeVars =
     (let (rest, strings) = maskRegions node safeVars in
      if list_ex (\<lambda>i. rest ! i = dollar \<and> dollarExpands (sn_text node) i strings) [0..<length rest] then Some [dollar]
      else if backtick \<in> set rest then Some ''backtick''
      else if contains ''<('' rest then Some ''<(''
      else if contains ''>('' rest then Some ''>(''
      else None)"

subsection \<open>Does a word run a command\<close>

fun has_substitution :: "syntax_node \<Rightarrow> bool" where
  "has_substitution (Node i cs) \<longleftrightarrow>
     ni_type i = ''command_substitution'' \<or> ni_type i = ''process_substitution''
     \<or> ni_type i \<noteq> ''raw_string'' \<and> list_ex (\<lambda>c. sn_isNamed c \<and> has_substitution c) cs"

definition shows_substitution :: "string \<Rightarrow> bool" where
  "shows_substitution s \<longleftrightarrow> backtick \<in> set s \<or> contains [dollar, CHR ''(''] s \<or> contains ''<('' s \<or> contains ''>('' s"

definition runsACommand :: "syntax_node \<Rightarrow> bool" where
  "runsACommand node \<longleftrightarrow> has_substitution node \<or> shows_substitution (maskQuoted node False)"

subsection \<open>Folding a word\<close>

datatype word_fold = Folded string string | FoldDynamic undecidable_kind string

definition in_token :: "string \<Rightarrow> syntax_node \<Rightarrow> string" where
  "in_token what n = what @ '' in '' @ backticked (sn_text n)"

definition ends_with_angle :: "string \<Rightarrow> bool" where
  "ends_with_angle s = (s \<noteq> [] \<and> (last s = CHR ''<'' \<or> last s = CHR ''>''))"

text \<open>The cases of \<open>foldWord\<close>'s walk that do not look at children; \<open>None\<close> is one of the cases that do.\<close>

definition fold_leaf :: "bool \<Rightarrow> syntax_node \<Rightarrow> word_fold option" where
  "fold_leaf safeVars n =
     (case (if safeVars then safeVarName n else None) of
        Some v \<Rightarrow> Some (Folded (dollar # v) [])
      | None \<Rightarrow>
          if sn_type n \<in> set DYNAMIC_NODES then Some (FoldDynamic Dynamic (in_token (sn_type n) n))
          else if sn_type n = ''word'' then Some (Folded (unescape (sn_text n)) (dropEscapes (sn_text n)))
          else if sn_type n = ''raw_string'' then Some (Folded (butlast (tl (sn_text n))) [])
          else if sn_type n = ''string_content'' then Some (Folded (unescape (sn_text n)) [])
          else if sn_type n \<in> set [''number'', ''file_descriptor'', ''variable_name'']
          then Some (Folded (sn_text n) (sn_text n))
          else if sn_type n \<in> set [''file_redirect'', ''variable_assignment'', ''string'', ''command_name'', ''concatenation'']
          then None
          else Some (FoldDynamic Dynamic (in_token (''unhandled '' @ sn_type n) n)))"

datatype fold_shape = Tokens bool | DoubleQuoted | Parts

definition fold_shape_of :: "string \<Rightarrow> fold_shape" where
  "fold_shape_of ty =
     (if ty = ''file_redirect'' then Tokens True else if ty = ''variable_assignment'' then Tokens False
      else if ty = ''string'' then DoubleQuoted else Parts)"

fun foldNode :: "bool \<Rightarrow> syntax_node \<Rightarrow> word_fold"
and fold_tokens :: "bool \<Rightarrow> bool \<Rightarrow> syntax_node list \<Rightarrow> string \<Rightarrow> string \<Rightarrow> word_fold"
and fold_string :: "bool \<Rightarrow> string \<Rightarrow> syntax_node list \<Rightarrow> string \<Rightarrow> word_fold"
and fold_parts :: "bool \<Rightarrow> syntax_node list \<Rightarrow> string \<Rightarrow> string \<Rightarrow> word_fold"
where
  "foldNode safeVars (Node i cs) =
     (case fold_leaf safeVars (Node i cs) of
        Some f \<Rightarrow> f
      | None \<Rightarrow>
          (case fold_shape_of (ni_type i) of
             Tokens spaced \<Rightarrow> fold_tokens safeVars spaced cs [] []
           | DoubleQuoted \<Rightarrow> fold_string safeVars (ni_text i) cs []
           | Parts \<Rightarrow> fold_parts safeVars cs [] []))"
| "fold_tokens safeVars spaced [] out bare = Folded out bare"
| "fold_tokens safeVars spaced (c # cs) out bare =
     (if \<not> sn_isNamed c then fold_tokens safeVars spaced cs (out @ sn_text c) bare
      else case foldNode safeVars c of
        FoldDynamic k d \<Rightarrow> FoldDynamic k d
      | Folded l b \<Rightarrow>
          fold_tokens safeVars spaced cs (out @ (if spaced \<and> ends_with_angle out then '' '' else []) @ l) (bare @ b))"
| "fold_string safeVars tx [] out = Folded out []"
| "fold_string safeVars tx (c # cs) out =
     (if \<not> sn_isNamed c then
        (if sn_text c = [dquote] then fold_string safeVars tx cs out
         else if sn_text c = [dollar] then fold_string safeVars tx cs (out @ [dollar])
         else FoldDynamic Dynamic (''unhandled token '' @ backticked (sn_text c) @ '' in '' @ backticked tx))
      else case foldNode safeVars c of
        FoldDynamic k d \<Rightarrow> FoldDynamic k d
      | Folded l b \<Rightarrow> fold_string safeVars tx cs (out @ l))"
| "fold_parts safeVars [] out bare = Folded out bare"
| "fold_parts safeVars (c # cs) out bare =
     (if \<not> sn_isNamed c then fold_parts safeVars cs out bare
      else case foldNode safeVars c of
        FoldDynamic k d \<Rightarrow> FoldDynamic k d
      | Folded l b \<Rightarrow> fold_parts safeVars cs (out @ l) (bare @ b))"

definition foldWord :: "syntax_node \<Rightarrow> bool \<Rightarrow> word_fold" where
  "foldWord node safeVars =
     (case foldNode safeVars node of
        FoldDynamic k d \<Rightarrow> FoldDynamic k d
      | Folded l b \<Rightarrow>
          (case contradictsLiteral node safeVars of
             Some c \<Rightarrow> FoldDynamic LossyParse (''parser reported '' @ backticked (sn_text node)
                         @ '' as literal but its source contains '' @ c)
           | None \<Rightarrow> Folded l b))"

end
