(* ===== verification/Bash_Guard.thy ===== *)
theory Bash_Guard
  imports Bash_Words
begin

text \<open>
  The commands of the shell guard, \<^verbatim>\<open>adapters/bash.ts\<close>: resolving one command to the binary that
  runs and the line it is matched as, and mapping a whole command line to actions and targets.
\<close>

subsection \<open>Shells and wrappers\<close>

definition SHELL_C :: "string \<Rightarrow> bool" where
  "SHELL_C a \<longleftrightarrow> a = ''--command''
     \<or> (case a of [] \<Rightarrow> False | c # cs \<Rightarrow> c = CHR ''-'' \<and> list_all is_letter cs \<and> CHR ''c'' \<in> set cs)"

definition refuse_shell :: "string \<Rightarrow> undecidable_kind \<Rightarrow> string \<Rightarrow> (undecidable_kind \<times> string) option" where
  "refuse_shell binary k why = Some (k, backticked binary @ '': '' @ why)"

definition scanShell :: "string \<Rightarrow> string list \<Rightarrow> (undecidable_kind \<times> string) option" where
  "scanShell binary args =
     (if list_ex (\<lambda>a. a \<in> set PRINT_AND_EXIT) args then None
      else if list_ex SHELL_C args then
        refuse_shell binary CodeInArgv (backticked ''-c''
          @ '' hands it shell source, which runs behind Grenz'' @ [squote] @ ''s own parser'')
      else if list_ex (\<lambda>a. a \<in> set SHELL_STDIN) args then
        refuse_shell binary StdinProgram ''it is told to read its program from stdin''
      else case List.find (\<lambda>a. \<not> has_prefix ''-'' a) args of
        Some script \<Rightarrow> refuse_shell binary ShellScript
          (''it runs '' @ backticked script @ '', a shell program Grenz never parsed'')
      | None \<Rightarrow> refuse_shell binary StdinProgram ''no program argument, so the program comes from stdin'')"

text \<open>Where the options of a wrapper end; \<open>None\<close> when an option cannot be read.\<close>

fun wrapper_options :: "wrapper_spec \<Rightarrow> string list \<Rightarrow> nat \<Rightarrow> nat option" where
  "wrapper_options spec [] i = Some i"
| "wrapper_options spec (a # rest) i =
     (if a = ''--'' then Some (Suc i)
      else if \<not> has_prefix ''-'' a \<or> a = ''-'' then Some i
      else
        let name = takeWhile (\<lambda>c. c \<noteq> CHR ''='') a in
        if name \<in> set (ws_bool spec) then wrapper_options spec rest (Suc i)
        else if name \<in> set (ws_value spec) then
          (if CHR ''='' \<in> set a then wrapper_options spec rest (Suc i)
           else case rest of [] \<Rightarrow> Some (i + 2) | v # rest' \<Rightarrow> wrapper_options spec rest' (i + 2))
        else if \<not> has_prefix ''--'' a \<and> length a > 2 \<and> take 2 a \<in> set (ws_value spec)
        then wrapper_options spec rest (Suc i)
        else None)"

datatype unwrapped = Unreadable | NothingWrapped | WrappedAt nat

definition unwrapAt :: "wrapper_spec \<Rightarrow> string list \<Rightarrow> unwrapped" where
  "unwrapAt spec args =
     (case wrapper_options spec args 0 of
        None \<Rightarrow> Unreadable
      | Some i \<Rightarrow> let at = i + ws_positionals spec in if at < length args then WrappedAt at else NothingWrapped)"

subsection \<open>Arguments\<close>

record arg =
  ag_literal :: string
  ag_bare :: string
  ag_unresolved :: bool

text \<open>A refusal is an \<open>Inl\<close>: its kind and its detail.\<close>

type_synonym refusal = "undecidable_kind \<times> string"

definition foldArg :: "syntax_node \<Rightarrow> bool \<Rightarrow> refusal + arg" where
  "foldArg node safeVars =
     (case foldWord node safeVars of
        Folded l b \<Rightarrow> Inr \<lparr>ag_literal = l, ag_bare = b, ag_unresolved = False\<rparr>
      | FoldDynamic k d \<Rightarrow>
          if k = LossyParse then Inl (k, d)
          else if runsACommand node then Inl (Dynamic, backticked (sn_text node) @ '' runs a command before this one'')
          else Inr \<lparr>ag_literal = sn_text node, ag_bare = [], ag_unresolved = True\<rparr>)"

text \<open>The loop over the children of a command: prefix assignments, and the argument list.\<close>

fun fold_args :: "bool \<Rightarrow> syntax_node list \<Rightarrow> refusal + (string list \<times> arg list \<times> bool)" where
  "fold_args safeVars [] = Inr ([], [], False)"
| "fold_args safeVars (child # rest) =
     (case foldArg child safeVars of
        Inl (k, d) \<Rightarrow> Inl (k, (if sn_type child = ''variable_assignment'' then ''assignment: '' else ''argument: '') @ d)
      | Inr f \<Rightarrow>
          (case fold_args safeVars rest of
             Inl r \<Rightarrow> Inl r
           | Inr (assigns, argv, u) \<Rightarrow>
               if sn_type child = ''variable_assignment'' then Inr (ag_literal f # assigns, argv, ag_unresolved f \<or> u)
               else Inr (assigns, f # argv, ag_unresolved f \<or> u)))"

subsection \<open>The binary that runs\<close>

definition GLOB_CHARS :: "string \<Rightarrow> bool" where
  "GLOB_CHARS s \<longleftrightarrow> list_ex (\<lambda>c. c \<in> set ''*?[]'') s"

definition globbed :: "string \<Rightarrow> string \<Rightarrow> refusal option" where
  "globbed word bare =
     (if GLOB_CHARS bare then Some (GlobKind, ''binary '' @ backticked word @ '' resolves at exec time'') else None)"

definition wrapped_dynamic :: "arg \<Rightarrow> refusal option" where
  "wrapped_dynamic a =
     (if ag_unresolved a then Some (Dynamic, ''wrapped binary: '' @ backticked (ag_literal a) @ '' is only known at run time'')
      else None)"

text \<open>\<open>/^[A-Za-z_][A-Za-z0-9_]*=/\<close>.\<close>

definition sets_variable :: "string \<Rightarrow> bool" where
  "sets_variable s \<longleftrightarrow> CHR ''='' \<in> set s \<and> is_name (takeWhile (\<lambda>c. c \<noteq> CHR ''='') s)"

definition MAX_WRAPPER_DEPTH :: nat where "MAX_WRAPPER_DEPTH = 4"

text \<open>One step into a wrapper: the head is the next binary, unless it cannot be known.\<close>

definition enter_wrapped :: "arg \<Rightarrow> refusal + string" where
  "enter_wrapped head =
     (case wrapped_dynamic head of
        Some r \<Rightarrow> Inl r
      | None \<Rightarrow> (case globbed (ag_literal head) (ag_bare head) of
          Some r \<Rightarrow> Inl r | None \<Rightarrow> Inr (basename (ag_literal head))))"

fun unwrap_loop :: "nat \<Rightarrow> string \<Rightarrow> arg list \<Rightarrow> refusal + (string \<times> arg list)" where
  "unwrap_loop 0 binary args = Inr (binary, args)"
| "unwrap_loop (Suc depth) binary args =
     (if binary = ''env'' then
        (if list_ex (\<lambda>a. sets_variable (ag_literal a)) args then
           Inl (WrapperOpaque, backticked ''env'' @ '' sets variables, which changes what the wrapped binary is'')
         else if list_ex (\<lambda>a. has_prefix ''-'' (ag_literal a)) args then
           Inl (WrapperOpaque, backticked ''env'' @ '' was given options Grenz does not read'')
         else case args of
           [] \<Rightarrow> Inr (binary, args)
         | head # rest \<Rightarrow>
             (case enter_wrapped head of Inl r \<Rightarrow> Inl r | Inr b \<Rightarrow> unwrap_loop depth b rest))
      else case map_of WRAPPERS binary of
        None \<Rightarrow> Inr (binary, args)
      | Some spec \<Rightarrow>
          (case unwrapAt spec (map ag_literal args) of
             Unreadable \<Rightarrow> Inl (WrapperOpaque, backticked binary
               @ '' was given options Grenz cannot read, so the wrapped command cannot be located'')
           | NothingWrapped \<Rightarrow> Inr (binary, args)
           | WrappedAt at \<Rightarrow>
               (case enter_wrapped (args ! at) of
                  Inl r \<Rightarrow> Inl r | Inr b \<Rightarrow> unwrap_loop depth b (drop (Suc at) args))))"

subsection \<open>Heredocs\<close>

definition HEREDOC_BODY_CHARS :: int where "HEREDOC_BODY_CHARS = 512"

text \<open>The loop over the children: whether the delimiter was quoted, and the body.\<close>

definition heredoc_parts :: "syntax_node \<Rightarrow> bool \<times> string" where
  "heredoc_parts redir = foldl (\<lambda>(quoted, body) c.
       (if sn_type c = ''heredoc_start''
        then has_prefix [squote] (sn_text c) \<or> has_prefix [dquote] (sn_text c) \<or> backslash \<in> set (sn_text c)
        else quoted,
        if sn_type c = ''heredoc_body'' then body @ sn_text c else body))
     (False, []) (namedChildren redir)"

definition foldHeredoc :: "syntax_node \<Rightarrow> refusal + string" where
  "foldHeredoc redir =
     (let (quoted, body) = heredoc_parts redir; folded = js_trim (collapse_spaces body);
          shown = (if folded = [] then ''<<''
                   else if int (length folded) \<le> HEREDOC_BODY_CHARS then ''<< '' @ folded
                   else ''<< '' @ take (nat HEREDOC_BODY_CHARS) folded @ '' ...[+''
                        @ show_nat (length folded - nat HEREDOC_BODY_CHARS) @ '']'')
      in if \<not> quoted \<and> (backtick \<in> set body \<or> contains [dollar, CHR ''(''] body \<or> contains ''<('' body)
         then Inl (Dynamic, ''heredoc body runs a command substitution before the command reads it'')
         else if \<not> quoted \<and> dollar \<in> set body then Inr ''<<''
         else Inr shown)"

subsection \<open>One command\<close>

record resolved_command =
  rc_binary :: string
  rc_line :: string
  rc_unresolved :: bool

text \<open>The redirects of a command, appended to its line.\<close>

fun fold_redirects :: "bool \<Rightarrow> syntax_node list \<Rightarrow> refusal + (string list \<times> bool)" where
  "fold_redirects safeVars [] = Inr ([], False)"
| "fold_redirects safeVars (redir # rest) =
     (if sn_type redir = ''heredoc_redirect'' then
        (case foldHeredoc redir of
           Inl r \<Rightarrow> Inl r
         | Inr t \<Rightarrow> (case fold_redirects safeVars rest of Inl r \<Rightarrow> Inl r | Inr (ps, u) \<Rightarrow> Inr (t # ps, u)))
      else
        (case foldArg redir safeVars of
           Inl (k, d) \<Rightarrow> Inl (k, ''redirect: '' @ d)
         | Inr f \<Rightarrow>
             (case fold_redirects safeVars rest of
                Inl r \<Rightarrow> Inl r
              | Inr (ps, u) \<Rightarrow> Inr (js_trim (collapse_spaces (ag_literal f)) # ps, ag_unresolved f \<or> u))))"

definition argument_nodes :: "syntax_node \<Rightarrow> syntax_node list" where
  "argument_nodes cmd =
     filter (\<lambda>c. Some c \<noteq> childForFieldName cmd ''name'' \<and> sn_type c \<noteq> ''command_name'') (namedChildren cmd)"

definition code_in_argv :: "string \<Rightarrow> arg list \<Rightarrow> refusal option" where
  "code_in_argv binary args =
     (case map_of ALWAYS_REFUSE binary of
        Some (k, why) \<Rightarrow> Some (k, backticked binary @ '': '' @ why)
      | None \<Rightarrow> if binary \<in> set SHELLS then scanShell binary (map ag_literal args) else None)"

definition resolve_words :: "syntax_node list \<Rightarrow> bool \<Rightarrow> string \<Rightarrow> string list \<Rightarrow> arg list \<Rightarrow> bool \<Rightarrow> refusal + resolved_command" where
  "resolve_words redirects safeVars commandWord assigns argv u =
     (case unwrap_loop MAX_WRAPPER_DEPTH (basename commandWord) argv of
        Inl r \<Rightarrow> Inl r
      | Inr (binary, args) \<Rightarrow>
          (case code_in_argv binary args of
             Some r \<Rightarrow> Inl r
           | None \<Rightarrow>
               (case fold_redirects safeVars redirects of
                  Inl r \<Rightarrow> Inl r
                | Inr (ps, u') \<Rightarrow>
                    Inr \<lparr>rc_binary = binary,
                         rc_line = join_with '' '' (assigns @ commandWord # map ag_literal argv @ ps),
                         rc_unresolved = (u \<or> u')\<rparr>)))"

definition resolveCommand :: "syntax_node \<Rightarrow> syntax_node list \<Rightarrow> bool \<Rightarrow> refusal + resolved_command" where
  "resolveCommand cmd redirects safeVars =
     (case childForFieldName cmd ''name'' of
        None \<Rightarrow> Inl (Dynamic, ''command has no resolvable name'')
      | Some nameNode \<Rightarrow>
          (case foldWord nameNode safeVars of
             FoldDynamic k d \<Rightarrow> Inl (k, ''binary: '' @ d)
           | Folded commandWord bare \<Rightarrow>
               if commandWord = [] then Inl (Dynamic, ''binary folded to an empty string'')
               else case fold_args safeVars (argument_nodes cmd) of
                 Inl r \<Rightarrow> Inl r
               | Inr (assigns, argv, u) \<Rightarrow>
                   (case globbed commandWord bare of
                      Some r \<Rightarrow> Inl r
                    | None \<Rightarrow> resolve_words redirects safeVars commandWord assigns argv u)))"

subsection \<open>The command line\<close>

definition LABEL_MEMBERS :: nat where "LABEL_MEMBERS = 3"

definition listLabel :: "string list \<Rightarrow> string" where
  "listLabel lines =
     show_nat (length lines) @ '' commands: '' @ join_with ''; '' (take LABEL_MEMBERS lines)
       @ (if length lines > LABEL_MEMBERS then '', +'' @ show_nat (length lines - LABEL_MEMBERS) @ '' more'' else [])"

definition is_redirect :: "syntax_node \<Rightarrow> bool" where
  "is_redirect c \<longleftrightarrow> sn_type c = ''file_redirect'' \<or> sn_type c = ''heredoc_redirect''"

text \<open>
  The walk that collects commands. For a \<open>redirected_statement\<close> the body is the last named child
  that is not a file or heredoc redirect: \<open>visit_body\<close> carries what visiting the latest such child
  collects.
\<close>

fun visit :: "syntax_node \<Rightarrow> syntax_node list \<Rightarrow> (syntax_node \<times> syntax_node list) list"
and visit_body :: "syntax_node list \<Rightarrow> syntax_node list \<Rightarrow> (syntax_node \<times> syntax_node list) list
      \<Rightarrow> (syntax_node \<times> syntax_node list) list"
and visit_all :: "syntax_node list \<Rightarrow> syntax_node list \<Rightarrow> (syntax_node \<times> syntax_node list) list"
where
  "visit (Node i cs) redirects =
     (if ni_type i = ''redirected_statement''
      then visit_body cs (redirects @ filter (\<lambda>c. sn_isNamed c \<and> is_redirect c) cs) []
      else if ni_type i = ''command'' then [(Node i cs, redirects)]
      else visit_all cs redirects)"
| "visit_body [] redirects found = found"
| "visit_body (c # cs) redirects found =
     visit_body cs redirects (if sn_isNamed c \<and> \<not> is_redirect c then visit c redirects else found)"
| "visit_all [] redirects = []"
| "visit_all (c # cs) redirects = (if sn_isNamed c then visit c redirects else []) @ visit_all cs redirects"

fun resolve_all :: "bool \<Rightarrow> (syntax_node \<times> syntax_node list) list \<Rightarrow> refusal + resolved_command list" where
  "resolve_all safeVars [] = Inr []"
| "resolve_all safeVars ((cmd, redirects) # rest) =
     (case resolveCommand cmd redirects safeVars of
        Inl r \<Rightarrow> Inl r
      | Inr c \<Rightarrow> (case resolve_all safeVars rest of Inl r \<Rightarrow> Inl r | Inr cs \<Rightarrow> Inr (c # cs)))"

definition exec_action :: "string \<Rightarrow> string" where
  "exec_action binary = ''exec:'' @ binary"

definition mapping_of :: "resolved_command list \<Rightarrow> bash_mapping" where
  "mapping_of rs =
     \<lparr>bm_actions = map (\<lambda>r. exec_action (rc_binary r)) rs, bm_targets = map rc_line rs,
      bm_unresolved = map rc_unresolved rs,
      bm_target = (case rs of [r] \<Rightarrow> rc_line r | _ \<Rightarrow> listLabel (map rc_line rs)),
      bm_label = (case rs of [r] \<Rightarrow> ''exec'' | _ \<Rightarrow> ''exec list'')\<rparr>"

definition mapBashCommand :: "syntax_node \<Rightarrow> string \<Rightarrow> bash_outcome" where
  "mapBashCommand root source =
     (if js_trim source = [] then BashUnsupported ''empty command''
      else if sn_hasError root then BashUnsupported ''command did not parse as bash''
      else
        let commands = visit root [] in
        if commands = [] then BashUnsupported ''no executable command found''
        else case resolve_all (safeVarsUsable root) commands of
          Inl (k, d) \<Rightarrow> BashUndecidable k d
        | Inr rs \<Rightarrow> BashMapped (mapping_of rs))"

definition BASH_TOOL :: string where "BASH_TOOL = ''bash''"

end
