(* ===== verification/Exec_Route.thy ===== *)
theory Exec_Route
  imports Server Bash_Guard
begin

text \<open>
  \<open>POST /exec\<close>: the gate a shell command passes before it runs (\<^verbatim>\<open>proxy/exec-route.ts\<close>, and
  \<open>handleExec\<close> of \<^verbatim>\<open>proxy/server.ts\<close>). The route forwards nothing: it ends with a verdict. The
  loaded parser is a parameter, \<open>None\<close> when it is not loaded; parsing gives a tree or fails.
\<close>

subsection \<open>The request body\<close>

record exec_request =
  xr_command :: string
  xr_cwd :: "string option"

definition MAX_COMMAND_BYTES :: int where "MAX_COMMAND_BYTES = 64 * 1024"

definition parseExecRequest :: "json \<Rightarrow> string + exec_request" where
  "parseExecRequest raw =
     (if \<not> is_json_object raw then Inl ''body must be a JSON object''
      else case str_field raw ''command'' of
        None \<Rightarrow> Inl (''missing string '' @ backticked ''command'')
      | Some cmd \<Rightarrow>
          if int (length cmd) > MAX_COMMAND_BYTES then Inl ''command too long''
          else Inr \<lparr>xr_command = cmd, xr_cwd = str_field raw ''cwd''\<rparr>)"

subsection \<open>The verdict of a command line\<close>

definition UNRESOLVED_TARGET_HINT :: string where
  "UNRESOLVED_TARGET_HINT =
     ''an argument contains a shell variable or expansion Grenz cannot resolve before the command '' @
     ''runs. Write the literal value instead. An operator can set '' @ backticked ''on_unresolved: approve'' @
     '' on the allow rule to route such commands to a human''"

record exec_verdict =
  ev_decision :: decision
  ev_reason :: reason_code
  ev_action :: string
  ev_target :: string
  ev_message :: "string option"

record exec_decision =
  xd_verdict :: exec_verdict
  xd_pairs :: "(string \<times> string) list"
  xd_cost :: int
  xd_quorum :: int

record exec_deps =
  xp_guard :: bool
  xp_parser :: "(string \<Rightarrow> syntax_node option) option"

text \<open>A command with its own target and its own resolution flag.\<close>

definition exec_triples :: "bash_mapping \<Rightarrow> (string \<times> string \<times> bool) list" where
  "exec_triples m = zip (bm_actions m) (zip (bm_targets m) (bm_unresolved m))"

fun combineExec_loop :: "compiled_policy \<Rightarrow> (string \<times> string \<times> bool) list
    \<Rightarrow> (engine_result \<times> string) option \<Rightarrow> (engine_result \<times> string) option" where
  "combineExec_loop policy [] approval = approval"
| "combineExec_loop policy ((action, target, u) # rest) approval =
     (let result = evaluate policy \<lparr>ei_tool = BASH_TOOL, ei_action = action, ei_target = Some target, ei_unresolved = u\<rparr> in
      if er_decision result = Deny then Some (result, action)
      else combineExec_loop policy rest
             (if er_decision result = RequireApproval \<and> approval = None then Some (result, action) else approval))"

definition combineExec :: "compiled_policy \<Rightarrow> bash_mapping \<Rightarrow> engine_result \<times> string" where
  "combineExec policy m =
     (case combineExec_loop policy (exec_triples m) None of
        Some r \<Rightarrow> r
      | None \<Rightarrow> (\<lparr>er_decision = Allow, er_reason = R_explicit_allow, er_matched = Some CAllow, er_pattern = None,
                   er_message = None\<rparr>, batch_label (bm_actions m)))"

definition execCost :: "compiled_policy \<Rightarrow> string list \<Rightarrow> int" where
  "execCost policy actions = foldl (\<lambda>total a. total + actionCost policy a) 0 actions"

definition execQuorum :: "compiled_policy \<Rightarrow> string list \<Rightarrow> int" where
  "execQuorum policy actions = foldl (\<lambda>q a. max q (approvalQuorum policy a)) 1 actions"

definition nonempty_message :: "string option \<Rightarrow> string option" where
  "nonempty_message m = (if m = Some [] then None else m)"

definition settled :: "reason_code \<Rightarrow> string \<Rightarrow> string option \<Rightarrow> exec_decision" where
  "settled reason target message =
     \<lparr>xd_verdict = \<lparr>ev_decision = Deny, ev_reason = reason, ev_action = ''-'', ev_target = target,
                   ev_message = nonempty_message message\<rparr>,
      xd_pairs = [], xd_cost = 0, xd_quorum = 1\<rparr>"

fun kind_text :: "undecidable_kind \<Rightarrow> string" where
  "kind_text Dynamic = ''dynamic''"
| "kind_text CodeInArgv = ''code_in_argv''"
| "kind_text StdinProgram = ''stdin_program''"
| "kind_text ShellScript = ''shell_script''"
| "kind_text WrapperOpaque = ''wrapper_opaque''"
| "kind_text GlobKind = ''glob''"
| "kind_text LossyParse = ''lossy_parse''"

text \<open>The scope gates, first of the agent, then of every hop of a delegation.\<close>

definition exec_agent_scope :: "principal \<Rightarrow> bash_mapping \<Rightarrow> reason_code option" where
  "exec_agent_scope p m =
     (if pr_agentActions p \<noteq> [] \<and> list_ex (\<lambda>a. \<not> in_scope (pr_agentActions p) a) (bm_actions m)
      then Some R_agent_action_scope
      else if pr_agentTargets p \<noteq> []
        \<and> list_ex (\<lambda>(t, u). u \<or> \<not> in_scope (pr_agentTargets p) t) (zip (bm_targets m) (bm_unresolved m))
      then Some R_agent_target_scope
      else None)"

fun exec_delegation_fold :: "principal \<Rightarrow> bash_mapping \<Rightarrow> reason_code option" where
  "exec_delegation_fold (AgentPrincipal k d ts as pol) m = None"
| "exec_delegation_fold (DelegationPrincipal k ts as del chain actionsChain targetsChain pol) m =
     (if list_ex (\<lambda>a. \<not> list_all (\<lambda>hop. in_scope hop a) actionsChain) (bm_actions m) then Some R_delegation_scope
      else if list_ex (\<lambda>(t, u). list_ex (\<lambda>hop. hop \<noteq> [] \<and> (u \<or> \<not> in_scope hop t)) targetsChain)
           (zip (bm_targets m) (bm_unresolved m))
      then Some R_delegation_target_scope
      else None)"

definition engine_message :: "engine_result \<Rightarrow> string option" where
  "engine_message result = nonempty_message
     (case er_message result of
        Some t \<Rightarrow> Some t
      | None \<Rightarrow> if er_reason result = R_unresolved_target then Some UNRESOLVED_TARGET_HINT else None)"

definition exec_engine :: "compiled_policy \<Rightarrow> bash_mapping \<Rightarrow> exec_decision" where
  "exec_engine policy m =
     (let (result, action) = combineExec policy m in
      \<lparr>xd_verdict = \<lparr>ev_decision = er_decision result, ev_reason = er_reason result, ev_action = action,
                    ev_target = bm_target m, ev_message = engine_message result\<rparr>,
       xd_pairs = zip (bm_actions m) (bm_targets m),
       xd_cost = execCost policy (bm_actions m), xd_quorum = execQuorum policy (bm_actions m)\<rparr>)"

definition exec_mapped :: "world \<Rightarrow> principal \<Rightarrow> compiled_policy \<Rightarrow> bash_mapping \<Rightarrow> exec_decision step" where
  "exec_mapped w p policy m s =
     (case exec_agent_scope p m of
        Some reason \<Rightarrow> (Inr (settled reason (bm_target m) None), s)
      | None \<Rightarrow>
     (case exec_delegation_fold p m of
        Some reason \<Rightarrow> (Inr (settled reason (bm_target m) None), s)
      | None \<Rightarrow>
     (case first_trip (cp_tripwires policy) (zip (bm_actions m) (bm_targets m)) of
        Some (a, t, wire) \<Rightarrow>
          let revokeTarget = (if tw_onTrip wire = Leaf then session_key p else pr_agentId p);
              note = (case tw_note wire of None \<Rightarrow> [] | Some n \<Rightarrow> if n = [] then [] else em_dash @ n)
          in s_bind (revoke_now w revokeTarget (''tripwire: '' @ a @ note @ via revokeTarget (session_key p)))
               (\<lambda>_. s_return (settled R_tripwire t (tw_note wire))) s
      | None \<Rightarrow> (Inr (exec_engine policy m), s))))"

definition decideExec :: "exec_deps \<Rightarrow> world \<Rightarrow> string \<Rightarrow> principal \<Rightarrow> compiled_policy \<Rightarrow> exec_decision step" where
  "decideExec deps w command p policy =
     (case xp_parser deps of
        None \<Rightarrow> s_return (settled R_exec_parse_failed ''-'' (Some (''the command guard'' @ [squote] @ ''s parser is not loaded'')))
      | Some parse \<Rightarrow>
          (case parse command of
             None \<Rightarrow> s_return (settled R_exec_parse_failed ''-'' (Some ''command did not parse''))
           | Some root \<Rightarrow>
               (case mapBashCommand root command of
                  BashUnsupported why \<Rightarrow> s_return (settled R_exec_parse_failed ''-'' (Some why))
                | BashUndecidable k d \<Rightarrow> s_return (settled R_exec_undecidable ''-'' (Some (kind_text k @ '': '' @ d)))
                | BashMapped m \<Rightarrow> exec_mapped w p policy m)))"

subsection \<open>The handler\<close>

text \<open>The fields the log row of this route shares, as the request they are read from elsewhere.\<close>

definition exec_view :: "request \<Rightarrow> request" where
  "exec_view req = req\<lparr>rq_upstream := BASH_TOOL, rq_method := ''exec'', rq_path := ''-''\<rparr>"

definition exec_authed :: "world \<Rightarrow> request \<Rightarrow> principal \<Rightarrow> log_entry" where
  "exec_authed w req p = authed_log w (exec_view req) p"

definition exec_decoy_gate :: "world \<Rightarrow> request \<Rightarrow> principal \<Rightarrow> unit step" where
  "exec_decoy_gate w req p s =
     (if \<not> is_decoy p then (Inr (), s)
      else
        s_bind (if \<not> locally_revoked s (pr_agentId p)
                then revoke_now w (pr_agentId p) ''decoy: token presented (exec)'' else s_return ())
          (\<lambda>_. deny_as w (exec_authed w req p) Deny R_decoy_token 401 None (Some R_invalid_token)) s)"

definition exec_listener_gate :: "server_config \<Rightarrow> world \<Rightarrow> request \<Rightarrow> principal \<Rightarrow> unit step" where
  "exec_listener_gate cfg w req p s =
     (if sc_agentRoutes cfg then (Inr (), s)
      else deny_as w (exec_authed w req p) Deny R_wrong_listener 403 None None s)"

definition exec_door :: "server_config \<Rightarrow> world \<Rightarrow> request \<Rightarrow> principal step" where
  "exec_door cfg w req =
     s_bind (authenticate cfg w (exec_view req)) (\<lambda>p.
     s_bind (exec_decoy_gate w req p) (\<lambda>_.
     s_bind (kill_switch w (exec_view req) p) (\<lambda>_.
     s_bind (exec_listener_gate cfg w req p) (\<lambda>_. s_return p))))"

definition exec_body :: "world \<Rightarrow> request \<Rightarrow> principal \<Rightarrow> exec_request step" where
  "exec_body w req p s =
     (let s' = w_afterBody w s; bad = (\<lambda>hint. deny_as w (exec_authed w req p) Deny R_exec_parse_failed 400 (Some hint) None s') in
      if int (length (rq_body req)) > MAX_COMMAND_BYTES * 2 then bad ''request body too large''
      else case rq_json req of
        None \<Rightarrow> bad ''body is not valid JSON''
      | Some v \<Rightarrow> (case parseExecRequest v of Inl e \<Rightarrow> bad e | Inr r \<Rightarrow> (Inr r, s')))"

definition exec_decided :: "world \<Rightarrow> request \<Rightarrow> principal \<Rightarrow> exec_verdict \<Rightarrow> log_entry" where
  "exec_decided w req p v = (exec_authed w req p)\<lparr>le_action := ev_action v, le_target := ev_target v\<rparr>"

definition exec_settle :: "world \<Rightarrow> request \<Rightarrow> principal \<Rightarrow> exec_decision \<Rightarrow> unit step" where
  "exec_settle w req p d s =
     (let v = xd_verdict d in
      if ev_decision v = Deny
      then deny_as w (exec_decided w req p v) Deny (ev_reason v) (denyStatus (ev_reason v)) (ev_message v) None s
      else (Inr (), s))"

definition exec_over_budget :: "world \<Rightarrow> principal \<Rightarrow> compiled_policy \<Rightarrow> int \<Rightarrow> pstate \<Rightarrow> reason_code option" where
  "exec_over_budget w p policy cost s =
     (let since = w_ts w - BUDGET_WINDOW_MS; agentId = pr_agentId p;
          spent = countAllowedSince (px_log s) agentId since; ceiling = agentCeiling policy agentId
      in if (case ac_limit ceiling of None \<Rightarrow> False | Some limit \<Rightarrow> spent + cost > limit)
         then Some (if ac_override ceiling then R_agent_budget_exceeded else R_budget_exceeded)
         else if (case delegation_of p of None \<Rightarrow> False
                  | Some del \<Rightarrow> cp_perDelegation policy \<noteq> None
                      \<and> \<not> withinDelegationBudget policy (countAllowedSinceForDelegation (px_log s) del since) cost)
         then Some R_delegation_budget_exceeded
         else if cp_perUpstream policy BASH_TOOL \<noteq> None
              \<and> \<not> withinUpstreamBudget policy BASH_TOOL (countAllowedSinceForUpstream (px_log s) agentId BASH_TOOL since) cost
         then Some R_upstream_budget_exceeded
         else None)"

definition exec_budget_gate :: "world \<Rightarrow> request \<Rightarrow> principal \<Rightarrow> compiled_policy \<Rightarrow> exec_decision \<Rightarrow> unit step" where
  "exec_budget_gate w req p policy d s =
     (case exec_over_budget w p policy (xd_cost d) s of
        None \<Rightarrow> (Inr (), s)
      | Some reason \<Rightarrow> deny_as w (exec_decided w req p (xd_verdict d)) Deny reason 429 None None s)"

definition exec_prompt :: "principal \<Rightarrow> exec_verdict \<Rightarrow> approval_input" where
  "exec_prompt p v = \<lparr>ai_agentId = pr_agentId p, ai_upstream = BASH_TOOL, ai_tool = BASH_TOOL, ai_action = ev_action v,
     ai_target = ev_target v, ai_method = ''exec'', ai_context = ev_message v\<rparr>"

text \<open>The value carried on: whether the approval was remembered.\<close>

definition exec_approval_gate :: "world \<Rightarrow> request \<Rightarrow> principal \<Rightarrow> compiled_policy \<Rightarrow> exec_decision \<Rightarrow> bool step" where
  "exec_approval_gate w req p policy d =
     (if ev_decision (xd_verdict d) \<noteq> RequireApproval then s_return False
      else s_bind (exec_budget_gate w req p policy d) (\<lambda>_.
             awaitApproval w (w_hold w) (exec_decided w req p (xd_verdict d)) (exec_prompt p (xd_verdict d)) True
               (xd_quorum d)))"

definition execLogEntry :: "world \<Rightarrow> request \<Rightarrow> principal \<Rightarrow> exec_verdict \<Rightarrow> int \<Rightarrow> log_entry" where
  "execLogEntry w req p v allowedCost =
     (exec_decided w req p v)\<lparr>le_decision := ev_decision v, le_reason := ev_reason v, le_forwarded := False,
        le_status := None, le_count := allowedCost, le_shadow := False\<rparr>"

definition exec_allow :: "world \<Rightarrow> request \<Rightarrow> principal \<Rightarrow> exec_decision \<Rightarrow> bool \<Rightarrow> exec_verdict step" where
  "exec_allow w req p d viaRemembered s =
     (let v = (xd_verdict d)\<lparr>ev_decision := Allow, ev_reason :=
            (if ev_decision (xd_verdict d) = RequireApproval
             then (if viaRemembered then R_approval_remembered_grant else R_approval_granted)
             else ev_reason (xd_verdict d))\<rparr>
      in (Inr v, record_row w (execLogEntry w req p v (xd_cost d)) s))"

definition exec_route :: "server_config \<Rightarrow> exec_deps \<Rightarrow> world \<Rightarrow> request \<Rightarrow> exec_verdict step" where
  "exec_route cfg deps w req =
     s_bind (exec_door cfg w req) (\<lambda>p.
     s_bind (exec_body w req p) (\<lambda>body.
     s_bind (select_policy cfg w (exec_authed w req p) p) (\<lambda>policy.
     s_bind (decideExec deps w (xr_command body) p policy) (\<lambda>d.
     s_bind (exec_settle w req p d) (\<lambda>_.
     s_bind (exec_approval_gate w req p policy d) (\<lambda>viaRemembered.
     s_bind (exec_budget_gate w req p policy d) (\<lambda>_.
       exec_allow w req p d viaRemembered)))))))"

datatype exec_response = ExecNotEnabled | ExecMethodNotAllowed | ExecAnswered "outcome + exec_verdict"

definition handleExec :: "server_config \<Rightarrow> exec_deps \<Rightarrow> world \<Rightarrow> request \<Rightarrow> pstate \<Rightarrow> exec_response \<times> pstate" where
  "handleExec cfg deps w req s =
     (if \<not> xp_guard deps then (ExecNotEnabled, s)
      else if rq_method req \<noteq> ''POST'' then (ExecMethodNotAllowed, s)
      else let (r, s') = exec_route cfg deps w req s in (ExecAnswered r, s'))"

end
