(* ===== verification/Bash_Props.thy ===== *)
theory Bash_Props
  imports Bash_Guard
begin

text \<open>
  What the shell guard promises: a word folded to a literal runs nothing, every command of a line
  gets an action of its own, no shell program passes, and wrappers are followed.
\<close>

subsection \<open>Inversion of the stages\<close>

lemma list_all2_member2: "list_all2 P xs ys \<Longrightarrow> y \<in> set ys \<Longrightarrow> \<exists>x\<in>set xs. P x y"
  by (induction rule: list_all2_induct) auto

lemma resolve_all_Inr:
  "resolve_all safeVars cmds = Inr rs \<longleftrightarrow> list_all2 (\<lambda>(cmd, rd) r. resolveCommand cmd rd safeVars = Inr r) cmds rs"
proof (induction cmds arbitrary: rs)
  case Nil
  then show ?case by auto
next
  case (Cons x cmds)
  obtain cmd rd where "x = (cmd, rd)" by (cases x)
  then show ?case
    by (cases rs; cases "resolve_all safeVars cmds") (auto simp: Cons.IH [symmetric] split: sum.splits)
qed

lemma mapped_resolves:
  "mapBashCommand root source = BashMapped m \<longleftrightarrow>
     js_trim source \<noteq> [] \<and> \<not> sn_hasError root \<and> visit root [] \<noteq> [] \<and>
     (\<exists>rs. resolve_all (safeVarsUsable root) (visit root []) = Inr rs \<and> m = mapping_of rs)"
  by (auto simp: mapBashCommand_def Let_def split: sum.splits)

lemma resolveCommand_Inr:
  assumes "resolveCommand cmd rd safeVars = Inr r"
  obtains nameNode word bare assigns argv u where
    "childForFieldName cmd ''name'' = Some nameNode" "foldWord nameNode safeVars = Folded word bare" "word \<noteq> []"
    "\<not> GLOB_CHARS bare"
    "fold_args safeVars (argument_nodes cmd) = Inr (assigns, argv, u)"
    "resolve_words rd safeVars word assigns argv u = Inr r"
  using assms by (auto simp: resolveCommand_def globbed_def split: option.splits word_fold.splits sum.splits if_splits prod.splits)

lemma resolve_words_Inr:
  "resolve_words rd safeVars word assigns argv u = Inr r \<longleftrightarrow>
     (\<exists>binary args ps u'. unwrap_loop MAX_WRAPPER_DEPTH (basename word) argv = Inr (binary, args)
        \<and> code_in_argv binary args = None \<and> fold_redirects safeVars rd = Inr (ps, u')
        \<and> r = \<lparr>rc_binary = binary, rc_line = join_with '' '' (assigns @ word # map ag_literal argv @ ps),
               rc_unresolved = (u \<or> u')\<rparr>)"
  by (auto simp: resolve_words_def split: sum.splits prod.splits option.splits)

text \<open>What a folded argument or redirect is: literal, or unresolved and inert.\<close>

definition dynamic_word :: "bool \<Rightarrow> syntax_node \<Rightarrow> bool" where
  "dynamic_word safeVars n = (case foldWord n safeVars of FoldDynamic k d \<Rightarrow> True | Folded l b \<Rightarrow> False)"

lemma foldArg_Inr:
  assumes "foldArg n safeVars = Inr f"
  shows "ag_unresolved f = dynamic_word safeVars n"
    and "dynamic_word safeVars n \<Longrightarrow> \<not> runsACommand n"
  using assms by (auto simp: foldArg_def dynamic_word_def split: word_fold.splits if_splits)

lemma fold_args_each:
  "fold_args safeVars ns = Inr (assigns, argv, u) \<Longrightarrow>
     (\<forall>n\<in>set ns. \<exists>f. foldArg n safeVars = Inr f) \<and> u = list_ex (dynamic_word safeVars) ns"
proof (induction ns arbitrary: assigns argv u)
  case Nil
  then show ?case by simp
next
  case (Cons n ns)
  from Cons.prems obtain f assigns' argv' u' where
    "foldArg n safeVars = Inr f" "fold_args safeVars ns = Inr (assigns', argv', u')" "u = (ag_unresolved f \<or> u')"
    by (auto split: sum.splits prod.splits if_splits)
  with Cons.IH[of assigns' argv' u'] foldArg_Inr(1) show ?case by auto
qed

lemma fold_redirects_each:
  "fold_redirects safeVars ns = Inr (ps, u) \<Longrightarrow>
     (\<forall>n\<in>set ns. sn_type n \<noteq> ''heredoc_redirect'' \<longrightarrow> (\<exists>f. foldArg n safeVars = Inr f))
     \<and> u = list_ex (\<lambda>n. sn_type n \<noteq> ''heredoc_redirect'' \<and> dynamic_word safeVars n) ns"
proof (induction ns arbitrary: ps u)
  case Nil
  then show ?case by simp
next
  case (Cons n ns)
  show ?case
  proof (cases "sn_type n = ''heredoc_redirect''")
    case True
    with Cons.prems obtain ps' where "fold_redirects safeVars ns = Inr (ps', u)"
      by (auto split: sum.splits prod.splits)
    with Cons.IH[of ps' u] True show ?thesis by auto
  next
    case False
    with Cons.prems obtain f ps' u' where
      "foldArg n safeVars = Inr f" "fold_redirects safeVars ns = Inr (ps', u')" "u = (ag_unresolved f \<or> u')"
      by (auto split: sum.splits prod.splits)
    with Cons.IH[of ps' u'] foldArg_Inr(1) False show ?thesis by auto
  qed
qed

subsection \<open>A literal word runs nothing\<close>

text \<open>
  Of the trees the grammar builds: below a leaf of the fold (a word, a quoted text, a number, a
  variable) there is no substitution.
\<close>

definition leaf_like :: "syntax_node \<Rightarrow> bool" where
  "leaf_like n \<longleftrightarrow> sn_type n \<in> set [''word'', ''raw_string'', ''string_content'', ''number'', ''file_descriptor'', ''variable_name'']
     \<or> safeVarName n \<noteq> None"

definition leaves_plain :: "syntax_node \<Rightarrow> bool" where
  "leaves_plain n \<longleftrightarrow> list_all (\<lambda>m. \<not> (leaf_like m \<and> has_substitution m)) (nodes n)"

lemma leaves_plain_Node:
  "leaves_plain (Node i cs) \<longleftrightarrow> \<not> (leaf_like (Node i cs) \<and> has_substitution (Node i cs))
     \<and> (\<forall>c\<in>set cs. sn_isNamed c \<longrightarrow> leaves_plain c)"
  by (auto simp: leaves_plain_def list_all_iff split: if_splits)

lemma fold_leaf_literal: "fold_leaf safeVars n = Some (Folded l b) \<Longrightarrow> leaf_like n"
  by (auto simp: fold_leaf_def leaf_like_def split: option.splits if_splits)

lemma fold_leaf_None:
  "fold_leaf safeVars n = None \<Longrightarrow>
     sn_type n \<in> set [''file_redirect'', ''variable_assignment'', ''string'', ''command_name'', ''concatenation'']"
  by (auto simp: fold_leaf_def split: option.splits if_splits)

lemma fold_literal_children:
  "foldNode safeVars n = Folded l b \<Longrightarrow> leaves_plain n \<Longrightarrow> \<not> has_substitution n"
  "fold_tokens safeVars spaced cs out bare = Folded l b \<Longrightarrow> \<forall>c\<in>set cs. sn_isNamed c \<longrightarrow> leaves_plain c \<Longrightarrow>
     \<not> list_ex (\<lambda>c. sn_isNamed c \<and> has_substitution c) cs"
  "fold_string safeVars tx cs out = Folded l b \<Longrightarrow> \<forall>c\<in>set cs. sn_isNamed c \<longrightarrow> leaves_plain c \<Longrightarrow>
     \<not> list_ex (\<lambda>c. sn_isNamed c \<and> has_substitution c) cs"
  "fold_parts safeVars cs out bare = Folded l b \<Longrightarrow> \<forall>c\<in>set cs. sn_isNamed c \<longrightarrow> leaves_plain c \<Longrightarrow>
     \<not> list_ex (\<lambda>c. sn_isNamed c \<and> has_substitution c) cs"
proof (induction safeVars n and safeVars spaced cs out bare and safeVars tx cs out and safeVars cs out bare
    arbitrary: l b and l b and l b and l b rule: foldNode_fold_tokens_fold_string_fold_parts.induct)
  case (1 safeVars i cs)
  show ?case
  proof (cases "fold_leaf safeVars (Node i cs)")
    case None
    from fold_leaf_None[OF this]
    have "ni_type i \<noteq> ''command_substitution''" "ni_type i \<noteq> ''process_substitution''" by auto
    with 1 None show ?thesis by (auto simp: leaves_plain_Node split: fold_shape.splits)
  next
    case (Some f)
    with 1(4) have "leaf_like (Node i cs)" by (auto dest: fold_leaf_literal)
    with 1(5) show ?thesis by (simp add: leaves_plain_Node del: has_substitution.simps)
  qed
qed (auto split: if_splits word_fold.splits)

definition runs_nothing :: "bool \<Rightarrow> syntax_node \<Rightarrow> bool" where
  "runs_nothing safeVars n \<longleftrightarrow> \<not> has_substitution n
     \<and> (\<not> shows_substitution (maskQuoted n safeVars) \<or> \<not> shows_substitution (maskQuoted n False))"

text \<open>Masking only blanks: each character left is the one of the source.\<close>

definition blanked :: "string \<Rightarrow> string \<Rightarrow> bool" where
  "blanked s t \<longleftrightarrow> list_all2 (\<lambda>a b. b = a \<or> b = CHR '' '') s t"

lemma blanked_refl [simp]: "blanked s s"
  by (simp add: blanked_def list_all2_refl)

lemma blanked_trans: "blanked s t \<Longrightarrow> blanked t u \<Longrightarrow> blanked s u"
  by (fastforce simp: blanked_def list_all2_conv_all_nth)

lemma blanked_range: "blanked s (blank_range lo hi s)"
  by (auto simp: blanked_def blank_range_def list_all2_conv_all_nth nth_enumerate_eq)

lemma blanked_escapes: "blanked s (blank_escapes s)"
  by (induction s rule: blank_escapes.induct) (auto simp: blanked_def)

lemma mask_blanks:
  "blanked (fst acc) (fst (mask_node safeVars base n acc))"
  "blanked (fst acc) (fst (mask_nodes safeVars base ns acc))"
proof (induction safeVars base n acc and safeVars base ns acc rule: mask_node_mask_nodes.induct)
  case (1 safeVars base i cs masked strings)
  then show ?case by (auto simp: blanked_range)
next
  case (3 safeVars base c cs acc)
  then show ?case by (auto intro: blanked_trans)
qed auto

lemma maskQuoted_blanked: "blanked (sn_text n) (maskQuoted n safeVars)"
proof -
  have "blanked (sn_text n) (fst (mask_node safeVars (sn_startIndex n) n (sn_text n, [])))"
    using mask_blanks(1)[of "(sn_text n, [])"] by simp
  then show ?thesis
    by (auto simp: maskQuoted_def maskRegions_def Let_def split: prod.splits intro: blanked_trans blanked_escapes)
qed

lemma contains_nth: "contains [a, b] s \<Longrightarrow> \<exists>i. Suc i < length s \<and> s ! i = a \<and> s ! Suc i = b"
proof (induction s)
  case Nil
  then show ?case by simp
next
  case (Cons c cs)
  show ?case
  proof (cases "has_prefix [a, b] (c # cs)")
    case True
    then show ?thesis by (intro exI [of _ 0]) (cases cs, auto simp: has_prefix_def)
  next
    case False
    with Cons obtain i where "Suc i < length cs" "cs ! i = a" "cs ! Suc i = b" by auto
    then show ?thesis by (intro exI [of _ "Suc i"]) auto
  qed
qed

lemma uncontradicted_shows_nothing:
  assumes "contradictsLiteral n safeVars = None"
  shows "\<not> shows_substitution (maskQuoted n safeVars)"
proof
  let ?m = "maskQuoted n safeVars"
  have b: "blanked (sn_text n) ?m" by (rule maskQuoted_blanked)
  have none: "\<not> (\<exists>i<length ?m. ?m ! i = dollar \<and> dollarExpands (sn_text n) i (snd (maskRegions n safeVars)))"
    "backtick \<notin> set ?m" "\<not> contains ''<('' ?m" "\<not> contains ''>('' ?m"
    using assms by (auto simp: contradictsLiteral_def maskQuoted_def Let_def list_ex_iff split: prod.splits if_splits)
  assume "shows_substitution ?m"
  with none obtain i where i: "Suc i < length ?m" "?m ! i = dollar" "?m ! Suc i = CHR ''(''"
    using contains_nth [of dollar "CHR ''(''" ?m] by (auto simp: shows_substitution_def)
  with b have "Suc i < length (sn_text n)" "sn_text n ! Suc i = CHR ''(''"
    by (auto simp: blanked_def list_all2_conv_all_nth)
  then have "dollarExpands (sn_text n) i (snd (maskRegions n safeVars))"
    by (simp add: dollarExpands_def Let_def DOLLAR_EXPANDS_def)
  with none(1) i show False by auto
qed

lemma foldWord_literal:
  assumes "foldWord n safeVars = Folded l b" "leaves_plain n"
  shows "runs_nothing safeVars n"
  using assms uncontradicted_shows_nothing [of n safeVars] fold_literal_children(1) [of safeVars n]
  by (auto simp: foldWord_def runs_nothing_def split: word_fold.splits option.splits)

lemma foldArg_runs_nothing: "foldArg n safeVars = Inr f \<Longrightarrow> leaves_plain n \<Longrightarrow> runs_nothing safeVars n"
  using foldArg_Inr [of n safeVars f] foldWord_literal [of n safeVars]
  by (cases "foldWord n safeVars") (auto simp: dynamic_word_def runs_nothing_def runsACommand_def)

subsection \<open>Every command of a line is evaluated\<close>

definition commands_of :: "syntax_node \<Rightarrow> syntax_node list" where
  "commands_of n = filter (\<lambda>m. sn_type m = ''command'') (nodes n)"

text \<open>
  The shape the guard relies on. Commands below a word are below a substitution; the only
  \<open>command_name\<close> of a command is its name; a \<open>redirected_statement\<close> has one body, which runs
  something, and no command sits below its heredocs.
\<close>

definition commands_substituted :: "syntax_node \<Rightarrow> bool" where
  "commands_substituted n \<longleftrightarrow> commands_of n = [] \<or> has_substitution n"

definition command_shape :: "syntax_node \<Rightarrow> bool" where
  "command_shape n \<longleftrightarrow> list_all (\<lambda>c. commands_substituted c
     \<and> (sn_type c = ''command_name'' \<longrightarrow> childForFieldName n ''name'' = Some c)) (namedChildren n)"

definition redirected_shape :: "syntax_node \<Rightarrow> bool" where
  "redirected_shape n \<longleftrightarrow>
     (case filter (\<lambda>c. \<not> is_redirect c) (namedChildren n) of [body] \<Rightarrow> visit body [] \<noteq> [] | _ \<Rightarrow> False)
     \<and> list_all (\<lambda>c. (sn_type c = ''heredoc_redirect'' \<longrightarrow> commands_of c = [])
          \<and> (sn_type c = ''file_redirect'' \<longrightarrow> commands_substituted c)) (namedChildren n)"

definition line_shape :: "syntax_node \<Rightarrow> bool" where
  "line_shape root \<longleftrightarrow> leaves_plain root
     \<and> list_all (\<lambda>n. (sn_type n = ''command'' \<longrightarrow> command_shape n)
          \<and> (sn_type n = ''redirected_statement'' \<longrightarrow> redirected_shape n)) (nodes root)"

lemma line_shape_Node:
  "line_shape (Node i cs) \<longleftrightarrow> leaves_plain (Node i cs)
     \<and> (ni_type i = ''command'' \<longrightarrow> command_shape (Node i cs))
     \<and> (ni_type i = ''redirected_statement'' \<longrightarrow> redirected_shape (Node i cs))
     \<and> (\<forall>c\<in>set cs. sn_isNamed c \<longrightarrow> line_shape c)"
  by (auto simp: line_shape_def leaves_plain_Node list_all_iff split: if_splits)

lemma commands_of_Node:
  "commands_of (Node i cs) =
     (if ni_type i = ''command'' then [Node i cs] else [])
       @ concat (map (\<lambda>c. if sn_isNamed c then commands_of c else []) cs)"
  by (simp add: commands_of_def filter_concat comp_def if_distrib [of "filter _"] cong: if_cong)

text \<open>What resolving gives for each collected command with its redirects.\<close>

definition inert_command :: "bool \<Rightarrow> syntax_node \<times> syntax_node list \<Rightarrow> bool" where
  "inert_command safeVars = (\<lambda>(cmd, rd).
     (\<exists>name w b. childForFieldName cmd ''name'' = Some name \<and> foldWord name safeVars = Folded w b)
     \<and> (\<forall>n\<in>set (argument_nodes cmd). \<exists>f. foldArg n safeVars = Inr f)
     \<and> (\<forall>n\<in>set rd. sn_type n \<noteq> ''heredoc_redirect'' \<longrightarrow> (\<exists>f. foldArg n safeVars = Inr f)))"

lemma resolved_inert: "resolveCommand cmd rd safeVars = Inr r \<Longrightarrow> inert_command safeVars (cmd, rd)"
proof (erule resolveCommand_Inr)
  fix name w b assigns argv u
  assume name: "childForFieldName cmd ''name'' = Some name" "foldWord name safeVars = Folded w b"
    and args: "fold_args safeVars (argument_nodes cmd) = Inr (assigns, argv, u)"
    and "resolve_words rd safeVars w assigns argv u = Inr r"
  then obtain ps u' where "fold_redirects safeVars rd = Inr (ps, u')" by (auto simp: resolve_words_Inr)
  with name args show "inert_command safeVars (cmd, rd)"
    by (auto simp: inert_command_def dest!: fold_args_each fold_redirects_each)
qed

lemma inert_no_nested:
  assumes "inert_command safeVars (Node i cs, rd)" "line_shape (Node i cs)" "ni_type i = ''command''"
  shows "commands_of (Node i cs) = [Node i cs]"
proof -
  have "commands_of c = []" if c: "c \<in> set cs" "sn_isNamed c" for c
  proof -
    from assms c have plain: "leaves_plain c" and sub: "commands_substituted c"
      and cn: "sn_type c = ''command_name'' \<longrightarrow> childForFieldName (Node i cs) ''name'' = Some c"
      by (auto simp: line_shape_Node leaves_plain_Node command_shape_def namedChildren_def list_all_iff)
    have "\<not> has_substitution c"
    proof (cases "childForFieldName (Node i cs) ''name'' = Some c")
      case True
      with assms(1) obtain w b where "foldWord c safeVars = Folded w b" by (auto simp: inert_command_def)
      with plain show ?thesis using foldWord_literal by (auto simp: runs_nothing_def)
    next
      case False
      with c cn have "c \<in> set (argument_nodes (Node i cs))" by (auto simp: argument_nodes_def namedChildren_def)
      with assms(1) obtain f where "foldArg c safeVars = Inr f" by (auto simp: inert_command_def)
      with plain show ?thesis using foldArg_runs_nothing by (auto simp: runs_nothing_def)
    qed
    with sub show ?thesis by (simp add: commands_substituted_def)
  qed
  then show ?thesis using assms(3) by (auto simp: commands_of_Node)
qed

text \<open>Redirects inherited from an enclosing statement only come first in what is attached.\<close>

abbreviation inherit :: "syntax_node list \<Rightarrow> syntax_node \<times> syntax_node list \<Rightarrow> syntax_node \<times> syntax_node list" where
  "inherit rd \<equiv> \<lambda>(c, r). (c, rd @ r)"

lemma visit_inherits:
  "visit n (rd @ e) = map (inherit rd) (visit n e)"
  "visit_body ns (rd @ e) (map (inherit rd) found) = map (inherit rd) (visit_body ns e found)"
  "visit_all ns (rd @ e) = map (inherit rd) (visit_all ns e)"
proof (induction n e and ns e found and ns e rule: visit_visit_body_visit_all.induct)
  case (1 i cs e)
  consider "ni_type i = ''redirected_statement''" | "ni_type i = ''command''"
    | "ni_type i \<noteq> ''redirected_statement''" "ni_type i \<noteq> ''command''" by blast
  then show ?case
  proof cases
    case 1
    with "1.IH"(1) show ?thesis by simp
  next
    case 2
    then show ?thesis by simp
  next
    case 3
    with "1.IH"(2) show ?thesis by simp
  qed
next
  case (3 c cs e found)
  show ?case
  proof (cases "sn_isNamed c \<and> \<not> is_redirect c")
    case True
    with 3 show ?thesis by simp
  next
    case False
    with 3(2) show ?thesis by auto
  qed
qed auto

lemma visit_redirects: "visit n rd = map (inherit rd) (visit n [])"
  using visit_inherits(1)[of n rd "[]"] by simp

lemma visit_same_commands: "map fst (visit n rd) = map fst (visit n [])"
  by (simp add: visit_redirects [of n rd] comp_def case_prod_beta)

lemma visit_carries: "(cmd, r) \<in> set (visit n rd) \<Longrightarrow> set rd \<subseteq> set r"
  by (auto simp: visit_redirects [of n rd])

lemma visit_body_single:
  "filter (\<lambda>c. sn_isNamed c \<and> \<not> is_redirect c) cs = [body] \<Longrightarrow> visit_body cs rd found = visit body rd"
  "filter (\<lambda>c. sn_isNamed c \<and> \<not> is_redirect c) cs = [] \<Longrightarrow> visit_body cs rd found = found"
proof (induction cs arbitrary: found)
  case Nil
  { case 1 then show ?case by simp next case 2 then show ?case by simp }
next
  case (Cons c cs)
  { case 1 then show ?case using Cons by (cases "sn_isNamed c \<and> \<not> is_redirect c") auto
  next case 2 then show ?case using Cons by (auto split: if_splits) }
qed

lemma visit_all_concat: "visit_all cs rd = concat (map (\<lambda>c. if sn_isNamed c then visit c rd else []) cs)"
  by (induction cs) auto

lemma concat_filter: "\<forall>c\<in>set cs. \<not> P c \<longrightarrow> g c = [] \<Longrightarrow> concat (map g cs) = concat (map g (filter P cs))"
  by (induction cs) auto

lemma redirects_run_nothing:
  assumes shape: "redirected_shape (Node i cs)" and plain: "leaves_plain (Node i cs)"
    and inert: "\<forall>x\<in>set (visit_body cs rd []). inert_command safeVars x"
    and own: "set (filter (\<lambda>c. sn_isNamed c \<and> is_redirect c) cs) \<subseteq> set rd"
    and c: "c \<in> set cs" "sn_isNamed c" "is_redirect c"
  shows "commands_of c = []"
proof (cases "sn_type c = ''heredoc_redirect''")
  case True
  with shape c show ?thesis by (auto simp: redirected_shape_def namedChildren_def list_all_iff)
next
  case False
  with shape c have sub: "commands_substituted c"
    by (auto simp: redirected_shape_def namedChildren_def list_all_iff is_redirect_def)
  from shape obtain body where body: "filter (\<lambda>c. sn_isNamed c \<and> \<not> is_redirect c) cs = [body]" "visit body [] \<noteq> []"
    by (auto simp: redirected_shape_def namedChildren_def conj_commute split: list.splits)
  obtain cmd r where x: "(cmd, r) \<in> set (visit body rd)"
    using body(2) visit_redirects [of body rd] by (cases "visit body []") auto
  with body(1) inert have "inert_command safeVars (cmd, r)" by (auto simp: visit_body_single(1))
  moreover have "c \<in> set r" using visit_carries [OF x] own c by auto
  ultimately obtain f where "foldArg c safeVars = Inr f" using False by (auto simp: inert_command_def)
  moreover have "leaves_plain c" using plain c by (simp add: leaves_plain_Node)
  ultimately have "\<not> has_substitution c" using foldArg_runs_nothing by (auto simp: runs_nothing_def)
  with sub show ?thesis by (simp add: commands_substituted_def)
qed

lemma visited_commands:
  "line_shape n \<Longrightarrow> \<forall>x\<in>set (visit n rd). inert_command safeVars x \<Longrightarrow> map fst (visit n rd) = commands_of n"
proof (induction n arbitrary: rd)
  case (Node i cs)
  consider (redirected) "ni_type i = ''redirected_statement''" | (command) "ni_type i = ''command''"
    | (other) "ni_type i \<noteq> ''redirected_statement''" "ni_type i \<noteq> ''command''" by blast
  then show ?case
  proof cases
    case redirected
    let ?rd = "rd @ filter (\<lambda>c. sn_isNamed c \<and> is_redirect c) cs"
    let ?g = "\<lambda>c. if sn_isNamed c then commands_of c else []"
    from redirected Node.prems have shape: "redirected_shape (Node i cs)" and plain: "leaves_plain (Node i cs)"
      by (auto simp: line_shape_Node)
    from shape obtain body where body: "filter (\<lambda>c. sn_isNamed c \<and> \<not> is_redirect c) cs = [body]"
      by (auto simp: redirected_shape_def namedChildren_def conj_commute split: list.splits)
    then have "body \<in> set (filter (\<lambda>c. sn_isNamed c \<and> \<not> is_redirect c) cs)" by simp
    then have mem: "body \<in> set cs" "sn_isNamed body" by auto
    have visited: "visit (Node i cs) rd = visit body ?rd" using redirected body by (simp add: visit_body_single(1))
    have "commands_of (Node i cs) = concat (map ?g cs)" using redirected by (simp add: commands_of_Node)
    also have "\<dots> = concat (map ?g (filter (\<lambda>c. sn_isNamed c \<and> \<not> is_redirect c) cs))"
    proof (rule concat_filter, intro ballI impI)
      fix c assume "c \<in> set cs" "\<not> (sn_isNamed c \<and> \<not> is_redirect c)"
      then show "?g c = []"
        using redirects_run_nothing [OF shape plain, of ?rd safeVars c] Node.prems(2) redirected by auto
    qed
    also have "\<dots> = commands_of body" using body mem by simp
    also have "\<dots> = map fst (visit body ?rd)"
      using Node.IH [OF mem(1), of ?rd] Node.prems mem visited by (auto simp: line_shape_Node)
    finally show ?thesis using visited by simp
  next
    case command
    with Node.prems inert_no_nested [of safeVars i cs rd] show ?thesis by simp
  next
    case other
    have "map fst (visit c rd) = commands_of c" if "c \<in> set cs" "sn_isNamed c" for c
      using that Node.IH [of c rd] Node.prems other by (auto simp: line_shape_Node visit_all_concat)
    with other show ?thesis
      by (auto simp: visit_all_concat commands_of_Node map_concat comp_def if_distrib [of "map fst"]
          intro!: arg_cong [of _ _ concat] cong: if_cong)
  qed
qed

lemma mapped_list_all2:
  assumes "mapBashCommand root source = BashMapped m"
  obtains rs where "m = mapping_of rs"
    "list_all2 (\<lambda>(cmd, rd) r. resolveCommand cmd rd (safeVarsUsable root) = Inr r) (visit root []) rs"
  using assms by (auto simp: mapped_resolves resolve_all_Inr)

lemma nodes_below: "m \<in> set (nodes n) \<Longrightarrow> set (nodes m) \<subseteq> set (nodes n)"
proof (induction n arbitrary: m)
  case (Node i cs)
  show ?case
  proof (cases "m = Node i cs")
    case False
    with Node.prems obtain c where c: "c \<in> set cs" "sn_isNamed c" "m \<in> set (nodes c)" by (auto split: if_splits)
    with Node.IH [of c m] have "set (nodes m) \<subseteq> set (nodes c)" by blast
    with c show ?thesis by auto
  qed simp
qed

lemma leaves_plain_below: "leaves_plain n \<Longrightarrow> m \<in> set (nodes n) \<Longrightarrow> leaves_plain m"
  using nodes_below [of m n] by (auto simp: leaves_plain_def list_all_iff)


end
