(* ===== verification/Bash_Claims.thy ===== *)
theory Bash_Claims
  imports Bash_Props
begin

text \<open>
  The guard's promises about binaries and targets, and runs on concrete trees: what it refuses,
  and what slips past it.
\<close>

subsection \<open>No shell program is mapped\<close>

lemma unwrap_loop_args: "unwrap_loop depth b args = Inr (b', args') \<Longrightarrow> set args' \<subseteq> set args"
proof (induction depth b args arbitrary: b' args' rule: unwrap_loop.induct)
  case (2 depth b args)
  then show ?case
    by (fastforce split: if_splits list.splits sum.splits option.splits unwrapped.splits dest: in_set_dropD)
qed simp

lemma code_in_argv_None:
  "code_in_argv b args = None \<Longrightarrow> map_of ALWAYS_REFUSE b = None
     \<and> (b \<in> set SHELLS \<longrightarrow> (\<exists>a\<in>set args. ag_literal a \<in> set PRINT_AND_EXIT))"
  by (auto simp: code_in_argv_def scanShell_def refuse_shell_def list_ex_iff split: option.splits if_splits)

lemma fold_args_set:
  "fold_args safeVars ns = Inr (assigns, argv, u) \<Longrightarrow> a \<in> set argv \<Longrightarrow> \<exists>n\<in>set ns. foldArg n safeVars = Inr a"
proof (induction ns arbitrary: assigns argv u)
  case (Cons n ns)
  then show ?case by (fastforce split: sum.splits prod.splits if_splits)
qed simp

definition prints_only :: "bool \<Rightarrow> syntax_node \<Rightarrow> bool" where
  "prints_only safeVars cmd \<longleftrightarrow>
     list_ex (\<lambda>n. case foldArg n safeVars of Inr f \<Rightarrow> ag_literal f \<in> set PRINT_AND_EXIT | Inl r \<Rightarrow> False) (argument_nodes cmd)"

lemma resolved_no_program:
  assumes "resolveCommand cmd rd safeVars = Inr r"
  shows "map_of ALWAYS_REFUSE (rc_binary r) = None \<and> (rc_binary r \<in> set SHELLS \<longrightarrow> prints_only safeVars cmd)"
  using assms
proof (rule resolveCommand_Inr)
  fix name w b assigns argv u
  assume fa: "fold_args safeVars (argument_nodes cmd) = Inr (assigns, argv, u)"
    and "resolve_words rd safeVars w assigns argv u = Inr r"
  then obtain args where un: "unwrap_loop MAX_WRAPPER_DEPTH (basename w) argv = Inr (rc_binary r, args)"
    and code: "code_in_argv (rc_binary r) args = None" by (auto simp: resolve_words_Inr)
  have "prints_only safeVars cmd" if "rc_binary r \<in> set SHELLS"
  proof -
    from code_in_argv_None [OF code] that obtain a where "a \<in> set args" "ag_literal a \<in> set PRINT_AND_EXIT" by blast
    with unwrap_loop_args [OF un] have "a \<in> set argv" by auto
    from fold_args_set [OF fa this] obtain n where "n \<in> set (argument_nodes cmd)" "foldArg n safeVars = Inr a" by blast
    with \<open>ag_literal a \<in> set PRINT_AND_EXIT\<close> show ?thesis
      unfolding prints_only_def list_ex_iff by (intro bexI [of _ n]) simp
  qed
  with code_in_argv_None [OF code] show ?thesis by blast
qed

lemma exec_action_inj [simp]: "exec_action a = exec_action b \<longleftrightarrow> a = b"
  by (simp add: exec_action_def)


subsection \<open>Wrappers\<close>

definition plain_arg :: "string \<Rightarrow> arg" where
  "plain_arg w = \<lparr>ag_literal = w, ag_bare = w, ag_unresolved = False\<rparr>"

definition PLAIN_WRAPPERS :: "string list" where
  "PLAIN_WRAPPERS = [''nohup'', ''setsid'', ''nice'', ''stdbuf'']"

text \<open>A word that is not an option, a glob or a wrapper, and has no directory.\<close>

definition plain_binary :: "string \<Rightarrow> bool" where
  "plain_binary b \<longleftrightarrow> basename b = b \<and> \<not> has_prefix ''-'' b \<and> \<not> GLOB_CHARS b \<and> b \<noteq> ''env'' \<and> map_of WRAPPERS b = None"

lemma plain_wrapper:
  assumes "w \<in> set PLAIN_WRAPPERS"
  shows "\<exists>spec. map_of WRAPPERS w = Some spec \<and> ws_positionals spec = 0" "w \<noteq> ''env''" "basename w = w"
    "\<not> has_prefix ''-'' w" "\<not> GLOB_CHARS w"
  using assms by (auto simp: PLAIN_WRAPPERS_def WRAPPERS_def basename_def has_prefix_def GLOB_CHARS_def)

lemma enter_plain:
  "basename w = w \<Longrightarrow> \<not> GLOB_CHARS w \<Longrightarrow> enter_wrapped (plain_arg w) = Inr w"
  by (simp add: enter_wrapped_def wrapped_dynamic_def globbed_def plain_arg_def)

lemma unwrap_plain:
  assumes "w \<in> set PLAIN_WRAPPERS" "basename v = v" "\<not> GLOB_CHARS v" "\<not> has_prefix ''-'' v"
  shows "unwrap_loop (Suc depth) w (plain_arg v # args) = unwrap_loop depth v args"
proof -
  obtain spec where spec: "map_of WRAPPERS w = Some spec" "ws_positionals spec = 0" "w \<noteq> ''env''"
    using plain_wrapper [OF assms(1)] by auto
  moreover have "v \<noteq> ''--''" using assms(4) by (auto simp: has_prefix_def)
  then have "wrapper_options spec (map ag_literal (plain_arg v # args)) 0 = Some 0"
    using assms(4) by (simp add: plain_arg_def)
  then have "unwrapAt spec (map ag_literal (plain_arg v # args)) = WrappedAt 0"
    using spec by (simp add: unwrapAt_def Let_def)
  ultimately show ?thesis using enter_plain [OF assms(2,3)] by simp
qed

lemma unwrap_plain_binary: "plain_binary b \<Longrightarrow> unwrap_loop depth b args = Inr (b, args)"
  by (cases depth) (auto simp: plain_binary_def)

lemma unwrap_chain:
  assumes "set ws \<subseteq> set PLAIN_WRAPPERS" "w \<in> set PLAIN_WRAPPERS" "plain_binary b"
  shows "unwrap_loop depth w (map plain_arg (ws @ b # args)) =
     (if length ws < depth then Inr (b, map plain_arg args)
      else Inr ((w # ws) ! depth, map plain_arg (drop depth (ws @ b # args))))"
  using assms
proof (induction ws arbitrary: w depth)
  case Nil
  then show ?case
    by (cases depth) (auto simp: unwrap_plain unwrap_plain_binary plain_binary_def simp del: unwrap_loop.simps(2))
next
  case (Cons v ws)
  show ?case
  proof (cases depth)
    case 0
    then show ?thesis by simp
  next
    case (Suc d)
    with Cons plain_wrapper [of v] have "unwrap_loop depth w (map plain_arg ((v # ws) @ b # args))
        = unwrap_loop d v (map plain_arg (ws @ b # args))"
      by (simp add: unwrap_plain del: unwrap_loop.simps)
    with Cons Suc show ?thesis by simp
  qed
qed

text \<open>wrappers are followed, and only so far: behind at most four of \<open>nohup\<close>, \<open>setsid\<close>, \<open>nice\<close>, \<open>stdbuf\<close> the binary that
  runs is the one that is judged; behind more, the fifth wrapper is taken for the binary, whatever it runs. The comment of
  \<open>MAX_WRAPPER_DEPTH\<close> says that a deeper chain is called opaque, that is, refused.\<close>
theorem wrapper_chain_is_followed_four_deep:
  assumes "set (w # ws) \<subseteq> set PLAIN_WRAPPERS" "plain_binary b"
  shows "unwrap_loop MAX_WRAPPER_DEPTH w (map plain_arg (ws @ b # args)) =
     (if length (w # ws) \<le> 4 then Inr (b, map plain_arg args)
      else Inr ((w # ws) ! 4, map plain_arg (drop 4 (ws @ b # args))))"
  using unwrap_chain [of ws w b MAX_WRAPPER_DEPTH args] assms by (auto simp: MAX_WRAPPER_DEPTH_def)

subsection \<open>Targets\<close>

text \<open>The line is partly unknown exactly when some argument, assignment or redirect of it is.\<close>

lemma resolved_unresolved:
  assumes "resolveCommand cmd rd safeVars = Inr r"
  shows "rc_unresolved r \<longleftrightarrow> list_ex (dynamic_word safeVars) (argument_nodes cmd)
     \<or> list_ex (\<lambda>n. sn_type n \<noteq> ''heredoc_redirect'' \<and> dynamic_word safeVars n) rd"
  using assms
  by (rule resolveCommand_Inr) (auto simp: resolve_words_Inr dest!: fold_args_each fold_redirects_each)

text \<open>actions, targets and resolution flags are aligned, one per collected command, and a command is marked resolved
  only if no argument, assignment or redirect of it depends on the run.\<close>
theorem targets_are_aligned:
  assumes "mapBashCommand root source = BashMapped m"
  shows "bm_actions m \<noteq> [] \<and> length (bm_targets m) = length (bm_actions m)
    \<and> bm_unresolved m = map (\<lambda>(cmd, rd). list_ex (dynamic_word (safeVarsUsable root)) (argument_nodes cmd)
         \<or> list_ex (\<lambda>n. sn_type n \<noteq> ''heredoc_redirect'' \<and> dynamic_word (safeVarsUsable root) n) rd) (visit root [])"
proof -
  obtain rs where m: "m = mapping_of rs"
    and each: "list_all2 (\<lambda>(cmd, rd) r. resolveCommand cmd rd (safeVarsUsable root) = Inr r) (visit root []) rs"
    using assms by (rule mapped_list_all2)
  have "rs \<noteq> []" using each assms by (auto simp: mapped_resolves)
  moreover have "map rc_unresolved rs = map (\<lambda>(cmd, rd). list_ex (dynamic_word (safeVarsUsable root)) (argument_nodes cmd)
         \<or> list_ex (\<lambda>n. sn_type n \<noteq> ''heredoc_redirect'' \<and> dynamic_word (safeVarsUsable root) n) rd) (visit root [])"
    using each by (induction rule: list_all2_induct) (auto simp: resolved_unresolved)
  ultimately show ?thesis by (simp add: m mapping_of_def)
qed

end
