(* ===== verification/Exec_Claims.thy ===== *)
theory Exec_Claims
  imports Exec_Route Server_Claims Bash_Claims Policy_Props
begin

text \<open>
  The properties of \<open>POST /exec\<close>: what an allow rests on, what an unresolved argument can get,
  the log, and the gates the route leaves out.
\<close>

subsection \<open>The verdict of a line\<close>

definition exec_verdict_of :: "compiled_policy \<Rightarrow> string \<times> string \<times> bool \<Rightarrow> decision" where
  "exec_verdict_of policy x = er_decision (evaluate policy
     \<lparr>ei_tool = BASH_TOOL, ei_action = fst x, ei_target = Some (fst (snd x)), ei_unresolved = snd (snd x)\<rparr>)"

lemma combineExec_loop_decision:
  assumes "approval = None \<or> er_decision (fst (the approval)) = RequireApproval"
  shows "(case combineExec_loop policy ts approval of None \<Rightarrow> Allow | Some r \<Rightarrow> er_decision (fst r)) =
     (if \<exists>x\<in>set ts. exec_verdict_of policy x = Deny then Deny
      else if approval \<noteq> None \<or> (\<exists>x\<in>set ts. exec_verdict_of policy x = RequireApproval) then RequireApproval else Allow)"
  using assms
proof (induction ts arbitrary: approval)
  case Nil
  then show ?case by (cases approval) auto
next
  case (Cons x rest)
  obtain a t u where x: "x = (a, t, u)" by (cases x)
  let ?r = "evaluate policy \<lparr>ei_tool = BASH_TOOL, ei_action = a, ei_target = Some t, ei_unresolved = u\<rparr>"
  let ?ap = "if er_decision ?r = RequireApproval \<and> approval = None then Some (?r, a) else approval"
  have v: "exec_verdict_of policy x = er_decision ?r" by (simp add: exec_verdict_of_def x)
  show ?case
  proof (cases "er_decision ?r = Deny")
    case True
    with v x show ?thesis by (simp add: Let_def)
  next
    case False
    have "?ap = None \<or> er_decision (fst (the ?ap)) = RequireApproval" using Cons.prems by auto
    note ih = Cons.IH [OF this]
    have "combineExec_loop policy (x # rest) approval = combineExec_loop policy rest ?ap"
      using False x by (simp add: Let_def)
    moreover have "?ap \<noteq> None \<longleftrightarrow> approval \<noteq> None \<or> exec_verdict_of policy x = RequireApproval"
      using v by auto
    ultimately show ?thesis using ih False v by (simp del: combineExec_loop.simps)
  qed
qed

lemma combineExec_decision:
  "er_decision (fst (combineExec policy m)) =
     (if \<exists>x\<in>set (exec_triples m). exec_verdict_of policy x = Deny then Deny
      else if \<exists>x\<in>set (exec_triples m). exec_verdict_of policy x = RequireApproval then RequireApproval else Allow)"
proof -
  have "er_decision (fst (combineExec policy m)) =
      (case combineExec_loop policy (exec_triples m) None of None \<Rightarrow> Allow | Some r \<Rightarrow> er_decision (fst r))"
    by (simp add: combineExec_def split: option.split)
  also note combineExec_loop_decision [of None policy "exec_triples m"]
  finally show ?thesis by simp
qed

lemma combineExec_not_deny:
  "er_decision (fst (combineExec policy m)) \<noteq> Deny \<longleftrightarrow> (\<forall>x\<in>set (exec_triples m). exec_verdict_of policy x \<noteq> Deny)"
  unfolding combineExec_decision by simp

lemma combineExec_allow:
  "er_decision (fst (combineExec policy m)) = Allow \<longleftrightarrow> (\<forall>x\<in>set (exec_triples m). exec_verdict_of policy x = Allow)"
proof -
  have "x = Allow \<longleftrightarrow> x \<noteq> Deny \<and> x \<noteq> RequireApproval" for x by (cases x) auto
  then show ?thesis unfolding combineExec_decision by simp blast
qed

lemma exec_engine_decision:
  "ev_decision (xd_verdict (exec_engine policy m)) = er_decision (fst (combineExec policy m))"
  by (simp add: exec_engine_def split: prod.splits)

subsection \<open>Passing the stages\<close>

lemma settled_denies [simp]: "ev_decision (xd_verdict (settled r t m)) = Deny"
  by (simp add: settled_def)

definition exec_within_scope :: "principal \<Rightarrow> bash_mapping \<Rightarrow> bool" where
  "exec_within_scope p m \<longleftrightarrow>
     (pr_agentActions p = [] \<or> list_all (in_scope (pr_agentActions p)) (bm_actions m))
     \<and> (pr_agentTargets p = [] \<or>
          list_all (\<lambda>(t, u). \<not> u \<and> in_scope (pr_agentTargets p) t) (zip (bm_targets m) (bm_unresolved m)))
     \<and> (\<forall>a\<in>set (bm_actions m). \<forall>hop\<in>set (action_hops p). in_scope hop a)
     \<and> (\<forall>(t, u)\<in>set (zip (bm_targets m) (bm_unresolved m)). \<forall>hop\<in>set (target_hops p).
          hop = [] \<or> \<not> u \<and> in_scope hop t)"

lemma exec_agent_scope_None:
  "exec_agent_scope p m = None \<longleftrightarrow>
     (pr_agentActions p = [] \<or> list_all (in_scope (pr_agentActions p)) (bm_actions m))
     \<and> (pr_agentTargets p = [] \<or>
          list_all (\<lambda>(t, u). \<not> u \<and> in_scope (pr_agentTargets p) t) (zip (bm_targets m) (bm_unresolved m)))"
  unfolding exec_agent_scope_def list_ex_iff list_all_iff by (auto simp: case_prod_beta)

lemma exec_delegation_fold_None:
  "exec_delegation_fold p m = None \<longleftrightarrow>
     (\<forall>a\<in>set (bm_actions m). \<forall>hop\<in>set (action_hops p). in_scope hop a)
     \<and> (\<forall>(t, u)\<in>set (zip (bm_targets m) (bm_unresolved m)). \<forall>hop\<in>set (target_hops p).
          hop = [] \<or> \<not> u \<and> in_scope hop t)"
proof (cases p)
  case (AgentPrincipal k d ts as pol)
  then show ?thesis by simp
next
  case (DelegationPrincipal k ts as del chain ach tch pol)
  then show ?thesis by (auto simp: list_ex_iff list_all_iff case_prod_beta)
qed

lemma exec_scope_None:
  "exec_agent_scope p m = None \<and> exec_delegation_fold p m = None \<longleftrightarrow> exec_within_scope p m"
  unfolding exec_agent_scope_None exec_delegation_fold_None exec_within_scope_def by blast

lemma exec_mapped_passes:
  assumes "exec_mapped w p policy m s = (Inr d, t)" "ev_decision (xd_verdict d) \<noteq> Deny"
  shows "t = s \<and> exec_within_scope p m \<and> first_trip (cp_tripwires policy) (zip (bm_actions m) (bm_targets m)) = None
    \<and> d = exec_engine policy m"
proof -
  have trip: "s_bind (revoke_now w k r) (\<lambda>_. s_return (settled c tg n)) s = (Inr d, t) \<Longrightarrow> False" for k r c tg n
    using assms(2) by (auto elim!: s_bind_cases)
  show ?thesis
    using assms by (auto simp: exec_mapped_def Let_def exec_scope_None [symmetric]
        split: option.splits prod.splits dest: trip)
qed

lemma decideExec_passes:
  assumes "decideExec deps w command p policy s = (Inr d, t)" "ev_decision (xd_verdict d) \<noteq> Deny"
  obtains parse root m where "xp_parser deps = Some parse" "parse command = Some root"
    "mapBashCommand root command = BashMapped m" "exec_mapped w p policy m s = (Inr d, t)"
  using assms by (auto simp: decideExec_def split: option.splits bash_outcome.splits)

lemma exec_decoy_passes: "exec_decoy_gate w req p s = (Inr x, s') \<longleftrightarrow> s' = s \<and> \<not> is_decoy p"
  by (auto simp: exec_decoy_gate_def elim: s_bind_cases split: if_splits)

lemma exec_listener_passes: "exec_listener_gate cfg w req p s = (Inr x, s') \<longleftrightarrow> s' = s \<and> sc_agentRoutes cfg"
  by (auto simp: exec_listener_gate_def)

lemma exec_view_headers [simp]: "rq_headers (exec_view req) = rq_headers req"
  by (simp add: exec_view_def)

lemma exec_door_passes:
  assumes "exec_door cfg w req s = (Inr p, s')"
  shows "s' = w_afterAuth w s \<and> admitted cfg w (exec_view req) s p"
  using assms unfolding exec_door_def admitted_def
  by (elim s_bind_cases) (simp_all add: authenticate_passes exec_decoy_passes kill_switch_passes exec_listener_passes)

lemma exec_body_passes:
  "exec_body w req p s = (Inr body, s') \<longleftrightarrow> s' = w_afterBody w s \<and> int (length (rq_body req)) \<le> MAX_COMMAND_BYTES * 2
     \<and> (\<exists>v. rq_json req = Some v \<and> parseExecRequest v = Inr body)"
  by (auto simp: exec_body_def Let_def split: option.splits sum.splits)

lemma exec_settle_passes: "exec_settle w req p d s = (Inr x, s') \<longleftrightarrow> s' = s \<and> ev_decision (xd_verdict d) \<noteq> Deny"
  by (auto simp: exec_settle_def Let_def)

lemma exec_budget_passes:
  "exec_budget_gate w req p policy d s = (Inr x, s') \<longleftrightarrow> s' = s \<and> exec_over_budget w p policy (xd_cost d) s = None"
  by (auto simp: exec_budget_gate_def split: option.splits)

text \<open>Who let a line through: the engine alone, or a human asked with this prompt.\<close>

definition exec_permitted :: "world \<Rightarrow> request \<Rightarrow> principal \<Rightarrow> compiled_policy \<Rightarrow> bash_mapping \<Rightarrow> pstate \<Rightarrow> bool \<Rightarrow> pstate \<Rightarrow> bool" where
  "exec_permitted w req p policy m s remembered s' \<longleftrightarrow>
     (\<forall>x\<in>set (exec_triples m). exec_verdict_of policy x = Allow) \<and> s' = s \<and> \<not> remembered
     \<or> (\<forall>x\<in>set (exec_triples m). exec_verdict_of policy x \<noteq> Deny)
       \<and> awaitApproval w (w_hold w) (exec_decided w req p (xd_verdict (exec_engine policy m)))
           (exec_prompt p (xd_verdict (exec_engine policy m))) True (execQuorum policy (bm_actions m)) s = (Inr remembered, s')"

lemma exec_approval_permitted:
  assumes "exec_approval_gate w req p policy (exec_engine policy m) s = (Inr r, s')"
    "ev_decision (xd_verdict (exec_engine policy m)) \<noteq> Deny"
  shows "exec_permitted w req p policy m s r s'"
proof -
  let ?d = "exec_engine policy m"
  have q: "xd_quorum ?d = execQuorum policy (bm_actions m)" by (simp add: exec_engine_def split: prod.splits)
  have nodeny: "\<forall>x\<in>set (exec_triples m). exec_verdict_of policy x \<noteq> Deny"
    using assms(2) by (simp add: exec_engine_decision combineExec_not_deny)
  show ?thesis
  proof (cases "ev_decision (xd_verdict ?d) = RequireApproval")
    case True
    with assms(1) have "s_bind (exec_budget_gate w req p policy ?d) (\<lambda>_.
        awaitApproval w (w_hold w) (exec_decided w req p (xd_verdict ?d)) (exec_prompt p (xd_verdict ?d)) True
          (execQuorum policy (bm_actions m))) s = (Inr r, s')"
      by (simp add: exec_approval_gate_def q)
    then have "awaitApproval w (w_hold w) (exec_decided w req p (xd_verdict ?d)) (exec_prompt p (xd_verdict ?d)) True
          (execQuorum policy (bm_actions m)) s = (Inr r, s')"
      by (rule s_bind_cases) (auto simp: exec_budget_passes)
    with nodeny show ?thesis unfolding exec_permitted_def by blast
  next
    case False
    with assms(2) have "ev_decision (xd_verdict ?d) = Allow" by (cases "ev_decision (xd_verdict ?d)") auto
    then have "\<forall>x\<in>set (exec_triples m). exec_verdict_of policy x = Allow"
      by (simp add: exec_engine_decision combineExec_allow)
    with assms(1) False show ?thesis by (auto simp: exec_approval_gate_def exec_permitted_def)
  qed
qed

lemma exec_route_passes:
  assumes "exec_route cfg deps w req s = (Inr v, t)"
  obtains p body policy parse root m r s1 s2 where
    "admitted cfg w (exec_view req) s p" "s1 = w_afterBody w (w_afterAuth w s)"
    "rq_json req \<noteq> None" "parseExecRequest (the (rq_json req)) = Inr body" "selects cfg s1 p policy"
    "xp_parser deps = Some parse" "parse (xr_command body) = Some root"
    "mapBashCommand root (xr_command body) = BashMapped m" "exec_within_scope p m"
    "first_trip (cp_tripwires policy) (zip (bm_actions m) (bm_targets m)) = None"
    "ev_decision (xd_verdict (exec_engine policy m)) \<noteq> Deny"
    "exec_permitted w req p policy m s1 r s2"
    "exec_over_budget w p policy (xd_cost (exec_engine policy m)) s2 = None"
    "exec_allow w req p (exec_engine policy m) r s2 = (Inr v, t)"
proof -
  from assms obtain p sa where door: "exec_door cfg w req s = (Inr p, sa)"
    and r1: "s_bind (exec_body w req p) (\<lambda>body. s_bind (select_policy cfg w (exec_authed w req p) p) (\<lambda>policy.
      s_bind (decideExec deps w (xr_command body) p policy) (\<lambda>d. s_bind (exec_settle w req p d) (\<lambda>_.
      s_bind (exec_approval_gate w req p policy d) (\<lambda>viaRemembered. s_bind (exec_budget_gate w req p policy d) (\<lambda>_.
       exec_allow w req p d viaRemembered)))))) sa = (Inr v, t)"
    unfolding exec_route_def by (rule s_bind_cases) auto
  from r1 obtain body sb where body: "exec_body w req p sa = (Inr body, sb)"
    and r2: "s_bind (select_policy cfg w (exec_authed w req p) p) (\<lambda>policy.
      s_bind (decideExec deps w (xr_command body) p policy) (\<lambda>d. s_bind (exec_settle w req p d) (\<lambda>_.
      s_bind (exec_approval_gate w req p policy d) (\<lambda>viaRemembered. s_bind (exec_budget_gate w req p policy d) (\<lambda>_.
       exec_allow w req p d viaRemembered))))) sb = (Inr v, t)"
    by (rule s_bind_cases) auto
  from r2 obtain policy where sel: "selects cfg sb p policy"
    and r3: "s_bind (decideExec deps w (xr_command body) p policy) (\<lambda>d. s_bind (exec_settle w req p d) (\<lambda>_.
      s_bind (exec_approval_gate w req p policy d) (\<lambda>viaRemembered. s_bind (exec_budget_gate w req p policy d) (\<lambda>_.
       exec_allow w req p d viaRemembered)))) sb = (Inr v, t)"
    by (rule s_bind_cases) (auto simp: select_policy_passes selects_def)
  from r3 obtain d sc where dec: "decideExec deps w (xr_command body) p policy sb = (Inr d, sc)"
    and r4: "s_bind (exec_settle w req p d) (\<lambda>_.
      s_bind (exec_approval_gate w req p policy d) (\<lambda>viaRemembered. s_bind (exec_budget_gate w req p policy d) (\<lambda>_.
       exec_allow w req p d viaRemembered))) sc = (Inr v, t)"
    by (rule s_bind_cases) auto
  from r4 obtain r s2 where nd: "ev_decision (xd_verdict d) \<noteq> Deny"
    and ap: "exec_approval_gate w req p policy d sc = (Inr r, s2)"
    and bu: "exec_over_budget w p policy (xd_cost d) s2 = None" and al: "exec_allow w req p d r s2 = (Inr v, t)"
    by (elim s_bind_cases) (simp_all add: exec_settle_passes exec_budget_passes)
  from dec nd obtain parse root m where pr: "xp_parser deps = Some parse" "parse (xr_command body) = Some root"
    "mapBashCommand root (xr_command body) = BashMapped m" "exec_mapped w p policy m sb = (Inr d, sc)"
    by (rule decideExec_passes)
  from exec_mapped_passes [OF pr(4) nd] have mp: "sc = sb" "exec_within_scope p m"
    "first_trip (cp_tripwires policy) (zip (bm_actions m) (bm_targets m)) = None" "d = exec_engine policy m" by auto
  from exec_approval_permitted ap nd mp(1,4) have perm: "exec_permitted w req p policy m sb r s2" by blast
  from exec_door_passes [OF door] body [unfolded exec_body_passes] have
    d: "sb = w_afterBody w (w_afterAuth w s)" "admitted cfg w (exec_view req) s p"
      "rq_json req \<noteq> None" "parseExecRequest (the (rq_json req)) = Inr body" by auto
  show thesis
    by (rule that [OF d(2) d(1) d(3,4) sel pr(1-3) mp(2,3) _ perm]) (use nd bu al mp in auto)
qed


subsection \<open>Unresolved arguments\<close>

lemma decideExec_allow:
  assumes "decideExec deps w command p policy s = (Inr d, s')" "ev_decision (xd_verdict d) = Allow"
    and "xp_parser deps = Some parse" "parse command = Some root" "mapBashCommand root command = BashMapped m"
  shows "exec_within_scope p m \<and> (\<forall>x\<in>set (exec_triples m). exec_verdict_of policy x = Allow)"
proof -
  from assms(1,3-5) have mp: "exec_mapped w p policy m s = (Inr d, s')" by (simp add: decideExec_def)
  from exec_mapped_passes [OF this] assms(2) have "exec_within_scope p m" "d = exec_engine policy m" by auto
  with assms(2) show ?thesis by (simp add: exec_engine_decision combineExec_allow)
qed

text \<open>what cannot be resolved cannot be confined, and is treated so: a command with an argument known only at run time
  is allowed outright only by an allow rule without targets, and never for an agent or a delegation confined to
  targets, though its text may match every glob.\<close>
theorem unresolved_needs_unscoped_allow:
  assumes "decideExec deps w command p policy s = (Inr d, s')" "ev_decision (xd_verdict d) = Allow"
    and "xp_parser deps = Some parse" "parse command = Some root" "mapBashCommand root command = BashMapped m"
    and "i < length (bm_actions m)" "bm_unresolved m ! i"
  shows "pr_agentTargets p = [] \<and> (\<forall>hop\<in>set (target_hops p). hop = [])
    \<and> (\<exists>g r. map_of (cp_grants policy) BASH_TOOL = Some g \<and> r \<in> set (cg_allow g)
          \<and> cr_targets r = None \<and> pattern_test (cr_action r) (bm_actions m ! i))"
proof -
  from decideExec_allow [OF assms(1-5)] have sc: "exec_within_scope p m"
    and all: "\<forall>x\<in>set (exec_triples m). exec_verdict_of policy x = Allow" by auto
  obtain rs where m: "m = mapping_of rs" using assms(5) by (rule mapped_list_all2)
  then have len: "length (bm_targets m) = length (bm_actions m)" "length (bm_unresolved m) = length (bm_actions m)"
    by (simp_all add: mapping_of_def)
  have tu: "(bm_targets m ! i, True) \<in> set (zip (bm_targets m) (bm_unresolved m))"
    using assms(6,7) len by (auto simp: in_set_zip intro!: exI [of _ i])
  have "(bm_actions m ! i, bm_targets m ! i, True) \<in> set (exec_triples m)"
    using assms(6,7) len by (auto simp: exec_triples_def in_set_zip intro!: exI [of _ i])
  with all have "exec_verdict_of policy (bm_actions m ! i, bm_targets m ! i, True) = Allow" by blast
  then have "er_decision (evaluate policy \<lparr>ei_tool = BASH_TOOL, ei_action = bm_actions m ! i,
      ei_target = Some (bm_targets m ! i), ei_unresolved = True\<rparr>) = Allow" by (simp add: exec_verdict_of_def)
  from evaluate_unresolved_allow [OF _ this] sc tu show ?thesis
    by (fastforce simp: exec_within_scope_def list_all_iff)
qed

subsection \<open>The log of the route\<close>

lemma exec_mapped_ends [ends]: "ends_well w (exec_mapped w p policy m)"
proof (rule ends_wellI)
  fix s out s' assume "exec_mapped w p policy m s = (Inl out, s')"
  then obtain k r c tg n where "s_bind (revoke_now w k r) (\<lambda>_. s_return (settled c tg n)) s = (Inl out, s')"
    by (auto simp: exec_mapped_def Let_def split: option.splits prod.splits)
  moreover have "ends_well w (s_bind (revoke_now w k r) (\<lambda>_. s_return (settled c tg n)))" by (intro ends)
  ultimately show "reached out = None \<and> logged w out s'" using ends_wellD by blast
qed

lemma decideExec_ends [ends]: "ends_well w (decideExec deps w c p policy)"
  unfolding decideExec_def by (auto split: option.split bash_outcome.split intro!: ends)

lemma exec_decoy_ends [ends]: "ends_well w (exec_decoy_gate w req p)"
proof (rule ends_wellI)
  fix s out s' assume d: "exec_decoy_gate w req p s = (Inl out, s')"
  let ?deny = "\<lambda>_ :: unit. deny_as w (exec_authed w req p) Deny R_decoy_token 401 None (Some R_invalid_token) :: unit step"
  from d have "s_bind (revoke_now w (pr_agentId p) ''decoy: token presented (exec)'') ?deny s = (Inl out, s')
      \<or> s_bind (s_return ()) ?deny s = (Inl out, s')" by (auto simp: exec_decoy_gate_def split: if_splits)
  moreover have "ends_well w (s_bind (revoke_now w (pr_agentId p) ''decoy: token presented (exec)'') ?deny)"
    "ends_well w (s_bind (s_return ()) ?deny)" by (intro ends)+
  ultimately show "reached out = None \<and> logged w out s'" using ends_wellD by blast
qed

lemma exec_listener_ends [ends]: "ends_well w (exec_listener_gate cfg w req p)"
  by (auto intro!: ends_wellI dest!: deny_as_out simp: exec_listener_gate_def split: if_splits)

lemma kill_switch_view_ends [ends]: "ends_well w (kill_switch w (exec_view req) p)"
  by (rule kill_switch_ends)

lemma exec_body_ends [ends]: "ends_well w (exec_body w req p)"
  by (auto intro!: ends_wellI dest!: deny_as_out simp: exec_body_def Let_def split: if_splits option.splits sum.splits)

lemma exec_settle_ends [ends]: "ends_well w (exec_settle w req p d)"
  by (auto intro!: ends_wellI dest!: deny_as_out simp: exec_settle_def Let_def split: if_splits)

lemma exec_budget_ends [ends]: "ends_well w (exec_budget_gate w req p policy d)"
  by (auto intro!: ends_wellI dest!: deny_as_out simp: exec_budget_gate_def split: option.splits)

lemma exec_approval_ends [ends]: "ends_well w (exec_approval_gate w req p policy d)"
  unfolding exec_approval_gate_def by (auto intro!: ends)

lemma exec_allow_ends [ends]: "ends_well w (exec_allow w req p d r)"
  by (rule ends_wellI) (simp add: exec_allow_def Let_def)

lemma exec_door_ends [ends]: "ends_well w (exec_door cfg w req)"
  unfolding exec_door_def by (intro ends)

lemma exec_route_ends: "ends_well w (exec_route cfg deps w req)"
  unfolding exec_route_def by (intro ends)

lemma exec_log_fields [simp]:
  "le_decision (execLogEntry w req p v n) = ev_decision v" "le_reason (execLogEntry w req p v n) = ev_reason v"
  "le_action (execLogEntry w req p v n) = ev_action v" "le_target (execLogEntry w req p v n) = ev_target v"
  "le_count (execLogEntry w req p v n) = n" "\<not> le_forwarded (execLogEntry w req p v n)"
  "le_agentId (execLogEntry w req p v n) = pr_agentId p"
  by (simp_all add: execLogEntry_def exec_decided_def exec_authed_def authed_log_def)

text \<open>every answer of \<open>POST /exec\<close> is the last row of the log: a refusal as the wire says it, unbilled; an allow with its
  reason, action and target, billed, and not marked as forwarded. No answer reaches an upstream.\<close>
theorem exec_answer_is_logged:
  assumes "handleExec cfg deps w req s = (ExecAnswered r, t)"
  shows "case r of
      Inl out \<Rightarrow> reached out = None \<and> logged w out t
    | Inr v \<Rightarrow> ev_decision v = Allow \<and> (\<not> w_logOk w \<or> (\<exists>rows e. px_log t = rows @ [e] \<and> le_decision e = Allow
        \<and> le_reason e = ev_reason v \<and> le_action e = ev_action v \<and> le_target e = ev_target v \<and> \<not> le_forwarded e))"
proof -
  from assms have route: "exec_route cfg deps w req s = (r, t)" by (auto simp: handleExec_def split: if_splits prod.splits)
  show ?thesis
  proof (cases r)
    case (Inl out)
    with route show ?thesis using ends_wellD [OF exec_route_ends] by auto
  next
    case (Inr v)
    with route obtain p d rem s2 where "exec_allow w req p d rem s2 = (Inr v, t)" by (auto elim: exec_route_passes)
    then have "ev_decision v = Allow" "t = record_row w (execLogEntry w req p v (xd_cost d)) s2"
      by (auto simp: exec_allow_def Let_def)
    with Inr show ?thesis by (auto simp: record_row_def log_record_def)
  qed
qed

subsection \<open>One engine for both routes\<close>

lemma combineExec_loop_resolved:
  "list_all (\<lambda>(a, t, u). \<not> u) ts \<Longrightarrow> combineExec_loop policy ts ap = combine_loop policy BASH_TOOL (map (\<lambda>(a, t, u). (a, t)) ts) ap"
  by (induction policy ts ap rule: combineExec_loop.induct) (auto simp: Let_def)


end
