(* ===== verification/Exec_Findings.thy ===== *)
theory Exec_Findings
  imports Exec_Claims
begin

text \<open>
  The shell gate on concrete lines: the witnesses of its properties, and lines on which it does
  less than its comments promise. The trees are written as the bash grammar builds them; offsets
  are relative to the node, which is all the guard reads of them.
\<close>

subsection \<open>Trees and an installation\<close>

definition bn :: "string \<Rightarrow> string \<Rightarrow> syntax_node list \<Rightarrow> syntax_node" where
  "bn ty tx cs = Node \<lparr>ni_type = ty, ni_text = tx, ni_startIndex = 0, ni_endIndex = int (length tx), ni_isNamed = True,
     ni_hasError = False, ni_field = (if ty = ''command_name'' then Some ''name'' else None)\<rparr> cs"

definition bn_token :: "string \<Rightarrow> syntax_node" where
  "bn_token tx = Node \<lparr>ni_type = tx, ni_text = tx, ni_startIndex = 0, ni_endIndex = int (length tx), ni_isNamed = False,
     ni_hasError = False, ni_field = None\<rparr> []"

definition bn_word :: "string \<Rightarrow> syntax_node" where
  "bn_word tx = bn ''word'' tx []"

definition bn_command :: "string list \<Rightarrow> syntax_node" where
  "bn_command ws = bn ''command'' (join_with '' '' ws)
     (bn ''command_name'' (hd ws) [bn_word (hd ws)] # map bn_word (tl ws))"

text \<open>\<^verbatim>\<open>git add . && curl $URL\<close>: two commands, the second with an argument known at run time.\<close>

definition bt_list :: syntax_node where
  "bt_list = bn ''program'' [] [bn ''list'' [] [bn_command [''git'', ''add'', ''.''], bn_token ''&&'',
     bn ''command'' (''curl '' @ [dollar] @ ''URL'')
       [bn ''command_name'' ''curl'' [bn_word ''curl''],
        bn ''simple_expansion'' ([dollar] @ ''URL'') [bn ''variable_name'' ''URL'' []]]]]"

definition bt_line :: string where
  "bt_line = ''git add . && curl '' @ [dollar] @ ''URL''"

definition bt_mapping :: bash_mapping where
  "bt_mapping = \<lparr>bm_actions = [''exec:git'', ''exec:curl''], bm_targets = [''git add .'', ''curl '' @ [dollar] @ ''URL''],
     bm_unresolved = [False, True], bm_target = ''2 commands: git add .; curl '' @ [dollar] @ ''URL'', bm_label = ''exec list''\<rparr>"

lemma bt_mapped: "mapBashCommand bt_list bt_line = BashMapped bt_mapping"
  by code_simp

definition sh_policy :: "string list \<Rightarrow> string list \<Rightarrow> compiled_policy" where
  "sh_policy denied allowed = sc_live\<lparr>cp_grants := [sc_grant ''bash'' denied [] allowed]\<rparr>"

definition sh_config :: "compiled_policy \<Rightarrow> server_config" where
  "sh_config policy = sc_config\<lparr>sc_policy := policy\<rparr>"

definition sh_request :: "string \<Rightarrow> request" where
  "sh_request line = (sc_request ''1'' ''POST'' [] ''/exec'')\<lparr>rq_json := Some (JObj [(''command'', JStr line)])\<rparr>"

definition sh_deps :: "syntax_node \<Rightarrow> exec_deps" where
  "sh_deps root = \<lparr>xp_guard = True, xp_parser = Some (\<lambda>line. Some root)\<rparr>"

definition sh_run :: "compiled_policy \<Rightarrow> syntax_node \<Rightarrow> string \<Rightarrow> exec_response" where
  "sh_run policy root line = fst (handleExec (sh_config policy) (sh_deps root) sc_world (sh_request line) sc_state)"

text \<open>The allow of a line whose commands are all allowed.\<close>

definition sh_allowed :: "string \<Rightarrow> string \<Rightarrow> exec_response" where
  "sh_allowed action target = ExecAnswered (Inr \<lparr>ev_decision = Allow, ev_reason = R_explicit_allow, ev_action = action,
     ev_target = target, ev_message = None\<rparr>)"

lemma sh_list_allowed:
  "sh_run (sh_policy [] [''exec:git'', ''exec:curl'']) bt_list bt_line = sh_allowed ''batch:2'' (bm_target bt_mapping)"
  by code_simp

subsection \<open>Witnesses\<close>



theorem wrapper_chain_is_followed_four_deep_witness:
  "unwrap_loop MAX_WRAPPER_DEPTH ''nohup'' (map plain_arg [''setsid'', ''sh'']) = Inr (''sh'', [])
   \<and> unwrap_loop MAX_WRAPPER_DEPTH ''nohup'' (map plain_arg [''nohup'', ''nohup'', ''nohup'', ''nohup'', ''sh'', ''-c''])
       = Inr (''nohup'', [plain_arg ''sh'', plain_arg ''-c''])"
proof -
  have "set (''nohup'' # [''setsid'']) \<subseteq> set PLAIN_WRAPPERS" "plain_binary ''sh''"
    "set (''nohup'' # [''nohup'', ''nohup'', ''nohup'', ''nohup'']) \<subseteq> set PLAIN_WRAPPERS"
    by code_simp+
  from wrapper_chain_is_followed_four_deep [OF this(1,2), of "[]"]
    wrapper_chain_is_followed_four_deep [OF this(3,2), of "[''-c'']"]
  show ?thesis by simp
qed

theorem targets_are_aligned_witness:
  "length (bm_targets bt_mapping) = length (bm_actions bt_mapping)"
  using targets_are_aligned [OF bt_mapped] by blast


definition sh_bot :: principal where
  "sh_bot = AgentPrincipal ''bot'' False [] [] None"

theorem unresolved_needs_unscoped_allow_witness:
  "\<exists>g r. map_of (cp_grants (sh_policy [] [''exec:git'', ''exec:curl''])) BASH_TOOL = Some g \<and> r \<in> set (cg_allow g)
     \<and> cr_targets r = None \<and> pattern_test (cr_action r) ''exec:curl''"
proof -
  let ?d = "fst (decideExec (sh_deps bt_list) sc_world bt_line sh_bot (sh_policy [] [''exec:git'', ''exec:curl'']) sc_state)"
  obtain d where "?d = Inr d" "ev_decision (xd_verdict d) = Allow"
  proof -
    have "case ?d of Inl out \<Rightarrow> False | Inr d \<Rightarrow> ev_decision (xd_verdict d) = Allow" by code_simp
    then show thesis using that by (auto split: sum.splits)
  qed
  then have run: "decideExec (sh_deps bt_list) sc_world bt_line sh_bot (sh_policy [] [''exec:git'', ''exec:curl'']) sc_state
      = (Inr d, snd (decideExec (sh_deps bt_list) sc_world bt_line sh_bot (sh_policy [] [''exec:git'', ''exec:curl'']) sc_state))"
    by (metis prod.collapse)
  have i: "1 < length (bm_actions bt_mapping)" "bm_unresolved bt_mapping ! 1" "bm_actions bt_mapping ! 1 = ''exec:curl''"
    by (simp_all add: bt_mapping_def)
  from unresolved_needs_unscoped_allow [OF run \<open>ev_decision (xd_verdict d) = Allow\<close> _ _ bt_mapped i(1,2)] i(3)
  show ?thesis by (simp add: sh_deps_def)
qed

theorem exec_answer_is_logged_witness:
  "\<exists>e \<in> set (px_log (snd (handleExec (sh_config (sh_policy [] [''exec:git'', ''exec:curl''])) (sh_deps bt_list) sc_world
     (sh_request bt_line) sc_state))). le_decision e = Allow \<and> le_action e = ''batch:2''"
proof -
  let ?run = "handleExec (sh_config (sh_policy [] [''exec:git'', ''exec:curl''])) (sh_deps bt_list) sc_world (sh_request bt_line) sc_state"
  from sh_list_allowed obtain v where "fst ?run = ExecAnswered (Inr v)" "ev_action v = ''batch:2''"
    by (auto simp: sh_run_def sh_allowed_def)
  then have "?run = (ExecAnswered (Inr v), snd ?run)" by (metis prod.collapse)
  from exec_answer_is_logged [OF this] \<open>ev_action v = _\<close> show ?thesis by (auto simp: sc_world_def)
qed

definition bt_git :: syntax_node where
  "bt_git = bn ''program'' [] [bn_command [''git'', ''status'']]"


subsection \<open>Parts of a line the gate does not judge\<close>

text \<open>
  What follows the heredoc operator on its line (a pipe, a list, a redirect) is below the
  \<open>heredoc_redirect\<close> node in the grammar's trees, next to the body.
\<close>

definition bt_heredoc :: syntax_node where
  "bt_heredoc = bn ''program'' [] [bn ''redirected_statement'' [] [bn_command [''cat''],
     bn ''heredoc_redirect'' [] [bn ''heredoc_start'' ([squote] @ ''E'' @ [squote]) [], bn ''pipeline'' [] [bn_command [''sh'']],
       bn ''heredoc_body'' ''id'' [], bn ''heredoc_end'' ''E'' []]]]"

text \<open>\<^verbatim>\<open>echo hi; > $(rm x)\<close>.\<close>

definition bt_bare_redirect :: syntax_node where
  "bt_bare_redirect = bn ''program'' [] [bn_command [''echo'', ''hi''],
     bn ''redirected_statement'' [] [bn ''file_redirect'' ''> ...'' [bn_token ''>'',
       bn ''command_substitution'' [] [bn_command [''rm'', ''x'']]]]]"

text \<open>\<^verbatim>\<open>export LD_PRELOAD=/evil; curl x\<close>.\<close>

definition bt_export :: syntax_node where
  "bt_export = bn ''program'' [] [bn ''declaration_command'' [] [bn_token ''export'',
     bn ''variable_assignment'' [] [bn ''variable_name'' ''LD_PRELOAD'' [], bn_token ''='', bn_word ''/evil'']],
     bn_command [''curl'', ''x'']]"


text \<open>The other children of a heredoc redirect are never read.\<close>

lemma heredoc_reads_start_and_body:
  "foldHeredoc (Node i cs) = foldHeredoc (Node i (filter (\<lambda>c. sn_type c \<in> {''heredoc_start'', ''heredoc_body''}) cs))"
proof -
  have "foldl (\<lambda>(quoted, body) c.
       (if sn_type c = ''heredoc_start''
        then has_prefix [squote] (sn_text c) \<or> has_prefix [dquote] (sn_text c) \<or> backslash \<in> set (sn_text c)
        else quoted,
        if sn_type c = ''heredoc_body'' then body @ sn_text c else body)) acc (filter sn_isNamed cs)
    = foldl (\<lambda>(quoted, body) c.
       (if sn_type c = ''heredoc_start''
        then has_prefix [squote] (sn_text c) \<or> has_prefix [dquote] (sn_text c) \<or> backslash \<in> set (sn_text c)
        else quoted,
        if sn_type c = ''heredoc_body'' then body @ sn_text c else body)) acc
      (filter sn_isNamed (filter (\<lambda>c. sn_type c \<in> {''heredoc_start'', ''heredoc_body''}) cs))" for acc
    by (induction cs arbitrary: acc) (auto split: prod.split)
  then show ?thesis by (simp add: foldHeredoc_def heredoc_parts_def namedChildren_def)
qed

subsection \<open>Gates the route leaves out\<close>

text \<open>A policy without its time, risk and session gates.\<close>

definition ungated :: "compiled_policy \<Rightarrow> compiled_policy" where
  "ungated policy = policy\<lparr>cp_schedule := None, cp_firstUse := None, cp_stepUp := None, cp_flows := [], cp_pins := [],
     cp_perAgentApproval := Map.empty, cp_dlp := None, cp_responses := []\<rparr>"

lemma ungated_simps [simp]:
  "cp_grants (ungated policy) = cp_grants policy" "cp_tripwires (ungated policy) = cp_tripwires policy"
  "cp_maxActionsPerHour (ungated policy) = cp_maxActionsPerHour policy" "cp_perAgent (ungated policy) = cp_perAgent policy"
  "cp_perDelegation (ungated policy) = cp_perDelegation policy" "cp_perUpstream (ungated policy) = cp_perUpstream policy"
  "cp_budgetWeights (ungated policy) = cp_budgetWeights policy" "cp_quorums (ungated policy) = cp_quorums policy"
  by (simp_all add: ungated_def)

lemma evaluate_ungated [simp]: "evaluate (ungated policy) inp = evaluate policy inp"
  by (simp add: evaluate_def)

lemma combineExec_ungated [simp]: "combineExec (ungated policy) m = combineExec policy m"
proof -
  have "combineExec_loop (ungated policy) ts ap = combineExec_loop policy ts ap" for ts ap
    by (induction policy ts ap rule: combineExec_loop.induct) (simp_all add: Let_def)
  then show ?thesis by (simp add: combineExec_def)
qed

lemma exec_engine_ungated [simp]: "exec_engine (ungated policy) m = exec_engine policy m"
  by (simp add: exec_engine_def execCost_def execQuorum_def actionCost_def approvalQuorum_def)

lemma decideExec_ungated [simp]: "decideExec deps w c p (ungated policy) = decideExec deps w c p policy"
proof -
  have "exec_mapped w p (ungated policy) m = exec_mapped w p policy m" for m
    by (rule ext) (simp add: exec_mapped_def split: option.split)
  then show ?thesis by (simp add: decideExec_def split: option.split bash_outcome.split)
qed

lemma exec_over_budget_ungated [simp]: "exec_over_budget w p (ungated policy) n s = exec_over_budget w p policy n s"
proof -
  have "agentCeiling (ungated policy) = agentCeiling policy" "withinDelegationBudget (ungated policy) = withinDelegationBudget policy"
    "withinUpstreamBudget (ungated policy) = withinUpstreamBudget policy"
    by (simp_all only: fun_eq_iff agentCeiling_def withinDelegationBudget_def withinUpstreamBudget_def ungated_simps simp_thms)
  then show ?thesis by (simp only: exec_over_budget_def ungated_simps)
qed

lemma exec_budget_ungated [simp]: "exec_budget_gate w req p (ungated policy) d = exec_budget_gate w req p policy d"
  by (rule ext) (simp add: exec_budget_gate_def)

lemma exec_approval_ungated [simp]: "exec_approval_gate w req p (ungated policy) d = exec_approval_gate w req p policy d"
  by (simp add: exec_approval_gate_def)

definition after_select :: "exec_deps \<Rightarrow> world \<Rightarrow> request \<Rightarrow> principal \<Rightarrow> exec_request \<Rightarrow> compiled_policy \<Rightarrow> exec_verdict step" where
  "after_select deps w req p body policy =
     s_bind (decideExec deps w (xr_command body) p policy) (\<lambda>d. s_bind (exec_settle w req p d) (\<lambda>_.
     s_bind (exec_approval_gate w req p policy d) (\<lambda>viaRemembered. s_bind (exec_budget_gate w req p policy d) (\<lambda>_.
       exec_allow w req p d viaRemembered))))"

lemma select_ungated:
  "s_bind (select_policy (cfg\<lparr>sc_policy := ungated (sc_policy cfg)\<rparr>) w lg p) (after_select deps w req p body)
   = s_bind (select_policy cfg w lg p) (after_select deps w req p body)"
  by (rule ext) (auto simp: s_bind_def select_policy_def after_select_def split: option.splits)

text \<open>time windows, risk, first use, flows, pins and the approval overlay of an agent do not reach shell commands: on
  \<open>POST /exec\<close> a policy answers exactly as the same policy with all of them removed.\<close>
theorem session_gates_do_not_reach_exec:
  "handleExec (cfg\<lparr>sc_policy := ungated (sc_policy cfg)\<rparr>) deps w req s = handleExec cfg deps w req s"
proof -
  have door: "exec_door (cfg\<lparr>sc_policy := x\<rparr>) w req = exec_door cfg w req" for x
  proof -
    have "authenticate (cfg\<lparr>sc_policy := x\<rparr>) w r = authenticate cfg w r" for r
      by (rule ext) (simp add: authenticate_def)
    moreover have "exec_listener_gate (cfg\<lparr>sc_policy := x\<rparr>) w req p = exec_listener_gate cfg w req p" for p
      by (rule ext) (simp add: exec_listener_gate_def)
    ultimately show ?thesis by (simp add: exec_door_def)
  qed
  have "exec_route cfg' deps w req = s_bind (exec_door cfg' w req) (\<lambda>p. s_bind (exec_body w req p) (\<lambda>body.
      s_bind (select_policy cfg' w (exec_authed w req p) p) (after_select deps w req p body)))" for cfg'
    by (simp add: exec_route_def after_select_def [abs_def])
  then have "exec_route (cfg\<lparr>sc_policy := ungated (sc_policy cfg)\<rparr>) deps w req = exec_route cfg deps w req"
    by (simp add: door select_ungated)
  then show ?thesis by (simp add: handleExec_def)
qed

end
