(* ===== verification/Json_Text.thy ===== *)
theory Json_Text
  imports Json_Files
begin

text \<open>
  The compact text \<open>JSON.stringify\<close> writes for the values of \<open>Json_Files\<close>, and the UTF-8 bytes
  \<open>TextEncoder\<close> makes of a string. Both are what signatures are computed over, so what matters is
  that they determine what was written: a text followed by a delimiter is read back in one way.
\<close>

subsection \<open>Writing\<close>

definition hex_digit :: "nat \<Rightarrow> char" where
  "hex_digit n = (if n < 10 then char_of (48 + n) else char_of (87 + n))"

definition json_escape :: "char \<Rightarrow> string" where
  "json_escape c =
     (let n = (of_char c :: nat); esc = (\<lambda>d. [CHR 0x5C, d]) in
      if c = CHR 0x22 then esc (CHR 0x22) else if c = CHR 0x5C then esc (CHR 0x5C)
      else if n = 8 then esc (CHR ''b'') else if n = 9 then esc (CHR ''t'') else if n = 10 then esc (CHR ''n'')
      else if n = 12 then esc (CHR ''f'') else if n = 13 then esc (CHR ''r'')
      else if n < 32 then [CHR 0x5C, CHR ''u'', CHR ''0'', CHR ''0'', hex_digit (n div 16), hex_digit (n mod 16)]
      else [c])"

definition json_quote :: "string \<Rightarrow> string" where
  "json_quote s = CHR 0x22 # concat (map json_escape s) @ [CHR 0x22]"

definition show_int :: "int \<Rightarrow> string" where
  "show_int n = (if n < 0 then CHR ''-'' # show_nat (nat (- n)) else show_nat (nat n))"

text \<open>Items separated by commas.\<close>

fun commas :: "string list \<Rightarrow> string" where
  "commas [] = []"
| "commas [x] = x"
| "commas (x # y # xs) = x @ CHR '','' # commas (y # xs)"

fun json_text :: "json \<Rightarrow> string" where
  "json_text JNull = ''null''"
| "json_text (JBool b) = (if b then ''true'' else ''false'')"
| "json_text (JNum n) = show_int n"
| "json_text (JStr s) = json_quote s"
| "json_text (JArr xs) = CHR ''['' # commas (map json_text xs) @ '']''"
| "json_text (JObj ps) = CHR ''{'' # commas (map (\<lambda>(k, v). json_quote k @ CHR '':'' # json_text v) ps) @ ''}''"

text \<open>UTF-8 of the code units below 256.\<close>

definition utf8_char :: "char \<Rightarrow> nat list" where
  "utf8_char c = (let n = of_char c in if n < 128 then [n] else [192 + n div 64, 128 + n mod 64])"

definition utf8 :: "string \<Rightarrow> nat list" where
  "utf8 s = concat (map utf8_char s)"

subsection \<open>Reading one way\<close>

text \<open>Two writings agree only if the written values do and the rests do.\<close>

lemma of_char_less [simp]: "(of_char c :: nat) < 256"
  by (rule nat_of_char_less_256)

lemma utf8_char_prefix: "utf8_char c @ x = utf8_char d @ y \<Longrightarrow> c = d \<and> x = y"
proof -
  assume a: "utf8_char c @ x = utf8_char d @ y"
  define n m where "n = (of_char c :: nat)" and "m = (of_char d :: nat)"
  have u: "utf8_char c = (if n < 128 then [n] else [192 + n div 64, 128 + n mod 64])"
    "utf8_char d = (if m < 128 then [m] else [192 + m div 64, 128 + m mod 64])"
    by (simp_all add: utf8_char_def Let_def n_def m_def)
  have "n = m \<and> x = y"
  proof (cases "n < 128"; cases "m < 128")
    assume "\<not> n < 128" "\<not> m < 128"
    with a u have "n div 64 = m div 64" "n mod 64 = m mod 64" "x = y" by simp_all
    then show ?thesis by (metis div_mult_mod_eq)
  qed (use a u in simp_all)
  then show ?thesis by (simp add: n_def m_def)
qed

lemma utf8_inj [simp]: "utf8 s = utf8 t \<longleftrightarrow> s = t"
proof
  have ne: "utf8_char c \<noteq> []" for c by (simp add: utf8_char_def Let_def)
  show "utf8 s = utf8 t \<Longrightarrow> s = t"
  proof (induction s arbitrary: t)
    case Nil
    then show ?case using ne by (cases t) (auto simp: utf8_def)
  next
    case (Cons c s)
    then obtain d t' where t: "t = d # t'" using ne by (cases t) (auto simp: utf8_def)
    with Cons.prems have "utf8_char c @ utf8 s = utf8_char d @ utf8 t'" by (simp add: utf8_def)
    from utf8_char_prefix [OF this] Cons.IH t show ?case by auto
  qed
qed simp

subsection \<open>Numbers\<close>

definition digit_char :: "char \<Rightarrow> bool" where
  "digit_char c \<longleftrightarrow> (let n = (of_char c :: nat) in 48 \<le> n \<and> n \<le> 57)"

fun digits_value :: "string \<Rightarrow> nat \<Rightarrow> nat" where
  "digits_value [] acc = acc"
| "digits_value (c # cs) acc = digits_value cs (acc * 10 + (of_char c - 48))"

lemma digits_value_append: "digits_value (s @ t) acc = digits_value t (digits_value s acc)"
  by (induction s arbitrary: acc) auto

lemma show_nat_value: "digits_value (show_nat n) 0 = n"
proof (induction n rule: show_nat.induct)
  case (1 n)
  then show ?case
    by (subst show_nat.simps) (simp add: digits_value_append of_char_of)
qed

lemma show_nat_inj: "show_nat n = show_nat m \<Longrightarrow> n = m"
  by (metis show_nat_value)

lemma show_nat_digits: "list_all digit_char (show_nat n)" "show_nat n \<noteq> []"
proof (induction n rule: show_nat.induct)
  case (1 n)
  have d: "k < 10 \<Longrightarrow> digit_char (char_of (48 + k))" for k :: nat by (simp add: digit_char_def of_char_of)
  { case 1 with "1.IH" d [of n] d [of "n mod 10"] show ?case by (subst show_nat.simps) auto
  next case 2 show ?case by (subst show_nat.simps) simp }
qed

text \<open>What may follow a number: nothing, or something that is not a digit.\<close>

definition ends_number :: "string \<Rightarrow> bool" where
  "ends_number s \<longleftrightarrow> (case s of [] \<Rightarrow> True | c # cs \<Rightarrow> \<not> digit_char c)"

lemma digits_prefix:
  assumes "list_all P s" "list_all P t" "case x of [] \<Rightarrow> True | c # cs \<Rightarrow> \<not> P c" "case y of [] \<Rightarrow> True | c # cs \<Rightarrow> \<not> P c"
    and "s @ x = t @ y"
  shows "s = t \<and> x = y"
proof -
  have "takeWhile P (s @ x) = s" "takeWhile P (t @ y) = t"
    using assms(1-4) by (auto simp: takeWhile_append2 list_all_iff takeWhile_eq_Nil_iff split: list.splits)
  with assms(5) show ?thesis by simp
qed

lemma show_nat_prefix:
  "show_nat n @ x = show_nat m @ y \<Longrightarrow> ends_number x \<Longrightarrow> ends_number y \<Longrightarrow> n = m \<and> x = y"
  using digits_prefix [of digit_char "show_nat n" "show_nat m" x y] show_nat_digits(1) show_nat_inj
  unfolding ends_number_def by blast

lemma show_nat_first: "digit_char (hd (show_nat n))"
  using show_nat_digits [of n] by (cases "show_nat n") auto

lemma show_nat_not_minus: "show_nat k @ z \<noteq> CHR ''-'' # u"
  using show_nat_first [of k] show_nat_digits(2) [of k] by (cases "show_nat k") (auto simp: digit_char_def)

lemma show_int_prefix:
  assumes eq: "show_int n @ x = show_int m @ y" and ends: "ends_number x" "ends_number y"
  shows "n = m \<and> x = y"
proof (cases "n < 0"; cases "m < 0")
  assume "n < 0" "m < 0"
  with eq show_nat_prefix [OF _ ends, of "nat (- n)" "nat (- m)"] show ?thesis by (auto simp: show_int_def)
next
  assume "n < 0" "\<not> m < 0"
  with eq show_nat_not_minus [of "nat m" y] show ?thesis by (simp add: show_int_def) metis
next
  assume "\<not> n < 0" "m < 0"
  with eq show_nat_not_minus [of "nat n" x] show ?thesis by (simp add: show_int_def)
next
  assume "\<not> n < 0" "\<not> m < 0"
  with eq show_nat_prefix [OF _ ends, of "nat n" "nat m"] show ?thesis by (auto simp: show_int_def)
qed

subsection \<open>Strings\<close>

text \<open>Reading one escaped character back.\<close>

definition hex_value :: "char \<Rightarrow> nat" where
  "hex_value c = (let n = of_char c in if n < 58 then n - 48 else n - 87)"

definition json_unescape :: "string \<Rightarrow> (char \<times> string) option" where
  "json_unescape s =
     (case s of
        [] \<Rightarrow> None
      | c # cs \<Rightarrow>
          if c \<noteq> CHR 0x5C then Some (c, cs)
          else (case cs of
              [] \<Rightarrow> None
            | d # r \<Rightarrow>
                if d = CHR ''u'' then Some (char_of (16 * hex_value (r ! 2) + hex_value (r ! 3)), drop 4 r)
                else if d = CHR ''b'' then Some (char_of (8::nat), r) else if d = CHR ''t'' then Some (char_of (9::nat), r)
                else if d = CHR ''n'' then Some (char_of (10::nat), r) else if d = CHR ''f'' then Some (char_of (12::nat), r)
                else if d = CHR ''r'' then Some (char_of (13::nat), r) else Some (d, r)))"

lemma hex_value_digit: "n < 16 \<Longrightarrow> hex_value (hex_digit n) = n"
  by (auto simp: hex_value_def hex_digit_def of_char_of)

lemma char_of_eqI: "(of_char c :: nat) = n \<Longrightarrow> char_of n = c"
  by auto

lemma json_unescape_escape: "json_unescape (json_escape c @ x) = Some (c, x)"
proof -
  let ?n = "of_char c :: nat"
  consider (plain) "c = CHR 0x22 \<or> c = CHR 0x5C" | (short) "?n \<in> {8, 9, 10, 12, 13}" "c \<noteq> CHR 0x22" "c \<noteq> CHR 0x5C"
    | (hex) "?n < 32" "?n \<notin> {8, 9, 10, 12, 13}" "c \<noteq> CHR 0x22" "c \<noteq> CHR 0x5C"
    | (other) "\<not> ?n < 32" "?n \<notin> {8, 9, 10, 12, 13}" "c \<noteq> CHR 0x22" "c \<noteq> CHR 0x5C" by blast
  then show ?thesis
  proof cases
    case plain
    then show ?thesis by (auto simp: json_escape_def json_unescape_def)
  next
    case short
    then have "c = char_of (8::nat) \<or> c = char_of (9::nat) \<or> c = char_of (10::nat) \<or> c = char_of (12::nat) \<or> c = char_of (13::nat)"
      by (auto dest: char_of_eqI)
    then show ?thesis by (elim disjE) (simp_all add: json_escape_def json_unescape_def)
  next
    case hex
    then have "?n div 16 < 16" by simp
    with hex show ?thesis by (simp add: json_escape_def json_unescape_def Let_def hex_value_digit)
  next
    case other
    then show ?thesis by (simp add: json_escape_def json_unescape_def Let_def)
  qed
qed

lemma json_escape_prefix: "json_escape c @ x = json_escape d @ y \<Longrightarrow> c = d \<and> x = y"
  by (metis json_unescape_escape option.inject prod.inject)

lemma json_escape_no_quote: "json_escape c \<noteq> []" "hd (json_escape c) \<noteq> CHR 0x22"
  by (auto simp: json_escape_def Let_def)

lemma json_quote_prefix: "json_quote s @ x = json_quote t @ y \<Longrightarrow> s = t \<and> x = y"
proof -
  have "concat (map json_escape s) @ CHR 0x22 # x = concat (map json_escape t) @ CHR 0x22 # y \<Longrightarrow> s = t \<and> x = y"
  proof (induction s arbitrary: t)
    case Nil
    show ?case
    proof (cases t)
      case (Cons d t')
      with Nil json_escape_no_quote [of d] show ?thesis by (cases "json_escape d") auto
    qed (use Nil in simp)
  next
    case (Cons c s)
    show ?case
    proof (cases t)
      case Nil
      with Cons.prems json_escape_no_quote [of c] show ?thesis by (cases "json_escape c") auto
    next
      case (Cons d t')
      with Cons.prems have "json_escape c @ (concat (map json_escape s) @ CHR 0x22 # x)
          = json_escape d @ (concat (map json_escape t') @ CHR 0x22 # y)" by simp
      from json_escape_prefix [OF this] Cons.IH [of t'] Cons show ?thesis by simp
    qed
  qed
  then show "json_quote s @ x = json_quote t @ y \<Longrightarrow> s = t \<and> x = y" by (simp add: json_quote_def)
qed

text \<open>No line break is ever written.\<close>

lemma json_escape_no_newline: "CHR 0x0A \<notin> set (json_escape c)"
proof -
  have "(of_char (CHR 0x0A) :: nat) = 10" by simp
  have hex: "n < 16 \<Longrightarrow> hex_digit n \<noteq> CHR 0x0A" for n
  proof
    assume "n < 16" "hex_digit n = CHR 0x0A"
    then have "(of_char (hex_digit n) :: nat) = 10" by simp
    with \<open>n < 16\<close> show False by (auto simp: hex_digit_def of_char_of split: if_splits)
  qed
  have "(of_char c :: nat) < 32 \<Longrightarrow> of_char c div 16 < (16::nat)" by simp
  with hex [of "of_char c div 16"] hex [of "of_char c mod 16"] show ?thesis
    by (auto simp: json_escape_def Let_def)
qed

subsection \<open>Values\<close>

text \<open>What may follow a value: nothing, a comma, or the end of the array or object it is in.\<close>

definition ends_value :: "string \<Rightarrow> bool" where
  "ends_value s \<longleftrightarrow> (case s of [] \<Rightarrow> True | c # cs \<Rightarrow> c = CHR '','' \<or> c = CHR '']'' \<or> c = CHR ''}'')"

lemma ends_value_simps [simp]: "ends_value []" "ends_value (CHR '','' # s)" "ends_value (CHR '']'' # s)" "ends_value (CHR ''}'' # s)"
  by (simp_all add: ends_value_def)

lemma ends_value_number: "ends_value s \<Longrightarrow> ends_number s"
  by (auto simp: ends_value_def ends_number_def digit_char_def split: list.splits)

definition reads_back :: "('a \<Rightarrow> string) \<Rightarrow> 'a \<Rightarrow> bool" where
  "reads_back f a \<longleftrightarrow> f a \<noteq> [] \<and> hd (f a) \<noteq> CHR '']'' \<and> hd (f a) \<noteq> CHR ''}'' \<and> hd (f a) \<noteq> CHR '',''
     \<and> (\<forall>b x y. f a @ x = f b @ y \<longrightarrow> ends_value x \<longrightarrow> ends_value y \<longrightarrow> a = b \<and> x = y)"

lemma reads_backD: "reads_back f a \<Longrightarrow> f a @ x = f b @ y \<Longrightarrow> ends_value x \<Longrightarrow> ends_value y \<Longrightarrow> a = b \<and> x = y"
  by (auto simp: reads_back_def)

lemma commas_Cons: "commas (map f (a # as)) @ z = f a @ (if as = [] then z else CHR '','' # commas (map f as) @ z)"
  by (cases as) auto

lemma commas_read_back:
  assumes "\<forall>a\<in>set as. reads_back f a" "\<forall>b\<in>set bs. f b \<noteq> [] \<and> hd (f b) \<noteq> cl" "cl = CHR '']'' \<or> cl = CHR ''}''"
    and "commas (map f as) @ cl # x = commas (map f bs) @ cl # y"
  shows "as = bs \<and> x = y"
  using assms
proof (induction as arbitrary: bs)
  case Nil
  show ?case
  proof (cases bs)
    case (Cons b bs')
    with Nil.prems(2) obtain c r where "f b = c # r" "c \<noteq> cl" by (cases "f b") auto
    with Nil.prems(4) Cons commas_Cons [of f b bs' "cl # y"] show ?thesis by simp
  qed (use Nil in simp)
next
  case (Cons a as)
  show ?case
  proof (cases bs)
    case Nil
    from Cons.prems(1,3) obtain c r where "f a = c # r" "c \<noteq> cl" by (cases "f a") (auto simp: reads_back_def)
    with Cons.prems(4) Nil commas_Cons [of f a as "cl # x"] show ?thesis by simp
  next
    case (Cons b bs')
    let ?x = "if as = [] then cl # x else CHR '','' # commas (map f as) @ cl # x"
    let ?y = "if bs' = [] then cl # y else CHR '','' # commas (map f bs') @ cl # y"
    from Cons.prems(4) Cons have eq: "f a @ ?x = f b @ ?y" by (simp only: commas_Cons)
    have "ends_value ?x" "ends_value ?y" using Cons.prems(3) by auto
    with eq Cons.prems(1) have ab: "a = b" "?x = ?y" using reads_backD [of f a ?x b ?y] by auto
    have "as = bs' \<and> x = y"
    proof (cases "as = []"; cases "bs' = []")
      assume "as \<noteq> []" "bs' \<noteq> []"
      with ab(2) have "commas (map f as) @ cl # x = commas (map f bs') @ cl # y" by simp
      with Cons.IH [of bs'] Cons.prems Cons show ?thesis by simp
    qed (use ab(2) Cons.prems(3) in auto)
    with ab Cons show ?thesis by simp
  qed
qed

text \<open>The first character tells the kind of a value.\<close>

fun json_kind :: "json \<Rightarrow> nat" where
  "json_kind JNull = 0" | "json_kind (JBool b) = (if b then 1 else 2)" | "json_kind (JNum n) = 3" | "json_kind (JStr s) = 4"
| "json_kind (JArr xs) = 5" | "json_kind (JObj ps) = 6"

definition char_kind :: "char \<Rightarrow> nat" where
  "char_kind c = (if c = CHR ''n'' then 0 else if c = CHR ''t'' then 1 else if c = CHR ''f'' then 2
     else if c = CHR 0x22 then 4 else if c = CHR ''['' then 5 else if c = CHR ''{'' then 6
     else if digit_char c \<or> c = CHR ''-'' then 3 else 7)"

lemma digit_kind: "digit_char c \<Longrightarrow> char_kind c = 3"
  by (auto simp: char_kind_def digit_char_def)

lemma show_int_first: "show_int n \<noteq> [] \<and> char_kind (hd (show_int n)) = 3"
  using show_nat_first [of "nat n"] show_nat_digits(2) [of "nat n"]
  by (auto simp: show_int_def digit_kind) (simp add: char_kind_def digit_char_def)

lemma json_text_first: "json_text v \<noteq> [] \<and> char_kind (hd (json_text v)) = json_kind v"
  using show_int_first by (cases v) (auto simp: char_kind_def digit_char_def json_quote_def)

lemma json_text_kind: "json_text a @ x = json_text b @ y \<Longrightarrow> json_kind a = json_kind b"
  using json_text_first [of a] json_text_first [of b] by (metis hd_append2)

lemma kind_less_7: "json_kind v < 7"
  by (cases v) auto

lemma json_text_opens:
  "json_text v \<noteq> []" "hd (json_text v) \<noteq> CHR '']''" "hd (json_text v) \<noteq> CHR ''}''" "hd (json_text v) \<noteq> CHR '',''"
proof -
  have "char_kind (hd (json_text v)) < 7" using json_text_first [of v] kind_less_7 [of v] by simp
  then show "hd (json_text v) \<noteq> CHR '']''" "hd (json_text v) \<noteq> CHR ''}''" "hd (json_text v) \<noteq> CHR '',''"
    by (auto simp: char_kind_def digit_char_def)
qed (use json_text_first in blast)

lemma reads_backI:
  assumes "\<And>b x y. json_text a @ x = json_text b @ y \<Longrightarrow> ends_value x \<Longrightarrow> ends_value y \<Longrightarrow> a = b \<and> x = y"
  shows "reads_back json_text a"
  unfolding reads_back_def using assms json_text_opens [of a] by blast

abbreviation json_member :: "string \<times> json \<Rightarrow> string" where
  "json_member \<equiv> \<lambda>(k, v). json_quote k @ CHR '':'' # json_text v"

lemma member_reads_back:
  assumes "reads_back json_text v" shows "reads_back json_member (k, v)"
proof -
  have "(k, v) = b \<and> x = y" if "json_member (k, v) @ x = json_member b @ y" "ends_value x" "ends_value y" for b x y
  proof -
    obtain k' v' where b: "b = (k', v')" by (cases b)
    with that(1) have "json_quote k @ (CHR '':'' # json_text v @ x) = json_quote k' @ (CHR '':'' # json_text v' @ y)" by simp
    from json_quote_prefix [OF this] have "k = k'" "json_text v @ x = json_text v' @ y" by simp_all
    with reads_backD [OF assms, of x v' y] that b show ?thesis by simp
  qed
  then show ?thesis by (auto simp: reads_back_def json_quote_def)
qed

text \<open>The text of a value determines the value, wherever a delimiter follows.\<close>

lemma json_text_reads_back: "reads_back json_text a"
proof (induction a)
  case (JArr xs)
  show ?case
  proof (rule reads_backI)
    fix b x y assume eq: "json_text (JArr xs) @ x = json_text b @ y" and ends: "ends_value x" "ends_value y"
    from json_text_kind [OF eq] obtain ys where b: "b = JArr ys" by (cases b) (auto split: if_splits)
    have ne: "\<forall>v\<in>set ys. json_text v \<noteq> [] \<and> hd (json_text v) \<noteq> CHR '']''" using json_text_opens by blast
    show "JArr xs = b \<and> x = y"
      using commas_read_back [of xs json_text ys "CHR '']''" x y] JArr ne eq b by simp
  qed
next
  case (JObj ps)
  show ?case
  proof (rule reads_backI)
    fix b x y assume eq: "json_text (JObj ps) @ x = json_text b @ y" and ends: "ends_value x" "ends_value y"
    from json_text_kind [OF eq] obtain qs where b: "b = JObj qs" by (cases b) (auto split: if_splits)
    have "\<forall>m\<in>set ps. reads_back json_member m" using JObj member_reads_back by (fastforce simp: snds.simps)
    moreover have "\<forall>m\<in>set qs. json_member m \<noteq> [] \<and> hd (json_member m) \<noteq> CHR ''}''"
      by (auto simp: json_quote_def)
    ultimately show "JObj ps = b \<and> x = y"
      using commas_read_back [of ps json_member qs "CHR ''}''" x y] eq b by simp
  qed
next
  case JNull
  show ?case by (rule reads_backI) (use json_text_kind [of JNull] in \<open>fastforce elim: json_kind.elims split: if_splits\<close>)
next
  case (JBool t)
  show ?case
  proof (rule reads_backI)
    fix b x y assume eq: "json_text (JBool t) @ x = json_text b @ y"
    from json_text_kind [OF eq] obtain u where "b = JBool u" by (cases b) (auto split: if_splits)
    with eq show "JBool t = b \<and> x = y" by (auto split: if_splits)
  qed
next
  case (JNum n)
  show ?case
  proof (rule reads_backI)
    fix b x y assume eq: "json_text (JNum n) @ x = json_text b @ y" and ends: "ends_value x" "ends_value y"
    from json_text_kind [OF eq] obtain m where "b = JNum m" by (cases b) (auto split: if_splits)
    with eq show_int_prefix [OF _ ends [THEN ends_value_number], of n m] show "JNum n = b \<and> x = y" by simp
  qed
next
  case (JStr s)
  show ?case
  proof (rule reads_backI)
    fix b x y assume eq: "json_text (JStr s) @ x = json_text b @ y"
    from json_text_kind [OF eq] obtain t where "b = JStr t" by (cases b) (auto split: if_splits)
    with eq json_quote_prefix [of s x t y] show "JStr s = b \<and> x = y" by simp
  qed
qed

lemma json_text_inj [simp]: "json_text a = json_text b \<longleftrightarrow> a = b"
  using reads_backD [OF json_text_reads_back, of a "[]" b "[]"] by auto

lemma json_text_no_newline: "CHR 0x0A \<notin> set (json_text v)"
proof (induction v)
  case (JNum n)
  have "CHR 0x0A \<notin> set (show_nat k)" for k
    using show_nat_digits(1) [of k] by (auto simp: list_all_iff digit_char_def)
  then show ?case by (simp add: show_int_def)
next
  case (JStr s)
  then show ?case using json_escape_no_newline by (auto simp: json_quote_def)
next
  case (JArr xs)
  have "CHR 0x0A \<notin> set (commas ys)" if "\<forall>y\<in>set ys. CHR 0x0A \<notin> set y" for ys
    using that by (induction ys rule: commas.induct) auto
  with JArr show ?case by simp
next
  case (JObj ps)
  have c: "CHR 0x0A \<notin> set (commas ys)" if "\<forall>y\<in>set ys. CHR 0x0A \<notin> set y" for ys
    using that by (induction ys rule: commas.induct) auto
  have "CHR 0x0A \<notin> set (json_member m)" if "m \<in> set ps" for m
    using JObj that json_escape_no_newline by (cases m) (fastforce simp: json_quote_def snds.simps)
  then show ?case using c [of "map json_member ps"] by auto
qed auto

end
