(* ===== verification/Distribution.thy ===== *)
theory Distribution
  imports Json_Text Policy_Store Access_Stores
begin

text \<open>
  Signed distribution of policies and of the fleet kill set: the signed messages
  (\<^verbatim>\<open>distribution/message.ts\<close>, \<^verbatim>\<open>revocation/canonical.ts\<close>), their verification (\<^verbatim>\<open>verify.ts\<close> of
  both), the pull (\<^verbatim>\<open>policy/source.ts\<close>, \<^verbatim>\<open>revocation/source.ts\<close>), adoption at startup and on
  refresh (\<^verbatim>\<open>distribution/refresh.ts\<close>, \<^verbatim>\<open>revocation/refresh.ts\<close>, \<^verbatim>\<open>cli/run-profiles.ts\<close>), and the
  staleness checks of \<^verbatim>\<open>cli/run.ts\<close>. Ed25519, SHA-256 and the YAML compiler are parameters; an
  HTTP pull is what it answered.
\<close>

subsection \<open>Signed messages\<close>

definition newline :: char where "newline = CHR 0x0A"

definition canonicalProfiles :: "profile_entry list \<Rightarrow> string" where
  "canonicalProfiles profiles =
     json_text (JArr (map (\<lambda>p. JArr [JStr (pe_name p), JStr (pe_policy p)]) (sort_key pe_name profiles)))"

definition bundle_body :: "int \<Rightarrow> string \<Rightarrow> profile_entry list option \<Rightarrow> string" where
  "bundle_body version policy profiles =
     (case profiles of
        None \<Rightarrow> ''grenz-policy-signature-v1'' @ newline # show_int version @ newline # policy
      | Some ps \<Rightarrow> ''grenz-policy-signature-v2'' @ newline # show_int version @ newline # policy
          @ newline # canonicalProfiles ps)"

definition bundleSignatureMessage :: "int \<Rightarrow> string \<Rightarrow> profile_entry list option \<Rightarrow> nat list" where
  "bundleSignatureMessage version policy profiles = utf8 (bundle_body version policy profiles)"

definition bundle_digest_input :: "string \<Rightarrow> profile_entry list option \<Rightarrow> string" where
  "bundle_digest_input policyYaml profiles =
     ''grenz-bundle-digest-'' @ (case profiles of None \<Rightarrow> ''v1'' | Some ps \<Rightarrow> ''v2'') @ newline # show_nat (length policyYaml)
       @ newline # policyYaml @ newline # (case profiles of None \<Rightarrow> [] | Some ps \<Rightarrow> canonicalProfiles ps)"

definition bundleDigest :: "(nat list \<Rightarrow> string) \<Rightarrow> string \<Rightarrow> profile_entry list option \<Rightarrow> string" where
  "bundleDigest sha256Hex policyYaml profiles = take 12 (sha256Hex (utf8 (bundle_digest_input policyYaml profiles)))"

definition REVOCATION_DOMAIN :: string where
  "REVOCATION_DOMAIN = ''grenz-revocation-signature-v1''"

definition canonicalRevocationPayload :: "string list \<Rightarrow> int option \<Rightarrow> string" where
  "canonicalRevocationPayload agents expiresAt =
     json_text (JObj [(''revoked_agents'', JArr (map JStr (sort (remdups agents)))),
                      (''expires_at'', null_or_num expiresAt)])"

definition revocationMessage :: "int \<Rightarrow> string list \<Rightarrow> int option \<Rightarrow> nat list" where
  "revocationMessage version agents expiresAt =
     utf8 (REVOCATION_DOMAIN @ newline # show_int version @ newline # canonicalRevocationPayload agents expiresAt)"

subsection \<open>Verifying a bundle\<close>

definition MAX_POLICY_VERSION :: int where "MAX_POLICY_VERSION = 1000000000000"
definition MAX_PROFILE_POLICY_BYTES :: int where "MAX_PROFILE_POLICY_BYTES = 65536"
definition MAX_REVOKED_AGENTS :: int where "MAX_REVOKED_AGENTS = 100000"

definition profile_char :: "bool \<Rightarrow> char \<Rightarrow> bool" where
  "profile_char first c \<longleftrightarrow>
     (let n = (of_char c :: nat) in 97 \<le> n \<and> n \<le> 122 \<or> 48 \<le> n \<and> n \<le> 57 \<or> \<not> first \<and> (c = CHR ''_'' \<or> c = CHR ''-''))"

definition PROFILE_NAME_RE :: "string \<Rightarrow> bool" where
  "PROFILE_NAME_RE s \<longleftrightarrow> (case s of [] \<Rightarrow> False
     | c # cs \<Rightarrow> profile_char True c \<and> list_all (profile_char False) cs \<and> length cs \<le> 63)"

definition has_only :: "string list \<Rightarrow> json \<Rightarrow> bool" where
  "has_only keys v \<longleftrightarrow> (case v of JObj ps \<Rightarrow> list_all (\<lambda>(k, x). k \<in> set keys) ps | _ \<Rightarrow> False)"

definition parse_profile_entry :: "json \<Rightarrow> profile_entry option" where
  "parse_profile_entry v =
     (if \<not> has_only [''name'', ''policy''] v then None
      else case (str_field v ''name'', str_field v ''policy'') of
        (Some n, Some p) \<Rightarrow>
          if PROFILE_NAME_RE n \<and> int (length p) \<le> MAX_PROFILE_POLICY_BYTES
          then Some \<lparr>pe_name = n, pe_policy = p\<rparr> else None
      | _ \<Rightarrow> None)"

fun all_some :: "'a option list \<Rightarrow> 'a list option" where
  "all_some [] = Some []"
| "all_some (None # xs) = None"
| "all_some (Some x # xs) = map_option ((#) x) (all_some xs)"

record policy_bundle =
  pb_version :: int
  pb_policy :: string
  pb_profiles :: "profile_entry list option"
  pb_signature :: string

definition version_in_range :: "int \<Rightarrow> bool" where
  "version_in_range v \<longleftrightarrow> 1 \<le> v \<and> v \<le> MAX_POLICY_VERSION"

definition parse_bundle :: "json \<Rightarrow> policy_bundle option" where
  "parse_bundle v =
     (if \<not> has_only [''version'', ''policy'', ''profiles'', ''signature''] v then None
      else case (num_field v ''version'', str_field v ''policy'', str_field v ''signature'') of
        (Some ver, Some pol, Some sig) \<Rightarrow>
          if \<not> version_in_range ver then None
          else (case json_field v ''profiles'' of
              None \<Rightarrow> Some \<lparr>pb_version = ver, pb_policy = pol, pb_profiles = None, pb_signature = sig\<rparr>
            | Some (JArr xs) \<Rightarrow>
                if length xs > 256 then None
                else map_option (\<lambda>ps. \<lparr>pb_version = ver, pb_policy = pol, pb_profiles = Some ps, pb_signature = sig\<rparr>)
                       (all_some (map parse_profile_entry xs))
            | Some _ \<Rightarrow> None)
      | _ \<Rightarrow> None)"

text \<open>\<open>crypto.subtle\<close> on one pinned key (base64), a signature (base64) and the message: false too when
  the key cannot be imported.\<close>

type_synonym ed25519 = "string \<Rightarrow> string \<Rightarrow> nat list \<Rightarrow> bool"

datatype deny_code = DocMalformed | BadSignature | StaleVersion

record verified_bundle =
  vb_version :: int
  vb_policyYaml :: string
  vb_digest :: string
  vb_unchanged :: bool
  vb_profiles :: "profile_entry list option"

definition verifyPolicyBundle :: "ed25519 \<Rightarrow> (nat list \<Rightarrow> string) \<Rightarrow> json option \<Rightarrow> string list \<Rightarrow> int
    \<Rightarrow> deny_code + verified_bundle" where
  "verifyPolicyBundle ed sha256Hex doc pinnedKeys minVersion =
     (case Option.bind doc parse_bundle of
        None \<Rightarrow> Inl DocMalformed
      | Some b \<Rightarrow>
          if (case pb_profiles b of None \<Rightarrow> False | Some ps \<Rightarrow> \<not> distinct (map pe_name ps)) then Inl DocMalformed
          else
            let msg = bundleSignatureMessage (pb_version b) (pb_policy b) (pb_profiles b) in
            if \<not> list_ex (\<lambda>key. ed key (pb_signature b) msg) pinnedKeys then Inl BadSignature
            else if pb_version b < minVersion then Inl StaleVersion
            else Inr \<lparr>vb_version = pb_version b, vb_policyYaml = pb_policy b,
                      vb_digest = bundleDigest sha256Hex (pb_policy b) (pb_profiles b),
                      vb_unchanged = (pb_version b = minVersion), vb_profiles = pb_profiles b\<rparr>)"

record revocation_set =
  rs_version :: int
  rs_agents :: "string list"
  rs_expires :: "int option"
  rs_signature :: string

definition agent_name_ok :: "json \<Rightarrow> string option" where
  "agent_name_ok v = (case v of JStr s \<Rightarrow> if 1 \<le> length s \<and> length s \<le> 256 then Some s else None | _ \<Rightarrow> None)"

definition parse_revocation_set :: "json \<Rightarrow> revocation_set option" where
  "parse_revocation_set v =
     (if \<not> has_only [''version'', ''revoked_agents'', ''expires_at'', ''signature''] v then None
      else case (num_field v ''version'', json_field v ''revoked_agents'', str_field v ''signature'') of
        (Some ver, Some (JArr xs), Some sig) \<Rightarrow>
          if \<not> version_in_range ver \<or> int (length xs) > MAX_REVOKED_AGENTS then None
          else (case all_some (map agent_name_ok xs) of
              None \<Rightarrow> None
            | Some agents \<Rightarrow>
                (case json_field v ''expires_at'' of
                   None \<Rightarrow> Some \<lparr>rs_version = ver, rs_agents = agents, rs_expires = None, rs_signature = sig\<rparr>
                 | Some (JNum e) \<Rightarrow>
                     if e > 0 then Some \<lparr>rs_version = ver, rs_agents = agents, rs_expires = Some e, rs_signature = sig\<rparr> else None
                 | Some _ \<Rightarrow> None))
      | _ \<Rightarrow> None)"

record verified_set =
  vs2_version :: int
  vs2_revokedAgents :: "string list"
  vs2_expiresAt :: "int option"
  vs2_unchanged :: bool

definition verifyRevocationSet :: "ed25519 \<Rightarrow> json option \<Rightarrow> string list \<Rightarrow> int \<Rightarrow> deny_code + verified_set" where
  "verifyRevocationSet ed doc pinnedKeys minVersion =
     (case Option.bind doc parse_revocation_set of
        None \<Rightarrow> Inl DocMalformed
      | Some r \<Rightarrow>
          let msg = revocationMessage (rs_version r) (rs_agents r) (rs_expires r) in
          if \<not> list_ex (\<lambda>key. ed key (rs_signature r) msg) pinnedKeys then Inl BadSignature
          else if rs_version r < minVersion then Inl StaleVersion
          else Inr \<lparr>vs2_version = rs_version r, vs2_revokedAgents = sort (remdups (rs_agents r)),
                    vs2_expiresAt = rs_expires r, vs2_unchanged = (rs_version r = minVersion)\<rparr>)"

subsection \<open>Signing\<close>

text \<open>What the signer writes, as the parsed document; \<open>None\<close> when it throws.\<close>

type_synonym signer = "nat list \<Rightarrow> string"

definition entry_ok :: "profile_entry \<Rightarrow> bool" where
  "entry_ok p \<longleftrightarrow> PROFILE_NAME_RE (pe_name p) \<and> int (length (pe_policy p)) \<le> MAX_PROFILE_POLICY_BYTES"

definition json_profile :: "profile_entry \<Rightarrow> json" where
  "json_profile p = JObj [(''name'', JStr (pe_name p)), (''policy'', JStr (pe_policy p))]"

definition signBundle :: "signer \<Rightarrow> string \<Rightarrow> int \<Rightarrow> profile_entry list option \<Rightarrow> json option" where
  "signBundle sign policyYaml version profiles =
     (if (case profiles of None \<Rightarrow> False | Some ps \<Rightarrow> \<not> list_all entry_ok ps \<or> \<not> distinct (map pe_name ps)) then None
      else Some (JObj ([(''version'', JNum version), (''policy'', JStr policyYaml)]
        @ (case profiles of None \<Rightarrow> [] | Some ps \<Rightarrow> [(''profiles'', JArr (map json_profile ps))])
        @ [(''signature'', JStr (sign (bundleSignatureMessage version policyYaml profiles)))])))"

definition signRevocationSet :: "signer \<Rightarrow> string list \<Rightarrow> int \<Rightarrow> int option \<Rightarrow> json" where
  "signRevocationSet sign agents version expiresAt =
     (let sorted = sort (remdups agents) in
      JObj ([(''version'', JNum version), (''revoked_agents'', JArr (map JStr sorted)),
             (''signature'', JStr (sign (revocationMessage version sorted expiresAt)))]
        @ (case expiresAt of None \<Rightarrow> [] | Some e \<Rightarrow> [(''expires_at'', JNum e)])))"

subsection \<open>Pulling\<close>

text \<open>What the endpoint answered: nothing, an error status, or a body with its parse.\<close>

datatype pull_answer = Unreachable | Status int | Body string "json option"

datatype pull_error = SourceUnreachable | SourceStatus int | TooLargeBundle | Rejected deny_code | DoesNotCompile compile_error

record signed_pull =
  sp_policy :: compiled_policy
  sp_bundle :: verified_bundle

definition MAX_SIGNED_BODY_BYTES :: int where "MAX_SIGNED_BODY_BYTES = 4 * 1024 * 1024"

definition fetchSignedPolicy :: "yaml_compiler \<Rightarrow> ed25519 \<Rightarrow> (nat list \<Rightarrow> string) \<Rightarrow> pull_answer \<Rightarrow> string list \<Rightarrow> int
    \<Rightarrow> pull_error + signed_pull" where
  "fetchSignedPolicy compileYaml ed sha256Hex answer pinnedKeys minVersion =
     (case answer of
        Unreachable \<Rightarrow> Inl SourceUnreachable
      | Status n \<Rightarrow> Inl (SourceStatus n)
      | Body t doc \<Rightarrow>
          if int (length t) > MAX_SIGNED_BODY_BYTES then Inl TooLargeBundle
          else (case verifyPolicyBundle ed sha256Hex doc pinnedKeys minVersion of
              Inl code \<Rightarrow> Inl (Rejected code)
            | Inr v \<Rightarrow>
                (case compileYaml (vb_policyYaml v) of
                   Inl e \<Rightarrow> Inl (DoesNotCompile e)
                 | Inr p \<Rightarrow> Inr \<lparr>sp_policy = p, sp_bundle = v\<rparr>)))"

definition fetchRemotePolicy :: "yaml_compiler \<Rightarrow> pull_answer \<Rightarrow> pull_error + (compiled_policy \<times> string)" where
  "fetchRemotePolicy compileYaml answer =
     (case answer of
        Unreachable \<Rightarrow> Inl SourceUnreachable
      | Status n \<Rightarrow> Inl (SourceStatus n)
      | Body t doc \<Rightarrow> (case compileYaml t of Inl e \<Rightarrow> Inl (DoesNotCompile e) | Inr p \<Rightarrow> Inr (p, t)))"

definition fetchRevocationSet :: "ed25519 \<Rightarrow> pull_answer \<Rightarrow> string list \<Rightarrow> int \<Rightarrow> pull_error + verified_set" where
  "fetchRevocationSet ed answer pinnedKeys minVersion =
     (case answer of
        Unreachable \<Rightarrow> Inl SourceUnreachable
      | Status n \<Rightarrow> Inl (SourceStatus n)
      | Body t doc \<Rightarrow> (case verifyRevocationSet ed doc pinnedKeys minVersion of Inl code \<Rightarrow> Inl (Rejected code) | Inr v \<Rightarrow> Inr v))"

end
