(* ===== verification/Distribution_Refresh.thy ===== *)
theory Distribution_Refresh
  imports Distribution Approvals
begin

text \<open>
  Adopting what was pulled: the refresh steps (\<^verbatim>\<open>distribution/refresh.ts\<close>,
  \<^verbatim>\<open>revocation/refresh.ts\<close>), adoption at startup (\<^verbatim>\<open>cli/run-profiles.ts\<close> and the pulls of
  \<^verbatim>\<open>cli/run.ts\<close>) and the ticks of the two refresh loops with their staleness checks. A step reads
  the clock once; a tick reads it again for the staleness check.
\<close>

subsection \<open>The policy\<close>

record distribution_state =
  ds_version :: int
  ds_digest :: string
  ds_lastVerifiedPullAt :: ms

text \<open>What the refresh loop reads and writes. \<open>dw_history\<close> lists the calls of
  \<open>policyHistory.record\<close>.\<close>

record dist_world =
  dw_policies :: policy_store
  dw_versions :: version_store
  dw_state :: distribution_state
  dw_history :: "(string \<times> ms) list"
  dw_memory :: "approval_memory option"
  dw_closedForStaleness :: bool

definition onAdopted :: "string \<Rightarrow> ms \<Rightarrow> dist_world \<Rightarrow> dist_world" where
  "onAdopted yaml at w = w\<lparr>dw_history := dw_history w @ [(yaml, at)], dw_memory := map_option am_clear (dw_memory w)\<rparr>"

datatype not_adopted = PullFailed pull_error | ReloadFailed reload_error

record refreshed =
  rf_version :: int
  rf_digest :: string
  rf_grants :: nat
  rf_unchanged :: bool

definition with_policies :: "policy_store \<Rightarrow> dist_world \<Rightarrow> dist_world" where
  "with_policies ps w = w\<lparr>dw_policies := ps\<rparr>"

definition with_state :: "distribution_state \<Rightarrow> dist_world \<Rightarrow> dist_world" where
  "with_state st w = w\<lparr>dw_state := st\<rparr>"

text \<open>\<open>disk\<close> says whether the write of the version file succeeds; a failure is only warned about.\<close>

definition refreshOnce :: "yaml_compiler \<Rightarrow> ed25519 \<Rightarrow> (nat list \<Rightarrow> string) \<Rightarrow> string list \<Rightarrow> bool \<Rightarrow> pull_answer \<Rightarrow> ms
    \<Rightarrow> dist_world \<Rightarrow> (not_adopted + refreshed) \<times> dist_world" where
  "refreshOnce compileYaml ed sha256Hex pinnedKeys disk answer now w =
     (case fetchSignedPolicy compileYaml ed sha256Hex answer pinnedKeys (version_floor (dw_versions w)) of
        Inl e \<Rightarrow> (Inl (PullFailed e), w)
      | Inr pull \<Rightarrow>
          let b = sp_bundle pull;
              entries = (case vb_profiles b of None \<Rightarrow> [] | Some es \<Rightarrow> es)
          in (case policy_reload compileYaml (vb_policyYaml b) (Some entries) (dw_policies w) of
                (Inl e, ps) \<Rightarrow> (Inl (ReloadFailed e), with_policies ps w)
              | (Inr (grants, previous), ps) \<Rightarrow>
                  let digestChanged = (vb_digest b \<noteq> ds_digest (dw_state w));
                      w1 = with_state \<lparr>ds_version = vb_version b, ds_digest = vb_digest b, ds_lastVerifiedPullAt = now\<rparr>
                             (with_policies ps w);
                      result = \<lparr>rf_version = vb_version b, rf_digest = vb_digest b, rf_grants = grants,
                                rf_unchanged = vb_unchanged b\<rparr>
                  in if vb_unchanged b
                     then (Inr result, if digestChanged then onAdopted (vb_policyYaml b) now w1 else w1)
                     else let w2 = onAdopted (vb_policyYaml b) now w1
                          in (Inr result, w2\<lparr>dw_versions := snd (version_accept disk (vb_version b) (dw_versions w2))\<rparr>)))"

definition policyDigest :: "(nat list \<Rightarrow> string) \<Rightarrow> string \<Rightarrow> string" where
  "policyDigest sha256Hex policyYaml = take 12 (sha256Hex (utf8 policyYaml))"

definition refreshUnsignedOnce :: "yaml_compiler \<Rightarrow> (nat list \<Rightarrow> string) \<Rightarrow> pull_answer \<Rightarrow> ms
    \<Rightarrow> dist_world \<Rightarrow> (not_adopted + refreshed) \<times> dist_world" where
  "refreshUnsignedOnce compileYaml sha256Hex answer now w =
     (case fetchRemotePolicy compileYaml answer of
        Inl e \<Rightarrow> (Inl (PullFailed e), w)
      | Inr (_, yaml) \<Rightarrow>
          (case policy_reload compileYaml yaml None (dw_policies w) of
             (Inl e, ps) \<Rightarrow> (Inl (ReloadFailed e), with_policies ps w)
           | (Inr (grants, previous), ps) \<Rightarrow>
               let digest = policyDigest sha256Hex yaml;
                   unchanged = (digest = ds_digest (dw_state w));
                   w1 = with_state ((dw_state w)\<lparr>ds_lastVerifiedPullAt := now, ds_digest := digest\<rparr>) (with_policies ps w);
                   result = \<lparr>rf_version = ds_version (dw_state w), rf_digest = digest, rf_grants = grants,
                             rf_unchanged = unchanged\<rparr>
               in (Inr result, if unchanged then w1 else onAdopted yaml now w1)))"

definition isStale :: "distribution_state \<Rightarrow> int option \<Rightarrow> ms \<Rightarrow> bool" where
  "isStale st maxAgeSeconds now =
     (case maxAgeSeconds of None \<Rightarrow> False | Some a \<Rightarrow> now - ds_lastVerifiedPullAt st > a * 1000)"

definition denyAllYaml :: "string \<Rightarrow> string \<Rightarrow> string" where
  "denyAllYaml agent onBehalfOf =
     ''agent: '' @ json_quote agent @ newline # ''on_behalf_of: '' @ json_quote onBehalfOf @ newline #
     ''grants: []'' @ [newline]"

record source_cfg =
  sr_max_age_seconds :: "int option"
  sr_fail_closed :: bool

text \<open>\<open>started\<close> is the policy the proxy booted on, whose names the deny-all document carries.\<close>

definition checkStaleness :: "yaml_compiler \<Rightarrow> source_cfg \<Rightarrow> compiled_policy \<Rightarrow> ms \<Rightarrow> dist_world \<Rightarrow> dist_world" where
  "checkStaleness compileYaml src started now w =
     (if \<not> isStale (dw_state w) (sr_max_age_seconds src) now then w\<lparr>dw_closedForStaleness := False\<rparr>
      else if \<not> sr_fail_closed src then w
      else if dw_closedForStaleness w then w
      else case compileYaml (denyAllYaml (cp_agent started) (cp_onBehalfOf started)) of
        Inl _ \<Rightarrow> w
      | Inr denyAll \<Rightarrow> w\<lparr>dw_policies := closeAll denyAll (dw_policies w), dw_closedForStaleness := True\<rparr>)"

text \<open>One turn of the loop: a pull at \<open>t1\<close>, then the check at \<open>t2\<close>.\<close>

definition policy_tick :: "(ms \<Rightarrow> dist_world \<Rightarrow> (not_adopted + refreshed) \<times> dist_world) \<Rightarrow> yaml_compiler \<Rightarrow> source_cfg
    \<Rightarrow> compiled_policy \<Rightarrow> ms \<Rightarrow> ms \<Rightarrow> dist_world \<Rightarrow> dist_world" where
  "policy_tick refresh compileYaml src started t1 t2 w = checkStaleness compileYaml src started t2 (snd (refresh t1 w))"

record loop_turn =
  lt_answer :: pull_answer
  lt_disk :: bool
  lt_pulled :: ms
  lt_checked :: ms

definition signed_turn :: "yaml_compiler \<Rightarrow> ed25519 \<Rightarrow> (nat list \<Rightarrow> string) \<Rightarrow> string list \<Rightarrow> source_cfg \<Rightarrow> compiled_policy
    \<Rightarrow> dist_world \<Rightarrow> loop_turn \<Rightarrow> dist_world" where
  "signed_turn compileYaml ed sha256Hex pinnedKeys src started w t =
     policy_tick (refreshOnce compileYaml ed sha256Hex pinnedKeys (lt_disk t) (lt_answer t)) compileYaml src started
       (lt_pulled t) (lt_checked t) w"

definition unsigned_turn :: "yaml_compiler \<Rightarrow> (nat list \<Rightarrow> string) \<Rightarrow> source_cfg \<Rightarrow> compiled_policy
    \<Rightarrow> dist_world \<Rightarrow> loop_turn \<Rightarrow> dist_world" where
  "unsigned_turn compileYaml sha256Hex src started w t =
     policy_tick (refreshUnsignedOnce compileYaml sha256Hex (lt_answer t)) compileYaml src started
       (lt_pulled t) (lt_checked t) w"

subsection \<open>The fleet kill set\<close>

record revocation_state =
  rd_version :: int
  rd_count :: nat
  rd_expiresAt :: "int option"
  rd_lastVerifiedPullAt :: ms
  rd_staleClosed :: bool

record revocation_world =
  rw_fleet :: fleet_store
  rw_state :: revocation_state
  rw_warned :: bool

datatype set_not_adopted = SetPullFailed pull_error | PersistFailed

definition refreshRevocationsOnce :: "ed25519 \<Rightarrow> string list \<Rightarrow> bool \<Rightarrow> pull_answer \<Rightarrow> ms \<Rightarrow> revocation_world
    \<Rightarrow> (set_not_adopted + verified_set) \<times> revocation_world" where
  "refreshRevocationsOnce ed pinnedKeys disk answer now w =
     (case fetchRevocationSet ed answer pinnedKeys (fleet_floor (rw_fleet w)) of
        Inl e \<Rightarrow> (Inl (SetPullFailed e), w)
      | Inr res \<Rightarrow>
          let verified = (\<lambda>st. st\<lparr>rd_version := vs2_version res, rd_lastVerifiedPullAt := now\<rparr>) in
          if vs2_unchanged res then (Inr res, w\<lparr>rw_state := verified (rw_state w)\<rparr>)
          else (case fleet_replace disk (vs2_revokedAgents res) (vs2_version res) (vs2_expiresAt res) (rw_fleet w) of
              (Inl _, fl) \<Rightarrow> (Inl PersistFailed, w\<lparr>rw_fleet := fl\<rparr>)
            | (Inr _, fl) \<Rightarrow>
                (Inr res, w\<lparr>rw_fleet := fl,
                  rw_state := verified ((rw_state w)\<lparr>rd_count := length (vs2_revokedAgents res),
                                                     rd_expiresAt := vs2_expiresAt res\<rparr>)\<rparr>)))"

definition isRevocationStale :: "revocation_state \<Rightarrow> int option \<Rightarrow> ms \<Rightarrow> bool" where
  "isRevocationStale st maxAgeSeconds nowMs \<longleftrightarrow>
     (case maxAgeSeconds of None \<Rightarrow> False | Some a \<Rightarrow> nowMs - rd_lastVerifiedPullAt st > a * 1000)
     \<or> (case rd_expiresAt st of None \<Rightarrow> False | Some e \<Rightarrow> nowMs > e * 1000)"

definition checkRevocationStaleness :: "source_cfg \<Rightarrow> ms \<Rightarrow> revocation_world \<Rightarrow> revocation_world" where
  "checkRevocationStaleness src now w =
     (if \<not> isRevocationStale (rw_state w) (sr_max_age_seconds src) now
      then w\<lparr>rw_state := (rw_state w)\<lparr>rd_staleClosed := False\<rparr>, rw_warned := False\<rparr>
      else if \<not> sr_fail_closed src then w\<lparr>rw_warned := True\<rparr>
      else w\<lparr>rw_state := (rw_state w)\<lparr>rd_staleClosed := True\<rparr>\<rparr>)"

definition revocation_turn :: "ed25519 \<Rightarrow> string list \<Rightarrow> source_cfg \<Rightarrow> revocation_world \<Rightarrow> loop_turn \<Rightarrow> revocation_world" where
  "revocation_turn ed pinnedKeys src w t =
     checkRevocationStaleness src (lt_checked t)
       (snd (refreshRevocationsOnce ed pinnedKeys (lt_disk t) (lt_answer t) (lt_pulled t) w))"

subsection \<open>Startup\<close>

text \<open>\<open>accept\<close> is not guarded at startup: a failed write ends the process.\<close>

datatype start_refusal =
    MissingOrgToken
  | BadVersionFile store_error
  | ProfilesUnusable string merge_code
  | FloorNotPersisted
  | BadPolicySet reload_error

definition adoptSignedStartup :: "yaml_compiler \<Rightarrow> signed_pull \<Rightarrow> string set \<Rightarrow> version_store \<Rightarrow> bool
    \<Rightarrow> (start_refusal + profile_entry list) \<times> version_store" where
  "adoptSignedStartup compileYaml signed declaredNames versions disk =
     (let entries = (case vb_profiles (sp_bundle signed) of None \<Rightarrow> [] | Some es \<Rightarrow> es) in
      case mergeProfilesOverDefault compileYaml (sp_policy signed) entries declaredNames of
        Inl (name, code) \<Rightarrow> (Inl (ProfilesUnusable name code), versions)
      | Inr _ \<Rightarrow>
          (case version_accept disk (vb_version (sp_bundle signed)) versions of
             (Inl _, vs) \<Rightarrow> (Inl FloorNotPersisted, vs)
           | (Inr _, vs) \<Rightarrow> (Inr entries, vs)))"

definition startupProfileEntries :: "bool \<Rightarrow> bool \<Rightarrow> profile_entry list \<Rightarrow> profile_entry list \<Rightarrow> profile_entry list" where
  "startupProfileEntries signedMode signedPullOk bundleEntries localEntries =
     (if signedMode then (if signedPullOk then bundleEntries else []) else localEntries)"

text \<open>What starting needs: the source of \<open>policy_source\<close> (whether a token is stored, the pinned
  keys), the version file, and the local policy with its profiles.\<close>

record start_input =
  si_source :: "(bool \<times> string list) option"
  si_versionFile :: file_content
  si_disk :: bool
  si_answer :: pull_answer
  si_now :: ms
  si_policy :: compiled_policy
  si_entries :: "profile_entry list"
  si_declared :: "string set"

record booted =
  bo_policy :: compiled_policy
  bo_entries :: "profile_entry list"
  bo_pullOk :: bool
  bo_versions :: "version_store option"
  bo_state :: distribution_state
  bo_refreshes :: bool

definition boot_local :: "start_input \<Rightarrow> booted" where
  "boot_local i = \<lparr>bo_policy = si_policy i, bo_entries = [], bo_pullOk = False, bo_versions = None,
     bo_state = \<lparr>ds_version = 0, ds_digest = [], ds_lastVerifiedPullAt = 0\<rparr>, bo_refreshes = False\<rparr>"

definition pull_signed_start :: "yaml_compiler \<Rightarrow> ed25519 \<Rightarrow> (nat list \<Rightarrow> string) \<Rightarrow> string list \<Rightarrow> start_input
    \<Rightarrow> start_refusal + booted" where
  "pull_signed_start compileYaml ed sha256Hex pinnedKeys i =
     (case version_open (si_versionFile i) of
        Inl e \<Rightarrow> Inl (BadVersionFile e)
      | Inr versions \<Rightarrow>
          (case fetchSignedPolicy compileYaml ed sha256Hex (si_answer i) pinnedKeys (version_floor versions) of
             Inl _ \<Rightarrow> Inr ((boot_local i)\<lparr>bo_versions := Some versions, bo_refreshes := True\<rparr>)
           | Inr signed \<Rightarrow>
               (case adoptSignedStartup compileYaml signed (si_declared i) versions (si_disk i) of
                  (Inl r, _) \<Rightarrow> Inl r
                | (Inr entries, versions') \<Rightarrow>
                    Inr \<lparr>bo_policy = sp_policy signed, bo_entries = entries, bo_pullOk = True,
                         bo_versions = Some versions',
                         bo_state = \<lparr>ds_version = vb_version (sp_bundle signed), ds_digest = vb_digest (sp_bundle signed),
                                     ds_lastVerifiedPullAt = si_now i\<rparr>,
                         bo_refreshes = True\<rparr>)))"

definition pull_unsigned_start :: "yaml_compiler \<Rightarrow> (nat list \<Rightarrow> string) \<Rightarrow> start_input \<Rightarrow> booted" where
  "pull_unsigned_start compileYaml sha256Hex i =
     (let b = (boot_local i)\<lparr>bo_refreshes := True\<rparr> in
      case fetchRemotePolicy compileYaml (si_answer i) of
        Inl _ \<Rightarrow> b
      | Inr (p, yaml) \<Rightarrow> b\<lparr>bo_policy := p, bo_state := \<lparr>ds_version = 0, ds_digest = policyDigest sha256Hex yaml,
                              ds_lastVerifiedPullAt = si_now i\<rparr>\<rparr>)"

definition boot :: "yaml_compiler \<Rightarrow> ed25519 \<Rightarrow> (nat list \<Rightarrow> string) \<Rightarrow> start_input \<Rightarrow> start_refusal + booted" where
  "boot compileYaml ed sha256Hex i =
     (case si_source i of
        None \<Rightarrow> Inr (boot_local i)
      | Some (hasToken, pinnedKeys) \<Rightarrow>
          if \<not> hasToken then (if pinnedKeys \<noteq> [] then Inl MissingOrgToken else Inr (boot_local i))
          else if pinnedKeys \<noteq> [] then pull_signed_start compileYaml ed sha256Hex pinnedKeys i
          else Inr (pull_unsigned_start compileYaml sha256Hex i))"

definition signedMode :: "start_input \<Rightarrow> bool" where
  "signedMode i \<longleftrightarrow> (case si_source i of None \<Rightarrow> False | Some (hasToken, pinnedKeys) \<Rightarrow> pinnedKeys \<noteq> [])"

definition start_policies :: "yaml_compiler \<Rightarrow> ed25519 \<Rightarrow> (nat list \<Rightarrow> string) \<Rightarrow> start_input
    \<Rightarrow> start_refusal + booted \<times> policy_store" where
  "start_policies compileYaml ed sha256Hex i =
     (case boot compileYaml ed sha256Hex i of
        Inl r \<Rightarrow> Inl r
      | Inr b \<Rightarrow>
          (case new_policy_store compileYaml (bo_policy b) (si_declared i)
               (startupProfileEntries (signedMode i) (bo_pullOk b) (bo_entries b) (si_entries i)) of
             Inl e \<Rightarrow> Inl (BadPolicySet e)
           | Inr ps \<Rightarrow> Inr (b, ps)))"

text \<open>The first adoption of the fleet set, over the store opened from its file.\<close>

definition seed_revocations :: "fleet_store \<Rightarrow> revocation_world" where
  "seed_revocations fl = \<lparr>rw_fleet = fl,
     rw_state = \<lparr>rd_version = fl_ver fl, rd_count = fleet_count fl, rd_expiresAt = fl_expiry fl,
                 rd_lastVerifiedPullAt = 0, rd_staleClosed = False\<rparr>,
     rw_warned = False\<rparr>"

definition start_revocations :: "ed25519 \<Rightarrow> string list \<Rightarrow> file_content \<Rightarrow> bool \<Rightarrow> pull_answer \<Rightarrow> ms
    \<Rightarrow> store_error + revocation_world" where
  "start_revocations ed pinnedKeys file disk answer now =
     (case fleet_open file of
        Inl e \<Rightarrow> Inl e
      | Inr fl \<Rightarrow>
          let w = seed_revocations fl in
          (case fetchRevocationSet ed answer pinnedKeys (fleet_floor fl) of
             Inl _ \<Rightarrow> Inr w
           | Inr res \<Rightarrow>
               let (adopted, fl') =
                 (if vs2_unchanged res then (True, fl)
                  else case fleet_replace disk (vs2_revokedAgents res) (vs2_version res) (vs2_expiresAt res) fl of
                    (Inl _, f) \<Rightarrow> (False, f) | (Inr _, f) \<Rightarrow> (True, f))
               in Inr (w\<lparr>rw_fleet := fl',
                    rw_state := (if \<not> adopted then rw_state w
                      else (rw_state w)\<lparr>rd_version := vs2_version res, rd_count := length (vs2_revokedAgents res),
                             rd_expiresAt := vs2_expiresAt res, rd_lastVerifiedPullAt := now\<rparr>)\<rparr>)))"

end
