(* ===== verification/Distribution_Props.thy ===== *)
theory Distribution_Props
  imports Distribution_Refresh
begin

text \<open>
  What signed distribution promises: the bytes a signature covers determine what was signed, a
  policy or a kill set; nothing is adopted that a pinned key has not signed, or that is older than
  what was adopted; a failed pull leaves everything as it is; and a source that is not confirmed in
  time closes the proxy where \<open>on_stale: fail_closed\<close> asks for it.
\<close>

subsection \<open>What a signature covers\<close>

lemma split_last_newline:
  assumes "newline \<notin> set b" "newline \<notin> set d"
  shows "a @ newline # b = c @ newline # d \<longleftrightarrow> a = c \<and> b = d"
proof
  assume "a @ newline # b = c @ newline # d"
  then have eq: "rev b @ newline # rev a = rev d @ newline # rev c" by (metis append.assoc append_Cons append_Nil rev.simps(2) rev_append rev_rev_ident)
  have tw: "takeWhile (\<lambda>x. x \<noteq> newline) (rev u @ newline # v) = rev u" if "newline \<notin> set u" for u v
    using that by (subst takeWhile_append2) auto
  from eq have "rev b = rev d" using tw [OF assms(1), of "rev a"] tw [OF assms(2), of "rev c"] by simp
  with eq show "a = c \<and> b = d" by simp
qed simp

lemma show_int_line: "show_int n @ newline # x = show_int m @ newline # y \<longleftrightarrow> n = m \<and> x = y"
  using show_int_prefix [of n "newline # x" m "newline # y"] by (auto simp: ends_number_def newline_def digit_char_def)

lemma canonicalProfiles_no_newline: "newline \<notin> set (canonicalProfiles ps)"
  unfolding canonicalProfiles_def newline_def by (rule json_text_no_newline)

lemma canonicalProfiles_eq:
  "canonicalProfiles ps = canonicalProfiles qs \<longleftrightarrow> sort_key pe_name ps = sort_key pe_name qs"
proof
  let ?f = "\<lambda>p :: profile_entry. JArr [JStr (pe_name p), JStr (pe_policy p)]"
  assume "canonicalProfiles ps = canonicalProfiles qs"
  then have "map ?f (sort_key pe_name ps) = map ?f (sort_key pe_name qs)" by (simp add: canonicalProfiles_def del: json_text.simps)
  moreover have "inj ?f" by (auto intro!: injI profile_entry.equality)
  ultimately show "sort_key pe_name ps = sort_key pe_name qs" by (simp only: inj_map_eq_map)
qed (simp add: canonicalProfiles_def)

lemma bundle_body_eq:
  "bundle_body v p ps = bundle_body v' p' ps' \<longleftrightarrow>
     v = v' \<and> p = p' \<and> map_option (sort_key pe_name) ps = map_option (sort_key pe_name) ps'"
  by (cases ps; cases ps')
     (simp_all add: bundle_body_def show_int_line split_last_newline canonicalProfiles_no_newline canonicalProfiles_eq)

lemma not_the_revocation_domain: "bundle_body v p ps \<noteq> REVOCATION_DOMAIN @ x"
  by (cases ps) (simp_all add: bundle_body_def REVOCATION_DOMAIN_def)

lemma sorted_set_eq: "sort (remdups xs) = sort (remdups ys) \<longleftrightarrow> set xs = set (ys :: 'a :: linorder list)"
  by (metis set_remdups set_sort sorted_list_of_set_sort_remdups)

lemma null_or_num_eq [simp]: "null_or_num a = null_or_num b \<longleftrightarrow> a = b"
  by (cases a; cases b) (auto simp: null_or_num_def)

lemma inj_JStr: "inj JStr"
  by (simp add: inj_def)

lemma revocationMessage_eq:
  "revocationMessage v agents e = revocationMessage v' agents' e' \<longleftrightarrow> v = v' \<and> set agents = set agents' \<and> e = e'"
  by (auto simp: revocationMessage_def show_int_line canonicalRevocationPayload_def sorted_set_eq inj_JStr
      simp del: json_text.simps dest: sorted_set_eq [THEN iffD1])

subsection \<open>Verified bundles and sets\<close>

definition signed_by :: "ed25519 \<Rightarrow> string list \<Rightarrow> nat list \<Rightarrow> bool" where
  "signed_by ed pinnedKeys msg \<longleftrightarrow> (\<exists>key\<in>set pinnedKeys. \<exists>sig. ed key sig msg)"

definition entries_of :: "profile_entry list option \<Rightarrow> profile_entry list" where
  "entries_of profiles = (case profiles of None \<Rightarrow> [] | Some es \<Rightarrow> es)"

lemma verified_bundleD:
  assumes "verifyPolicyBundle ed sha doc pinnedKeys minVersion = Inr v"
  shows "signed_by ed pinnedKeys (bundleSignatureMessage (vb_version v) (vb_policyYaml v) (vb_profiles v))"
    and "minVersion \<le> vb_version v" and "vb_unchanged v \<longleftrightarrow> vb_version v = minVersion"
    and "vb_digest v = bundleDigest sha (vb_policyYaml v) (vb_profiles v)"
  using assms
  unfolding verifyPolicyBundle_def signed_by_def Let_def list_ex_iff
  by (auto split: option.splits if_splits; blast)+

lemma verified_setD:
  assumes "verifyRevocationSet ed doc pinnedKeys minVersion = Inr v"
  shows "signed_by ed pinnedKeys (revocationMessage (vs2_version v) (vs2_revokedAgents v) (vs2_expiresAt v))"
    and "minVersion \<le> vs2_version v" and "vs2_unchanged v \<longleftrightarrow> vs2_version v = minVersion"
    and "sort (remdups (vs2_revokedAgents v)) = vs2_revokedAgents v"
proof -
  from assms obtain r :: revocation_set where r: "list_ex (\<lambda>key. ed key (rs_signature r) (revocationMessage (rs_version r) (rs_agents r) (rs_expires r))) pinnedKeys"
    "minVersion \<le> rs_version r"
    "v = \<lparr>vs2_version = rs_version r, vs2_revokedAgents = sort (remdups (rs_agents r)),
          vs2_expiresAt = rs_expires r, vs2_unchanged = (rs_version r = minVersion)\<rparr>"
    by (auto simp: verifyRevocationSet_def Let_def not_less split: option.splits if_splits)
  have "revocationMessage (rs_version r) (sort (remdups (rs_agents r))) (rs_expires r)
      = revocationMessage (rs_version r) (rs_agents r) (rs_expires r)"
    by (simp add: revocationMessage_eq)
  with r(1) r(3) show "signed_by ed pinnedKeys (revocationMessage (vs2_version v) (vs2_revokedAgents v) (vs2_expiresAt v))"
    by (auto simp: signed_by_def list_ex_iff)
  show "minVersion \<le> vs2_version v" "vs2_unchanged v \<longleftrightarrow> vs2_version v = minVersion" using r by simp_all
  show "sort (remdups (vs2_revokedAgents v)) = vs2_revokedAgents v"
    using r(3) by (simp add: sorted_sort_id distinct_remdups_id)
qed

lemma signed_pullD:
  assumes "fetchSignedPolicy cy ed sha answer pinnedKeys minVersion = Inr p"
  shows "signed_by ed pinnedKeys (bundleSignatureMessage (vb_version (sp_bundle p)) (vb_policyYaml (sp_bundle p)) (vb_profiles (sp_bundle p)))"
    and "minVersion \<le> vb_version (sp_bundle p)"
    and "vb_unchanged (sp_bundle p) \<longleftrightarrow> vb_version (sp_bundle p) = minVersion"
    and "cy (vb_policyYaml (sp_bundle p)) = Inr (sp_policy p)"
  using assms verified_bundleD
  by (fastforce simp: fetchSignedPolicy_def split: pull_answer.splits if_splits sum.splits)+

lemma set_pullD:
  assumes "fetchRevocationSet ed answer pinnedKeys minVersion = Inr v"
  shows "signed_by ed pinnedKeys (revocationMessage (vs2_version v) (vs2_revokedAgents v) (vs2_expiresAt v))"
    and "minVersion \<le> vs2_version v" and "vs2_unchanged v \<longleftrightarrow> vs2_version v = minVersion"
    and "sort (remdups (vs2_revokedAgents v)) = vs2_revokedAgents v"
  using assms verified_setD by (auto simp: fetchRevocationSet_def split: pull_answer.splits if_splits sum.splits)

subsection \<open>One refresh\<close>

lemma with_policies_same [simp]: "with_policies (dw_policies w) w = w"
  by (simp add: with_policies_def)

lemma reload_rejected: "policy_reload cy yaml es s = (Inl e, s') \<Longrightarrow> s' = s"
  by (auto simp: policy_reload_def Let_def split: sum.splits option.splits)

lemma reload_accepted:
  "policy_reload cy yaml es s = (Inr r, s') \<Longrightarrow>
     cy yaml = Inr (pol_def s') \<and> pol_closed s' = None \<and> pol_declaredNames s' = pol_declaredNames s
     \<and> pol_entries s' = (case es of None \<Rightarrow> pol_entries s | Some e \<Rightarrow> e)"
  by (auto simp: policy_reload_def Let_def split: sum.splits option.splits)

lemma onAdopted_frame [simp]:
  "dw_policies (onAdopted y t w) = dw_policies w" "dw_versions (onAdopted y t w) = dw_versions w"
  "dw_state (onAdopted y t w) = dw_state w" "dw_closedForStaleness (onAdopted y t w) = dw_closedForStaleness w"
  by (simp_all add: onAdopted_def)

lemma with_frame [simp]:
  "dw_policies (with_policies ps w) = ps" "dw_versions (with_policies ps w) = dw_versions w"
  "dw_state (with_policies ps w) = dw_state w" "dw_closedForStaleness (with_policies ps w) = dw_closedForStaleness w"
  "dw_policies (with_state st w) = dw_policies w" "dw_versions (with_state st w) = dw_versions w"
  "dw_state (with_state st w) = st" "dw_closedForStaleness (with_state st w) = dw_closedForStaleness w"
  by (simp_all add: with_policies_def with_state_def)

lemma version_accept_floor: "version_floor (snd (version_accept disk v s)) = max v (version_floor s)"
  by (simp add: version_accept_def version_floor_def Let_def)

lemma refresh_failed: "refreshOnce cy ed sha keys disk answer now w = (Inl e, w') \<Longrightarrow> w' = w"
  by (auto simp: refreshOnce_def Let_def split: sum.splits prod.splits if_splits dest!: reload_rejected)

lemma refresh_unsigned_failed: "refreshUnsignedOnce cy sha answer now w = (Inl e, w') \<Longrightarrow> w' = w"
  by (auto simp: refreshUnsignedOnce_def Let_def split: sum.splits prod.splits if_splits dest!: reload_rejected)

lemma refresh_adopts:
  assumes "refreshOnce cy ed sha keys disk answer now w = (Inr r, w')"
  obtains yaml profiles where
    "signed_by ed keys (bundleSignatureMessage (ds_version (dw_state w')) yaml profiles)"
    "cy yaml = Inr (pol_def (dw_policies w'))" "pol_entries (dw_policies w') = entries_of profiles"
    "version_floor (dw_versions w) \<le> ds_version (dw_state w')"
    "version_floor (dw_versions w') = ds_version (dw_state w')"
    "pol_closed (dw_policies w') = None" "ds_lastVerifiedPullAt (dw_state w') = now"
    "dw_closedForStaleness w' = dw_closedForStaleness w"
proof -
  from assms obtain pull where pull: "fetchSignedPolicy cy ed sha answer keys (version_floor (dw_versions w)) = Inr pull"
    by (auto simp: refreshOnce_def Let_def split: sum.splits)
  let ?b = "sp_bundle pull"
  from assms pull obtain g ps where ps: "policy_reload cy (vb_policyYaml ?b) (Some (entries_of (vb_profiles ?b))) (dw_policies w) = (Inr g, ps)"
    by (auto simp: refreshOnce_def Let_def entries_of_def split: sum.splits prod.splits)
  note s = signed_pullD [OF pull] and a = reload_accepted [OF ps]
  have w': "dw_policies w' = ps" "ds_version (dw_state w') = vb_version ?b" "ds_lastVerifiedPullAt (dw_state w') = now"
    "dw_closedForStaleness w' = dw_closedForStaleness w"
    "version_floor (dw_versions w') = (if vb_unchanged ?b then version_floor (dw_versions w) else max (vb_version ?b) (version_floor (dw_versions w)))"
    using assms pull ps
    by (auto simp: refreshOnce_def Let_def entries_of_def version_accept_floor split: prod.splits if_splits)
  show thesis by (rule that [of "vb_policyYaml ?b" "vb_profiles ?b"]) (use s a w' in \<open>auto simp: max_def\<close>)
qed

lemma refresh_unsigned_adopts:
  assumes "refreshUnsignedOnce cy sha answer now w = (Inr r, w')"
  shows "pol_closed (dw_policies w') = None" "ds_lastVerifiedPullAt (dw_state w') = now"
    "dw_closedForStaleness w' = dw_closedForStaleness w"
  using assms
  by (auto simp: refreshUnsignedOnce_def Let_def split: sum.splits prod.splits if_splits dest!: reload_accepted)

end
