(* ===== verification/Distribution_Claims.thy ===== *)
theory Distribution_Claims
  imports Distribution_Props Policy_Props Access_Props "HOL-Library.Multiset"
begin

text \<open>
  The properties of signed distribution, each with a witness: what signatures bind, that only
  signed and newer documents are adopted whatever the endpoint answers, that a proxy closes when
  its policy cannot be confirmed and opens again when it is, and how it boots.
\<close>

subsection \<open>The refresh loop, signed or not\<close>

locale refresh_loop =
  fixes pull :: "loop_turn \<Rightarrow> ms \<Rightarrow> dist_world \<Rightarrow> (not_adopted + refreshed) \<times> dist_world"
  assumes fails: "pull t now w = (Inl e, w') \<Longrightarrow> w' = w"
    and adopts: "pull t now w = (Inr r, w') \<Longrightarrow> pol_closed (dw_policies w') = None
      \<and> ds_lastVerifiedPullAt (dw_state w') = now \<and> dw_closedForStaleness w' = dw_closedForStaleness w"
begin

definition turn :: "yaml_compiler \<Rightarrow> source_cfg \<Rightarrow> compiled_policy \<Rightarrow> dist_world \<Rightarrow> loop_turn \<Rightarrow> dist_world" where
  "turn cy src started w t = policy_tick (pull t) cy src started (lt_pulled t) (lt_checked t) w"

definition closed_when_flagged :: "compiled_policy \<Rightarrow> dist_world \<Rightarrow> bool" where
  "closed_when_flagged d w \<longleftrightarrow> (dw_closedForStaleness w \<longrightarrow> pol_closed (dw_policies w) = Some d)"

lemma check_closes:
  assumes "sr_fail_closed src" and "cy (denyAllYaml (cp_agent started) (cp_onBehalfOf started)) = Inr d"
    and "isStale (dw_state w) (sr_max_age_seconds src) now \<longrightarrow> closed_when_flagged d w"
  shows "closed_when_flagged d (checkStaleness cy src started now w)"
    and "isStale (dw_state w) (sr_max_age_seconds src) now \<Longrightarrow> pol_closed (dw_policies (checkStaleness cy src started now w)) = Some d"
    and "dw_state (checkStaleness cy src started now w) = dw_state w"
  using assms by (auto simp: checkStaleness_def closed_when_flagged_def closeAll_def)

lemma turn_closes:
  assumes src: "sr_fail_closed src" "sr_max_age_seconds src = Some a"
    and d: "cy (denyAllYaml (cp_agent started) (cp_onBehalfOf started)) = Inr d"
    and quick: "lt_checked t - lt_pulled t \<le> a * 1000" and inv: "closed_when_flagged d w"
  shows "closed_when_flagged d (turn cy src started w t)"
    and "isStale (dw_state (turn cy src started w t)) (Some a) (lt_checked t) \<Longrightarrow>
      pol_closed (dw_policies (turn cy src started w t)) = Some d"
proof -
  obtain res w1 where p: "pull t (lt_pulled t) w = (res, w1)" by fastforce
  have ok: "isStale (dw_state w1) (sr_max_age_seconds src) (lt_checked t) \<longrightarrow> closed_when_flagged d w1"
  proof (cases res)
    case (Inl e)
    with fails [of t] p inv show ?thesis by auto
  next
    case (Inr r)
    with adopts [of t "lt_pulled t" w r w1] p quick src(2) show ?thesis by (simp add: isStale_def)
  qed
  have turn: "turn cy src started w t = checkStaleness cy src started (lt_checked t) w1"
    by (simp add: turn_def policy_tick_def p)
  show "closed_when_flagged d (turn cy src started w t)"
    unfolding turn by (rule check_closes(1) [where cy = cy, OF src(1) d ok])
  show "isStale (dw_state (turn cy src started w t)) (Some a) (lt_checked t) \<Longrightarrow>
      pol_closed (dw_policies (turn cy src started w t)) = Some d"
    using check_closes(2,3) [where cy = cy, OF src(1) d ok] src(2) unfolding turn by simp
qed

lemma turns_close:
  assumes src: "sr_fail_closed src" "sr_max_age_seconds src = Some a"
    and d: "cy (denyAllYaml (cp_agent started) (cp_onBehalfOf started)) = Inr d"
    and quick: "\<forall>t\<in>set (turns @ [t]). lt_checked t - lt_pulled t \<le> a * 1000" and start: "\<not> dw_closedForStaleness w"
    and stale: "isStale (dw_state (foldl (turn cy src started) w (turns @ [t]))) (Some a) (lt_checked t)"
  shows "policyFor (dw_policies (foldl (turn cy src started) w (turns @ [t]))) profile = Some d"
proof -
  have "closed_when_flagged d (foldl (turn cy src started) w turns)" using quick start
  proof (induction turns rule: rev_induct)
    case Nil
    then show ?case by (simp add: closed_when_flagged_def)
  next
    case (snoc x xs)
    then show ?case using turn_closes(1) [where cy = cy, OF src d] by simp
  qed
  with turn_closes(2) [where cy = cy and t = t, OF src d] quick stale show ?thesis by (simp add: policyFor_def)
qed

lemma adoption_reopens:
  assumes "pull t (lt_pulled t) w = (Inr r, w1)" and "sr_max_age_seconds src = Some a"
    and "lt_checked t - lt_pulled t \<le> a * 1000"
  shows "pol_closed (dw_policies (turn cy src started w t)) = None \<and> \<not> dw_closedForStaleness (turn cy src started w t)"
  using adopts [OF assms(1)] assms by (simp add: turn_def policy_tick_def checkStaleness_def isStale_def)

end

interpretation signed: refresh_loop "\<lambda>t. refreshOnce cy ed sha keys (lt_disk t) (lt_answer t)"
  by unfold_locales (auto dest: refresh_failed elim: refresh_adopts)

interpretation unsigned: refresh_loop "\<lambda>t. refreshUnsignedOnce cy sha (lt_answer t)"
  by unfold_locales (auto dest: refresh_unsigned_failed refresh_unsigned_adopts)

subsection \<open>What a signature binds\<close>

lemma signature_binds_the_bundle:
  "bundleSignatureMessage v p ps = bundleSignatureMessage v' p' ps' \<longleftrightarrow>
     v = v' \<and> p = p' \<and> map_option (sort_key pe_name) ps = map_option (sort_key pe_name) ps'"
  "bundleSignatureMessage v p ps \<noteq> revocationMessage w agents e"
  by (simp_all add: bundleSignatureMessage_def bundle_body_eq revocationMessage_def not_the_revocation_domain)

lemmas signature_binds_the_set = revocationMessage_eq signature_binds_the_bundle(2) [symmetric]


subsection \<open>Signing and verifying\<close>

lemma all_some_map: "list_all (\<lambda>x. f (g x) = Some x) xs \<Longrightarrow> all_some (map f (map g xs)) = Some xs"
  by (induction xs) auto

lemma parse_json_profile: "entry_ok p \<Longrightarrow> parse_profile_entry (json_profile p) = Some p"
  by (simp add: entry_ok_def parse_profile_entry_def json_profile_def has_only_def str_field_def)

lemma parse_json_profiles: "list_all entry_ok ps \<Longrightarrow> all_some (map parse_profile_entry (map json_profile ps)) = Some ps"
  by (rule all_some_map) (simp add: list_all_iff parse_json_profile)

text \<open>what the signer writes the verifier reads: a signed bundle of an allowed version verifies on any proxy that
  pins the key and has not accepted a later one, and yields exactly the policy, version and profiles signed.\<close>
theorem signed_bundle_verifies:
  assumes "signBundle sign policyYaml version profiles = Some doc" and "version_in_range version"
    and "length (entries_of profiles) \<le> 256" and "floor \<le> version"
    and "key \<in> set keys" and "\<And>m. ed key (sign m) m"
  shows "verifyPolicyBundle ed sha (Some doc) keys floor = Inr
    \<lparr>vb_version = version, vb_policyYaml = policyYaml, vb_digest = bundleDigest sha policyYaml profiles,
     vb_unchanged = (version = floor), vb_profiles = profiles\<rparr>"
proof -
  let ?b = "\<lparr>pb_version = version, pb_policy = policyYaml, pb_profiles = profiles,
             pb_signature = sign (bundleSignatureMessage version policyYaml profiles)\<rparr>"
  have ok: "case profiles of None \<Rightarrow> True | Some ps \<Rightarrow> list_all entry_ok ps \<and> distinct (map pe_name ps)"
    using assms(1) by (simp add: signBundle_def split: option.splits if_splits)
  have "parse_bundle doc = Some ?b"
    using assms(1-3) ok
    by (cases profiles)
       (auto simp: signBundle_def parse_bundle_def has_only_def num_field_def str_field_def entries_of_def
          parse_json_profiles simp del: map_map split: if_splits)
  moreover have "list_ex (\<lambda>k. ed k (pb_signature ?b) (bundleSignatureMessage version policyYaml profiles)) keys"
    using assms(5,6) by (auto simp: list_ex_iff)
  ultimately show ?thesis using ok assms(4) by (cases profiles) (simp_all add: verifyPolicyBundle_def Let_def)
qed

subsection \<open>Adoption\<close>

text \<open>The signatures are those the organisation made: of policy bundles and of kill sets.\<close>

definition org_signed :: "ed25519 \<Rightarrow> string list \<Rightarrow> (int \<times> string \<times> profile_entry list option) set
    \<Rightarrow> (int \<times> string list \<times> int option) set \<Rightarrow> bool" where
  "org_signed ed keys bundles sets \<longleftrightarrow>
     (\<forall>msg. signed_by ed keys msg \<longrightarrow>
        (\<exists>v p ps. (v, p, ps) \<in> bundles \<and> msg = bundleSignatureMessage v p ps)
        \<or> (\<exists>v as e. (v, as, e) \<in> sets \<and> msg = revocationMessage v as e))"

lemma sort_key_mset: "sort_key f xs = sort_key f ys \<Longrightarrow> mset xs = mset ys"
  by (metis mset_sort)

lemma org_signed_bundle:
  assumes "org_signed ed keys bundles sets" "signed_by ed keys (bundleSignatureMessage v p ps)"
  obtains qs where "(v, p, qs) \<in> bundles" "mset (entries_of ps) = mset (entries_of qs)"
proof -
  from assms signature_binds_the_bundle obtain qs where qs: "(v, p, qs) \<in> bundles" "map_option (sort_key pe_name) ps = map_option (sort_key pe_name) qs"
    unfolding org_signed_def by (metis)
  then have "mset (entries_of ps) = mset (entries_of qs)"
    by (cases ps; cases qs) (auto simp: entries_of_def dest: sort_key_mset)
  with qs(1) that show thesis by blast
qed

lemma org_signed_set:
  assumes "org_signed ed keys bundles sets" "signed_by ed keys (revocationMessage v as e)"
  obtains bs where "(v, bs, e) \<in> sets" "set as = set bs"
  using assms signature_binds_the_set unfolding org_signed_def by (metis)

text \<open>What a run of the signed loop has adopted since \<open>w\<close>.\<close>

definition adopted_since :: "yaml_compiler \<Rightarrow> ed25519 \<Rightarrow> string list \<Rightarrow> dist_world \<Rightarrow> dist_world \<Rightarrow> bool" where
  "adopted_since cy ed keys w w' \<longleftrightarrow>
     (pol_def (dw_policies w') = pol_def (dw_policies w) \<and> pol_entries (dw_policies w') = pol_entries (dw_policies w)
        \<and> dw_state w' = dw_state w \<and> dw_versions w' = dw_versions w)
   \<or> (\<exists>yaml profiles. signed_by ed keys (bundleSignatureMessage (ds_version (dw_state w')) yaml profiles)
        \<and> cy yaml = Inr (pol_def (dw_policies w')) \<and> pol_entries (dw_policies w') = entries_of profiles
        \<and> version_floor (dw_versions w) \<le> ds_version (dw_state w')
        \<and> version_floor (dw_versions w') = ds_version (dw_state w'))"

lemma check_adopts_nothing:
  "pol_def (dw_policies (checkStaleness cy src started now w)) = pol_def (dw_policies w)"
  "pol_entries (dw_policies (checkStaleness cy src started now w)) = pol_entries (dw_policies w)"
  "dw_state (checkStaleness cy src started now w) = dw_state w"
  "dw_versions (checkStaleness cy src started now w) = dw_versions w"
  by (auto simp: checkStaleness_def closeAll_def split: sum.split)

lemma turn_adopted:
  assumes "adopted_since cy ed keys w w1"
  shows "adopted_since cy ed keys w (signed_turn cy ed sha keys src started w1 t)"
proof -
  obtain res w2 where p: "refreshOnce cy ed sha keys (lt_disk t) (lt_answer t) (lt_pulled t) w1 = (res, w2)" by fastforce
  have "adopted_since cy ed keys w w2"
  proof (cases res)
    case (Inl e)
    with refresh_failed p assms show ?thesis by blast
  next
    case (Inr r)
    have "version_floor (dw_versions w) \<le> version_floor (dw_versions w1)"
      using assms by (auto simp: adopted_since_def)
    then show ?thesis
      by (rule_tac refresh_adopts [OF p [unfolded Inr]]) (auto simp: adopted_since_def)
  qed
  then show ?thesis
    by (simp add: signed_turn_def policy_tick_def p adopted_since_def check_adopts_nothing)
qed

lemma run_adopted: "adopted_since cy ed keys w (foldl (signed_turn cy ed sha keys src started) w turns)"
  by (induction turns rule: rev_induct) (simp_all add: turn_adopted, simp add: adopted_since_def)

text \<open>C15: whatever the endpoint answers, in however many turns, the proxy only ever runs policy the organisation
  signed, and never goes back: if no signature verifies but the organisation's, then after any run of the refresh
  loop either default, profiles, state and floor are those it started with, or the default is the compiled text of
  a signed bundle with exactly its profiles, of a version at least the floor at the start, which is the floor now.\<close>
theorem only_signed_policy_is_adopted:
  assumes "org_signed ed keys bundles sets"
    and "foldl (signed_turn cy ed sha keys src started) w turns = w'"
  shows "(pol_def (dw_policies w') = pol_def (dw_policies w) \<and> pol_entries (dw_policies w') = pol_entries (dw_policies w)
        \<and> dw_state w' = dw_state w \<and> dw_versions w' = dw_versions w)
    \<or> (\<exists>v yaml profiles. (v, yaml, profiles) \<in> bundles \<and> cy yaml = Inr (pol_def (dw_policies w'))
        \<and> mset (pol_entries (dw_policies w')) = mset (entries_of profiles)
        \<and> ds_version (dw_state w') = v \<and> version_floor (dw_versions w) \<le> v \<and> version_floor (dw_versions w') = v)"
  using run_adopted [of cy ed keys w sha src started turns] unfolding assms(2) adopted_since_def
proof (elim disjE exE conjE, goal_cases)
  case 1
  then show ?case by blast
next
  case (2 yaml profiles)
  obtain qs where "(ds_version (dw_state w'), yaml, qs) \<in> bundles" "mset (entries_of profiles) = mset (entries_of qs)"
    by (rule org_signed_bundle [OF assms(1) 2(1)])
  with 2 show ?case by metis
qed

subsection \<open>Staleness\<close>

lemma no_grants_denies: "cp_grants d = [] \<Longrightarrow> er_decision (evaluate d q) = Deny"
  by (simp add: evaluate_def)


text \<open>a closed proxy opens as soon as the source is confirmed: a turn that pulls, verifies and adopts a bundle, and checks
  staleness within \<open>max_age_seconds\<close> of the pull, leaves the store open on the adopted default, whatever it served before,
  and the loop ready to close again.\<close>
theorem adoption_reopens_the_proxy:
  assumes "refreshOnce cy ed sha keys (lt_disk t) (lt_answer t) (lt_pulled t) w = (Inr r, w1)"
    and "sr_max_age_seconds src = Some a" and "lt_checked t - lt_pulled t \<le> a * 1000"
  shows "policyFor (dw_policies (signed_turn cy ed sha keys src started w t)) None = Some (pol_def (dw_policies w1))
    \<and> \<not> isClosed (dw_policies (signed_turn cy ed sha keys src started w t))
    \<and> \<not> dw_closedForStaleness (signed_turn cy ed sha keys src started w t)"
proof -
  have turn: "signed_turn cy ed sha keys src started w t = checkStaleness cy src started (lt_checked t) w1"
    by (simp add: signed_turn_def policy_tick_def assms(1))
  have "signed_turn cy ed sha keys src started w t = signed.turn cy ed sha keys cy src started w t"
    by (simp add: signed.turn_def signed_turn_def)
  then show ?thesis
    using signed.adoption_reopens [OF assms] check_adopts_nothing(1) [of cy src started "lt_checked t" w1]
    by (simp add: policyFor_def isClosed_def turn)
qed

subsection \<open>The fleet kill set\<close>

definition persisted :: "fleet_store \<Rightarrow> bool" where
  "persisted fl \<longleftrightarrow> (\<exists>fl'. fleet_open (fl_file fl) = Inr fl' \<and> set (fl_revoked fl') = set (fl_revoked fl)
     \<and> fl_ver fl' = fl_ver fl \<and> fl_expiry fl' = fl_expiry fl)"

lemma replace_persists: "fleet_replace disk agents v e fl = (Inr u, fl') \<Longrightarrow> persisted fl'"
  by (auto simp: fleet_replace_def persisted_def fleet_open_def fleet_load_document Let_def split: if_splits)

definition set_since :: "ed25519 \<Rightarrow> string list \<Rightarrow> revocation_world \<Rightarrow> revocation_world \<Rightarrow> bool" where
  "set_since ed keys w w' \<longleftrightarrow> rw_fleet w' = rw_fleet w
     \<or> (let fl = rw_fleet w' in
        signed_by ed keys (revocationMessage (fl_ver fl) (fl_revoked fl) (fl_expiry fl))
        \<and> fleet_floor (rw_fleet w) < fl_ver fl \<and> persisted fl)"

lemma replace_failed: "fleet_replace disk agents v e fl = (Inl x, fl') \<Longrightarrow> fl' = fl"
  by (auto simp: fleet_replace_def Let_def split: if_splits)

lemma refresh_set:
  "rw_fleet (snd (refreshRevocationsOnce ed keys disk answer now w)) = rw_fleet w
   \<or> (let fl = rw_fleet (snd (refreshRevocationsOnce ed keys disk answer now w)) in
        signed_by ed keys (revocationMessage (fl_ver fl) (fl_revoked fl) (fl_expiry fl))
        \<and> fleet_floor (rw_fleet w) < fl_ver fl \<and> persisted fl)"
proof (cases "fetchRevocationSet ed answer keys (fleet_floor (rw_fleet w))")
  case (Inl e)
  then show ?thesis by (simp add: refreshRevocationsOnce_def)
next
  case (Inr res)
  note v = set_pullD [OF Inr]
  show ?thesis
  proof (cases "vs2_unchanged res")
    case True
    with Inr show ?thesis by (simp add: refreshRevocationsOnce_def Let_def)
  next
    case False
    obtain u fl where r: "fleet_replace disk (vs2_revokedAgents res) (vs2_version res) (vs2_expiresAt res) (rw_fleet w) = (u, fl)"
      by fastforce
    show ?thesis
    proof (cases u)
      case (Inl x)
      with r Inr False replace_failed [of disk] show ?thesis by (auto simp: refreshRevocationsOnce_def Let_def)
    next
      case ok: (Inr x)
      have fl: "fl_ver fl = vs2_version res" "set (fl_revoked fl) = set (vs2_revokedAgents res)" "fl_expiry fl = vs2_expiresAt res"
        using r ok by (auto simp: fleet_replace_def Let_def split: if_splits)
      then have "signed_by ed keys (revocationMessage (fl_ver fl) (fl_revoked fl) (fl_expiry fl))"
        using v(1) revocationMessage_eq [of "fl_ver fl" "fl_revoked fl" "fl_expiry fl"] by metis
      with r ok Inr False v fl replace_persists [of disk] show ?thesis
        by (auto simp: refreshRevocationsOnce_def Let_def)
    qed
  qed
qed

lemma check_set [simp]: "rw_fleet (checkRevocationStaleness src now w) = rw_fleet w"
  by (simp add: checkRevocationStaleness_def)

lemma check_flag:
  "rd_staleClosed (rw_state (checkRevocationStaleness src now v)) \<longleftrightarrow>
     isRevocationStale (rw_state v) (sr_max_age_seconds src) now \<and> (sr_fail_closed src \<or> rd_staleClosed (rw_state v))"
  "isRevocationStale (rw_state (checkRevocationStaleness src now v)) a t = isRevocationStale (rw_state v) a t"
  by (auto simp: checkRevocationStaleness_def isRevocationStale_def split: option.splits)

lemma turn_set: "set_since ed keys w w1 \<Longrightarrow> set_since ed keys w (revocation_turn ed keys src w1 t)"
  using refresh_set [of ed keys "lt_disk t" "lt_answer t" "lt_pulled t" w1]
  by (auto simp: set_since_def Let_def revocation_turn_def fleet_floor_def)

lemma run_set: "set_since ed keys w (foldl (revocation_turn ed keys src) w turns)"
  by (induction turns rule: rev_induct) (simp_all add: turn_set, simp add: set_since_def)

text \<open>C17: the kill set a proxy enforces is replaced only by a newer one the organisation signed: whatever the endpoint
  answers, an outage, a replay, a forgery, an unwritable disk, after any run of the loop the enforced set is the one
  at the start or exactly the agents of a signed set of a strictly higher version, and a restart enforces it too.\<close>
theorem kill_set_is_the_signed_one:
  assumes "org_signed ed keys bundles sets" and "foldl (revocation_turn ed keys src) w turns = w'"
  shows "rw_fleet w' = rw_fleet w
    \<or> (\<exists>v agents e. (v, agents, e) \<in> sets \<and> fleet_floor (rw_fleet w) < v \<and> fleet_floor (rw_fleet w') = v
        \<and> (\<forall>a. fleet_has (rw_fleet w') a \<longleftrightarrow> a \<in> set agents)
        \<and> (\<exists>fl. fleet_open (fl_file (rw_fleet w')) = Inr fl \<and> fleet_floor fl = v \<and> (\<forall>a. fleet_has fl a \<longleftrightarrow> a \<in> set agents)))"
  using run_set [of ed keys w src turns] unfolding assms(2) set_since_def Let_def persisted_def
proof (elim disjE exE conjE, goal_cases)
  case 1
  then show ?case by simp
next
  case (2 fl)
  obtain bs where "(fl_ver (rw_fleet w'), bs, fl_expiry (rw_fleet w')) \<in> sets" "set (fl_revoked (rw_fleet w')) = set bs"
    by (rule org_signed_set [OF assms(1) 2(1)])
  with 2 show ?case by (auto simp: fleet_has_def fleet_floor_def)
qed

text \<open>the proxy denies everything for a stale kill set exactly when it must: after each turn of the loop the flag the
  kill switch reads is set if and only if \<open>on_revocation_stale\<close> is \<open>fail_closed\<close> and the set is stale at the check, by its
  age or by the expiry the organisation signed.\<close>
theorem stale_kill_set_closes:
  "\<not> rd_staleClosed (rw_state w) \<Longrightarrow>
     rd_staleClosed (rw_state (foldl (revocation_turn ed keys src) w (turns @ [t]))) \<longleftrightarrow>
       sr_fail_closed src \<and> isRevocationStale (rw_state (foldl (revocation_turn ed keys src) w (turns @ [t])))
                              (sr_max_age_seconds src) (lt_checked t)"
proof -
  assume start: "\<not> rd_staleClosed (rw_state w)"
  have keeps: "rd_staleClosed (rw_state (snd (refreshRevocationsOnce ed keys disk answer now v))) = rd_staleClosed (rw_state v)"
    for disk answer now v
    by (auto simp: refreshRevocationsOnce_def Let_def split: sum.splits prod.splits)
  have "rd_staleClosed (rw_state (foldl (revocation_turn ed keys src) w turns)) \<longrightarrow> sr_fail_closed src"
    using start by (induction turns rule: rev_induct) (auto simp: revocation_turn_def check_flag keeps)
  then show ?thesis by (auto simp: revocation_turn_def check_flag keeps)
qed

end
