(* ===== verification/Distribution_Start.thy ===== *)
theory Distribution_Start
  imports Distribution_Claims
begin

text \<open>
  Booting under signed distribution, and concrete runs: the witnesses of the properties of
  \<open>Distribution_Claims\<close>, with a signature scheme that accepts one document each.
\<close>

subsection \<open>Booting\<close>

lemma new_store_fields:
  "new_policy_store cy def names es = Inr ps \<Longrightarrow>
     pol_def ps = def \<and> pol_entries ps = es \<and> pol_closed ps = None
     \<and> mergeProfilesOverDefault cy def es names = Inr (pol_profiles ps)"
  by (auto simp: new_policy_store_def split: sum.splits)

lemma no_entries_no_profiles: "mergeProfilesOverDefault cy def [] names = Inr out \<Longrightarrow> out = []"
  by (simp add: mergeProfilesOverDefault_def)

lemma accepted_floor: "version_accept disk v s = (r, s') \<Longrightarrow> version_floor s' = max v (version_floor s)"
  using version_accept_floor [of disk v s] by simp

lemma adopt_startD:
  assumes "adoptSignedStartup cy signed names vs disk = (Inr es, vs')"
  shows "es = entries_of (vb_profiles (sp_bundle signed))" "version_floor vs' = max (vb_version (sp_bundle signed)) (version_floor vs)"
  using assms accepted_floor
  by (auto simp: adoptSignedStartup_def Let_def entries_of_def split: sum.splits prod.splits)

text \<open>The two ways a pinned proxy boots.\<close>

lemma signed_boot_cases:
  assumes "start_policies cy ed sha i = Inr (b, ps)" and "signedMode i"
  obtains (pulled) keys versions signed versions' where "si_source i = Some (True, keys)"
      "version_open (si_versionFile i) = Inr versions"
      "fetchSignedPolicy cy ed sha (si_answer i) keys (version_floor versions) = Inr signed"
      "bo_versions b = Some versions'" "version_floor versions' = vb_version (sp_bundle signed)"
      "ds_version (bo_state b) = vb_version (sp_bundle signed)"
      "pol_def ps = sp_policy signed" "pol_entries ps = entries_of (vb_profiles (sp_bundle signed))"
  | (local) "pol_def ps = si_policy i" "pol_entries ps = []" "pol_profiles ps = []" "pol_closed ps = None"
      "ds_lastVerifiedPullAt (bo_state b) = 0"
proof -
  from assms obtain keys where src: "si_source i = Some (True, keys)" "keys \<noteq> []"
    by (auto simp: start_policies_def boot_def signedMode_def split: option.splits prod.splits if_splits)
  with assms obtain versions where vs: "version_open (si_versionFile i) = Inr versions"
    by (auto simp: start_policies_def boot_def pull_signed_start_def split: sum.splits)
  have b: "pull_signed_start cy ed sha keys i = Inr b"
    and ps: "new_policy_store cy (bo_policy b) (si_declared i)
       (startupProfileEntries True (bo_pullOk b) (bo_entries b) (si_entries i)) = Inr ps"
    using assms src by (auto simp: start_policies_def boot_def split: sum.splits)
  note fields = new_store_fields [OF ps]
  show thesis
  proof (cases "fetchSignedPolicy cy ed sha (si_answer i) keys (version_floor versions)")
    case (Inl e)
    with b vs have b': "b = (boot_local i)\<lparr>bo_versions := Some versions, bo_refreshes := True\<rparr>"
      by (simp add: pull_signed_start_def)
    show thesis
      by (rule local) (use fields no_entries_no_profiles in \<open>auto simp: b' boot_local_def startupProfileEntries_def\<close>)
  next
    case (Inr signed)
    with b vs obtain es vs' where a: "adoptSignedStartup cy signed (si_declared i) versions (si_disk i) = (Inr es, vs')"
      and b': "b = \<lparr>bo_policy = sp_policy signed, bo_entries = es, bo_pullOk = True, bo_versions = Some vs',
        bo_state = \<lparr>ds_version = vb_version (sp_bundle signed), ds_digest = vb_digest (sp_bundle signed),
                    ds_lastVerifiedPullAt = si_now i\<rparr>, bo_refreshes = True\<rparr>"
      by (auto simp: pull_signed_start_def split: prod.splits sum.splits)
    show thesis
      by (rule pulled [OF src(1) vs Inr, of vs'])
         (use fields adopt_startD [OF a] signed_pullD(2) [OF Inr] in \<open>auto simp: b' startupProfileEntries_def max_def\<close>)
  qed
qed

text \<open>a proxy that pins a key boots on signed policy or on no profile at all: if it starts, it either runs exactly
  a bundle the organisation signed, default and profiles, of a version no lower than the stored floor and recorded as the
  new floor, or it runs the local default without any profile, so that an agent with a profile resolves to nothing, and
  counts as never confirmed, stale for every bound the clock has passed.\<close>
theorem pinned_proxy_boots_signed_or_bare:
  assumes "start_policies cy ed sha i = Inr (b, ps)" and "si_source i = Some (token, keys)" and "keys \<noteq> []"
    and "org_signed ed keys bundles sets"
  shows "(\<exists>v yaml profiles floor. (v, yaml, profiles) \<in> bundles \<and> cy yaml = Inr (pol_def ps)
        \<and> mset (pol_entries ps) = mset (entries_of profiles) \<and> ds_version (bo_state b) = v
        \<and> version_load (si_versionFile i) = Inr floor \<and> floor \<le> v \<and> map_option version_floor (bo_versions b) = Some v)
    \<or> (policyFor ps None = Some (si_policy i) \<and> (\<forall>n. policyFor ps (Some n) = None)
        \<and> (\<forall>a now. isStale (bo_state b) (Some a) now \<longleftrightarrow> now > a * 1000))"
proof -
  have "signedMode i" using assms(2,3) by (simp add: signedMode_def)
  with assms(1) show ?thesis
  proof (cases rule: signed_boot_cases)
    case (pulled keys' versions signed versions')
    note s = signed_pullD [OF pulled(3)]
    have keys: "keys' = keys" using pulled(1) assms(2) by simp
    obtain qs where qs: "(vb_version (sp_bundle signed), vb_policyYaml (sp_bundle signed), qs) \<in> bundles"
      "mset (entries_of (vb_profiles (sp_bundle signed))) = mset (entries_of qs)"
      by (rule org_signed_bundle [OF assms(4) s(1) [unfolded keys]])
    have "version_load (si_versionFile i) = Inr (version_floor versions)"
      using pulled(2) by (auto simp: version_open_def version_floor_def split: sum.splits)
    with qs pulled s show ?thesis by (intro disjI1) (metis option.simps(9))
  next
    case local
    then show ?thesis by (simp add: policyFor_def isStale_def)
  qed
qed

end
