(* ===== verification/Distribution_Witnesses.thy ===== *)
theory Distribution_Witnesses
  imports Distribution_Start Scenario
begin

text \<open>
  Concrete runs of signed distribution: a bundle of version 3 is pulled and adopted, then the plane goes
  away; a kill set of version 2 is pulled over an empty one. The signature scheme of the examples
  accepts exactly the two documents the organisation signed.
\<close>

definition ex_bundles :: "(int \<times> string \<times> profile_entry list option) set" where
  "ex_bundles = {(3, ''P'', None)}"

definition ex_sets :: "(int \<times> string list \<times> int option) set" where
  "ex_sets = {(2, [''bot''], Some 500)}"

definition ex_ed :: ed25519 where
  "ex_ed key sig msg \<longleftrightarrow> msg = bundleSignatureMessage 3 ''P'' None \<or> msg = revocationMessage 2 [''bot''] (Some 500)"

definition ex_sha :: "nat list \<Rightarrow> string" where "ex_sha bytes = show_nat (sum_list bytes)"

definition ex_compile :: yaml_compiler where
  "ex_compile yaml = (if yaml = ''P'' then Inr sc_live else Inr (sc_live\<lparr>cp_grants := []\<rparr>))"

definition ex_bundle_doc :: json where
  "ex_bundle_doc = JObj [(''version'', JNum 3), (''policy'', JStr ''P''), (''signature'', JStr ''s'')]"

definition ex_set_doc :: json where
  "ex_set_doc = JObj [(''version'', JNum 2), (''revoked_agents'', JArr [JStr ''bot'']), (''signature'', JStr ''s''),
     (''expires_at'', JNum 500)]"

definition ex_src :: source_cfg where "ex_src = \<lparr>sr_max_age_seconds = Some 30, sr_fail_closed = True\<rparr>"

definition ex_world :: dist_world where
  "ex_world = \<lparr>dw_policies = \<lparr>pol_def = sc_live\<lparr>cp_grants := []\<rparr>, pol_entries = [], pol_profiles = [],
       pol_declaredNames = {}, pol_closed = None\<rparr>,
     dw_versions = \<lparr>vs_version = 0, vs_file = Absent\<rparr>,
     dw_state = \<lparr>ds_version = 0, ds_digest = [], ds_lastVerifiedPullAt = 0\<rparr>, dw_history = [], dw_memory = None,
     dw_closedForStaleness = False\<rparr>"

definition ex_pull :: loop_turn where
  "ex_pull = \<lparr>lt_answer = Body ''x'' (Some ex_bundle_doc), lt_disk = True, lt_pulled = 1000, lt_checked = 1001\<rparr>"

definition ex_outage :: loop_turn where
  "ex_outage = \<lparr>lt_answer = Unreachable, lt_disk = True, lt_pulled = 60000, lt_checked = 60001\<rparr>"

definition ex_revocations :: revocation_world where
  "ex_revocations = seed_revocations \<lparr>fl_revoked = [], fl_ver = 0, fl_expiry = None, fl_file = Absent\<rparr>"

definition ex_set_pull :: loop_turn where "ex_set_pull = ex_pull\<lparr>lt_answer := Body ''x'' (Some ex_set_doc)\<rparr>"

lemma ex_org_signed: "org_signed ex_ed [''k''] ex_bundles ex_sets"
  by (auto simp: org_signed_def signed_by_def ex_ed_def ex_bundles_def ex_sets_def)

lemmas ex_defs = ex_src_def ex_world_def ex_pull_def ex_outage_def ex_revocations_def ex_set_pull_def
  ex_bundle_doc_def ex_set_doc_def

lemma ex_fetch:
  "fetchSignedPolicy ex_compile ex_ed ex_sha (Body ''x'' (Some ex_bundle_doc)) [''k''] 0 =
     Inr \<lparr>sp_policy = sc_live, sp_bundle = \<lparr>vb_version = 3, vb_policyYaml = ''P'', vb_digest = bundleDigest ex_sha ''P'' None,
       vb_unchanged = False, vb_profiles = None\<rparr>\<rparr>"
  by (simp add: fetchSignedPolicy_def MAX_SIGNED_BODY_BYTES_def verifyPolicyBundle_def parse_bundle_def ex_bundle_doc_def
      has_only_def num_field_def str_field_def version_in_range_def MAX_POLICY_VERSION_def Let_def ex_ed_def ex_compile_def)

lemma ex_fetch_set:
  "fetchRevocationSet ex_ed (Body ''x'' (Some ex_set_doc)) [''k''] 0 =
     Inr \<lparr>vs2_version = 2, vs2_revokedAgents = [''bot''], vs2_expiresAt = Some 500, vs2_unchanged = False\<rparr>"
  by (simp add: fetchRevocationSet_def verifyRevocationSet_def parse_revocation_set_def ex_set_doc_def has_only_def
      num_field_def str_field_def version_in_range_def MAX_POLICY_VERSION_def MAX_REVOKED_AGENTS_def agent_name_ok_def
      Let_def ex_ed_def)

definition ex_adopted :: dist_world where
  "ex_adopted = \<lparr>dw_policies = (dw_policies ex_world)\<lparr>pol_def := sc_live\<rparr>,
     dw_versions = \<lparr>vs_version = 3, vs_file = Document (JObj [(''version'', JNum 3)])\<rparr>,
     dw_state = \<lparr>ds_version = 3, ds_digest = bundleDigest ex_sha ''P'' None, ds_lastVerifiedPullAt = 1000\<rparr>,
     dw_history = [(''P'', 1000)], dw_memory = None, dw_closedForStaleness = False\<rparr>"

lemma ex_refresh:
  "refreshOnce ex_compile ex_ed ex_sha [''k''] (lt_disk ex_pull) (lt_answer ex_pull) (lt_pulled ex_pull) ex_world =
     (Inr \<lparr>rf_version = 3, rf_digest = bundleDigest ex_sha ''P'' None, rf_grants = 2, rf_unchanged = False\<rparr>, ex_adopted)"
  by (simp add: refreshOnce_def ex_pull_def ex_adopted_def ex_world_def version_floor_def ex_fetch policy_reload_def
        ex_compile_def mergeProfilesOverDefault_def version_accept_def Let_def onAdopted_def with_state_def
        with_policies_def sc_live_def)

lemma ex_turn: "signed_turn ex_compile ex_ed ex_sha [''k''] ex_src sc_live ex_world ex_pull = ex_adopted"
  by (simp add: signed_turn_def policy_tick_def ex_refresh checkStaleness_def isStale_def)
     (simp add: ex_adopted_def ex_src_def ex_pull_def)

text \<open>Any turn without an answer changes nothing before the check.\<close>

lemma ex_outage_turn:
  "signed_turn cy ed sha keys src started w ex_outage = checkStaleness cy src started 60001 w"
  by (simp add: signed_turn_def policy_tick_def ex_outage_def refreshOnce_def fetchSignedPolicy_def)

subsection \<open>The properties at these runs\<close>

theorem signed_bundle_verifies_witness:
  "verifyPolicyBundle (\<lambda>key sig msg. sig = show_nat (length msg)) ex_sha
     (signBundle (\<lambda>msg. show_nat (length msg)) ''P'' 3 (Some [\<lparr>pe_name = ''ci'', pe_policy = ''Q''\<rparr>])) [''k''] 3 =
   Inr \<lparr>vb_version = 3, vb_policyYaml = ''P'', vb_digest = bundleDigest ex_sha ''P'' (Some [\<lparr>pe_name = ''ci'', pe_policy = ''Q''\<rparr>]),
        vb_unchanged = True, vb_profiles = Some [\<lparr>pe_name = ''ci'', pe_policy = ''Q''\<rparr>]\<rparr>"
proof -
  let ?ps = "Some [\<lparr>pe_name = ''ci'', pe_policy = ''Q''\<rparr>]"
  obtain doc where "signBundle (\<lambda>msg. show_nat (length msg)) ''P'' 3 ?ps = Some doc"
    by (simp add: signBundle_def entry_ok_def PROFILE_NAME_RE_def profile_char_def MAX_PROFILE_POLICY_BYTES_def Let_def)
  from this and signed_bundle_verifies [OF this, of 3 "''k''" "[''k'']" "\<lambda>key sig msg. sig = show_nat (length msg)"] show ?thesis
    by (simp add: version_in_range_def MAX_POLICY_VERSION_def entries_of_def)
qed

theorem only_signed_policy_is_adopted_witness:
  "\<exists>v yaml profiles. (v, yaml, profiles) \<in> ex_bundles \<and> ex_compile yaml = Inr (pol_def (dw_policies ex_adopted)) \<and> v = 3"
proof -
  have "foldl (signed_turn ex_compile ex_ed ex_sha [''k''] ex_src sc_live) ex_world [ex_pull] = ex_adopted"
    by (simp add: ex_turn)
  from only_signed_policy_is_adopted [OF ex_org_signed this] show ?thesis
    by (auto simp: ex_adopted_def ex_world_def)
qed


theorem adoption_reopens_the_proxy_witness:
  "policyFor (dw_policies (signed_turn ex_compile ex_ed ex_sha [''k''] ex_src sc_live ex_world ex_pull)) None = Some sc_live"
  using adoption_reopens_the_proxy [OF ex_refresh, of ex_src 30 sc_live]
  by (simp add: ex_src_def ex_pull_def ex_adopted_def)

lemma ex_set_refresh:
  "revocation_turn ex_ed [''k''] ex_src ex_revocations ex_set_pull =
     \<lparr>rw_fleet = \<lparr>fl_revoked = [''bot''], fl_ver = 2, fl_expiry = Some 500, fl_file = Document (fleet_document [''bot''] 2 (Some 500))\<rparr>,
      rw_state = \<lparr>rd_version = 2, rd_count = 1, rd_expiresAt = Some 500, rd_lastVerifiedPullAt = 1000, rd_staleClosed = False\<rparr>,
      rw_warned = False\<rparr>"
  by (simp add: revocation_turn_def refreshRevocationsOnce_def ex_set_pull_def ex_pull_def ex_revocations_def seed_revocations_def
        fleet_floor_def ex_fetch_set fleet_replace_def checkRevocationStaleness_def isRevocationStale_def ex_src_def Let_def)

theorem kill_set_is_the_signed_one_witness:
  "\<exists>v agents e. (v, agents, e) \<in> ex_sets \<and> v = 2
     \<and> fleet_has (rw_fleet (revocation_turn ex_ed [''k''] ex_src ex_revocations ex_set_pull)) ''bot''"
proof -
  have "foldl (revocation_turn ex_ed [''k''] ex_src) ex_revocations [ex_set_pull]
      = revocation_turn ex_ed [''k''] ex_src ex_revocations ex_set_pull" by simp
  from kill_set_is_the_signed_one [OF ex_org_signed this] show ?thesis
    unfolding ex_set_refresh by (auto simp: ex_revocations_def seed_revocations_def ex_sets_def fleet_has_def)
qed

theorem stale_kill_set_closes_witness:
  "rd_staleClosed (rw_state (foldl (revocation_turn ex_ed [''k''] ex_src) ex_revocations ([ex_set_pull] @ [ex_outage])))"
  using stale_kill_set_closes [of ex_revocations ex_ed "[''k'']" ex_src "[ex_set_pull]" ex_outage]
  by (simp add: ex_set_refresh, simp add: ex_revocations_def seed_revocations_def ex_src_def revocation_turn_def
        refreshRevocationsOnce_def fetchRevocationSet_def ex_outage_def checkRevocationStaleness_def isRevocationStale_def)

definition ex_start :: start_input where
  "ex_start = \<lparr>si_source = Some (True, [''k'']), si_versionFile = Absent, si_disk = True,
     si_answer = Body ''x'' (Some ex_bundle_doc), si_now = 1000, si_policy = sc_live\<lparr>cp_grants := []\<rparr>, si_entries = [],
     si_declared = {}\<rparr>"

theorem pinned_proxy_boots_signed_or_bare_witness:
  "\<exists>b ps. start_policies ex_compile ex_ed ex_sha ex_start = Inr (b, ps) \<and> pol_def ps = sc_live
     \<and> (\<exists>v yaml profiles. (v, yaml, profiles) \<in> ex_bundles \<and> ds_version (bo_state b) = v)"
proof -
  obtain b ps where s: "start_policies ex_compile ex_ed ex_sha ex_start = Inr (b, ps)" and ps: "pol_def ps = sc_live"
    and open_store: "pol_closed ps = None"
    by (simp add: start_policies_def boot_def pull_signed_start_def ex_start_def version_open_def version_load_def
          version_floor_def ex_fetch adoptSignedStartup_def mergeProfilesOverDefault_def version_accept_def
          new_policy_store_def startupProfileEntries_def signedMode_def Let_def)
  have bare: "sc_live\<lparr>cp_grants := []\<rparr> \<noteq> sc_live"
    by (simp add: sc_live_def)
  from pinned_proxy_boots_signed_or_bare [OF s, of True "[''k'']" ex_bundles ex_sets] ex_org_signed s ps open_store bare show ?thesis
    by (auto simp: ex_start_def policyFor_def)
qed

subsection \<open>Two corners\<close>

text \<open>The refresh loop never takes expiry from a set it does not persist; the first pull of a run does: a re-served
  version whose expiry differs moves the staleness clock away from the set enforced.\<close>

lemma unchanged_refresh_keeps_expiry:
  assumes "fetchRevocationSet ed answer keys (fleet_floor (rw_fleet w)) = Inr res" "vs2_unchanged res"
  shows "rd_expiresAt (rw_state (snd (refreshRevocationsOnce ed keys disk answer now w))) = rd_expiresAt (rw_state w)"
  using assms by (simp add: refreshRevocationsOnce_def Let_def)

lemma unchanged_start_takes_expiry:
  assumes "fleet_open file = Inr fl" "fetchRevocationSet ed answer keys (fleet_floor fl) = Inr res" "vs2_unchanged res"
  shows "\<exists>w. start_revocations ed keys file disk answer now = Inr w \<and> rw_fleet w = fl \<and> rd_expiresAt (rw_state w) = vs2_expiresAt res"
  using assms by (simp add: start_revocations_def seed_revocations_def Let_def)

text \<open>A check that runs later than \<open>max_age_seconds\<close> after the pull before it (a suspended host) finds the policy
  stale with the flag of the previous closure still up, and returns: the store the pull reopened stays open, and
  outages after it do not close it.\<close>

lemma late_check_leaves_stale_proxy_open:
  "let w = ex_world\<lparr>dw_policies := closeAll (sc_live\<lparr>cp_grants := []\<rparr>) (dw_policies ex_world), dw_closedForStaleness := True\<rparr>;
       w' = foldl (signed_turn ex_compile ex_ed ex_sha [''k''] ex_src sc_live) w [ex_pull\<lparr>lt_checked := 60000\<rparr>, ex_outage]
   in isStale (dw_state w') (sr_max_age_seconds ex_src) 60001 \<and> sr_fail_closed ex_src
      \<and> policyFor (dw_policies w') None = Some sc_live"
  by (simp add: ex_outage_turn Let_def, simp add: signed_turn_def policy_tick_def refreshOnce_def ex_pull_def ex_world_def
      version_floor_def ex_fetch policy_reload_def ex_compile_def mergeProfilesOverDefault_def version_accept_def Let_def onAdopted_def with_state_def
      with_policies_def closeAll_def checkStaleness_def isStale_def ex_src_def policyFor_def)

end
