(* ===== verification/Policy_Decay.thy ===== *)
theory Policy_Decay
  imports Policy_Props Adapters Request_Log
begin

text \<open>
  Tightening a policy from the request log: \<^verbatim>\<open>policy/decay.ts\<close> (allow rules not exercised
  lately are demoted or dropped), \<^verbatim>\<open>policy/shrinkwrap.ts\<close> (allow exactly what was used), the
  comparison of two policies (\<^verbatim>\<open>policy/diff.ts\<close>), and the evidence, the merge of a fleet's
  evidence and the verification around them in \<^verbatim>\<open>cli/policy.ts\<close>. Report text is not modelled.
\<close>

subsection \<open>Evidence\<close>

datatype action_class = Active | Stale | Unused | NoEvidence
datatype decay_mode = Demote | Drop

record decay_evidence =
  ev_lastUsed :: "string \<rightharpoonup> ms \<times> int"
  ev_coverageStart :: "ms option"
  ev_agentUsageRows :: int

record decay_options =
  do_now :: ms
  do_staleDays :: int
  do_mode :: decay_mode
  do_agentId :: agent_id

definition evidenceKey :: "string \<Rightarrow> string \<Rightarrow> string" where
  "evidenceKey tool action = tool @ CHR '' '' # action"

definition stale_before :: "decay_options \<Rightarrow> ms" where
  "stale_before opt = do_now opt - do_staleDays opt * 86400000"

definition covered :: "ms option \<Rightarrow> ms \<Rightarrow> bool" where
  "covered start staleBefore \<longleftrightarrow> (case start of None \<Rightarrow> False | Some c \<Rightarrow> c \<le> staleBefore)"

definition decay_classify :: "ms option \<Rightarrow> bool \<Rightarrow> ms \<Rightarrow> action_class" where
  "decay_classify lastTs cov staleBefore =
     (if lastTs \<noteq> None \<and> the lastTs \<ge> staleBefore then Active
      else if \<not> cov then NoEvidence
      else if lastTs = None then Unused else Stale)"

subsection \<open>Decay\<close>

text \<open>Message and targets are kept where they are set to something.\<close>

fun literalRule :: "string \<Rightarrow> rule_source \<Rightarrow> rule_source" where
  "literalRule action (RuleStr a) = RuleStr action"
| "literalRule action (RuleObj a ts m u) =
     RuleObj action (case ts of Some (t # rest) \<Rightarrow> Some (t # rest) | _ \<Rightarrow> None)
       (case m of Some (c # cs) \<Rightarrow> Some (c # cs) | _ \<Rightarrow> None) None"

fun rule_fields :: "rule_source \<Rightarrow> string \<times> string list option \<times> string option" where
  "rule_fields (RuleStr a) = (a, None, None)"
| "rule_fields (RuleObj a ts m u) = (a, ts, m)"

definition sameRule :: "rule_source \<Rightarrow> rule_source \<Rightarrow> bool" where
  "sameRule a b \<longleftrightarrow> rule_fields a = rule_fields b"

definition rule_pattern :: "rule_source \<Rightarrow> string" where
  "rule_pattern r = (case r of RuleStr a \<Rightarrow> a | RuleObj a _ _ _ \<Rightarrow> a)"

datatype rule_disposition = Kept | Partial | Decayed | Dead | McpSkipped

record rule_change =
  rc_tool :: string
  rc_pattern :: string
  rc_disposition :: rule_disposition
  rc_kept :: "string list"
  rc_decayed :: "string list"

record action_info =
  ai_tool :: string
  ai_action :: string
  ai_class :: action_class
  ai_lastTs :: "ms option"
  ai_n :: int

text \<open>What one allow rule becomes.\<close>

record rule_decay =
  dc_allow :: "rule_source list"
  dc_demoted :: "rule_source list"
  dc_dropped :: nat
  dc_change :: rule_change
  dc_actions :: "action_info list"

definition reachable_actions :: "string list \<Rightarrow> string \<Rightarrow> string list" where
  "reachable_actions vocabulary pat = filter (pattern_test (compilePattern False pat)) vocabulary"

definition action_info_of :: "decay_evidence \<Rightarrow> decay_options \<Rightarrow> string \<Rightarrow> string \<Rightarrow> action_info" where
  "action_info_of ev opt tool a =
     (let row = ev_lastUsed ev (evidenceKey tool a);
          lastTs = map_option fst row
      in \<lparr>ai_tool = tool, ai_action = a,
          ai_class = decay_classify lastTs (covered (ev_coverageStart ev) (stale_before opt)) (stale_before opt),
          ai_lastTs = lastTs, ai_n = (case row of None \<Rightarrow> 0 | Some (_, n) \<Rightarrow> n)\<rparr>)"

definition keeps_class :: "action_class \<Rightarrow> bool" where
  "keeps_class c \<longleftrightarrow> c = Active \<or> c = NoEvidence"

definition kept_action :: "decay_evidence \<Rightarrow> decay_options \<Rightarrow> string \<Rightarrow> string \<Rightarrow> bool" where
  "kept_action ev opt tool a \<longleftrightarrow> keeps_class (ai_class (action_info_of ev opt tool a))"

definition unchanged_rule :: "rule_source \<Rightarrow> string \<Rightarrow> rule_disposition \<Rightarrow> string list \<Rightarrow> action_info list \<Rightarrow> rule_decay" where
  "unchanged_rule r tool d kept infos =
     \<lparr>dc_allow = [r], dc_demoted = [], dc_dropped = 0,
      dc_change = \<lparr>rc_tool = tool, rc_pattern = rule_pattern r, rc_disposition = d, rc_kept = kept, rc_decayed = []\<rparr>,
      dc_actions = infos\<rparr>"

definition decay_rule :: "decay_evidence \<Rightarrow> decay_options \<Rightarrow> string \<Rightarrow> string list option \<Rightarrow> rule_source \<Rightarrow> rule_decay" where
  "decay_rule ev opt tool vocabulary r =
     (case vocabulary of
        None \<Rightarrow> unchanged_rule r tool McpSkipped [] []
      | Some vocab \<Rightarrow>
          let reachable = reachable_actions vocab (rule_pattern r) in
          if reachable = [] then unchanged_rule r tool Dead [] []
          else
            let infos = map (action_info_of ev opt tool) reachable;
                kept = filter (kept_action ev opt tool) reachable;
                decayed = filter (\<lambda>a. \<not> kept_action ev opt tool a) reachable;
                change = (\<lambda>d k. \<lparr>rc_tool = tool, rc_pattern = rule_pattern r, rc_disposition = d,
                                 rc_kept = k, rc_decayed = decayed\<rparr>)
            in if decayed = [] then unchanged_rule r tool Kept kept infos
               else if kept = [] then
                 \<lparr>dc_allow = [], dc_demoted = (if do_mode opt = Demote then [r] else []),
                  dc_dropped = (if do_mode opt = Demote then 0 else 1), dc_change = change Decayed [], dc_actions = infos\<rparr>
               else
                 \<lparr>dc_allow = map (\<lambda>a. literalRule a r) kept,
                  dc_demoted = (if do_mode opt = Demote then map (\<lambda>a. literalRule a r) decayed else []),
                  dc_dropped = (if do_mode opt = Demote then 0 else length decayed),
                  dc_change = change Partial kept, dc_actions = infos\<rparr>)"

fun add_approvals :: "rule_source list \<Rightarrow> rule_source list \<Rightarrow> rule_source list" where
  "add_approvals approvals [] = approvals"
| "add_approvals approvals (d # ds) =
     add_approvals (if list_ex (\<lambda>r. sameRule r d) approvals then approvals else approvals @ [d]) ds"

definition decay_rules :: "(string \<rightharpoonup> string list) \<Rightarrow> decay_evidence \<Rightarrow> decay_options \<Rightarrow> grant_source \<Rightarrow> rule_decay list" where
  "decay_rules vocabularies ev opt g =
     map (decay_rule ev opt (gs_tool g) (vocabularies (gs_tool g))) (gs_allow g)"

definition decay_grant :: "(string \<rightharpoonup> string list) \<Rightarrow> decay_evidence \<Rightarrow> decay_options \<Rightarrow> grant_source \<Rightarrow> grant_source" where
  "decay_grant vocabularies ev opt g =
     (let ds = decay_rules vocabularies ev opt g in
      g\<lparr>gs_allow := concat (map dc_allow ds),
        gs_require_approval := add_approvals (gs_require_approval g) (concat (map dc_demoted ds))\<rparr>)"

record decay_report =
  dr_agent :: agent_id
  dr_now :: ms
  dr_coverageStart :: "ms option"
  dr_covered :: bool
  dr_staleDays :: int
  dr_mode :: decay_mode
  dr_actions :: "action_info list"
  dr_changes :: "rule_change list"
  dr_demotedCount :: nat
  dr_droppedCount :: nat
  dr_activePairs :: "(string \<times> string) list"

definition decayPolicy :: "policy_source \<Rightarrow> (string \<rightharpoonup> string list) \<Rightarrow> decay_evidence \<Rightarrow> decay_options
    \<Rightarrow> agent_id + policy_source \<times> decay_report" where
  "decayPolicy source vocabularies ev opt =
     (if ev_agentUsageRows ev = 0 then Inl (do_agentId opt)
      else
        let ds = concat (map (decay_rules vocabularies ev opt) (src_grants source));
            infos = concat (map dc_actions ds)
        in Inr (source\<lparr>src_grants := map (decay_grant vocabularies ev opt) (src_grants source)\<rparr>,
            \<lparr>dr_agent = do_agentId opt, dr_now = do_now opt, dr_coverageStart = ev_coverageStart ev,
             dr_covered = covered (ev_coverageStart ev) (stale_before opt),
             dr_staleDays = do_staleDays opt, dr_mode = do_mode opt, dr_actions = infos, dr_changes = map dc_change ds,
             dr_demotedCount = sum_list (map (\<lambda>d. length (dc_demoted d)) ds),
             dr_droppedCount = sum_list (map dc_dropped ds),
             dr_activePairs = map (\<lambda>i. (ai_tool i, ai_action i)) (filter (\<lambda>i. ai_class i = Active) infos)\<rparr>))"

subsection \<open>The evidence of a proxy and of its peers\<close>

definition local_evidence :: "((string \<times> string) \<times> ms \<times> int) list \<Rightarrow> ms option \<Rightarrow> decay_evidence" where
  "local_evidence rows start =
     \<lparr>ev_lastUsed = map_of (rev (map (\<lambda>((tool, action), use). (evidenceKey tool action, use)) rows)),
      ev_coverageStart = start, ev_agentUsageRows = sum_list (map (\<lambda>(k, ts, n). n) rows)\<rparr>"

record evidence_action =
  ea_tool :: string
  ea_action :: string
  ea_lastTs :: ms
  ea_n :: int

record evidence_doc =
  ed_agent :: agent_id
  ed_proxy :: "string option"
  ed_generatedAt :: ms
  ed_actions :: "evidence_action list"

definition buildEvidenceDoc :: "agent_id \<Rightarrow> string option \<Rightarrow> ms \<Rightarrow> ((string \<times> string) \<times> ms \<times> int) list \<Rightarrow> evidence_doc" where
  "buildEvidenceDoc agent proxy generatedAt rows =
     \<lparr>ed_agent = agent, ed_proxy = proxy, ed_generatedAt = generatedAt,
      ed_actions = map (\<lambda>((tool, action), ts, n). \<lparr>ea_tool = tool, ea_action = action, ea_lastTs = ts, ea_n = n\<rparr>) rows\<rparr>"

text \<open>The latest use of each action over the peers' files for this agent.\<close>

fun fleet_max :: "evidence_action list \<Rightarrow> (string \<times> ms) list \<Rightarrow> (string \<times> ms) list" where
  "fleet_max [] m = m"
| "fleet_max (a # as) m =
     (let k = evidenceKey (ea_tool a) (ea_action a) in
      fleet_max as (case map_of m k of
          None \<Rightarrow> AList.update k (ea_lastTs a) m
        | Some prev \<Rightarrow> if ea_lastTs a > prev then AList.update k (ea_lastTs a) m else m))"

text \<open>Peers only veto: an action that would decay here and was used lately there counts as used.\<close>

fun veto_merge :: "bool \<Rightarrow> ms \<Rightarrow> (string \<times> ms) list \<Rightarrow> (string \<rightharpoonup> ms \<times> int) \<Rightarrow> (string \<rightharpoonup> ms \<times> int)" where
  "veto_merge cov staleBefore [] lastUsed = lastUsed"
| "veto_merge cov staleBefore ((k, fleetTs) # rest) lastUsed =
     veto_merge cov staleBefore rest
       (if cov \<and> (case lastUsed k of None \<Rightarrow> True | Some (ts, _) \<Rightarrow> ts < staleBefore) \<and> fleetTs \<ge> staleBefore
        then lastUsed(k \<mapsto> (fleetTs, case lastUsed k of None \<Rightarrow> 0 | Some (_, n) \<Rightarrow> n)) else lastUsed)"

definition fleet_evidence :: "decay_options \<Rightarrow> evidence_doc list \<Rightarrow> decay_evidence \<Rightarrow> decay_evidence" where
  "fleet_evidence opt docs ev =
     (let mine = filter (\<lambda>d. ed_agent d = do_agentId opt) docs in
      ev\<lparr>ev_lastUsed := veto_merge (covered (ev_coverageStart ev) (stale_before opt)) (stale_before opt)
           (fleet_max (concat (map ed_actions mine)) []) (ev_lastUsed ev)\<rparr>)"

subsection \<open>Comparing policies, and the checks of the command line\<close>

definition reach :: "compiled_policy \<Rightarrow> string \<Rightarrow> string \<Rightarrow> decision" where
  "reach p tool action = er_decision (evaluate_at p tool action None)"

definition diffPolicies :: "compiled_policy \<Rightarrow> compiled_policy \<Rightarrow> (string \<times> string) list
    \<Rightarrow> (string \<times> string \<times> decision \<times> decision) list" where
  "diffPolicies current candidate pairs =
     map (\<lambda>(tool, action). (tool, action, reach current tool action, reach candidate tool action))
       (filter (\<lambda>(tool, action). reach current tool action \<noteq> reach candidate tool action) pairs)"

text \<open>What \<open>runDecay\<close> requires before it prints: no active action decides differently.\<close>

definition decay_changed :: "compiled_policy \<Rightarrow> compiled_policy \<Rightarrow> decay_report \<Rightarrow> nat" where
  "decay_changed before after report =
     length (filter (\<lambda>(tool, action). reach before tool action \<noteq> reach after tool action) (dr_activePairs report))"

definition shrinkwrapPolicy :: "policy_source \<Rightarrow> (string \<Rightarrow> string set) \<Rightarrow> policy_source" where
  "shrinkwrapPolicy source used =
     source\<lparr>src_grants := map (\<lambda>g. g\<lparr>gs_allow := map RuleStr (sorted_list_of_set (used (gs_tool g)))\<rparr>) (src_grants source)\<rparr>"

definition used_map :: "(string \<times> string) list \<Rightarrow> string \<Rightarrow> string set" where
  "used_map rows tool = {a. (tool, a) \<in> set rows}"

definition shrinkwrap_denied :: "compiled_policy \<Rightarrow> (string \<times> string) list \<Rightarrow> nat" where
  "shrinkwrap_denied after rows = length (filter (\<lambda>(tool, action). reach after tool action = Deny) rows)"

end
