(* ===== verification/Decay_Props.thy ===== *)
theory Decay_Props
  imports Policy_Decay
begin

text \<open>
  What decay does to decisions: no request is treated more leniently, actions in use are decided
  as before, and a log that has not observed long enough changes nothing.
\<close>

subsection \<open>Rules for one literal action\<close>

definition plain_action :: "string \<Rightarrow> bool" where
  "plain_action a \<longleftrightarrow> list_all (\<lambda>c. c \<noteq> CHR ''*'' \<and> c \<noteq> CHR ''?'') a"

lemma plain_glob: "plain_action a \<Longrightarrow> glob_spec False a v \<longleftrightarrow> v = a"
proof (induction a arbitrary: v)
  case Nil
  show ?case by (auto elim: glob_spec_NilE intro: glob_nil)
next
  case (Cons c a)
  then have c: "c \<noteq> CHR ''*''" "c \<noteq> CHR ''?''" and a: "plain_action a" by (simp_all add: plain_action_def)
  show ?case
  proof
    assume "glob_spec False (c # a) v"
    then show "v = c # a" by (cases rule: glob_spec.cases) (use c Cons.IH [OF a] in auto)
  next
    assume "v = c # a"
    with glob_lit [OF c refl, of False a a] Cons.IH [OF a] show "glob_spec False (c # a) v" by simp
  qed
qed

lemma plain_test: "plain_action a \<Longrightarrow> pattern_test (compilePattern False a) v \<longleftrightarrow> v = a"
  by (simp add: pattern_test_compile plain_glob)

definition targets_apply :: "clause \<Rightarrow> eval_input \<Rightarrow> compiled_rule \<Rightarrow> bool" where
  "targets_apply cl inp r \<longleftrightarrow> (case cr_targets r of None \<Rightarrow> True
      | Some ts \<Rightarrow> \<not> ei_unresolved inp \<and>
          (case ei_target inp of None \<Rightarrow> cl \<noteq> CDeny | Some tg \<Rightarrow> \<exists>t\<in>set ts. pattern_test t tg))"

lemma rule_applies_parts:
  "rule_applies cl inp (compileRule ci r) \<longleftrightarrow>
     pattern_test (compilePattern False (rule_pattern r)) (ei_action inp) \<and> targets_apply cl inp (compileRule ci r)"
  by (cases r) (simp_all add: rule_applies_def targets_apply_def rule_pattern_def)

lemma compileTargets_trim: "compileTargets ci (case ts of Some (t # rest) \<Rightarrow> Some (t # rest) | _ \<Rightarrow> None) = compileTargets ci ts"
  by (auto simp: compileTargets_def split: option.splits list.splits)

lemma literal_targets: "cr_targets (compileRule ci (literalRule a r)) = cr_targets (compileRule ci r)"
  by (cases r) (simp_all add: compileTargets_trim)

lemma literal_pattern [simp]: "rule_pattern (literalRule a r) = a"
  by (cases r) (simp_all add: rule_pattern_def)

lemma literal_unresolved [simp]: "cr_onUnresolved (compileRule ci (literalRule a r)) = UDeny"
  by (cases r) simp_all

lemma literal_applies:
  "plain_action a \<Longrightarrow> rule_applies cl inp (compileRule ci (literalRule a r)) \<longleftrightarrow>
     ei_action inp = a \<and> targets_apply cl inp (compileRule ci r)"
  by (simp add: rule_applies_parts plain_test targets_apply_def literal_targets)

subsection \<open>Where the rules of a decayed grant come from\<close>

lemma mem_reachable: "a \<in> set (reachable_actions vocab pat) \<longleftrightarrow> a \<in> set vocab \<and> pattern_test (compilePattern False pat) a"
  by (auto simp: reachable_actions_def)

lemma decayed_allow:
  assumes "r' \<in> set (dc_allow (decay_rule ev opt tool voc r))"
  shows "r' = r \<or> (\<exists>vocab a. voc = Some vocab \<and> a \<in> set (reachable_actions vocab (rule_pattern r)) \<and> r' = literalRule a r)"
  using assms by (auto simp: decay_rule_def unchanged_rule_def Let_def split: option.splits if_splits)

lemma decayed_demoted:
  assumes "r' \<in> set (dc_demoted (decay_rule ev opt tool voc r))"
  obtains vocab where "voc = Some vocab" "r' = r"
      "\<forall>a\<in>set (reachable_actions vocab (rule_pattern r)). \<not> kept_action ev opt tool a"
  | vocab a where "voc = Some vocab" "a \<in> set (reachable_actions vocab (rule_pattern r))"
      "\<not> kept_action ev opt tool a" "r' = literalRule a r"
  using assms by (auto simp: decay_rule_def unchanged_rule_def Let_def filter_empty_conv split: option.splits if_splits)

lemma kept_survives:
  assumes "\<forall>vocab. voc = Some vocab \<longrightarrow> a \<in> set vocab \<and> kept_action ev opt tool a"
    and "pattern_test (compilePattern False (rule_pattern r)) a"
  shows "r \<in> set (dc_allow (decay_rule ev opt tool voc r)) \<or> literalRule a r \<in> set (dc_allow (decay_rule ev opt tool voc r))"
proof (cases voc)
  case None
  then show ?thesis by (simp add: decay_rule_def unchanged_rule_def)
next
  case (Some vocab)
  with assms have "a \<in> set (filter (kept_action ev opt tool) (reachable_actions vocab (rule_pattern r)))"
    by (simp add: mem_reachable)
  then show ?thesis using Some by (auto simp: decay_rule_def unchanged_rule_def Let_def filter_empty_conv)
qed

lemma set_add_approvals:
  "set as \<subseteq> set (add_approvals as ds)" "set (add_approvals as ds) \<subseteq> set as \<union> set ds"
proof (induction ds arbitrary: as)
  case (Cons d ds)
  { case 1 show ?case using Cons.IH(1) [of as] Cons.IH(1) [of "as @ [d]"] by auto }
  { case 2 show ?case using Cons.IH(2) [of as] Cons.IH(2) [of "as @ [d]"] by auto }
qed simp_all

lemma decay_grant_tool [simp]: "gs_tool (decay_grant voc ev opt g) = gs_tool g"
  by (simp add: decay_grant_def Let_def)

lemma decay_grant_deny [simp]: "gs_deny (decay_grant voc ev opt g) = gs_deny g"
  by (simp add: decay_grant_def Let_def)

lemma decay_grant_allow:
  "r' \<in> set (gs_allow (decay_grant voc ev opt g)) \<longleftrightarrow>
     (\<exists>r\<in>set (gs_allow g). r' \<in> set (dc_allow (decay_rule ev opt (gs_tool g) (voc (gs_tool g)) r)))"
  by (auto simp: decay_grant_def decay_rules_def Let_def)

lemma decay_grant_approval:
  "set (gs_require_approval g) \<subseteq> set (gs_require_approval (decay_grant voc ev opt g))"
  "r' \<in> set (gs_require_approval (decay_grant voc ev opt g)) \<Longrightarrow> r' \<in> set (gs_require_approval g) \<or>
     (\<exists>r\<in>set (gs_allow g). r' \<in> set (dc_demoted (decay_rule ev opt (gs_tool g) (voc (gs_tool g)) r)))"
  using set_add_approvals by (fastforce simp: decay_grant_def decay_rules_def Let_def)+

subsection \<open>Verdicts of a grant\<close>

definition plain_vocabularies :: "(string \<rightharpoonup> string list) \<Rightarrow> bool" where
  "plain_vocabularies voc \<longleftrightarrow> (\<forall>tool vocab. voc tool = Some vocab \<longrightarrow> list_all plain_action vocab)"

text \<open>No allow rule of the grant names the target in another letter case only.\<close>

definition case_exact :: "eval_input \<Rightarrow> grant_source \<Rightarrow> bool" where
  "case_exact inp g \<longleftrightarrow> list_all (\<lambda>r. rule_applies CAllow inp (compileRule True r) \<longrightarrow>
     rule_applies CAllow inp (compileRule False r)) (gs_allow g)"

lemma allow_covered:
  assumes "plain_vocabularies voc" "r' \<in> set (gs_allow (decay_grant voc ev opt g))"
    and "rule_applies cl inp (compileRule ci r')"
  shows "\<exists>r\<in>set (gs_allow g). rule_applies cl inp (compileRule ci r)"
proof -
  from assms(2) obtain r where r: "r \<in> set (gs_allow g)"
    "r' \<in> set (dc_allow (decay_rule ev opt (gs_tool g) (voc (gs_tool g)) r))" by (auto simp: decay_grant_allow)
  from decayed_allow [OF r(2)] show ?thesis
  proof
    assume "r' = r" with r assms(3) show ?thesis by blast
  next
    assume "\<exists>vocab a. voc (gs_tool g) = Some vocab \<and> a \<in> set (reachable_actions vocab (rule_pattern r)) \<and> r' = literalRule a r"
    then obtain vocab a where a: "voc (gs_tool g) = Some vocab" "a \<in> set (reachable_actions vocab (rule_pattern r))"
      "r' = literalRule a r" by blast
    then have "plain_action a" using assms(1) by (auto simp: plain_vocabularies_def list_all_iff mem_reachable)
    from literal_applies [OF this, of cl inp ci r] assms(3) a r(1) show ?thesis
      by (auto simp: rule_applies_parts mem_reachable)
  qed
qed

lemma demoted_covered:
  assumes "plain_vocabularies voc" "r \<in> set (gs_allow g)"
    "r' \<in> set (dc_demoted (decay_rule ev opt (gs_tool g) (voc (gs_tool g)) r))" "rule_applies cl inp (compileRule ci r')"
  shows "rule_applies cl inp (compileRule ci r)"
  using assms(3)
proof (cases rule: decayed_demoted)
  case 1
  with assms(4) show ?thesis by simp
next
  case (2 vocab a)
  then have "plain_action a" using assms(1) by (auto simp: plain_vocabularies_def list_all_iff mem_reachable)
  from literal_applies [OF this, of cl inp ci r] assms(4) 2 show ?thesis by (auto simp: rule_applies_parts mem_reachable)
qed

lemma compileGrant_sets:
  "set (cg_deny (compileGrant g)) = compileRule True ` set (gs_deny g)"
  "set (cg_requireApproval (compileGrant g)) = compileRule True ` set (gs_require_approval g)"
  "set (cg_allow (compileGrant g)) = compileRule False ` set (gs_allow g)"
  by (simp_all add: compileGrant_def compileRules_def)

lemma verdict_not_deny:
  assumes "\<forall>r\<in>set (cg_deny g). \<not> rule_applies CDeny inp r"
    and "(\<exists>r\<in>set (cg_requireApproval g). rule_applies CRequireApproval inp r)
      \<or> (\<exists>r\<in>set (cg_allow g). rule_applies CAllow inp r) \<or> (\<exists>r\<in>set (cg_allow g). rule_opted inp r)"
  shows "grant_verdict g inp \<le> RequireApproval"
  using assms by (auto simp: grant_verdict_def less_eq_decision_def)

lemma decay_verdict_tightens:
  assumes plain: "plain_vocabularies voc" and exact: "case_exact inp g"
  shows "grant_verdict (compileGrant g) inp \<le> grant_verdict (compileGrant (decay_grant voc ev opt g)) inp"
    (is "?v \<le> ?v'")
proof (cases "compileGrant (decay_grant voc ev opt g)" inp rule: grant_verdict_cases)
  case (approval r)
  then obtain r0 where r0: "r0 \<in> set (gs_require_approval (decay_grant voc ev opt g))" "r = compileRule True r0"
    by (auto simp: compileGrant_sets)
  have deny: "\<forall>r\<in>set (cg_deny (compileGrant g)). \<not> rule_applies CDeny inp r"
    using approval(4) by (simp add: compileGrant_sets)
  from decay_grant_approval(2) [OF r0(1)] have "?v \<le> RequireApproval"
  proof
    assume "r0 \<in> set (gs_require_approval g)"
    with approval(2) r0(2) verdict_not_deny [OF deny] show ?thesis by (auto simp: compileGrant_sets)
  next
    assume "\<exists>r1\<in>set (gs_allow g). r0 \<in> set (dc_demoted (decay_rule ev opt (gs_tool g) (voc (gs_tool g)) r1))"
    then obtain r1 where r1: "r1 \<in> set (gs_allow g)"
      "r0 \<in> set (dc_demoted (decay_rule ev opt (gs_tool g) (voc (gs_tool g)) r1))" by blast
    have "rule_applies CAllow inp (compileRule True r1)"
      using demoted_covered [OF plain r1, of CAllow inp True] approval(2) r0(2) rule_applies_clause [of CAllow CRequireApproval inp r]
      by simp
    with exact r1(1) have "rule_applies CAllow inp (compileRule False r1)" by (auto simp: case_exact_def list_all_iff)
    with r1(1) verdict_not_deny [OF deny] show ?thesis by (auto simp: compileGrant_sets)
  qed
  with approval(3) show ?thesis by simp
next
  case (allow r)
  then obtain r0 where "r0 \<in> set (gs_allow (decay_grant voc ev opt g))" "rule_applies CAllow inp (compileRule False r0)"
    by (auto simp: compileGrant_sets)
  from allow_covered [OF plain this] allow(4,5) decay_grant_approval(1) [of g voc ev opt]
  have "?v = Allow" by (auto simp: grant_verdict_def compileGrant_sets)
  with allow(3) show ?thesis by simp
next
  case (opted r)
  then obtain r0 where r0: "r0 \<in> set (gs_allow (decay_grant voc ev opt g))" "rule_opted inp (compileRule False r0)"
    by (auto simp: compileGrant_sets)
  then obtain r1 where r1: "r1 \<in> set (gs_allow g)" "r0 \<in> set (dc_allow (decay_rule ev opt (gs_tool g) (voc (gs_tool g)) r1))"
    by (auto simp: decay_grant_allow)
  with decayed_allow [OF r1(2)] r0(2) have "r0 = r1" by (auto simp: rule_opted_def)
  with r0(2) r1(1) opted(4) have "?v \<le> RequireApproval"
    by (intro verdict_not_deny) (auto simp: compileGrant_sets)
  with opted(3) show ?thesis by simp
qed simp_all

text \<open>An action that is kept, or of a tool without a vocabulary, is decided as before once its target is known.\<close>

lemma decay_verdict_same:
  assumes plain: "plain_vocabularies voc" and resolved: "\<not> ei_unresolved inp"
    and kept: "\<forall>vocab. voc (gs_tool g) = Some vocab \<longrightarrow> ei_action inp \<in> set vocab \<and> kept_action ev opt (gs_tool g) (ei_action inp)"
  shows "grant_verdict (compileGrant (decay_grant voc ev opt g)) inp = grant_verdict (compileGrant g) inp"
proof -
  let ?g = "decay_grant voc ev opt g"
  have allow: "(\<exists>r\<in>set (gs_allow ?g). rule_applies CAllow inp (compileRule False r)) \<longleftrightarrow>
    (\<exists>r\<in>set (gs_allow g). rule_applies CAllow inp (compileRule False r))" (is "?l \<longleftrightarrow> ?r")
  proof
    assume ?l then show ?r using allow_covered [OF plain] by blast
  next
    assume ?r
    then obtain r where r: "r \<in> set (gs_allow g)" "rule_applies CAllow inp (compileRule False r)" by blast
    let ?ds = "dc_allow (decay_rule ev opt (gs_tool g) (voc (gs_tool g)) r)"
    have lit: "rule_applies CAllow inp (compileRule False (literalRule (ei_action inp) r))" if "literalRule (ei_action inp) r \<in> set ?ds"
    proof (cases "literalRule (ei_action inp) r = r")
      case False
      with that obtain vocab where "voc (gs_tool g) = Some vocab" by (cases "voc (gs_tool g)") (auto simp: decay_rule_def unchanged_rule_def)
      with kept plain have "plain_action (ei_action inp)" by (auto simp: plain_vocabularies_def list_all_iff)
      from literal_applies [OF this] r(2) show ?thesis by (simp add: rule_applies_parts [of _ _ _ r])
    qed (use r(2) in simp)
    have "r \<in> set ?ds \<or> literalRule (ei_action inp) r \<in> set ?ds"
      by (rule kept_survives) (use kept r(2) in \<open>auto simp: rule_applies_parts\<close>)
    then show ?l using lit r decay_grant_allow [of _ voc ev opt g] by blast
  qed
  have "\<not> rule_applies CRequireApproval inp (compileRule True r')"
    if "r \<in> set (gs_allow g)" "r' \<in> set (dc_demoted (decay_rule ev opt (gs_tool g) (voc (gs_tool g)) r))" for r r'
    using that(2)
  proof (cases rule: decayed_demoted)
    case (1 vocab)
    then show ?thesis using kept by (auto simp: rule_applies_parts mem_reachable)
  next
    case (2 vocab a)
    then have "plain_action a" using plain by (auto simp: plain_vocabularies_def list_all_iff mem_reachable)
    with 2 kept show ?thesis by (auto simp: literal_applies)
  qed
  then have appr: "(\<exists>r\<in>set (gs_require_approval ?g). rule_applies CRequireApproval inp (compileRule True r)) \<longleftrightarrow>
    (\<exists>r\<in>set (gs_require_approval g). rule_applies CRequireApproval inp (compileRule True r))"
    using decay_grant_approval [where g = g and voc = voc and ev = ev and opt = opt] by blast
  show ?thesis
    using allow appr resolved by (simp add: grant_verdict_def compileGrant_sets rule_opted_def)
qed

end
