(* ===== verification/Decay_Claims.thy ===== *)
theory Decay_Claims
  imports Decay_Props
begin

text \<open>
  The properties of tightening a policy from the log, over the compiled policies: what decay
  guarantees for every request, where demotion and shrinkwrap let more through than before, and
  that the check the command line runs after decay cannot fail.
\<close>

subsection \<open>Compiling a policy with other grants\<close>

lemma compileGrants_total:
  "distinct (map gs_tool gs) \<Longrightarrow> \<forall>g\<in>set gs. map_of m (gs_tool g) = None \<Longrightarrow> \<exists>m'. compileGrants gs m = Inr m'"
proof (induction gs arbitrary: m)
  case (Cons g gs)
  have "\<exists>m'. compileGrants gs (AList.update (gs_tool g) (compileGrant g) m) = Inr m'"
    by (rule Cons.IH) (use Cons.prems in \<open>auto simp: image_iff\<close>)
  with Cons.prems show ?case by simp
qed simp

lemma compile_with_grants:
  assumes c: "compilePolicySource tz rx s = Inr c" and tool: "\<And>g. gs_tool (f g) = gs_tool g"
  obtains c' where "compilePolicySource tz rx (s\<lparr>src_grants := map f (src_grants s)\<rparr>) = Inr c'"
    "map_of (cp_grants c') = map_of (map (\<lambda>g. (gs_tool g, compileGrant (f g))) (src_grants s))"
    "map_of (cp_grants c) = map_of (map (\<lambda>g. (gs_tool g, compileGrant g)) (src_grants s))"
proof -
  have cg: "compileGrants (src_grants s) [] = Inr (cp_grants c)" by (rule compilePolicySource_InrD [OF c])
  note d = compileGrants_distinct_aux [OF this]
  then have "distinct (map gs_tool (map f (src_grants s)))" by (simp add: tool o_def)
  then obtain m' where m': "compileGrants (map f (src_grants s)) [] = Inr m'" using compileGrants_total by fastforce
  then have "map_of m' = map_of (map (\<lambda>g. (gs_tool g, compileGrant (f g))) (src_grants s))"
    using compileGrants_distinct_aux [OF m'] by (simp add: o_def tool)
  moreover have "\<exists>c'. compilePolicySource tz rx (s\<lparr>src_grants := map f (src_grants s)\<rparr>) = Inr c' \<and> cp_grants c' = m'"
    using c cg m' by (auto simp: compilePolicySource_def split: sum.splits)
  ultimately show thesis using that d by auto
qed

lemma grant_of_tool:
  "map_of (map (\<lambda>g. (gs_tool g, F g)) gs) tool = (case List.find (\<lambda>g. gs_tool g = tool) gs of None \<Rightarrow> None | Some g \<Rightarrow> Some (F g))"
  by (induction gs) auto

lemma vocabularies_plain: "plain_vocabularies (\<lambda>tool. actionVocabulary (ty tool))"
proof -
  have "list_all plain_action GITHUB_ACTIONS" "list_all plain_action LINEAR_ACTION_LIST"
    "list_all plain_action SLACK_ACTION_LIST" "list_all plain_action MCP_TRANSPORT_ACTIONS"
    by code_simp+
  then show ?thesis
    by (auto simp: plain_vocabularies_def actionVocabulary_def split: if_splits)
qed

text \<open>The pair of policies decay is about.\<close>

lemma decay_verdicts:
  assumes c: "compilePolicySource tz rx s = Inr c"
    and d: "decayPolicy s voc ev opt = Inr (s', report)"
  shows "\<exists>c'. compilePolicySource tz rx s' = Inr c'
    \<and> (\<forall>inp. policy_verdict c inp = (case List.find (\<lambda>g. gs_tool g = ei_tool inp) (src_grants s) of None \<Rightarrow> Deny
        | Some g \<Rightarrow> grant_verdict (compileGrant g) inp))
    \<and> (\<forall>inp. policy_verdict c' inp = (case List.find (\<lambda>g. gs_tool g = ei_tool inp) (src_grants s) of None \<Rightarrow> Deny
        | Some g \<Rightarrow> grant_verdict (compileGrant (decay_grant voc ev opt g)) inp))"
proof -
  have s': "s' = s\<lparr>src_grants := map (decay_grant voc ev opt) (src_grants s)\<rparr>"
    using d by (auto simp: decayPolicy_def Let_def split: if_splits)
  obtain c' where "compilePolicySource tz rx s' = Inr c'"
    "map_of (cp_grants c') = map_of (map (\<lambda>g. (gs_tool g, compileGrant (decay_grant voc ev opt g))) (src_grants s))"
    "map_of (cp_grants c) = map_of (map (\<lambda>g. (gs_tool g, compileGrant g)) (src_grants s))"
    unfolding s' by (rule compile_with_grants [OF c decay_grant_tool])
  then show ?thesis by (auto simp: policy_verdict_def grant_of_tool split: option.splits)
qed

subsection \<open>Decay\<close>


text \<open>C29: actions in use keep their decision: an action the report calls active, or one without evidence either way, is
  decided as before at every target; so the check the command line makes after decay never finds an active action
  changed.\<close>
theorem decay_keeps_actions_in_use:
  assumes "compilePolicySource tz rx s = Inr c" and "compilePolicySource tz rx s' = Inr c'"
    and "decayPolicy s (\<lambda>tool. actionVocabulary (ty tool)) ev opt = Inr (s', report)"
  shows "(\<forall>tool vocab a target. actionVocabulary (ty tool) = Some vocab \<and> a \<in> set vocab \<and> kept_action ev opt tool a \<longrightarrow>
      er_decision (evaluate_at c tool a target) = er_decision (evaluate_at c' tool a target))
    \<and> decay_changed c c' report = 0"
proof -
  let ?voc = "\<lambda>tool. actionVocabulary (ty tool)"
  obtain c'' where c'': "compilePolicySource tz rx s' = Inr c''"
    and v: "\<And>inp. policy_verdict c inp = (case List.find (\<lambda>g. gs_tool g = ei_tool inp) (src_grants s) of None \<Rightarrow> Deny
        | Some g \<Rightarrow> grant_verdict (compileGrant g) inp)"
    and v': "\<And>inp. policy_verdict c'' inp = (case List.find (\<lambda>g. gs_tool g = ei_tool inp) (src_grants s) of None \<Rightarrow> Deny
        | Some g \<Rightarrow> grant_verdict (compileGrant (decay_grant ?voc ev opt g)) inp)"
    using decay_verdicts [OF assms(1,3)] by blast
  from c'' assms(2) have [simp]: "c'' = c'" by simp
  have same: "er_decision (evaluate_at c tool a target) = er_decision (evaluate_at c' tool a target)"
    if "?voc tool = Some vocab" "a \<in> set vocab" "kept_action ev opt tool a" for tool vocab a target
  proof (cases "List.find (\<lambda>g. gs_tool g = tool) (src_grants s)")
    case (Some g)
    let ?inp = "\<lparr>ei_tool = tool, ei_action = a, ei_target = target, ei_unresolved = False\<rparr>"
    have "gs_tool g = tool" using find_SomeD [OF Some] by simp
    then have "grant_verdict (compileGrant (decay_grant ?voc ev opt g)) ?inp = grant_verdict (compileGrant g) ?inp"
      by (intro decay_verdict_same [OF vocabularies_plain]) (use that in auto)
    then show ?thesis using v v' Some by (simp add: evaluate_decision)
  qed (simp add: evaluate_decision v v' [simplified])
  have "reach c tool a = reach c' tool a" if "(tool, a) \<in> set (dr_activePairs report)" for tool a
  proof -
    have "(tool, a) \<in> (\<lambda>i. (ai_tool i, ai_action i)) ` {i \<in> set (concat (map dc_actions (concat (map (decay_rules ?voc ev opt) (src_grants s))))). ai_class i = Active}"
      using assms(3) that by (auto simp: decayPolicy_def Let_def split: if_splits)
    then obtain g :: grant_source and r i where i: "i \<in> set (dc_actions (decay_rule ev opt (gs_tool g) (?voc (gs_tool g)) r))" "ai_class i = Active"
      "ai_tool i = tool" "ai_action i = a" by (auto simp: decay_rules_def)
    then obtain vocab b where "?voc (gs_tool g) = Some vocab" "b \<in> set vocab" "i = action_info_of ev opt (gs_tool g) b"
      by (auto simp: decay_rule_def unchanged_rule_def Let_def mem_reachable split: option.splits if_splits)
    moreover from this(3) i have "gs_tool g = tool" "b = a" by (simp_all add: action_info_of_def Let_def)
    ultimately show ?thesis using same [of tool vocab a None] i(2) by (simp add: reach_def kept_action_def keeps_class_def)
  qed
  then have "decay_changed c c' report = 0" by (auto simp: decay_changed_def filter_empty_conv)
  with same show ?thesis by blast
qed

subsection \<open>Missing evidence\<close>

lemma kept_rule: "(\<And>a. kept_action ev opt tool a) \<Longrightarrow>
    dc_allow (decay_rule ev opt tool voc r) = [r] \<and> dc_demoted (decay_rule ev opt tool voc r) = []"
  by (auto simp: decay_rule_def unchanged_rule_def Let_def split: option.splits)

lemma concat_map_Nil: "concat (map (\<lambda>x. []) xs) = []"
  by (induction xs) auto

lemma kept_grant: "(\<And>a. kept_action ev opt (gs_tool g) a) \<Longrightarrow> decay_grant voc ev opt g = g"
  by (simp add: decay_grant_def decay_rules_def Let_def o_def kept_rule concat_map_Nil concat_map_singleton)

lemma uncovered_kept: "\<not> covered (ev_coverageStart ev) (stale_before opt) \<Longrightarrow> kept_action ev opt tool a"
  by (simp add: kept_action_def action_info_of_def decay_classify_def keeps_class_def Let_def)

lemma veto_merge_cases:
  "veto_merge cov sb m lu k = lu k \<or> (cov \<and> (\<exists>ts n. veto_merge cov sb m lu k = Some (ts, n) \<and> ts \<ge> sb))"
proof (induction m arbitrary: lu)
  case (Cons x m)
  obtain k' ts where x: "x = (k', ts)" by (cases x)
  let ?lu = "if cov \<and> (case lu k' of None \<Rightarrow> True | Some (t, _) \<Rightarrow> t < sb) \<and> ts \<ge> sb
        then lu(k' \<mapsto> (ts, case lu k' of None \<Rightarrow> 0 | Some (_, n) \<Rightarrow> n)) else lu"
  from Cons.IH [of ?lu] x show ?case by (auto split: if_splits)
qed simp

lemma fleet_keeps:
  assumes "kept_action ev opt tool a" shows "kept_action (fleet_evidence opt docs ev) opt tool a"
proof -
  obtain m where m: "ev_lastUsed (fleet_evidence opt docs ev) =
      veto_merge (covered (ev_coverageStart ev) (stale_before opt)) (stale_before opt) m (ev_lastUsed ev)"
    "ev_coverageStart (fleet_evidence opt docs ev) = ev_coverageStart ev"
    by (simp add: fleet_evidence_def Let_def)
  show ?thesis
    using veto_merge_cases [of "covered (ev_coverageStart ev) (stale_before opt)" "stale_before opt" m "ev_lastUsed ev" "evidenceKey tool a"]
  proof
    assume "veto_merge (covered (ev_coverageStart ev) (stale_before opt)) (stale_before opt) m (ev_lastUsed ev) (evidenceKey tool a)
      = ev_lastUsed ev (evidenceKey tool a)"
    with assms m show ?thesis by (simp add: kept_action_def action_info_of_def Let_def)
  qed (use m in \<open>auto simp: kept_action_def action_info_of_def decay_classify_def keeps_class_def Let_def\<close>)
qed

text \<open>C30: the absence of rows is never evidence of disuse: if the agent's log does not reach back past the staleness
  threshold, or was emptied, decay returns the very policy it was given; and the evidence of peers can only keep an
  action that would have decayed, never decay one that was kept.\<close>
theorem missing_evidence_never_decays:
  "(\<not> covered (ev_coverageStart ev) (stale_before opt) \<and> decayPolicy s voc ev opt = Inr (s', report) \<longrightarrow> s' = s)
   \<and> (kept_action ev opt tool a \<longrightarrow> kept_action (fleet_evidence opt docs ev) opt tool a)"
proof -
  have "decay_grant voc ev opt g = g" if "\<not> covered (ev_coverageStart ev) (stale_before opt)" for g
    by (rule kept_grant) (rule uncovered_kept [OF that])
  then have "s\<lparr>src_grants := map (decay_grant voc ev opt) (src_grants s)\<rparr> = s" if "\<not> covered (ev_coverageStart ev) (stale_before opt)"
    using that by (simp add: map_idI)
  then show ?thesis
    using fleet_keeps by (auto simp: decayPolicy_def Let_def split: if_splits)
qed

subsection \<open>Concrete policies\<close>

definition ex_grant :: grant_source where
  "ex_grant = \<lparr>gs_tool = ''gh'', gs_allow = [RuleObj ''repo:read'' (Some [''acme/*'']) None None, RuleStr ''pr:*''],
     gs_deny = [], gs_require_approval = []\<rparr>"

definition ex_source :: policy_source where
  "ex_source = \<lparr>src_agent = ''bot'', src_on_behalf_of = ''ops'', src_grants = [ex_grant], src_budget = None,
     src_approvals = None, src_dlp = None, src_step_up = None, src_schedule = None, src_first_use = None, src_quorum = None,
     src_flows = None, src_tripwires = None, src_pins = [], src_responses = []\<rparr>"

definition ex_type :: "string \<Rightarrow> string" where "ex_type tool = ''github''"

text \<open>Sixty days of log: \<open>pr:merge\<close> used yesterday, \<open>repo:read\<close> at the start.\<close>

definition ex_evidence :: decay_evidence where
  "ex_evidence = \<lparr>ev_lastUsed = [evidenceKey ''gh'' ''pr:merge'' \<mapsto> (59 * 86400000, 3), evidenceKey ''gh'' ''repo:read'' \<mapsto> (0, 1)],
     ev_coverageStart = Some 0, ev_agentUsageRows = 4\<rparr>"

definition ex_options :: decay_options where
  "ex_options = \<lparr>do_now = 60 * 86400000, do_staleDays = 30, do_mode = Demote, do_agentId = ''bot''\<rparr>"

definition ex_decayed :: policy_source where
  "ex_decayed = (case decayPolicy ex_source (\<lambda>tool. actionVocabulary (ex_type tool)) ex_evidence ex_options of Inr (s, _) \<Rightarrow> s)"

definition ex_compiled :: "policy_source \<Rightarrow> compiled_policy" where
  "ex_compiled s = (case compilePolicySource (\<lambda>_. True) (\<lambda>_. None) s of Inr c \<Rightarrow> c)"

lemma ex_decays: "\<exists>report. decayPolicy ex_source (\<lambda>tool. actionVocabulary (ex_type tool)) ex_evidence ex_options = Inr (ex_decayed, report)"
  by (simp add: ex_decayed_def decayPolicy_def ex_evidence_def Let_def)

lemma ex_compiles:
  "compilePolicySource (\<lambda>_. True) (\<lambda>_. None) ex_source = Inr (ex_compiled ex_source)"
  by (simp add: ex_compiled_def compilePolicySource_def ex_source_def)


lemma ex_decayed_compiles: "compilePolicySource (\<lambda>_. True) (\<lambda>_. None) ex_decayed = Inr (ex_compiled ex_decayed)"
proof -
  obtain c' where "compilePolicySource (\<lambda>_. True) (\<lambda>_. None) ex_decayed = Inr c'"
    using decay_verdicts [OF ex_compiles] ex_decays by blast
  then show ?thesis by (simp add: ex_compiled_def)
qed

theorem decay_keeps_actions_in_use_witness:
  "er_decision (evaluate_at (ex_compiled ex_source) ''gh'' ''pr:merge'' (Some ''acme/x''))
     = er_decision (evaluate_at (ex_compiled ex_decayed) ''gh'' ''pr:merge'' (Some ''acme/x''))"
proof -
  obtain report where r: "decayPolicy ex_source (\<lambda>tool. actionVocabulary (ex_type tool)) ex_evidence ex_options = Inr (ex_decayed, report)"
    using ex_decays by blast
  have "kept_action ex_evidence ex_options ''gh'' ''pr:merge''" "''pr:merge'' \<in> set (the (actionVocabulary (ex_type ''gh'')))"
    by code_simp+
  moreover have "actionVocabulary (ex_type ''gh'') = Some GITHUB_ACTIONS" by (simp add: actionVocabulary_def ex_type_def)
  ultimately show ?thesis
    using decay_keeps_actions_in_use [OF ex_compiles ex_decayed_compiles r, THEN conjunct1] by auto
qed

theorem missing_evidence_never_decays_witness:
  "src_grants (case decayPolicy ex_source (\<lambda>tool. actionVocabulary (ex_type tool)) (ex_evidence\<lparr>ev_coverageStart := None\<rparr>) ex_options
     of Inr (s, _) \<Rightarrow> s) = [ex_grant]"
proof -
  let ?ev = "ex_evidence\<lparr>ev_coverageStart := None\<rparr>"
  obtain s' report where d: "decayPolicy ex_source (\<lambda>tool. actionVocabulary (ex_type tool)) ?ev ex_options = Inr (s', report)"
    by (simp add: decayPolicy_def ex_evidence_def Let_def)
  moreover have "\<not> covered (ev_coverageStart ?ev) (stale_before ex_options)" by (simp add: covered_def)
  ultimately have "s' = ex_source"
    using missing_evidence_never_decays [of ?ev ex_options ex_source "\<lambda>tool. actionVocabulary (ex_type tool)" s' report] by blast
  with d show ?thesis by (simp add: ex_source_def)
qed


subsection \<open>Shrinkwrap on bare rules\<close>

text \<open>Without target-scoped rules, and over actions the policy still allows, shrinkwrap tightens.\<close>

lemma shrinkwrap_tightens:
  assumes c: "compilePolicySource tz rx s = Inr c" and fin: "\<And>tool. finite (used tool)"
    and plain: "\<And>g a. g \<in> set (src_grants s) \<Longrightarrow> a \<in> used (gs_tool g) \<Longrightarrow> plain_action a
      \<and> (\<exists>r\<in>set (gs_allow g). cr_targets (compileRule False r) = None \<and> pattern_test (compilePattern False (rule_pattern r)) a)"
  shows "\<exists>c'. compilePolicySource tz rx (shrinkwrapPolicy s used) = Inr c' \<and> er_decision (evaluate c inp) \<le> er_decision (evaluate c' inp)"
proof -
  let ?f = "\<lambda>g. g\<lparr>gs_allow := map RuleStr (sorted_list_of_set (used (gs_tool g)))\<rparr>"
  obtain c' where c': "compilePolicySource tz rx (shrinkwrapPolicy s used) = Inr c'"
    "map_of (cp_grants c') = map_of (map (\<lambda>g. (gs_tool g, compileGrant (?f g))) (src_grants s))"
    "map_of (cp_grants c) = map_of (map (\<lambda>g. (gs_tool g, compileGrant g)) (src_grants s))"
    unfolding shrinkwrapPolicy_def by (rule compile_with_grants [OF c, of ?f]) simp
  have "grant_verdict (compileGrant g) inp \<le> grant_verdict (compileGrant (?f g)) inp" if g: "g \<in> set (src_grants s)" for g
  proof -
    let ?g = "compileGrant g" and ?g' = "compileGrant (?f g)"
    have "\<exists>r\<in>set (cg_allow ?g). rule_applies CAllow inp r" if "\<exists>r\<in>set (cg_allow ?g'). rule_applies CAllow inp r"
    proof -
      from that obtain a where a: "a \<in> used (gs_tool g)" "rule_applies CAllow inp (compileRule False (RuleStr a))"
        using fin by (auto simp: compileGrant_sets)
      with plain [OF g] have "ei_action inp = a" by (auto simp: rule_applies_def plain_test)
      with plain [OF g a(1)] show ?thesis by (auto simp: compileGrant_sets rule_applies_parts targets_apply_def)
    qed
    moreover have "\<not> (\<exists>r\<in>set (cg_allow ?g'). rule_opted inp r)"
      by (auto simp: compileGrant_sets rule_opted_def)
    moreover have "cg_deny ?g' = cg_deny ?g" "cg_requireApproval ?g' = cg_requireApproval ?g"
      by (simp_all add: compileGrant_def)
    ultimately show ?thesis unfolding grant_verdict_def by (simp add: less_eq_decision_def)
  qed
  then have "policy_verdict c inp \<le> policy_verdict c' inp"
    using c'(2,3) by (auto simp: policy_verdict_def grant_of_tool dest!: find_SomeD split: option.splits)
  with c'(1) show ?thesis by (auto simp: evaluate_decision)
qed

end
