(* ===== verification/Liveness_Claims.thy ===== *)
theory Liveness_Claims
  imports Escalation_Claims Server_Findings
begin

text \<open>
  Held requests do not wait for ever: once the timer of an approval has fired, or the proxy has
  drained its broker, or a human or the client has decided, the request that waits on it is
  answered.
\<close>

subsection \<open>A created request is pending until it is settled\<close>

definition settled_key :: "string \<Rightarrow> broker \<Rightarrow> bool" where
  "settled_key k b \<longleftrightarrow> map_of (br_settled b) k \<noteq> None"

definition pending_or_settled :: "string \<Rightarrow> broker \<Rightarrow> bool" where
  "pending_or_settled k b \<longleftrightarrow> map_of (br_entries b) k \<noteq> None \<or> settled_key k b"

lemma settled_key_entries [simp]: "settled_key k (b\<lparr>br_entries := x\<rparr>) = settled_key k b"
  by (simp add: settled_key_def)

lemma settled_key_iff: "settled_key k b \<longleftrightarrow> k \<in> fst ` set (br_settled b)"
  by (simp add: settled_key_def map_of_eq_None_iff)

lemma pending_or_settled_iff: "pending_or_settled k b \<longleftrightarrow> k \<in> fst ` set (br_entries b) \<or> settled_key k b"
  by (simp add: pending_or_settled_def map_of_eq_None_iff)

definition all_pending :: "broker \<Rightarrow> bool" where
  "all_pending b \<longleftrightarrow> (\<forall>kr\<in>set (br_entries b). ap_state (snd kr) = Pending)"

lemma settle_keeps:
  "settled_key k b \<Longrightarrow> settled_key k (snd (br_settle j st d b))"
  "pending_or_settled k b \<Longrightarrow> pending_or_settled k (snd (br_settle j st d b))"
  by (auto simp: br_settle_def pending_or_settled_def settled_key_def map_add_def split: option.splits)

lemma settle_settles:
  assumes "pending_or_settled k b" "all_pending b" shows "settled_key k (snd (br_settle k st d b))"
proof (cases "settled_key k b")
  case False
  with assms(1) obtain rec where "map_of (br_entries b) k = Some rec"
    by (auto simp: pending_or_settled_def)
  with assms(2) map_of_SomeD [OF this] show ?thesis
    by (fastforce simp: br_settle_def all_pending_def settled_key_def map_add_def split: option.splits)
qed (rule settle_keeps)

lemma drain_keeps:
  "settled_key k b \<Longrightarrow> settled_key k (foldl (\<lambda>b j. snd (br_settle j ApprovalExpired None b)) b js)"
  "pending_or_settled k b \<Longrightarrow> pending_or_settled k (foldl (\<lambda>b j. snd (br_settle j ApprovalExpired None b)) b js)"
  by (induction js arbitrary: b) (simp_all add: settle_keeps)

lemma approve_keeps:
  "settled_key k b \<Longrightarrow> settled_key k (snd (br_approveBy j a b))"
  "pending_or_settled k b \<Longrightarrow> pending_or_settled k (snd (br_approveBy j a b))"
  by (auto simp: approveBy_state pending_or_settled_def settled_key_def Let_def map_add_def split: option.splits if_splits)

lemma event_keeps_settled: "settled_key k b \<Longrightarrow> settled_key k (br_event b e)"
  by (cases e) (simp_all add: br_create_def Let_def approve_keeps br_deny_def br_cancel_def settle_keeps br_drain_def drain_keeps)

lemma event_keeps: "pending_or_settled k b \<Longrightarrow> pending_or_settled k (br_event b e)"
proof (cases e)
  case (Create j now inp q)
  then show "pending_or_settled k b \<Longrightarrow> ?thesis"
    by (auto simp: br_create_def Let_def pending_or_settled_def settled_key_def)
qed (simp_all add: approve_keeps br_deny_def br_cancel_def settle_keeps br_drain_def drain_keeps)

lemma run_keeps:
  "settled_key k b \<Longrightarrow> settled_key k (foldl br_event b evs)"
  "pending_or_settled k b \<Longrightarrow> pending_or_settled k (foldl br_event b evs)"
  by (induction evs arbitrary: b) (simp_all add: event_keeps_settled event_keeps)

lemma run_all_pending: "distinct (created_ids evs) \<Longrightarrow> all_pending (br_run (new_broker ttl cap) evs)"
  using hist_run [of evs ttl cap] by (auto simp: hist_def entry_hist_def record_ok_def all_pending_def)

text \<open>The events that decide a request.\<close>

definition decides :: "string \<Rightarrow> broker_event \<Rightarrow> bool" where
  "decides k e \<longleftrightarrow> e = TimerFires k \<or> e = Cancel k \<or> (\<exists>approver. e = Reject k approver) \<or> e = Drain"

lemma decides_settles:
  assumes "decides k e" "pending_or_settled k b" "all_pending b" "distinct (alist_keys (br_entries b))"
  shows "settled_key k (br_event b e)"
proof (cases "e = Drain")
  case True
  from drain_gen [OF assms(3) [unfolded all_pending_def] assms(4) subset_refl]
  have "br_settled (br_event b e) = br_settled b @ map (\<lambda>k. (k, \<lparr>ao_state = ApprovalExpired, ao_decidedBy = None\<rparr>)) (alist_keys (br_entries b))"
    by (simp add: True br_drain_def)
  then have "fst ` set (br_settled (br_event b e)) = fst ` set (br_settled b) \<union> fst ` set (br_entries b)"
    by (simp add: image_Un image_image)
  with assms(2) show ?thesis by (auto simp: pending_or_settled_iff settled_key_iff)
next
  case False
  with assms settle_settles [OF assms(2,3)] show ?thesis
    by (auto simp: decides_def br_cancel_def br_deny_def)
qed

lemma decided_is_settled:
  assumes ids: "distinct (created_ids (before @ Create k now inp q # after))" and e: "e \<in> set after" "decides k e"
  shows "settled_key k (br_run (new_broker ttl cap) (before @ Create k now inp q # after))"
proof -
  from e(1) obtain xs ys where after: "after = xs @ e # ys" by (auto dest: split_list)
  let ?pre = "before @ Create k now inp q # xs"
  let ?b = "br_run (new_broker ttl cap) ?pre"
  have d: "distinct (created_ids ?pre)" using ids after by (auto simp: created_ids_append)
  have "pending_or_settled k (br_event (br_run (new_broker ttl cap) before) (Create k now inp q))"
    by (simp add: br_create_def Let_def pending_or_settled_def)
  then have "pending_or_settled k ?b" by (simp add: br_run_def run_keeps)
  moreover have "distinct (alist_keys (br_entries ?b))" using hist_run [OF d] by (simp add: hist_def)
  ultimately have "settled_key k (br_event ?b e)" by (rule decides_settles [OF e(2) _ run_all_pending [OF d]])
  then have "settled_key k (foldl br_event (br_event ?b e) ys)" by (rule run_keeps)
  then show ?thesis by (simp add: br_run_def after)
qed

subsection \<open>The request that waits\<close>

text \<open>C19: a held request is answered: if the broker the request resumes in has a history in which, after its approval was
  created, the approval's timer fired, a human rejected it, the client hung up or the proxy drained its broker, then
  the request does not stay held, whatever else happened in between.\<close>
theorem held_request_is_answered:
  assumes "px_broker (resumed h inp um q s) = Some (br_run (new_broker ttl cap) (before @ Create (ho_id h) (ho_now h) inp q # after))"
    and "distinct (created_ids (before @ Create (ho_id h) (ho_now h) inp q # after))"
    and "e \<in> set after" "decides (ho_id h) e"
  shows "fst (awaitApproval w h d inp um q s) \<noteq> Inl Held"
proof -
  have "settled_key (ho_id h) (br_run (new_broker ttl cap) (before @ Create (ho_id h) (ho_now h) inp q # after))"
    by (rule decided_is_settled [OF assms(2-4)])
  then obtain out where out: "map_of (br_settled (br_run (new_broker ttl cap) (before @ Create (ho_id h) (ho_now h) inp q # after))) (ho_id h) = Some out"
    by (auto simp: settled_key_def)
  have "fst (approval_resumes w h d inp um q (resumed h inp um q s)) \<noteq> Inl Held"
    using assms(1) out
    by (auto simp: approval_resumes_def deny_as_def s_bind_def Let_def split: approval_state.splits sum.splits prod.splits)
  then show ?thesis
    by (auto simp: awaitApproval_def resumed_def Let_def deny_as_def s_bind_def split: option.splits prod.splits sum.splits)
qed

definition sc_timer_hold :: hold where
  "sc_timer_hold = sc_hold\<lparr>ho_meanwhile := (\<lambda>s. s\<lparr>px_broker := map_option (\<lambda>b. br_event b (TimerFires ''a1'')) (px_broker s)\<rparr>)\<rparr>"

theorem held_request_is_answered_witness:
  "fst (awaitApproval sc_world sc_timer_hold (base_log sc_world sc_get) sc_prompt True 1 sc_state) \<noteq> Inl Held"
proof -
  have br: "px_broker (resumed sc_timer_hold sc_prompt True 1 sc_state)
      = Some (br_run (new_broker 1000 5) ([] @ Create (ho_id sc_timer_hold) (ho_now sc_timer_hold) sc_prompt 1 # [TimerFires ''a1'']))"
    by (simp add: resumed_def Let_def sc_timer_hold_def sc_hold_def sc_state_def recall_if_def br_run_def)
  show ?thesis
    by (rule held_request_is_answered [OF br, of "TimerFires ''a1''"]) (simp_all add: decides_def sc_timer_hold_def sc_hold_def)
qed

end
