(* ===== verification/Explain.thy ===== *)
theory Explain
  imports Server
begin

text \<open>
  The trace that says why a request would be decided as it is: what it is computed from
  (\<^verbatim>\<open>explain/inputs.ts\<close>, the live stores of the running proxy, or the files of a stopped one) and the
  trace itself (\<^verbatim>\<open>explain/report.ts\<close>). A store that is not there is \<open>None\<close>;
  the pair of approval settings is passed through.
\<close>

subsection \<open>What the trace is computed from\<close>

record active_grant =
  xg_id :: string
  xg_actions :: "string list"
  xg_expiresAt :: ms

record explain_inputs =
  xi_policy :: compiled_policy
  xi_tool :: string
  xi_action :: string
  xi_target :: "string option"
  xi_agentId :: agent_id
  xi_revoked :: "string option"
  xi_activeGrants :: "active_grant list"
  xi_spentAgent :: int
  xi_spentUpstream :: int
  xi_riskLevel :: "risk_level option"
  xi_scheduleOpen :: "bool option"
  xi_firstUseSeen :: "bool option"
  xi_approvals :: "int \<times> int"

record explain_sources =
  xs_policy :: compiled_policy
  xs_agentId :: agent_id
  xs_tool :: string
  xs_action :: string
  xs_target :: "string option"
  xs_now :: ms
  xs_log :: "request_log option"
  xs_revocations :: "revocation_store option"
  xs_grants :: "grant_store option"
  xs_approvals :: "int \<times> int"

definition active_grants :: "explain_sources \<Rightarrow> active_grant list" where
  "active_grants src =
     map (\<lambda>g. \<lparr>xg_id = tg_id g, xg_actions = tg_actions g, xg_expiresAt = tg_expiresAt g\<rparr>)
       (filter (\<lambda>g. tg_agentId g = xs_agentId src
            \<and> \<not> (case xs_revocations src of None \<Rightarrow> False | Some rv \<Rightarrow> rv_isRevoked rv (tg_id g)))
          (case xs_grants src of None \<Rightarrow> [] | Some gs \<Rightarrow> grant_list gs (xs_now src)))"

definition first_use_seen :: "explain_sources \<Rightarrow> bool option" where
  "first_use_seen src =
     (case cp_firstUse (xs_policy src) of
        None \<Rightarrow> None
      | Some fu \<Rightarrow>
          if \<not> firstUseInScope fu (xs_action src) then None
          else case xs_log src of
            None \<Rightarrow> Some False
          | Some log \<Rightarrow> Some (hasForwardedActionSince log (xs_agentId src) (xs_tool src) (xs_action src)
              (case cf_windowMs fu of None \<Rightarrow> 0 | Some ms \<Rightarrow> xs_now src - ms)))"

definition collectExplainInputs :: "wall_clock \<Rightarrow> explain_sources \<Rightarrow> explain_inputs" where
  "collectExplainInputs wallClock src =
     (let policy = xs_policy src; since = xs_now src - BUDGET_WINDOW_MS in
      \<lparr>xi_policy = policy, xi_tool = xs_tool src, xi_action = xs_action src, xi_target = xs_target src,
       xi_agentId = xs_agentId src,
       xi_revoked = Option.bind (xs_revocations src) (\<lambda>rv. map_option rr_reason (rv_get rv (xs_agentId src))),
       xi_activeGrants = active_grants src,
       xi_spentAgent = (case xs_log src of None \<Rightarrow> 0 | Some log \<Rightarrow> countAllowedSince log (xs_agentId src) since),
       xi_spentUpstream = (case xs_log src of None \<Rightarrow> 0
          | Some log \<Rightarrow> countAllowedSinceForUpstream log (xs_agentId src) (xs_tool src) since),
       xi_riskLevel = (case (xs_log src, cp_stepUp policy) of
            (Some log, Some windowMs) \<Rightarrow>
              Some (ra_level (scoreRisk (agentActivity log (xs_agentId src) (xs_now src - windowMs))))
          | _ \<Rightarrow> None),
       xi_scheduleOpen = map_option (\<lambda>sch. withinSchedule wallClock sch (xs_now src)) (cp_schedule policy),
       xi_firstUseSeen = first_use_seen src, xi_approvals = xs_approvals src\<rparr>)"

subsection \<open>The trace\<close>

datatype grant_effect = WidensGap | WidensApproval | NeverOverridesDeny | NotNeeded

type_synonym effective = "decision \<times> reason_code"

record budget_line =
  bl_limit :: "int option"
  bl_override :: bool
  bl_spent :: int
  bl_cost :: int
  bl_wouldExceed :: bool

record explain_report =
  xr_engine :: engine_result
  xr_scopedRules :: nat
  xr_scheduleOpen :: "bool option"
  xr_firstUseSeen :: "bool option"
  xr_flowSinks :: "(effect \<times> string list \<times> int) list"
  xr_tripwire :: "string option option"
  xr_pins :: "(effect \<times> nat) list"
  xr_responseCap :: "response_limit option"
  xr_perAgentApproval :: bool
  xr_revoked :: bool
  xr_grantMatch :: "(string \<times> string \<times> ms) option"
  xr_grantEffect :: "grant_effect option"
  xr_stepUp :: "(int \<times> risk_level option \<times> bool) option"
  xr_agentBudget :: budget_line
  xr_upstreamBudget :: "(int \<times> int \<times> bool) option"
  xr_approvals :: "int \<times> int"
  xr_effective :: effective

definition scoped_rules :: "explain_inputs \<Rightarrow> nat" where
  "scoped_rules x =
     (let covers = (\<lambda>targets action. targets \<noteq> None \<and> pattern_test action (xi_action x)) in
      (case map_of (cp_grants (xi_policy x)) (xi_tool x) of
         None \<Rightarrow> 0
       | Some g \<Rightarrow> length (filter (\<lambda>r. covers (cr_targets r) (cr_action r)) (cg_deny g @ cg_requireApproval g @ cg_allow g)))
      + length (filter (\<lambda>r. covers (ca_targets r) (ca_action r))
          (case cp_perAgentApproval (xi_policy x) (xi_agentId x) of None \<Rightarrow> [] | Some rules \<Rightarrow> rules)))"

fun grant_match :: "string \<Rightarrow> active_grant list \<Rightarrow> (string \<times> string \<times> ms) option" where
  "grant_match action [] = None"
| "grant_match action (g # gs) =
     (case List.find (\<lambda>p. globMatch p action) (xg_actions g) of
        Some pattern \<Rightarrow> Some (xg_id g, pattern, xg_expiresAt g)
      | None \<Rightarrow> grant_match action gs)"

definition grant_effect_of :: "engine_result \<Rightarrow> (string \<times> string \<times> ms) option \<Rightarrow> grant_effect option" where
  "grant_effect_of engine gm =
     (if gm = None then None
      else if er_decision engine = Allow then Some NotNeeded
      else if er_reason engine = R_explicit_deny then Some NeverOverridesDeny
      else if er_decision engine = RequireApproval then Some WidensApproval
      else Some WidensGap)"

text \<open>The updates of \<open>effective\<close>, in the order of the function.\<close>

definition eff_start :: "explain_inputs \<Rightarrow> engine_result \<Rightarrow> grant_effect option \<Rightarrow> effective" where
  "eff_start x engine ge =
     (if xi_revoked x \<noteq> None then (Deny, R_token_revoked)
      else if ge = Some WidensGap \<or> ge = Some WidensApproval then (Allow, R_jit_grant)
      else (er_decision engine, er_reason engine))"

definition eff_schedule :: "explain_inputs \<Rightarrow> effective \<Rightarrow> effective" where
  "eff_schedule x eff =
     (case cp_schedule (xi_policy x) of
        None \<Rightarrow> eff
      | Some sch \<Rightarrow>
          if xi_scheduleOpen x = Some False \<and> fst eff \<noteq> Deny
          then (if cs_onClosed sch = EDeny then (Deny, R_schedule_closed) else (RequireApproval, R_approval_required))
          else eff)"

definition eff_first_use :: "explain_inputs \<Rightarrow> effective \<Rightarrow> effective" where
  "eff_first_use x eff =
     (case cp_firstUse (xi_policy x) of
        None \<Rightarrow> eff
      | Some fu \<Rightarrow>
          if xi_firstUseSeen x = Some False \<and> fst eff = Allow \<and> snd eff \<noteq> R_jit_grant
          then (if cf_onFirst fu = EDeny then (Deny, R_first_use_denied) else (RequireApproval, R_approval_required))
          else eff)"

definition step_up_line :: "explain_inputs \<Rightarrow> effective \<Rightarrow> (int \<times> risk_level option \<times> bool) option" where
  "step_up_line x eff =
     map_option (\<lambda>windowMs. (windowMs, xi_riskLevel x, fst eff = Allow \<and> xi_riskLevel x = Some High)) (cp_stepUp (xi_policy x))"

definition eff_step_up :: "explain_inputs \<Rightarrow> effective \<Rightarrow> effective" where
  "eff_step_up x eff =
     (case step_up_line x eff of
        Some (_, _, True) \<Rightarrow> (RequireApproval, R_approval_required)
      | _ \<Rightarrow> eff)"

definition overlay_applies :: "explain_inputs \<Rightarrow> bool" where
  "overlay_applies x = agentRequiresApproval (xi_policy x) (xi_agentId x) (xi_action x) (xi_target x)"

definition eff_overlay :: "explain_inputs \<Rightarrow> effective \<Rightarrow> effective" where
  "eff_overlay x eff =
     (if overlay_applies x \<and> fst eff = Allow then (RequireApproval, R_approval_required) else eff)"

definition agent_budget_line :: "explain_inputs \<Rightarrow> budget_line" where
  "agent_budget_line x =
     (let cost = actionCost (xi_policy x) (xi_action x); ceiling = agentCeiling (xi_policy x) (xi_agentId x) in
      \<lparr>bl_limit = ac_limit ceiling, bl_override = ac_override ceiling, bl_spent = xi_spentAgent x, bl_cost = cost,
       bl_wouldExceed = (case ac_limit ceiling of None \<Rightarrow> False | Some limit \<Rightarrow> xi_spentAgent x + cost > limit)\<rparr>)"

definition upstream_budget_line :: "explain_inputs \<Rightarrow> (int \<times> int \<times> bool) option" where
  "upstream_budget_line x =
     map_option (\<lambda>limit. (limit, xi_spentUpstream x, xi_spentUpstream x + actionCost (xi_policy x) (xi_action x) > limit))
       (cp_perUpstream (xi_policy x) (xi_tool x))"

definition eff_budget :: "explain_inputs \<Rightarrow> effective \<Rightarrow> effective" where
  "eff_budget x eff =
     (if fst eff = Allow \<or> fst eff = RequireApproval then
        if bl_wouldExceed (agent_budget_line x)
        then (Deny, if bl_override (agent_budget_line x) then R_agent_budget_exceeded else R_budget_exceeded)
        else if (case upstream_budget_line x of None \<Rightarrow> False | Some (_, _, exceeds) \<Rightarrow> exceeds)
        then (Deny, R_upstream_budget_exceeded)
        else eff
      else eff)"

definition flow_sinks :: "explain_inputs \<Rightarrow> (effect \<times> string list \<times> int) list" where
  "flow_sinks x =
     map (\<lambda>f. (fw_effect f, map pt_source (fw_when f), (fw_withinMs f + 500) div 1000))
       (filter (\<lambda>f. matches_any (fw_then f) (xi_action x)) (cp_flows (xi_policy x)))"

definition pin_lines :: "explain_inputs \<Rightarrow> (effect \<times> nat) list" where
  "pin_lines x =
     map (\<lambda>(i, p). (pn_effect p, i))
       (filter (\<lambda>(i, p). matches_any (pn_on p) (xi_action x)) (enumerate 0 (cp_pins (xi_policy x))))"

definition buildExplain :: "explain_inputs \<Rightarrow> explain_report" where
  "buildExplain x =
     (let engine = evaluate_at (xi_policy x) (xi_tool x) (xi_action x) (xi_target x);
          gm = grant_match (xi_action x) (xi_activeGrants x);
          ge = grant_effect_of engine gm;
          e1 = eff_first_use x (eff_schedule x (eff_start x engine ge));
          e2 = eff_overlay x (eff_step_up x e1)
      in \<lparr>xr_engine = engine, xr_scopedRules = scoped_rules x, xr_scheduleOpen = xi_scheduleOpen x,
          xr_firstUseSeen = xi_firstUseSeen x, xr_flowSinks = flow_sinks x,
          xr_tripwire = map_option tw_note (matchTripwire (cp_tripwires (xi_policy x)) (xi_action x) (xi_target x)),
          xr_pins = pin_lines x,
          xr_responseCap = resolveResponseLimit (xi_policy x) (xi_action x) (xi_target x),
          xr_perAgentApproval = overlay_applies x, xr_revoked = (xi_revoked x \<noteq> None),
          xr_grantMatch = gm, xr_grantEffect = ge, xr_stepUp = step_up_line x e1,
          xr_agentBudget = agent_budget_line x, xr_upstreamBudget = upstream_budget_line x,
          xr_approvals = xi_approvals x, xr_effective = eff_budget x e2\<rparr>)"

end
