(* ===== verification/Explain_Claims.thy ===== *)
theory Explain_Claims
  imports Explain Server_Props
begin

text \<open>
  The trace against the pipeline: for a request of one action and one target, decided under the policy
  the trace was given, \<open>xr_effective\<close> is what the gates of \<^verbatim>\<open>dispatch\<close> do, as long as none of the
  layers the trace does not know is in play. The last part shows three of those layers.
\<close>

subsection \<open>The question an operator would ask about a request\<close>

definition sources_of :: "gate_ctx \<Rightarrow> int \<times> int \<Rightarrow> string \<Rightarrow> pstate \<Rightarrow> explain_sources" where
  "sources_of cx approvals target s =
     \<lparr>xs_policy = cx_policy cx, xs_agentId = pr_agentId (cx_principal cx), xs_tool = rq_upstream (cx_req cx),
      xs_action = cx_action cx, xs_target = Some target, xs_now = w_ts (cx_world cx), xs_log = Some (px_log s),
      xs_revocations = px_revocations s, xs_grants = px_grants s, xs_approvals = approvals\<rparr>"

definition explained :: "gate_ctx \<Rightarrow> int \<times> int \<Rightarrow> string \<Rightarrow> pstate \<Rightarrow> explain_report" where
  "explained cx approvals target s =
     buildExplain (collectExplainInputs (sc_wallClock (cx_cfg cx)) (sources_of cx approvals target s))"

text \<open>What the gates and the budget of the pipeline make of the engine's verdict.\<close>

definition pipeline_effective :: "gate_ctx \<Rightarrow> verdict \<Rightarrow> pstate \<Rightarrow> effective" where
  "pipeline_effective cx v s =
     (case policy_gates cx v s of
        (Inl (Refused d r st hint a tool), _) \<Rightarrow> (d, r)
      | (Inl _, _) \<Rightarrow> (Deny, R_internal_error)
      | (Inr v', s') \<Rightarrow> (case budgetDenyReason cx s' of Some r \<Rightarrow> (Deny, r) | None \<Rightarrow> (vd_decision v', er_reason (vd_result v'))))"

subsection \<open>Gate by gate\<close>

text \<open>A verdict that was passed on and a value of \<open>effective\<close> say the same; a gate's answer agrees with the
  value if it passed such a verdict on, or refused for that reason.\<close>

definition tracks :: "verdict \<Rightarrow> effective \<Rightarrow> bool" where
  "tracks v eff \<longleftrightarrow> eff = (vd_decision v, er_reason (vd_result v)) \<and> fst eff \<noteq> Deny \<and> \<not> vd_breakGlass v
     \<and> (fst eff = Allow \<longrightarrow> (snd eff = R_jit_grant \<longleftrightarrow> vd_viaGrant v))
     \<and> (fst eff = RequireApproval \<longrightarrow> snd eff = R_approval_required)"

fun agrees :: "pstate \<Rightarrow> (outcome + verdict) \<times> pstate \<Rightarrow> effective \<Rightarrow> bool" where
  "agrees s (Inr v, s') eff \<longleftrightarrow> s' = s \<and> tracks v eff"
| "agrees s (Inl (Refused d r st hint a tool), s') eff \<longleftrightarrow> d = Deny \<and> eff = (Deny, r)"
| "agrees s _ eff \<longleftrightarrow> False"

lemma deny_stays [simp]:
  "eff_schedule x (Deny, r) = (Deny, r)" "eff_first_use x (Deny, r) = (Deny, r)" "eff_step_up x (Deny, r) = (Deny, r)"
  "eff_overlay x (Deny, r) = (Deny, r)" "eff_budget x (Deny, r) = (Deny, r)"
  by (auto simp: eff_schedule_def eff_first_use_def eff_step_up_def step_up_line_def eff_overlay_def eff_budget_def
      split: option.splits)

lemma agrees_bind:
  assumes m: "agrees s (m s) eff" and f: "\<And>v. tracks v eff \<Longrightarrow> agrees s (f v s) (g eff)"
    and deny: "\<And>r. g (Deny, r) = (Deny, r)"
  shows "agrees s (s_bind m f s) (g eff)"
proof (cases "m s")
  case (Pair res s')
  show ?thesis
  proof (cases res)
    case (Inl out)
    with m Pair deny show ?thesis by (cases out) (auto simp: s_bind_Inl)
  next
    case (Inr v)
    with m f Pair show ?thesis by (auto simp: s_bind_Inr)
  qed
qed

text \<open>The context of a request with one action and one target, outside shadow mode.\<close>

definition plain :: "gate_ctx \<Rightarrow> string \<Rightarrow> string \<Rightarrow> bool" where
  "plain cx a t \<longleftrightarrow> am_actions (cx_mapping cx) = [a] \<and> am_targets (cx_mapping cx) = [t] \<and> cx_action cx = a
     \<and> \<not> sc_shadow (cx_cfg cx)"

abbreviation inputs_of :: "gate_ctx \<Rightarrow> int \<times> int \<Rightarrow> string \<Rightarrow> pstate \<Rightarrow> explain_inputs" where
  "inputs_of cx ap t s \<equiv> collectExplainInputs (sc_wallClock (cx_cfg cx)) (sources_of cx ap t s)"

lemma inputs_of_simps [simp]:
  "xi_policy (inputs_of cx ap t s) = cx_policy cx" "xi_agentId (inputs_of cx ap t s) = pr_agentId (cx_principal cx)"
  "xi_action (inputs_of cx ap t s) = cx_action cx" "xi_tool (inputs_of cx ap t s) = rq_upstream (cx_req cx)"
  "xi_target (inputs_of cx ap t s) = Some t"
  by (simp_all add: collectExplainInputs_def sources_of_def Let_def)

lemma escalate_agrees:
  assumes "plain cx a t" "tracks v eff" "\<And>v. vd_result (tag v) = vd_result v"
    "\<And>v. vd_breakGlass (tag v) = vd_breakGlass v" 
  shows "agrees s (escalate cx base e r tag v s)
    (if e = EDeny then (Deny, r) else (RequireApproval, R_approval_required))"
  using assms by (cases e) (auto simp: escalate_def plain_def deny_as_def tracks_def clamped_def)

lemma schedule_agrees:
  assumes "plain cx a t" "tracks v eff"
  shows "agrees s (schedule_gate cx v s) (eff_schedule (inputs_of cx ap t s) eff)"
proof (cases "cp_schedule (cx_policy cx)")
  case None
  with assms show ?thesis by (simp add: schedule_gate_def eff_schedule_def)
next
  case (Some sch)
  have "xi_scheduleOpen (inputs_of cx ap t s) = Some (withinSchedule (sc_wallClock (cx_cfg cx)) sch (w_ts (cx_world cx)))"
    using Some by (simp add: collectExplainInputs_def sources_of_def Let_def)
  moreover from assms have "vd_decision v = fst eff" "\<not> vd_breakGlass v" "fst eff \<noteq> Deny" by (auto simp: tracks_def)
  ultimately show ?thesis
    using Some assms escalate_agrees [OF assms, of "\<lambda>v. v\<lparr>vd_schedule := True\<rparr>"]
    by (simp add: schedule_gate_def eff_schedule_def)
qed

lemma first_use_agrees:
  assumes "plain cx a t" "tracks v eff" "\<And>fu. cp_firstUse (cx_policy cx) = Some fu \<Longrightarrow> cf_onFirst fu = ERequireApproval"
  shows "agrees s (first_use_gate cx v s) (eff_first_use (inputs_of cx ap t s) eff)"
proof (cases "cp_firstUse (cx_policy cx)")
  case None
  with assms show ?thesis by (simp add: first_use_gate_def eff_first_use_def)
next
  case (Some fu)
  let ?since = "case cf_windowMs fu of None \<Rightarrow> 0 | Some ms \<Rightarrow> w_ts (cx_world cx) - ms"
  let ?seen = "hasForwardedActionSince (px_log s) (pr_agentId (cx_principal cx)) (rq_upstream (cx_req cx)) a ?since"
  have seen: "xi_firstUseSeen (inputs_of cx ap t s) = (if firstUseInScope fu a then Some ?seen else None)"
    using Some assms(1) by (simp add: collectExplainInputs_def sources_of_def Let_def first_use_seen_def plain_def split: option.splits)
  from assms(2) have eff: "vd_decision v = fst eff" "\<not> vd_breakGlass v" "fst eff \<noteq> Deny"
    "fst eff = Allow \<Longrightarrow> (snd eff = R_jit_grant \<longleftrightarrow> vd_viaGrant v)"
    "fst eff = RequireApproval \<Longrightarrow> eff = (RequireApproval, R_approval_required)" by (auto simp: tracks_def)
  have acts: "am_actions (cx_mapping cx) = [a]" using assms(1) by (simp add: plain_def)
  note esc = escalate_agrees [OF assms(1,2), of "\<lambda>v. v\<lparr>vd_firstUse := True\<rparr>" s
      "(cx_log cx)\<lparr>le_action := a\<rparr>" "cf_onFirst fu" R_first_use_denied]
  show ?thesis
    using Some assms(2,3) seen eff acts esc
    by (cases "fst eff") (auto simp: first_use_gate_def eff_first_use_def Let_def)
qed

lemma step_up_agrees:
  assumes "plain cx a t" "tracks v eff"
  shows "agrees s (step_up_gate cx v s) (eff_step_up (inputs_of cx ap t s) eff)"
proof (cases "cp_stepUp (cx_policy cx)")
  case None
  with assms show ?thesis by (simp add: step_up_gate_def eff_step_up_def step_up_line_def)
next
  case (Some ms)
  have "xi_riskLevel (inputs_of cx ap t s) = Some (ra_level (scoreRisk
      (agentActivity (px_log s) (pr_agentId (cx_principal cx)) (w_ts (cx_world cx) - ms))))"
    using Some by (simp add: collectExplainInputs_def sources_of_def Let_def)
  with Some assms show ?thesis
    by (auto simp: step_up_gate_def eff_step_up_def step_up_line_def tracks_def clamped_def)
qed

lemma overlay_agrees:
  assumes "plain cx a t" "tracks v eff"
  shows "agrees s (overlay_gate cx v s) (eff_overlay (inputs_of cx ap t s) eff)"
  using assms
  by (auto simp: overlay_gate_def eff_overlay_def overlay_applies_def pairs_of_def plain_def tracks_def clamped_def)

text \<open>The head of the row: the temporary grant, no window of break-glass, and the engine's denial.\<close>

lemma find_some_iff: "List.find P xs \<noteq> None \<longleftrightarrow> list_ex P xs"
  by (induction xs) auto

lemma grant_match_covers:
  "grant_match a gs \<noteq> None \<longleftrightarrow> list_ex (\<lambda>g. in_scope (xg_actions g) a) gs"
proof (induction gs)
  case (Cons g gs)
  then show ?case
    using find_some_iff [of "\<lambda>p. globMatch p a" "xg_actions g"]
    by (cases "List.find (\<lambda>p. globMatch p a) (xg_actions g)") (auto simp: in_scope_def)
qed simp

lemma covers_in_inputs:
  "grant_match (cx_action cx) (xi_activeGrants (inputs_of cx ap t s)) \<noteq> None \<longleftrightarrow>
     (\<exists>gs. px_grants s = Some gs \<and> list_ex (\<lambda>g. in_scope (tg_actions g) (cx_action cx))
        (filter (\<lambda>g. tg_agentId g = pr_agentId (cx_principal cx) \<and> \<not> locally_revoked s (tg_id g))
           (grant_list gs (w_ts (cx_world cx)))))"
  unfolding grant_match_covers
  by (cases "px_grants s")
     (auto simp: collectExplainInputs_def sources_of_def Let_def active_grants_def list_ex_iff locally_revoked_def
       split: option.splits)

lemma evaluate_reason:
  assumes "er_decision (evaluate_at p tool a tgt) \<noteq> Deny"
  shows "er_decision (evaluate_at p tool a tgt) = Allow \<and> er_reason (evaluate_at p tool a tgt) = R_explicit_allow
    \<or> er_decision (evaluate_at p tool a tgt) = RequireApproval \<and> er_reason (evaluate_at p tool a tgt) = R_approval_required"
  using assms by (auto simp: evaluate_def split: option.splits)

definition unrevoked :: "gate_ctx \<Rightarrow> pstate \<Rightarrow> bool" where
  "unrevoked cx s \<longleftrightarrow> \<not> locally_revoked s (pr_agentId (cx_principal cx))"

lemma revoked_in_inputs: "xi_revoked (inputs_of cx ap t s) \<noteq> None \<longleftrightarrow> \<not> unrevoked cx s"
  by (auto simp: collectExplainInputs_def sources_of_def Let_def unrevoked_def locally_revoked_def rv_get_def
      rv_isRevoked_def bind_eq_Some_conv split: option.splits)

abbreviation engine_of :: "gate_ctx \<Rightarrow> string \<Rightarrow> engine_result" where
  "engine_of cx t \<equiv> evaluate_at (cx_policy cx) (rq_upstream (cx_req cx)) (cx_action cx) (Some t)"

lemma engine_agrees:
  assumes "plain cx a t" "unrevoked cx s" "px_breakGlass s = None"
  shows "agrees s (s_bind (jit_gate cx (initial_verdict (cx_policy cx) (cx_mapping cx) (engine_of cx t)))
      (\<lambda>v. s_bind (break_glass_gate cx v) (engine_gate cx)) s)
    (eff_start (inputs_of cx ap t s) (engine_of cx t)
      (grant_effect_of (engine_of cx t) (grant_match (cx_action cx) (xi_activeGrants (inputs_of cx ap t s)))))"
proof -
  let ?e = "engine_of cx t" let ?v = "initial_verdict (cx_policy cx) (cx_mapping cx) ?e"
  let ?gm = "grant_match (cx_action cx) (xi_activeGrants (inputs_of cx ap t s))"
  have bg: "break_glass_gate cx v s = (Inr v, s)" for v using assms(3) by (simp add: break_glass_gate_def)
  have covers: "jit_covers cx ?v s \<longleftrightarrow> ?gm \<noteq> None \<and> er_reason ?e \<noteq> R_explicit_deny"
    unfolding covers_in_inputs by (auto simp: jit_covers_def initial_verdict_def list_ex_iff)
  have jit: "jit_gate cx ?v s = (Inr (if er_decision ?e \<noteq> Allow \<and> ?gm \<noteq> None \<and> er_reason ?e \<noteq> R_explicit_deny
      then ?v\<lparr>vd_result := verdict_of Allow R_jit_grant, vd_viaGrant := True\<rparr> else ?v), s)"
    unfolding jit_gate_passes covers by (simp add: initial_verdict_def)
  have run: "s_bind (jit_gate cx ?v) f s = f (if er_decision ?e \<noteq> Allow \<and> ?gm \<noteq> None \<and> er_reason ?e \<noteq> R_explicit_deny
      then ?v\<lparr>vd_result := verdict_of Allow R_jit_grant, vd_viaGrant := True\<rparr> else ?v) s"
    "s_bind (break_glass_gate cx v) (engine_gate cx) s = engine_gate cx v s" for f :: "verdict \<Rightarrow> verdict step" and v
    by (simp_all add: s_bind_def jit bg)
  have start: "eff_start (inputs_of cx ap t s) ?e (grant_effect_of ?e ?gm)
      = (if er_decision ?e \<noteq> Allow \<and> ?gm \<noteq> None \<and> er_reason ?e \<noteq> R_explicit_deny then (Allow, R_jit_grant)
         else (er_decision ?e, er_reason ?e))"
    using assms(2) revoked_in_inputs [of cx ap t s] unfolding eff_start_def grant_effect_of_def by auto
  show ?thesis
    using assms(1) evaluate_reason [of "cx_policy cx" "rq_upstream (cx_req cx)" "cx_action cx" "Some t"]
    unfolding run start
    by (auto simp: engine_gate_def tracks_def initial_verdict_def deny_as_def plain_def)
qed

subsection \<open>The whole row, and the budget\<close>

definition untouched_by_sessions :: "gate_ctx \<Rightarrow> pstate \<Rightarrow> bool" where
  "untouched_by_sessions cx s \<longleftrightarrow> cp_flows (cx_policy cx) = [] \<and> cp_pins (cx_policy cx) = []
     \<and> px_breakGlass s = None \<and> delegation_of (cx_principal cx) = None
     \<and> (\<forall>fu. cp_firstUse (cx_policy cx) = Some fu \<longrightarrow> cf_onFirst fu = ERequireApproval)"

definition eff_row :: "explain_inputs \<Rightarrow> effective \<Rightarrow> effective" where
  "eff_row x eff = eff_overlay x (eff_step_up x (eff_first_use x (eff_schedule x eff)))"

lemma row_agrees:
  assumes p: "plain cx a t" and u: "unrevoked cx s" and q: "untouched_by_sessions cx s"
  shows "agrees s (policy_gates cx (initial_verdict (cx_policy cx) (cx_mapping cx) (engine_of cx t)) s)
    (eff_row (inputs_of cx ap t s) (eff_start (inputs_of cx ap t s) (engine_of cx t)
      (grant_effect_of (engine_of cx t) (grant_match (cx_action cx) (xi_activeGrants (inputs_of cx ap t s))))))"
proof -
  let ?x = "inputs_of cx ap t s"
  from q have last: "s_bind (flow_gate cx v) (pin_gate cx) s = (Inr v, s)" for v
    by (auto simp: untouched_by_sessions_def s_bind_def flow_gate_def pin_gate_def split: option.splits)
  have tail: "agrees s (s_bind (overlay_gate cx v) (\<lambda>v. s_bind (flow_gate cx v) (pin_gate cx)) s) (eff_overlay ?x eff)"
    if "tracks v eff" for v eff
    using overlay_agrees [OF p that, of s ap]
    by (rule agrees_bind [where g = id, simplified]) (simp_all add: last)
  have mid: "agrees s (s_bind (step_up_gate cx v) (\<lambda>v. s_bind (overlay_gate cx v) (\<lambda>v. s_bind (flow_gate cx v) (pin_gate cx))) s)
      (eff_overlay ?x (eff_step_up ?x eff))" if "tracks v eff" for v eff
    using step_up_agrees [OF p that] by (rule agrees_bind) (simp_all add: tail)
  have mid2: "agrees s (s_bind (first_use_gate cx v) (\<lambda>v. s_bind (step_up_gate cx v)
      (\<lambda>v. s_bind (overlay_gate cx v) (\<lambda>v. s_bind (flow_gate cx v) (pin_gate cx)))) s)
      (eff_overlay ?x (eff_step_up ?x (eff_first_use ?x eff)))" if "tracks v eff" for v eff
  proof (rule agrees_bind [where g = "\<lambda>e. eff_overlay ?x (eff_step_up ?x e)"])
    show "agrees s (first_use_gate cx v s) (eff_first_use ?x eff)"
      using q by (intro first_use_agrees [OF p that]) (simp add: untouched_by_sessions_def)
  qed (simp_all add: mid)
  have after: "agrees s (after_engine cx v s) (eff_row ?x eff)" if "tracks v eff" for v eff
    unfolding after_engine_def eff_row_def using schedule_agrees [OF p that]
    by (rule agrees_bind [where g = "\<lambda>e. eff_overlay ?x (eff_step_up ?x (eff_first_use ?x e))"]) (simp_all add: mid2)
  have assoc: "s_bind m (\<lambda>v. s_bind (f v) (\<lambda>v. s_bind (g v) h)) = s_bind (s_bind m (\<lambda>v. s_bind (f v) g)) h"
    for m :: "verdict step" and f g :: "verdict \<Rightarrow> verdict step" and h :: "verdict \<Rightarrow> verdict step"
    by (auto simp: s_bind_def fun_eq_iff split: prod.splits sum.splits)
  have "agrees s (s_bind (s_bind (jit_gate cx (initial_verdict (cx_policy cx) (cx_mapping cx) (engine_of cx t)))
      (\<lambda>v. s_bind (break_glass_gate cx v) (engine_gate cx))) (after_engine cx) s)
    (eff_row ?x (eff_start ?x (engine_of cx t)
      (grant_effect_of (engine_of cx t) (grant_match (cx_action cx) (xi_activeGrants ?x)))))"
  proof (rule agrees_bind [where g = "eff_row ?x"])
    show "agrees s (s_bind (jit_gate cx (initial_verdict (cx_policy cx) (cx_mapping cx) (engine_of cx t)))
        (\<lambda>v. s_bind (break_glass_gate cx v) (engine_gate cx)) s)
      (eff_start ?x (engine_of cx t)
        (grant_effect_of (engine_of cx t) (grant_match (cx_action cx) (xi_activeGrants ?x))))"
      using q by (intro engine_agrees [OF p u]) (simp add: untouched_by_sessions_def)
    show "agrees s (after_engine cx v s) (eff_row ?x (eff_start ?x (engine_of cx t)
        (grant_effect_of (engine_of cx t) (grant_match (cx_action cx) (xi_activeGrants ?x)))))"
      if "tracks v (eff_start ?x (engine_of cx t)
        (grant_effect_of (engine_of cx t) (grant_match (cx_action cx) (xi_activeGrants ?x))))" for v
      using that by (rule after)
  qed (simp add: eff_row_def)
  then show ?thesis
    unfolding policy_gates_split after_jit_def [abs_def] assoc .
qed

lemma budget_agrees:
  assumes p: "plain cx a t" and q: "untouched_by_sessions cx s" and eff: "fst eff \<noteq> Deny"
  shows "eff_budget (inputs_of cx ap t s) eff
    = (case budgetDenyReason cx s of Some r \<Rightarrow> (Deny, r) | None \<Rightarrow> eff)"
proof -
  let ?x = "inputs_of cx ap t s" let ?agent = "pr_agentId (cx_principal cx)"
  let ?since = "w_ts (cx_world cx) - BUDGET_WINDOW_MS"
  have spent: "xi_spentAgent ?x = countAllowedSince (px_log s) ?agent ?since"
      "xi_spentUpstream ?x = countAllowedSinceForUpstream (px_log s) ?agent (rq_upstream (cx_req cx)) ?since"
    by (simp_all add: collectExplainInputs_def sources_of_def Let_def)
  have cost: "billable (cx_policy cx) (am_actions (cx_mapping cx)) = actionCost (cx_policy cx) (cx_action cx)"
    using p by (simp add: billable_def plain_def)
  have "delegation_of (cx_principal cx) = None" using q by (simp add: untouched_by_sessions_def)
  moreover have "fst eff = Allow \<or> fst eff = RequireApproval" using eff by (cases "fst eff") auto
  ultimately show ?thesis
    by (auto simp: eff_budget_def agent_budget_line_def upstream_budget_line_def budgetDenyReason_def Let_def
        withinUpstreamBudget_def spent cost split: option.splits)
qed

text \<open>C32: the trace does not drift from enforcement: for a request of one action and one target made with an agent's own
  token, under a policy without flows, pins or first-use denial and without a break-glass window, the
  headline of the trace is the decision and the reason of the pipeline's gates and budgets.\<close>
theorem explain_agrees_with_pipeline:
  assumes "plain cx a t" and "unrevoked cx s" and "untouched_by_sessions cx s"
  shows "xr_effective (explained cx ap t s)
    = pipeline_effective cx (initial_verdict (cx_policy cx) (cx_mapping cx) (engine_of cx t)) s"
proof -
  let ?x = "inputs_of cx ap t s" let ?v = "initial_verdict (cx_policy cx) (cx_mapping cx) (engine_of cx t)"
  let ?eff = "eff_row ?x (eff_start ?x (engine_of cx t)
      (grant_effect_of (engine_of cx t) (grant_match (cx_action cx) (xi_activeGrants ?x))))"
  have report: "xr_effective (explained cx ap t s) = eff_budget ?x ?eff"
    by (simp add: explained_def buildExplain_def Let_def eff_row_def)
  have row: "agrees s (policy_gates cx ?v s) ?eff" by (rule row_agrees [OF assms])
  show ?thesis
  proof (cases "policy_gates cx ?v s")
    case (Pair res s')
    show ?thesis
    proof (cases res)
      case (Inl out)
      with row Pair show ?thesis unfolding report pipeline_effective_def by (cases out) auto
    next
      case (Inr v')
      with row Pair have "s' = s" "?eff = (vd_decision v', er_reason (vd_result v'))" "fst ?eff \<noteq> Deny"
        by (auto simp: tracks_def)
      with Inr Pair budget_agrees [OF assms(1,3)] show ?thesis
        unfolding report pipeline_effective_def by simp
    qed
  qed
qed

subsection \<open>On the concrete installation\<close>

definition ex_ctx :: "compiled_policy \<Rightarrow> string \<Rightarrow> gate_ctx" where
  "ex_ctx policy action =
     \<lparr>cx_cfg = sc_config, cx_world = sc_world, cx_req = sc_request ''1'' ''POST'' ''gh'' ''/x'',
      cx_principal = AgentPrincipal ''bot'' False [] [] None,
      cx_mapping = \<lparr>am_actions = [action], am_targets = [''r''], am_target = ''r'', am_label = ''POST''\<rparr>,
      cx_policy = policy, cx_action = action\<rparr>"

lemmas ex_ctx_defs = ex_ctx_def sc_defs

lemma ex_fields [simp]:
  "cx_cfg (ex_ctx pol a) = sc_config" "cx_world (ex_ctx pol a) = sc_world" "cx_policy (ex_ctx pol a) = pol"
  "cx_action (ex_ctx pol a) = a" "am_actions (cx_mapping (ex_ctx pol a)) = [a]" "am_targets (cx_mapping (ex_ctx pol a)) = [''r'']"
  "pr_agentId (cx_principal (ex_ctx pol a)) = ''bot''" "delegation_of (cx_principal (ex_ctx pol a)) = None"
  "rq_upstream (cx_req (ex_ctx pol a)) = ''gh''"
  by (simp_all add: ex_ctx_def sc_request_def)

lemma ex_plain [simp]: "plain (ex_ctx pol a) a ''r''"
  by (simp add: plain_def sc_config_def)

lemma ex_unrevoked [simp]: "unrevoked (ex_ctx pol a) sc_state"
  by (simp add: unrevoked_def locally_revoked_def rv_isRevoked_def sc_state_def)

lemma ex_report:
  "xr_effective (explained (ex_ctx sc_live ''pr:merge'') (60, 0) ''r'' sc_state) = (RequireApproval, R_approval_required)"
  by code_simp

theorem explain_agrees_with_pipeline_witness:
  "pipeline_effective (ex_ctx sc_live ''pr:merge'')
     (initial_verdict sc_live (cx_mapping (ex_ctx sc_live ''pr:merge'')) (engine_of (ex_ctx sc_live ''pr:merge'') ''r'')) sc_state
   = (RequireApproval, R_approval_required)"
proof -
  have "untouched_by_sessions (ex_ctx sc_live ''pr:merge'') sc_state"
    by (simp add: untouched_by_sessions_def sc_live_def sc_state_def)
  from explain_agrees_with_pipeline [OF ex_plain ex_unrevoked this, of "(60, 0)"] show ?thesis
    by (simp add: ex_report)
qed

text \<open>What the trace does not know. A first-use denial stops a request that would have asked for approval, and
  the fleet's kill set stops every request.\<close>

definition ex_novel :: compiled_policy where
  "ex_novel = sc_live\<lparr>cp_firstUse := Some \<lparr>cf_onFirst = EDeny, cf_only = [compilePattern False ''*''], cf_windowMs = None\<rparr>\<rparr>"

definition ex_cut_off :: pstate where
  "ex_cut_off = sc_state\<lparr>px_fleet := Some \<lparr>fl_revoked = [''bot''], fl_ver = 1, fl_expiry = None, fl_file = Absent\<rparr>\<rparr>"

text \<open>the trace is silent about two layers: whatever the fleet's kill set holds, the report is the same although
  the kill switch refuses the agent; and it says that an approval is asked for where the pipeline
  denies the first use.\<close>
theorem explain_misses_layers:
  "explained cx ap t (s\<lparr>px_fleet := fleet\<rparr>) = explained cx ap t s
   \<and> xr_effective (explained (ex_ctx ex_novel ''pr:merge'') (60, 0) ''r'' sc_state) = (RequireApproval, R_approval_required)
   \<and> pipeline_effective (ex_ctx ex_novel ''pr:merge'') (initial_verdict ex_novel (cx_mapping (ex_ctx ex_novel ''pr:merge''))
        (engine_of (ex_ctx ex_novel ''pr:merge'') ''r'')) sc_state = (Deny, R_first_use_denied)
   \<and> kill_switch sc_world (sc_request ''1'' ''POST'' ''gh'' ''/x'') (AgentPrincipal ''bot'' False [] [] None) ex_cut_off
     = refuse sc_world (authed_log sc_world (sc_request ''1'' ''POST'' ''gh'' ''/x'') (AgentPrincipal ''bot'' False [] [] None))
         R_token_revoked ex_cut_off"
proof (intro conjI)
  show "explained cx ap t (s\<lparr>px_fleet := fleet\<rparr>) = explained cx ap t s"
    by (simp add: explained_def sources_of_def)
  show "xr_effective (explained (ex_ctx ex_novel ''pr:merge'') (60, 0) ''r'' sc_state) = (RequireApproval, R_approval_required)"
    by code_simp
  show "pipeline_effective (ex_ctx ex_novel ''pr:merge'') (initial_verdict ex_novel (cx_mapping (ex_ctx ex_novel ''pr:merge''))
     (engine_of (ex_ctx ex_novel ''pr:merge'') ''r'')) sc_state = (Deny, R_first_use_denied)"
    by code_simp
qed (simp add: kill_switch_def is_cut_off_def fleet_revoked_def fleet_has_def ex_cut_off_def)

end
