(* ===== verification/Blast_Radius.thy ===== *)
theory Blast_Radius
  imports Policy_Props Adapters Ttl_Stores Access_Stores
begin

text \<open>
  The blast radius of a leaked token (\<^verbatim>\<open>blast-radius/analyze.ts\<close>): every grant expanded over the action
  vocabulary of its upstream's type. The order of \<open>localeCompare\<close> is a sort key, a parameter.
\<close>

subsection \<open>One upstream\<close>

datatype action_decision = BDeny | BRequireApproval | BAllow | BBlocked

record broad_grant =
  bq_pattern :: string
  bq_matches :: "string list"

record raw_patterns =
  rp_allow :: "string list"
  rp_requireApproval :: "string list"
  rp_deny :: "string list"

record upstream_exposure =
  ue_upstream :: string
  ue_type :: string
  ue_enumerable :: bool
  ue_autoAllow :: "string list"
  ue_requiresApproval :: "string list"
  ue_broadGrants :: "broad_grant list"
  ue_rawPatterns :: "raw_patterns option"

definition first_rule :: "(compiled_rule \<Rightarrow> bool) \<Rightarrow> compiled_rule list \<Rightarrow> string \<Rightarrow> string option" where
  "first_rule counts rules action =
     map_option (\<lambda>r. pt_source (cr_action r)) (List.find (\<lambda>r. counts r \<and> pattern_test (cr_action r) action) rules)"

definition evaluateAction :: "compiled_grant option \<Rightarrow> string \<Rightarrow> action_decision \<times> string option" where
  "evaluateAction grant action =
     (case grant of
        None \<Rightarrow> (BBlocked, None)
      | Some g \<Rightarrow>
     (case first_rule (\<lambda>r. cr_targets r = None) (cg_deny g) action of
        Some pat \<Rightarrow> (BDeny, Some pat)
      | None \<Rightarrow>
     (case first_rule (\<lambda>r. True) (cg_requireApproval g) action of
        Some pat \<Rightarrow> (BRequireApproval, Some pat)
      | None \<Rightarrow>
     (case first_rule (\<lambda>r. True) (cg_allow g) action of
        Some pat \<Rightarrow> (BAllow, Some pat)
      | None \<Rightarrow> (BBlocked, None)))))"

text \<open>\<open>byPattern\<close>: the reachable actions of each deciding pattern, in order of first use.\<close>

fun add_match :: "string \<Rightarrow> string \<Rightarrow> (string \<times> string list) list \<Rightarrow> (string \<times> string list) list" where
  "add_match pat action [] = [(pat, [action])]"
| "add_match pat action ((p, xs) # rest) =
     (if p = pat then (p, xs @ [action]) # rest else (p, xs) # add_match pat action rest)"

fun by_pattern :: "compiled_grant option \<Rightarrow> string list \<Rightarrow> (string \<times> string list) list \<Rightarrow> (string \<times> string list) list" where
  "by_pattern grant [] acc = acc"
| "by_pattern grant (a # as) acc =
     by_pattern grant as
       (case evaluateAction grant a of
          (BAllow, Some (c # cs)) \<Rightarrow> add_match (c # cs) a acc
        | (BRequireApproval, Some (c # cs)) \<Rightarrow> add_match (c # cs) a acc
        | _ \<Rightarrow> acc)"

definition BROAD_GRANT_MIN_MATCHES :: nat where "BROAD_GRANT_MIN_MATCHES = 3"

definition analyzeUpstream :: "string \<Rightarrow> string \<Rightarrow> compiled_grant option \<Rightarrow> upstream_exposure" where
  "analyzeUpstream upstream ty grant =
     (let sources = (\<lambda>rules. case grant of None \<Rightarrow> [] | Some g \<Rightarrow> map (\<lambda>r. pt_source (cr_action r)) (rules g)) in
      case actionVocabulary ty of
        None \<Rightarrow> \<lparr>ue_upstream = upstream, ue_type = ty, ue_enumerable = False, ue_autoAllow = [], ue_requiresApproval = [],
            ue_broadGrants = [], ue_rawPatterns = Some \<lparr>rp_allow = sources cg_allow,
              rp_requireApproval = sources cg_requireApproval, rp_deny = sources cg_deny\<rparr>\<rparr>
      | Some vocabulary \<Rightarrow>
          \<lparr>ue_upstream = upstream, ue_type = ty, ue_enumerable = True,
           ue_autoAllow = sort (filter (\<lambda>a. fst (evaluateAction grant a) = BAllow) vocabulary),
           ue_requiresApproval = sort (filter (\<lambda>a. fst (evaluateAction grant a) = BRequireApproval) vocabulary),
           ue_broadGrants = map (\<lambda>(p, xs). \<lparr>bq_pattern = p, bq_matches = sort xs\<rparr>)
             (filter (\<lambda>(p, xs). length xs \<ge> BROAD_GRANT_MIN_MATCHES) (by_pattern grant vocabulary [])),
           ue_rawPatterns = None\<rparr>)"

subsection \<open>The report\<close>

datatype severity = SevLow | SevElevated | SevHigh

record delegation_exposure =
  de_id :: string
  de_note :: string
  de_actions :: "string list"
  de_expiresInSeconds :: int

record blast_report =
  bt_agent :: agent_id
  bt_upstreams :: "upstream_exposure list"
  bt_delegations :: "delegation_exposure list"
  bt_severity :: severity
  bt_reasons :: "string list"

fun occurs_in :: "string \<Rightarrow> string \<Rightarrow> bool" where
  "occurs_in pat [] = (pat = [])"
| "occurs_in pat (c # cs) = (starts_with (c # cs) pat \<or> occurs_in pat cs)"

definition isDestructive :: "string \<Rightarrow> bool" where
  "isDestructive action \<longleftrightarrow> occurs_in ''delete'' action \<or> occurs_in ''merge'' action \<or> ends_with action '':write''"

text \<open>What one upstream adds: points and reasons.\<close>

definition destructive_line :: "upstream_exposure \<Rightarrow> (int \<times> string) list" where
  "destructive_line u =
     (let ds = filter isDestructive (ue_autoAllow u) in
      if length ds > 0 then [(int (length ds) * 15, ue_upstream u @ '': auto-allows '' @ join_with '', '' ds)] else [])"

definition broad_lines :: "upstream_exposure \<Rightarrow> (int \<times> string) list" where
  "broad_lines u =
     map (\<lambda>b. (25, ue_upstream u @ '': broad grant \"'' @ bq_pattern b @ ''\" reaches '' @ join_with '', '' (bq_matches b)))
       (filter (\<lambda>b. list_ex isDestructive (bq_matches b)) (ue_broadGrants u))"

definition severity_of :: "int \<Rightarrow> severity" where
  "severity_of score = (if score \<ge> 50 then SevHigh else if score \<ge> 20 then SevElevated else SevLow)"

definition exposed_delegations :: "agent_id \<Rightarrow> delegation list \<Rightarrow> ms \<Rightarrow> delegation_exposure list" where
  "exposed_delegations agent dels now =
     sort_desc de_expiresInSeconds
       (map (\<lambda>d. \<lparr>de_id = dl_id d, de_note = dl_note d, de_actions = dl_actions d,
              de_expiresInSeconds = max 0 ((dl_expiresAt d - now + 500) div 1000)\<rparr>)
         (filter (\<lambda>d. dl_parentAgentId d = agent \<and> dl_expiresAt d > now) dels))"

definition analyzeBlastRadius :: "(string \<Rightarrow> nat) \<Rightarrow> agent_id \<Rightarrow> (string \<times> string) list \<Rightarrow> compiled_policy
    \<Rightarrow> delegation list \<Rightarrow> ms \<Rightarrow> blast_report" where
  "analyzeBlastRadius collation agent upstreams policy dels now =
     (let us = sort_key (\<lambda>u. collation (ue_upstream u))
            (map (\<lambda>(name, ty). analyzeUpstream name ty (map_of (cp_grants policy) name)) upstreams);
          lines = concat (map (\<lambda>u. destructive_line u @ broad_lines u) us);
          score = min (sum_list (map fst lines)) 100
      in \<lparr>bt_agent = agent, bt_upstreams = us, bt_delegations = exposed_delegations agent dels now,
          bt_severity = severity_of score, bt_reasons = map snd lines\<rparr>)"

subsection \<open>Against the evaluator\<close>

fun as_decision :: "action_decision \<Rightarrow> decision" where
  "as_decision BAllow = Allow"
| "as_decision BRequireApproval = RequireApproval"
| "as_decision _ = Deny"

lemma firstMatch_reach:
  "map_option (\<lambda>r. pt_source (cr_action r)) (firstMatch rs a None cl False)
     = first_rule (\<lambda>r. cl \<noteq> CDeny \<or> cr_targets r = None) rs a"
  by (induction rs) (auto simp: first_rule_def split: option.splits)

lemma first_rule_match:
  "first_rule (\<lambda>r. cr_targets r = None) rs a = map_option (\<lambda>r. pt_source (cr_action r)) (firstMatch rs a None CDeny False)"
  "cl \<noteq> CDeny \<Longrightarrow> first_rule (\<lambda>r. True) rs a = map_option (\<lambda>r. pt_source (cr_action r)) (firstMatch rs a None cl False)"
  by (simp_all add: firstMatch_reach)

text \<open>the analyzer expands a grant exactly as the evaluator's reachability mode reads it: same decision for
  every action, and the same deciding pattern.\<close>
theorem blast_radius_is_reachability:
  "as_decision (fst (evaluateAction (map_of (cp_grants p) tool) a)) = er_decision (evaluate_at p tool a None)"
  "snd (evaluateAction (map_of (cp_grants p) tool) a) = er_pattern (evaluate_at p tool a None)"
  by (auto simp: evaluateAction_def evaluate_def first_rule_match(1) first_rule_match(2) [of CRequireApproval "cg_requireApproval g" for g]
      first_rule_match(2) [of CAllow "cg_allow g" for g] split: option.splits)

lemma evaluate_reach:
  "er_decision (evaluate_at p tool a (Some t)) \<noteq> Deny
   \<Longrightarrow> fst (evaluateAction (map_of (cp_grants p) tool) a) \<in> {BAllow, BRequireApproval}"
  using evaluate_reachability_sound [of p tool a t] blast_radius_is_reachability(1) [of p tool a]
  by (cases "fst (evaluateAction (map_of (cp_grants p) tool) a)") auto

text \<open>C34: nothing within reach is left out of the report: an action that the live policy does not deny on some target
  is listed, allowed or behind approval, for every upstream whose vocabulary is known.\<close>
theorem blast_radius_is_complete:
  assumes "(up, ty) \<in> set upstreams" and "actionVocabulary ty = Some vocabulary" and "a \<in> set vocabulary"
    and "er_decision (evaluate_at p up a (Some t)) \<noteq> Deny"
  shows "\<exists>u \<in> set (bt_upstreams (analyzeBlastRadius collation agent upstreams p dels now)).
    ue_upstream u = up \<and> (a \<in> set (ue_autoAllow u) \<or> a \<in> set (ue_requiresApproval u))"
proof -
  let ?u = "analyzeUpstream up ty (map_of (cp_grants p) up)"
  have "?u \<in> set (bt_upstreams (analyzeBlastRadius collation agent upstreams p dels now))"
    using assms(1) by (force simp: analyzeBlastRadius_def Let_def)
  moreover have "ue_upstream ?u = up \<and> (a \<in> set (ue_autoAllow ?u) \<or> a \<in> set (ue_requiresApproval ?u))"
    using assms(2,3) evaluate_reach [OF assms(4)] by (simp add: analyzeUpstream_def)
  ultimately show ?thesis by blast
qed

subsection \<open>What the worst case is not\<close>

text \<open>An approval rule for one target only, over an allow for every target.\<close>

definition bx_rule :: "string \<Rightarrow> string list option \<Rightarrow> compiled_rule" where
  "bx_rule a ts = \<lparr>cr_action = compilePattern False a, cr_targets = compileTargets False ts, cr_message = None,
     cr_onUnresolved = UDeny\<rparr>"

definition bx_grant :: "string list option \<Rightarrow> compiled_grant" where
  "bx_grant ts = \<lparr>cg_tool = ''gh'', cg_deny = [], cg_requireApproval = [bx_rule ''*'' ts], cg_allow = [bx_rule ''*'' None]\<rparr>"

definition bx_policy :: compiled_policy where
  "bx_policy = \<lparr>cp_agent = ''bot'', cp_onBehalfOf = ''ops'', cp_grants = [(''gh'', bx_grant (Some [''acme/prod'']))],
     cp_maxActionsPerHour = None, cp_perUpstream = Map.empty, cp_perAgent = Map.empty,
     cp_perAgentApproval = Map.empty, cp_perDelegation = None, cp_budgetWeights = [], cp_quorums = [],
     cp_dlp = None, cp_stepUp = None, cp_schedule = None, cp_firstUse = None, cp_flows = [], cp_pins = [],
     cp_tripwires = [], cp_responses = [],
     cp_source = \<lparr>src_agent = ''bot'', src_on_behalf_of = ''ops'', src_grants = [], src_budget = None,
       src_approvals = None, src_dlp = None, src_step_up = None, src_schedule = None, src_first_use = None,
       src_quorum = None, src_flows = None, src_tripwires = None, src_pins = [], src_responses = []\<rparr>\<rparr>"

lemma bx_facts:
  "(''gh'', ''github'') \<in> set [(''gh'', ''github'')]" "actionVocabulary ''github'' = Some GITHUB_ACTIONS"
  "''repo:delete'' \<in> set GITHUB_ACTIONS" "er_decision (evaluate_at bx_policy ''gh'' ''repo:delete'' (Some ''acme/dev'')) \<noteq> Deny"
  by (simp, code_simp+)

theorem blast_radius_is_complete_witness:
  "\<exists>u \<in> set (bt_upstreams (analyzeBlastRadius (\<lambda>_. 0) ''bot'' [(''gh'', ''github'')] bx_policy [] 0)).
    ue_upstream u = ''gh'' \<and> (''repo:delete'' \<in> set (ue_autoAllow u) \<or> ''repo:delete'' \<in> set (ue_requiresApproval u))"
  by (rule blast_radius_is_complete [OF bx_facts])

text \<open>a scoped approval rule hides an unattended action: the destructive action runs without any human on every other
  target, while the report lists nothing as auto-allowed and calls no auto-allowed action destructive.\<close>
theorem scoped_approval_hides_auto_allow:
  "er_decision (evaluate_at bx_policy ''gh'' ''repo:delete'' (Some ''acme/dev'')) = Allow
   \<and> evaluateAction (map_of (cp_grants bx_policy) ''gh'') ''repo:delete'' = (BRequireApproval, Some ''*'')
   \<and> map ue_autoAllow (bt_upstreams (analyzeBlastRadius collation agent [(''gh'', ''github'')] bx_policy dels now)) = [[]]"
proof (intro conjI)
  show "er_decision (evaluate_at bx_policy ''gh'' ''repo:delete'' (Some ''acme/dev'')) = Allow" by code_simp
  show "evaluateAction (map_of (cp_grants bx_policy) ''gh'') ''repo:delete'' = (BRequireApproval, Some ''*'')" by code_simp
  have "ue_autoAllow (analyzeUpstream ''gh'' ''github'' (Some (bx_grant (Some [''acme/prod''])))) = []" by code_simp
  then show "map ue_autoAllow (bt_upstreams (analyzeBlastRadius collation agent [(''gh'', ''github'')] bx_policy dels now)) = [[]]"
    by (simp add: analyzeBlastRadius_def Let_def bx_policy_def)
qed

end
