(* ===== verification/Firewall_Feed.thy ===== *)
theory Firewall_Feed
  imports Request_Log
begin

text \<open>
  The firewall feed of the console: which reason codes are a defence that fired
  (\<^verbatim>\<open>firewall/defenses.ts\<close>; the display text of each is left out), and the feed that coalesces the
  rows of the log (\<^verbatim>\<open>firewall/feed.ts\<close>).
\<close>

subsection \<open>Defences\<close>

datatype defense_kind = Trap | Trifecta | Identity | Exfil | GateKind | Rate | PolicyKind
datatype defense_severity = HighDefense | ElevatedDefense | BaseDefense

record defense_info =
  di_code :: reason_code
  di_kind :: defense_kind
  di_severity :: defense_severity
  di_label :: string

definition info :: "reason_code \<Rightarrow> defense_kind \<Rightarrow> defense_severity \<Rightarrow> string \<Rightarrow> reason_code \<times> defense_info" where
  "info code kind sev label = (code, \<lparr>di_code = code, di_kind = kind, di_severity = sev, di_label = label\<rparr>)"

definition DEFENSE_INFO :: "(reason_code \<times> defense_info) list" where
  "DEFENSE_INFO =
     [info R_tripwire Trap HighDefense ''Tripwire'',
      info R_decoy_token Trap HighDefense ''Decoy token'',
      info R_decoy_upstream Trap HighDefense ''Decoy upstream'',
      info R_flow_denied Trifecta HighDefense ''Taint-flow'',
      info R_pin_violation Trifecta HighDefense ''Session pin'',
      info R_token_revoked Identity HighDefense ''Kill-switch'',
      info R_revocation_stale Identity HighDefense ''Fleet fail-closed'',
      info R_agent_token_expired Identity ElevatedDefense ''Expired token'',
      info R_wrong_listener Identity HighDefense ''Wrong listener'',
      info R_delegation_scope Identity ElevatedDefense ''Over-reach'',
      info R_delegation_target_scope Identity ElevatedDefense ''Out-of-scope target'',
      info R_agent_target_scope Identity ElevatedDefense ''Out-of-scope target'',
      info R_agent_action_scope Identity ElevatedDefense ''Out-of-scope action'',
      info R_dlp_secret_detected Exfil HighDefense ''DLP block'',
      info R_response_too_large Exfil ElevatedDefense ''Read cap'',
      info R_egress_blocked Exfil ElevatedDefense ''Egress guard'',
      info R_first_use_denied GateKind ElevatedDefense ''First-use'',
      info R_schedule_closed GateKind ElevatedDefense ''Off-hours'',
      info R_budget_exceeded Rate ElevatedDefense ''Rate limit'',
      info R_upstream_budget_exceeded Rate ElevatedDefense ''Rate limit'',
      info R_agent_budget_exceeded Rate ElevatedDefense ''Rate limit'',
      info R_delegation_budget_exceeded Rate ElevatedDefense ''Rate limit'',
      info R_explicit_deny PolicyKind BaseDefense ''Policy deny'',
      info R_no_matching_allow PolicyKind BaseDefense ''Deny-by-default'',
      info R_no_grant_for_tool PolicyKind BaseDefense ''Deny-by-default'',
      info R_unknown_upstream PolicyKind BaseDefense ''Unknown upstream'']"

definition DEFENSE_CODES :: "reason_code list" where
  "DEFENSE_CODES = map fst DEFENSE_INFO"

definition classifyDefense :: "reason_code \<Rightarrow> defense_info option" where
  "classifyDefense reason = map_of DEFENSE_INFO reason"

subsection \<open>The feed\<close>

record firewall_event =
  fe_id :: nat
  fe_row :: log_entry
  fe_occurrences :: nat
  fe_defense :: defense_info

definition count_again :: "firewall_event \<Rightarrow> firewall_event" where
  "count_again e = e\<lparr>fe_occurrences := fe_occurrences e + 1\<rparr>"

lemma count_again_simps [simp]:
  "fe_occurrences (count_again e) = Suc (fe_occurrences e)" "fe_row (count_again e) = fe_row e"
  "fe_id (count_again e) = fe_id e" "fe_defense (count_again e) = fe_defense e"
  by (simp_all add: count_again_def)

text \<open>The loop keeps the events it has pushed; \<open>last\<close> is the one a row may be folded into.\<close>

fun feed_loop :: "firewall_event list \<Rightarrow> (nat \<times> log_entry) list \<Rightarrow> firewall_event list" where
  "feed_loop events [] = events"
| "feed_loop events ((rowid, r) # rows) =
     (case classifyDefense (le_reason r) of
        None \<Rightarrow> feed_loop events rows
      | Some defense \<Rightarrow>
          if events \<noteq> [] \<and> le_agentId (fe_row (last events)) = le_agentId r
             \<and> le_reason (fe_row (last events)) = le_reason r
          then feed_loop (butlast events @ [count_again (last events)]) rows
          else feed_loop (events @ [\<lparr>fe_id = rowid, fe_row = r, fe_occurrences = 1, fe_defense = defense\<rparr>]) rows)"

definition buildFirewallFeed :: "(nat \<times> log_entry) list \<Rightarrow> firewall_event list" where
  "buildFirewallFeed rows = feed_loop [] rows"

subsection \<open>Properties\<close>

definition feed_key :: "log_entry \<Rightarrow> agent_id \<times> reason_code" where
  "feed_key r = (le_agentId r, le_reason r)"

abbreviation event_key :: "firewall_event \<Rightarrow> agent_id \<times> reason_code" where
  "event_key e \<equiv> feed_key (fe_row e)"

definition expand :: "firewall_event list \<Rightarrow> (agent_id \<times> reason_code) list" where
  "expand events = concat (map (\<lambda>e. replicate (fe_occurrences e) (event_key e)) events)"

definition is_defense_row :: "nat \<times> log_entry \<Rightarrow> bool" where
  "is_defense_row row \<longleftrightarrow> classifyDefense (le_reason (snd row)) \<noteq> None"

text \<open>What the loop keeps: neighbours differ, every event counts something and carries its defence.\<close>

definition feed_inv :: "firewall_event list \<Rightarrow> bool" where
  "feed_inv events \<longleftrightarrow> successively (\<lambda>a b. event_key a \<noteq> event_key b) events
     \<and> (\<forall>e\<in>set events. fe_occurrences e > 0 \<and> classifyDefense (le_reason (fe_row e)) = Some (fe_defense e))"

lemma feed_inv_push:
  assumes "feed_inv events" "events \<noteq> [] \<Longrightarrow> event_key (last events) \<noteq> event_key e"
    "fe_occurrences e > 0" "classifyDefense (le_reason (fe_row e)) = Some (fe_defense e)"
  shows "feed_inv (events @ [e])"
  using assms by (auto simp: feed_inv_def successively_append_iff)

lemma feed_inv_bump:
  assumes "feed_inv events" "events \<noteq> []"
  shows "feed_inv (butlast events @ [count_again (last events)])"
proof -
  obtain es e where events: "events = es @ [e]" using assms(2) by (metis rev_exhaust)
  with assms(1) show ?thesis by (auto simp: feed_inv_def successively_append_iff)
qed

lemma expand_bump:
  "events \<noteq> [] \<Longrightarrow> expand (butlast events @ [count_again (last events)])
     = expand events @ [event_key (last events)]"
  by (cases events rule: rev_cases) (auto simp: expand_def replicate_append_same)

lemma feed_loop_spec:
  assumes "feed_inv events"
  shows "feed_inv (feed_loop events rows)
    \<and> expand (feed_loop events rows) = expand events @ map (feed_key \<circ> snd) (filter is_defense_row rows)
    \<and> set (map (\<lambda>e. (fe_id e, fe_row e)) (feed_loop events rows))
        \<subseteq> set (map (\<lambda>e. (fe_id e, fe_row e)) events) \<union> set (filter is_defense_row rows)"
  using assms
proof (induction events rows rule: feed_loop.induct)
  case (2 events rowid r rows)
  show ?case
  proof (cases "classifyDefense (le_reason r)")
    case None
    with 2 show ?thesis by (simp add: is_defense_row_def)
  next
    case (Some d)
    let ?same = "events \<noteq> [] \<and> le_agentId (fe_row (last events)) = le_agentId r
             \<and> le_reason (fe_row (last events)) = le_reason r"
    show ?thesis
    proof (cases ?same)
      case True
      note IH = "2.IH"(2) [OF Some True feed_inv_bump [OF "2.prems"]]
      have ids: "set (map (\<lambda>e. (fe_id e, fe_row e)) (butlast events @ [count_again (last events)]))
          = set (map (\<lambda>e. (fe_id e, fe_row e)) events)"
        using True by (cases events rule: rev_cases) auto
      from IH True Some show ?thesis
        unfolding ids by (auto simp: expand_bump [OF conjunct1 [OF True]] is_defense_row_def feed_key_def)
    next
      case False
      let ?e = "\<lparr>fe_id = rowid, fe_row = r, fe_occurrences = 1, fe_defense = d\<rparr>"
      have "feed_inv (events @ [?e])"
        using "2.prems" False Some by (intro feed_inv_push) (auto simp: feed_key_def)
      from "2.IH"(3) [OF Some False this] False Some show ?thesis
        by (auto simp: expand_def is_defense_row_def)
    qed
  qed
qed simp

text \<open>the feed loses no defence that fired: written out, its events are exactly the agent and reason of the defence rows
  in their order; neighbouring events differ, every event counts at least one row and is one of them, so the
  feed is the run-length encoding of the rows.\<close>
theorem feed_is_run_length_encoding:
  "expand (buildFirewallFeed rows) = map (feed_key \<circ> snd) (filter is_defense_row rows)
   \<and> successively (\<lambda>a b. event_key a \<noteq> event_key b) (buildFirewallFeed rows)
   \<and> list_all (\<lambda>e. fe_occurrences e > 0 \<and> classifyDefense (le_reason (fe_row e)) = Some (fe_defense e)
      \<and> (fe_id e, fe_row e) \<in> set (filter is_defense_row rows)) (buildFirewallFeed rows)"
proof (intro conjI)
  have "feed_inv []" by (simp add: feed_inv_def)
  note spec = feed_loop_spec [OF this, of rows]
  from spec show "expand (buildFirewallFeed rows) = map (feed_key \<circ> snd) (filter is_defense_row rows)"
    by (simp add: buildFirewallFeed_def expand_def)
  from spec show "successively (\<lambda>a b. event_key a \<noteq> event_key b) (buildFirewallFeed rows)"
    by (simp add: buildFirewallFeed_def feed_inv_def)
  from spec show "list_all (\<lambda>e. fe_occurrences e > 0 \<and> classifyDefense (le_reason (fe_row e)) = Some (fe_defense e)
      \<and> (fe_id e, fe_row e) \<in> set (filter is_defense_row rows)) (buildFirewallFeed rows)"
    by (auto simp: buildFirewallFeed_def feed_inv_def list_all_iff)
qed

text \<open>The denials of the shell gate, of an unknown profile and of an orphaned delegation have no entry in the
  table, so no log filtered by \<open>DEFENSE_CODES\<close> shows them.\<close>

theorem shell_denials_are_no_defense:
  "map classifyDefense [R_unresolved_target, R_exec_undecidable, R_exec_parse_failed, R_agent_policy_unresolved,
     R_delegation_root_missing] = [None, None, None, None, None]"
  by code_simp

end
