(* ===== verification/Policy_History.thy ===== *)
theory Policy_History
  imports Policy_Decay Access_Props Policy_Store "HOL-Library.Product_Lexorder"
begin

text \<open>
  The local history of policy versions (\<^verbatim>\<open>policy/history.ts\<close>, \<^verbatim>\<open>policy/history-store.ts\<close>), the plan of a
  rollback (\<^verbatim>\<open>policy/rollback.ts\<close>) and the command that carries it out (\<open>runRollback\<close> of
  \<^verbatim>\<open>cli/policy.ts\<close>). The directory is its files; \<open>Bun.hash\<close> in hexadecimal is the parameter \<open>wyhash\<close>.
\<close>

subsection \<open>Names\<close>

definition pad_left :: "nat \<Rightarrow> string \<Rightarrow> string" where
  "pad_left n s = replicate (n - length s) (CHR ''0'') @ s"

definition shortHash :: "(string \<Rightarrow> string) \<Rightarrow> string \<Rightarrow> string" where
  "shortHash wyhash content = take 8 (pad_left 16 (wyhash content))"

text \<open>\<open>new Date(now).toISOString()\<close> without separators and milliseconds: the civil date of a day of the
  proleptic Gregorian calendar, for the years 0 to 9999.\<close>

definition civil_date :: "int \<Rightarrow> int \<times> int \<times> int" where
  "civil_date days =
     (let z = days + 719468; era = z div 146097; doe = z mod 146097;
          yoe = (doe - doe div 1460 + doe div 36524 - doe div 146096) div 365;
          doy = doe - (365 * yoe + yoe div 4 - yoe div 100);
          mp = (5 * doy + 2) div 153; month = (if mp < 10 then mp + 3 else mp - 9)
      in (yoe + era * 400 + (if month \<le> 2 then 1 else 0), month, doy - (153 * mp + 2) div 5 + 1))"

definition digits_of :: "nat \<Rightarrow> int \<Rightarrow> string" where
  "digits_of width n = pad_left width (show_nat (nat n))"

definition compactStamp :: "ms \<Rightarrow> string" where
  "compactStamp now =
     (let (y, m, d) = civil_date (now div 86400000); secs = (now mod 86400000) div 1000 in
      digits_of 4 y @ digits_of 2 m @ digits_of 2 d @ ''T'' @ digits_of 2 (secs div 3600)
      @ digits_of 2 (secs div 60 mod 60) @ digits_of 2 (secs mod 60) @ ''Z'')"

definition snapshotFilename :: "(string \<Rightarrow> string) \<Rightarrow> ms \<Rightarrow> string \<Rightarrow> string" where
  "snapshotFilename wyhash now content = compactStamp now @ ''-'' @ shortHash wyhash content @ ''.yaml''"

record snapshot_meta =
  sm_name :: string
  sm_stamp :: string
  sm_hash :: string

definition hex_digit :: "char \<Rightarrow> bool" where
  "hex_digit c \<longleftrightarrow> c \<in> set ''0123456789abcdef''"

text \<open>\<open>/^(\d{8}T\d{6}Z)-([0-9a-f]{8})\.yaml$/\<close>.\<close>

definition parseSnapshotName :: "string \<Rightarrow> snapshot_meta option" where
  "parseSnapshotName name =
     (let day = take 8 name; time = take 6 (drop 9 name); hash = take 8 (drop 17 name) in
      if length name = 30 \<and> list_all is_digit day \<and> name ! 8 = CHR ''T'' \<and> list_all is_digit time
         \<and> name ! 15 = CHR ''Z'' \<and> name ! 16 = CHR ''-'' \<and> list_all hex_digit hash \<and> drop 25 name = ''.yaml''
      then Some \<lparr>sm_name = name, sm_stamp = take 16 name, sm_hash = hash\<rparr> else None)"

text \<open>The comparator of the sort is the order of (stamp, name), descending.\<close>

definition meta_key :: "snapshot_meta \<Rightarrow> string \<times> string" where
  "meta_key m = (sm_stamp m, sm_name m)"

definition sortSnapshotsNewestFirst :: "string list \<Rightarrow> snapshot_meta list" where
  "sortSnapshotsNewestFirst names = rev (sort_key meta_key (List.map_filter parseSnapshotName names))"

definition snapshotsToPrune :: "snapshot_meta list \<Rightarrow> nat \<Rightarrow> string list" where
  "snapshotsToPrune newestFirst maxCount =
     (if length newestFirst \<le> maxCount then [] else map sm_name (drop maxCount newestFirst))"

subsection \<open>The store\<close>

type_synonym history = "(string \<times> string) list"

definition MAX_SNAPSHOTS :: nat where "MAX_SNAPSHOTS = 50"

definition hs_metas :: "history \<Rightarrow> snapshot_meta list" where
  "hs_metas dir = sortSnapshotsNewestFirst (map fst dir)"

definition hs_latestHash :: "history \<Rightarrow> string option" where
  "hs_latestHash dir = (case hs_metas dir of [] \<Rightarrow> None | m # ms \<Rightarrow> Some (sm_hash m))"

text \<open>\<open>disk\<close>: whether the snapshot can be written; \<open>unlinks\<close>: which files can be deleted.\<close>

definition hs_record :: "(string \<Rightarrow> string) \<Rightarrow> bool \<Rightarrow> (string \<Rightarrow> bool) \<Rightarrow> string \<Rightarrow> ms \<Rightarrow> history
    \<Rightarrow> string option \<times> history" where
  "hs_record wyhash disk unlinks content now dir =
     (if hs_latestHash dir = Some (shortHash wyhash content) then (None, dir)
      else if \<not> disk then (None, dir)
      else
        let name = snapshotFilename wyhash now content;
            dir' = AList.update name content dir;
            stale = snapshotsToPrune (hs_metas dir') MAX_SNAPSHOTS
        in (Some name, filter (\<lambda>(n, c). \<not> (n \<in> set stale \<and> unlinks n)) dir'))"

record snapshot =
  sn_index :: nat
  sn_name :: string
  sn_stamp :: string
  sn_hash :: string
  sn_bytes :: nat

definition hs_list :: "history \<Rightarrow> snapshot list" where
  "hs_list dir =
     map (\<lambda>(i, m). \<lparr>sn_index = i, sn_name = sm_name m, sn_stamp = sm_stamp m, sn_hash = sm_hash m,
          sn_bytes = (case map_of dir (sm_name m) of None \<Rightarrow> 0 | Some c \<Rightarrow> length c)\<rparr>)
       (enumerate 1 (hs_metas dir))"

definition hs_read :: "history \<Rightarrow> nat \<Rightarrow> string option" where
  "hs_read dir index =
     (if index = 0 \<or> length (hs_metas dir) < index then None
      else map_of dir (sm_name (hs_metas dir ! (index - 1))))"

subsection \<open>Rollback\<close>

datatype rollback_plan = PlanRefused compile_error | PlanOk bool "(string \<times> string \<times> decision \<times> decision) list"

definition planRollback :: "yaml_compiler \<Rightarrow> string \<Rightarrow> string \<Rightarrow> (string \<times> string) list \<Rightarrow> rollback_plan" where
  "planRollback compileYaml currentText candidateText pairs =
     (case compileYaml candidateText of
        Inl e \<Rightarrow> PlanRefused e
      | Inr candidate \<Rightarrow>
          (case compileYaml currentText of
             Inl _ \<Rightarrow> PlanOk False []
           | Inr current \<Rightarrow> PlanOk True (diffPolicies current candidate pairs)))"

datatype rollback_outcome = RollbackUsage | NoSnapshot | RollbackRefused compile_error | RollbackDryRun | RolledBack

definition runRollback :: "yaml_compiler \<Rightarrow> (string \<Rightarrow> string) \<Rightarrow> bool \<Rightarrow> (string \<Rightarrow> bool) \<Rightarrow> ms \<Rightarrow> nat option \<Rightarrow> bool
    \<Rightarrow> (string \<times> string) list \<Rightarrow> string option \<times> history \<Rightarrow> rollback_outcome \<times> (string option \<times> history)" where
  "runRollback compileYaml wyhash disk unlinks now n apply_it pairs st =
     (case n of
        None \<Rightarrow> (RollbackUsage, st)
      | Some k \<Rightarrow>
          if k < 1 then (RollbackUsage, st)
          else case hs_read (snd st) k of
            None \<Rightarrow> (NoSnapshot, st)
          | Some candidateText \<Rightarrow>
              let currentText = (case fst st of None \<Rightarrow> [] | Some c \<Rightarrow> c) in
              (case planRollback compileYaml currentText candidateText pairs of
                 PlanRefused e \<Rightarrow> (RollbackRefused e, st)
               | PlanOk currentCompiles diff \<Rightarrow>
                   if \<not> apply_it then (RollbackDryRun, st)
                   else (RolledBack, (Some candidateText,
                     if length currentText > 0 then snd (hs_record wyhash disk unlinks currentText now (snd st)) else snd st))))"

subsection \<open>The history is a stack\<close>

lemma stamp_example: "compactStamp 1784124120000 = ''20260715T140200Z''"
  by code_simp

lemma insort_key_append:
  "k a \<le> k x \<Longrightarrow> insort_key k a (ys @ [x]) = insort_key k a ys @ [x]" for k :: "'a \<Rightarrow> 'b::linorder"
  by (induction ys) auto

lemma sort_key_snoc:
  "list_all (\<lambda>y. k y < k x) xs \<Longrightarrow> sort_key k (xs @ [x]) = sort_key k xs @ [x]" for k :: "'a \<Rightarrow> 'b::linorder"
proof (induction xs)
  case (Cons a xs)
  then show ?case using insort_key_append [of k a x "sort_key k xs"] by (auto simp: less_imp_le)
qed simp

lemma map_filter_append: "List.map_filter f (xs @ ys) = List.map_filter f xs @ List.map_filter f ys"
  by (simp add: List.map_filter_def)

lemma metas_snoc:
  assumes "parseSnapshotName name = Some m" "list_all (\<lambda>y. meta_key y < meta_key m) (sortSnapshotsNewestFirst names)"
  shows "sortSnapshotsNewestFirst (names @ [name]) = m # sortSnapshotsNewestFirst names"
proof -
  have "list_all (\<lambda>y. meta_key y < meta_key m) (List.map_filter parseSnapshotName names)"
    using assms(2) by (simp add: sortSnapshotsNewestFirst_def list_all_iff)
  from sort_key_snoc [OF this] assms(1) show ?thesis
    by (simp add: sortSnapshotsNewestFirst_def map_filter_append)
qed

lemma parse_name: "parseSnapshotName n = Some m \<Longrightarrow> sm_name m = n"
  by (auto simp: parseSnapshotName_def Let_def split: if_splits)

lemma metas_names: "set (hs_metas dir) = {m. \<exists>n. n \<in> fst ` set dir \<and> parseSnapshotName n = Some m}"
  by (force simp: hs_metas_def sortSnapshotsNewestFirst_def List.map_filter_def)

lemma metas_distinct:
  assumes "distinct (map fst dir)" shows "distinct (map sm_name (hs_metas dir))"
proof -
  have "map sm_name (List.map_filter parseSnapshotName ns) = filter (\<lambda>n. parseSnapshotName n \<noteq> None) ns" for ns
    by (induction ns) (auto simp: List.map_filter_def dest: parse_name)
  then have "distinct (map sm_name (List.map_filter parseSnapshotName (map fst dir)))"
    using assms by (simp add: distinct_map_filter)
  then have "distinct (map sm_name (sort_key meta_key (List.map_filter parseSnapshotName (map fst dir))))"
    by (simp add: distinct_map)
  then show ?thesis
    by (simp add: hs_metas_def sortSnapshotsNewestFirst_def rev_map [symmetric])
qed

lemma map_filter_keep:
  "List.map_filter f (filter P xs) = filter (\<lambda>m. Q m) (List.map_filter f xs)"
  if "\<And>x m. f x = Some m \<Longrightarrow> Q m = P x"
  using that by (induction xs) (auto simp: List.map_filter_def)

lemma metas_filter:
  "hs_metas (filter (\<lambda>(n, c). keep n) dir) = filter (\<lambda>m. keep (sm_name m)) (hs_metas dir)"
proof -
  have "map fst (filter (\<lambda>(n, c). keep n) dir) = filter keep (map fst dir)"
    by (induction dir) auto
  moreover have "List.map_filter parseSnapshotName (filter keep ns)
      = filter (\<lambda>m. keep (sm_name m)) (List.map_filter parseSnapshotName ns)" for ns
    by (rule map_filter_keep) (auto dest: parse_name)
  ultimately show ?thesis
    by (simp add: hs_metas_def sortSnapshotsNewestFirst_def filter_sort rev_filter [symmetric])
qed

lemma filter_not_dropped:
  "distinct (map g xs) \<Longrightarrow> filter (\<lambda>x. g x \<notin> g ` set (drop n xs)) xs = take n xs"
proof (induction n arbitrary: xs)
  case (Suc n)
  show ?case
  proof (cases xs)
    case (Cons x ys)
    then have "g x \<notin> g ` set (drop n ys)"
      using Suc.prems by (auto dest: in_set_dropD)
    with Cons Suc show ?thesis by simp
  qed simp
qed (auto simp: filter_False)

definition fresh_stamp :: "(string \<Rightarrow> string) \<Rightarrow> ms \<Rightarrow> string \<Rightarrow> history \<Rightarrow> bool" where
  "fresh_stamp wyhash now content dir \<longleftrightarrow> distinct (map fst dir)
     \<and> parseSnapshotName (snapshotFilename wyhash now content) =
         Some \<lparr>sm_name = snapshotFilename wyhash now content, sm_stamp = compactStamp now, sm_hash = shortHash wyhash content\<rparr>
     \<and> list_all (\<lambda>m. sm_stamp m < compactStamp now) (hs_metas dir)"

lemma record_metas:
  assumes "fresh_stamp wyhash now content dir" "hs_latestHash dir \<noteq> Some (shortHash wyhash content)"
  shows "hs_metas (snd (hs_record wyhash True (\<lambda>_. True) content now dir)) =
      take MAX_SNAPSHOTS (\<lparr>sm_name = snapshotFilename wyhash now content, sm_stamp = compactStamp now,
        sm_hash = shortHash wyhash content\<rparr> # hs_metas dir)"
    and "map_of (snd (hs_record wyhash True (\<lambda>_. True) content now dir)) n =
      (if n \<in> set (snapshotsToPrune (hs_metas (AList.update (snapshotFilename wyhash now content) content dir)) MAX_SNAPSHOTS)
       then None else if n = snapshotFilename wyhash now content then Some content else map_of dir n)"
    and "m \<in> set (hs_metas (snd (hs_record wyhash True (\<lambda>_. True) content now dir))) \<Longrightarrow>
      sm_name m \<notin> set (snapshotsToPrune (hs_metas (AList.update (snapshotFilename wyhash now content) content dir)) MAX_SNAPSHOTS)"
    and "snapshotFilename wyhash now content \<notin> fst ` set dir"
proof -
  let ?name = "snapshotFilename wyhash now content" let ?dir = "AList.update ?name content dir"
  let ?m = "\<lparr>sm_name = ?name, sm_stamp = compactStamp now, sm_hash = shortHash wyhash content\<rparr>"
  let ?stale = "snapshotsToPrune (hs_metas ?dir) MAX_SNAPSHOTS"
  from assms(1) have parse: "parseSnapshotName ?name = Some ?m" and d: "distinct (map fst dir)"
    and old: "list_all (\<lambda>m. sm_stamp m < compactStamp now) (hs_metas dir)"
    by (auto simp: fresh_stamp_def)
  have fresh: "?name \<notin> fst ` set dir"
  proof
    assume "?name \<in> fst ` set dir"
    with parse have "?m \<in> set (hs_metas dir)" by (force simp: metas_names)
    with old show False by (auto simp: list_all_iff)
  qed
  have keys: "map fst ?dir = map fst dir @ [?name]" using fresh by (simp add: update_fresh)
  have metas: "hs_metas ?dir = ?m # hs_metas dir"
    unfolding hs_metas_def keys using parse old
    by (intro metas_snoc) (auto simp: meta_key_def hs_metas_def list_all_iff)
  have run: "snd (hs_record wyhash True (\<lambda>_. True) content now dir) = filter (\<lambda>(n, c). n \<notin> set ?stale) ?dir"
    using assms(2) by (simp add: hs_record_def Let_def)
  have "distinct (map sm_name (hs_metas ?dir))"
    using d fresh keys by (intro metas_distinct) simp
  from filter_not_dropped [OF this, of MAX_SNAPSHOTS]
  have "filter (\<lambda>m. sm_name m \<notin> set ?stale) (hs_metas ?dir) = take MAX_SNAPSHOTS (hs_metas ?dir)"
    by (auto simp: snapshotsToPrune_def)
  then show "hs_metas (snd (hs_record wyhash True (\<lambda>_. True) content now dir)) = take MAX_SNAPSHOTS (?m # hs_metas dir)"
    unfolding run metas_filter by (simp add: metas)
  show "map_of (snd (hs_record wyhash True (\<lambda>_. True) content now dir)) n =
      (if n \<in> set ?stale then None else if n = ?name then Some content else map_of dir n)"
    unfolding run using map_of_filter_key [of "\<lambda>n. n \<notin> set ?stale" ?dir n]
    by (simp add: case_prod_beta' update_conv')
  show "sm_name m \<notin> set ?stale" if "m \<in> set (hs_metas (snd (hs_record wyhash True (\<lambda>_. True) content now dir)))"
    using that unfolding run metas_filter by simp
  show "?name \<notin> fst ` set dir" by (rule fresh)
qed

text \<open>the history is a stack of the last fifty versions: recording a version with a later stamp makes it number one,
  and what was number n before is number n + 1, as long as that is within the cap.\<close>
theorem history_is_a_stack:
  assumes "fresh_stamp wyhash now content dir" and "hs_latestHash dir \<noteq> Some (shortHash wyhash content)"
    and "1 \<le> n" and "n < MAX_SNAPSHOTS"
  shows "hs_read (snd (hs_record wyhash True (\<lambda>_. True) content now dir)) 1 = Some content
    \<and> hs_read (snd (hs_record wyhash True (\<lambda>_. True) content now dir)) (n + 1) = hs_read dir n
    \<and> length (hs_metas (snd (hs_record wyhash True (\<lambda>_. True) content now dir))) \<le> MAX_SNAPSHOTS"
proof (intro conjI)
  let ?name = "snapshotFilename wyhash now content" let ?dir' = "snd (hs_record wyhash True (\<lambda>_. True) content now dir)"
  let ?m = "\<lparr>sm_name = ?name, sm_stamp = compactStamp now, sm_hash = shortHash wyhash content\<rparr>"
  note rec = record_metas [OF assms(1,2)]
  have text_of: "map_of ?dir' (sm_name m) = (if sm_name m = ?name then Some content else map_of dir (sm_name m))"
    if "m \<in> set (hs_metas ?dir')" for m
    using rec(2) [of "sm_name m"] rec(3) [OF that] by simp
  have first: "hs_metas ?dir' = ?m # take (MAX_SNAPSHOTS - 1) (hs_metas dir)"
    unfolding rec(1) by (simp add: MAX_SNAPSHOTS_def)
  show "hs_read ?dir' 1 = Some content"
    using text_of [of ?m] first by (simp add: hs_read_def)
  show "hs_read ?dir' (n + 1) = hs_read dir n"
  proof (cases "n \<le> length (hs_metas dir)")
    case True
    let ?old = "hs_metas dir ! (n - 1)"
    have "hs_metas ?dir' ! n = ?old" "n < length (hs_metas ?dir')"
      unfolding first using assms(3,4) True by (auto simp: nth_Cons' MAX_SNAPSHOTS_def)
    moreover from this have "?old \<in> set (hs_metas ?dir')" by (metis nth_mem)
    moreover have "sm_name ?old \<noteq> ?name"
    proof
      assume same: "sm_name ?old = ?name"
      have "?old \<in> set (hs_metas dir)" using True assms(3) by (intro nth_mem) simp
      then have "sm_name ?old \<in> fst ` set dir" by (auto simp: metas_names dest!: parse_name simp del: nth_mem)
      with same rec(4) show False by simp
    qed
    ultimately show ?thesis using text_of [of ?old] True assms(3) by (simp add: hs_read_def)
  next
    case False
    then show ?thesis using first assms(3) by (simp add: hs_read_def)
  qed
  show "length (hs_metas ?dir') \<le> MAX_SNAPSHOTS" unfolding rec(1) by simp
qed

text \<open>A concrete history: two versions ten seconds apart.\<close>

definition hx_hash :: "string \<Rightarrow> string" where
  "hx_hash c = (if c = ''old'' then ''bbbbbbbbbbbbbbbb'' else ''aaaaaaaaaaaaaaaa'')"

definition hx_dir :: history where
  "hx_dir = snd (hs_record hx_hash True (\<lambda>_. True) ''old'' 1784124120000 [])"

lemma hx_fresh: "fresh_stamp hx_hash 1784124130000 ''new'' hx_dir" "hs_latestHash hx_dir \<noteq> Some (shortHash hx_hash ''new'')"
  "1 \<le> (1::nat)" "1 < MAX_SNAPSHOTS" "hs_read hx_dir 1 = Some ''old''"
  by code_simp+

theorem history_is_a_stack_witness:
  "hs_read (snd (hs_record hx_hash True (\<lambda>_. True) ''new'' 1784124130000 hx_dir)) (1 + 1) = Some ''old''"
  using history_is_a_stack [OF hx_fresh(1-4)] hx_fresh(5) by simp

text \<open>Two versions of one second are ordered by their hash, so the newer may be number two. The console records
  the version it replaces and the new one in one handler.\<close>

theorem same_second_versions_swap:
  "hs_read (snd (hs_record hx_hash True (\<lambda>_. True) ''new'' 1784124120000 hx_dir)) 1 = Some ''old''"
  by code_simp

text \<open>a rollback writes only a version that compiles, exactly the one asked for; a refused, missing or dry run changes
  neither the policy nor the history, and an applied one has kept the version it replaced.\<close>
theorem rollback_restores_what_compiles:
  assumes "runRollback cy wyhash disk unlinks now n apply_it pairs (file, dir) = (out, (file', dir'))"
  shows "(if out = RolledBack
          then (\<exists>k c p. n = Some k \<and> hs_read dir k = Some c \<and> cy c = Inr p \<and> file' = Some c)
            \<and> dir' = (case file of Some (x # xs) \<Rightarrow> snd (hs_record wyhash disk unlinks (x # xs) now dir) | _ \<Rightarrow> dir)
          else file' = file \<and> dir' = dir)"
  using assms
  by (auto simp: runRollback_def planRollback_def Let_def split: option.splits if_splits sum.splits list.splits)

definition hx_compile :: yaml_compiler where
  "hx_compile c = (if c = ''old'' then Inr \<lparr>cp_agent = ''bot'', cp_onBehalfOf = ''ops'', cp_grants = [],
     cp_maxActionsPerHour = None, cp_perUpstream = Map.empty, cp_perAgent = Map.empty,
     cp_perAgentApproval = Map.empty, cp_perDelegation = None, cp_budgetWeights = [], cp_quorums = [],
     cp_dlp = None, cp_stepUp = None, cp_schedule = None, cp_firstUse = None, cp_flows = [], cp_pins = [],
     cp_tripwires = [], cp_responses = [],
     cp_source = \<lparr>src_agent = ''bot'', src_on_behalf_of = ''ops'', src_grants = [], src_budget = None,
       src_approvals = None, src_dlp = None, src_step_up = None, src_schedule = None, src_first_use = None,
       src_quorum = None, src_flows = None, src_tripwires = None, src_pins = [], src_responses = []\<rparr>\<rparr>
     else Inl EmptyDocument)"

definition hx_run :: "rollback_outcome \<times> (string option \<times> history)" where
  "hx_run = runRollback hx_compile hx_hash True (\<lambda>_. True) 1784124130000 (Some 1) True [] (Some ''new'', hx_dir)"

lemma hx_rolled_back: "fst hx_run = RolledBack"
  by code_simp

theorem rollback_restores_what_compiles_witness:
  "fst (snd hx_run) = Some ''old'' \<and> snd (snd hx_run) = snd (hs_record hx_hash True (\<lambda>_. True) ''new'' 1784124130000 hx_dir)"
proof -
  have "runRollback hx_compile hx_hash True (\<lambda>_. True) 1784124130000 (Some 1) True [] (Some ''new'', hx_dir)
      = (fst hx_run, (fst (snd hx_run), snd (snd hx_run)))"
    by (simp add: hx_run_def)
  from rollback_restores_what_compiles [OF this] hx_rolled_back hx_fresh(5) show ?thesis by auto
qed

end
