(* ===== verification/Config_Rewrite.thy ===== *)
theory Config_Rewrite
  imports Json_Files Access_Stores
begin

text \<open>
  The edits of \<^verbatim>\<open>grenz.yaml\<close> (\<^verbatim>\<open>config/rewrite.ts\<close>) and the write that refuses a file changed underneath
  (\<^verbatim>\<open>config/atomic-write.ts\<close>). The YAML library is a parameter with two parts: \<open>yl_parse\<close>, the document
  of a text (\<open>None\<close> when it reports an error), and \<open>yl_edit\<close>, the text after one edit of its document.
  What an edit means for the document is \<open>apply_edit\<close>; comments and layout are the library's.
\<close>

subsection \<open>Documents\<close>

datatype yaml_edit =
    AppendAgent json
  | SetTokenHash nat string
  | RemoveAgent nat
  | SetUpstream string json
  | RemoveUpstream string
  | SetTop string json

record yaml_lib =
  yl_parse :: "string \<Rightarrow> json option"
  yl_edit :: "yaml_edit \<Rightarrow> string \<Rightarrow> string"

fun set_field :: "string \<Rightarrow> json \<Rightarrow> json \<Rightarrow> json" where
  "set_field k v (JObj props) = JObj (AList.update k v props)"
| "set_field k v d = d"

definition agent_items :: "json \<Rightarrow> json list option" where
  "agent_items doc = (case json_field doc ''agents'' of Some (JArr xs) \<Rightarrow> Some xs | _ \<Rightarrow> None)"

definition upstream_props :: "json \<Rightarrow> (string \<times> json) list option" where
  "upstream_props doc = (case json_field doc ''upstreams'' of Some (JObj ps) \<Rightarrow> Some ps | _ \<Rightarrow> None)"

fun apply_edit :: "yaml_edit \<Rightarrow> json \<Rightarrow> json" where
  "apply_edit (AppendAgent v) doc =
     (case agent_items doc of None \<Rightarrow> doc | Some xs \<Rightarrow> set_field ''agents'' (JArr (xs @ [v])) doc)"
| "apply_edit (SetTokenHash i h) doc =
     (case agent_items doc of None \<Rightarrow> doc
      | Some xs \<Rightarrow> set_field ''agents'' (JArr (xs[i := set_field ''token_hash'' (JStr h) (xs ! i)])) doc)"
| "apply_edit (RemoveAgent i) doc =
     (case agent_items doc of None \<Rightarrow> doc | Some xs \<Rightarrow> set_field ''agents'' (JArr (take i xs @ drop (Suc i) xs)) doc)"
| "apply_edit (SetUpstream name v) doc =
     set_field ''upstreams'' (JObj (AList.update name v (case upstream_props doc of None \<Rightarrow> [] | Some ps \<Rightarrow> ps))) doc"
| "apply_edit (RemoveUpstream name) doc =
     (case upstream_props doc of None \<Rightarrow> doc | Some ps \<Rightarrow> set_field ''upstreams'' (JObj (AList.delete name ps)) doc)"
| "apply_edit (SetTop k v) doc = set_field k v doc"

text \<open>The documented behaviour of the library: an edited text parses to the edited document.\<close>

definition yaml_edits_hold :: "yaml_lib \<Rightarrow> bool" where
  "yaml_edits_hold lib \<longleftrightarrow> (\<forall>e text doc. yl_parse lib text = Some doc \<longrightarrow> yl_parse lib (yl_edit lib e text) = Some (apply_edit e doc))"

subsection \<open>The rewrites\<close>

datatype rewrite_error =
    InvalidYaml | NoAgentsList | UnknownAgent string | AgentExists string | NotADecoyAgent string
  | UpstreamsNotAMap | UpstreamExists string | UnknownUpstream string | NotADecoyUpstream string | AlreadySet string

definition agent_named :: "string \<Rightarrow> json \<Rightarrow> bool" where
  "agent_named k item \<longleftrightarrow> json_field item ''id'' = Some (JStr k)"

fun find_index :: "('a \<Rightarrow> bool) \<Rightarrow> 'a list \<Rightarrow> nat option" where
  "find_index P [] = None"
| "find_index P (x # xs) = (if P x then Some 0 else map_option Suc (find_index P xs))"

fun last_index :: "('a \<Rightarrow> bool) \<Rightarrow> 'a list \<Rightarrow> nat option" where
  "last_index P [] = None"
| "last_index P (x # xs) = (case last_index P xs of Some i \<Rightarrow> Some (Suc i) | None \<Rightarrow> if P x then Some 0 else None)"

text \<open>Every rewrite of the agents starts alike: a document without errors that has an agents list.\<close>

definition with_agents :: "yaml_lib \<Rightarrow> string \<Rightarrow> (json list \<Rightarrow> rewrite_error + yaml_edit) \<Rightarrow> rewrite_error + string" where
  "with_agents lib rawYaml f =
     (case yl_parse lib rawYaml of
        None \<Rightarrow> Inl InvalidYaml
      | Some doc \<Rightarrow>
          (case agent_items doc of
             None \<Rightarrow> Inl NoAgentsList
           | Some items \<Rightarrow> (case f items of Inl e \<Rightarrow> Inl e | Inr edit \<Rightarrow> Inr (yl_edit lib edit rawYaml))))"

definition setAgentTokenHash :: "yaml_lib \<Rightarrow> string \<Rightarrow> string \<Rightarrow> string \<Rightarrow> rewrite_error + string" where
  "setAgentTokenHash lib rawYaml agentId newHash =
     with_agents lib rawYaml (\<lambda>items.
       case last_index (agent_named agentId) items of
         None \<Rightarrow> Inl (UnknownAgent agentId) | Some i \<Rightarrow> Inr (SetTokenHash i newHash))"

definition addDecoyAgent :: "yaml_lib \<Rightarrow> string \<Rightarrow> string \<Rightarrow> string \<Rightarrow> rewrite_error + string" where
  "addDecoyAgent lib rawYaml k tokenHash =
     with_agents lib rawYaml (\<lambda>items.
       if list_ex (agent_named k) items then Inl (AgentExists k)
       else Inr (AppendAgent (JObj [(''id'', JStr k), (''token_hash'', JStr tokenHash), (''decoy'', JBool True)])))"

record agent_scope_input =
  as_actions :: "string list option"
  as_targets :: "string list option"
  as_policy :: "string option"

definition list_entry :: "string \<Rightarrow> string list option \<Rightarrow> (string \<times> json) list" where
  "list_entry key vs = (case vs of Some (x # xs) \<Rightarrow> [(key, JArr (map JStr (x # xs)))] | _ \<Rightarrow> [])"

definition agent_entry :: "string \<Rightarrow> string \<Rightarrow> agent_scope_input \<Rightarrow> json" where
  "agent_entry k tokenHash scope = JObj
     ([(''id'', JStr k), (''token_hash'', JStr tokenHash)]
      @ (case as_policy scope of Some (c # cs) \<Rightarrow> [(''policy'', JStr (c # cs))] | _ \<Rightarrow> [])
      @ list_entry ''actions'' (as_actions scope) @ list_entry ''targets'' (as_targets scope))"

definition addAgent :: "yaml_lib \<Rightarrow> string \<Rightarrow> string \<Rightarrow> string \<Rightarrow> agent_scope_input \<Rightarrow> rewrite_error + string" where
  "addAgent lib rawYaml k tokenHash scope =
     with_agents lib rawYaml (\<lambda>items.
       if list_ex (agent_named k) items then Inl (AgentExists k)
       else Inr (AppendAgent (agent_entry k tokenHash scope)))"

definition is_decoy_item :: "json \<Rightarrow> bool" where
  "is_decoy_item item \<longleftrightarrow> json_field item ''decoy'' = Some (JBool True)"

definition removeDecoyAgent :: "yaml_lib \<Rightarrow> string \<Rightarrow> string \<Rightarrow> rewrite_error + string" where
  "removeDecoyAgent lib rawYaml k =
     with_agents lib rawYaml (\<lambda>items.
       case find_index (agent_named k) items of
         None \<Rightarrow> Inl (UnknownAgent k)
       | Some i \<Rightarrow> if is_decoy_item (items ! i) then Inr (RemoveAgent i) else Inl (NotADecoyAgent k))"

definition decoy_upstream :: json where
  "decoy_upstream = JObj [(''decoy'', JBool True), (''type'', JStr ''mcp'')]"

definition addDecoyUpstream :: "yaml_lib \<Rightarrow> string \<Rightarrow> string \<Rightarrow> rewrite_error + string" where
  "addDecoyUpstream lib rawYaml name =
     (case yl_parse lib rawYaml of
        None \<Rightarrow> Inl InvalidYaml
      | Some doc \<Rightarrow>
          (case (case json_field doc ''upstreams'' of None \<Rightarrow> Some [] | Some JNull \<Rightarrow> Some []
                 | Some (JObj ps) \<Rightarrow> Some ps | Some _ \<Rightarrow> None) of
             None \<Rightarrow> Inl UpstreamsNotAMap
           | Some ps \<Rightarrow> if map_of ps name \<noteq> None then Inl (UpstreamExists name)
               else Inr (yl_edit lib (SetUpstream name decoy_upstream) rawYaml)))"

definition removeDecoyUpstream :: "yaml_lib \<Rightarrow> string \<Rightarrow> string \<Rightarrow> rewrite_error + string" where
  "removeDecoyUpstream lib rawYaml name =
     (case yl_parse lib rawYaml of
        None \<Rightarrow> Inl InvalidYaml
      | Some doc \<Rightarrow>
          (case upstream_props doc of
             None \<Rightarrow> Inl UpstreamsNotAMap
           | Some ps \<Rightarrow>
               (case map_of ps name of
                  None \<Rightarrow> Inl (UnknownUpstream name)
                | Some entry \<Rightarrow> if is_decoy_item entry then Inr (yl_edit lib (RemoveUpstream name) rawYaml)
                    else Inl (NotADecoyUpstream name))))"

record policy_source_input =
  ps_url :: string
  ps_orgTokenKey :: string
  ps_refreshSeconds :: int
  ps_maxAgeSeconds :: int
  ps_publicKeys :: "string list option"

definition set_top_once :: "yaml_lib \<Rightarrow> string \<Rightarrow> string \<Rightarrow> json \<Rightarrow> bool \<Rightarrow> rewrite_error + string" where
  "set_top_once lib rawYaml key entry force =
     (case yl_parse lib rawYaml of
        None \<Rightarrow> Inl InvalidYaml
      | Some doc \<Rightarrow> if json_field doc key \<noteq> None \<and> \<not> force then Inl (AlreadySet key)
          else Inr (yl_edit lib (SetTop key entry) rawYaml))"

definition setPolicySource :: "yaml_lib \<Rightarrow> string \<Rightarrow> policy_source_input \<Rightarrow> bool \<Rightarrow> rewrite_error + string" where
  "setPolicySource lib rawYaml source force =
     set_top_once lib rawYaml ''policy_source''
       (JObj ([(''url'', JStr (ps_url source)), (''org_token_key'', JStr (ps_orgTokenKey source))]
          @ list_entry ''public_key'' (ps_publicKeys source)
          @ [(''refresh_seconds'', JNum (ps_refreshSeconds source)), (''max_age_seconds'', JNum (ps_maxAgeSeconds source)),
             (''on_stale'', JStr ''fail_closed'')])) force"

definition setTelemetry :: "yaml_lib \<Rightarrow> string \<Rightarrow> string \<Rightarrow> string \<Rightarrow> int \<Rightarrow> bool \<Rightarrow> rewrite_error + string" where
  "setTelemetry lib rawYaml endpoint orgTokenKey intervalSeconds force =
     set_top_once lib rawYaml ''telemetry''
       (JObj [(''enabled'', JBool True), (''endpoint'', JStr endpoint), (''org_token_key'', JStr orgTokenKey),
              (''interval_seconds'', JNum intervalSeconds)]) force"

subsection \<open>The write\<close>

datatype config_write_error = ConfigChanged | ConfigWriteFailed

text \<open>\<open>diskOk\<close>: the temporary file can be written and renamed. The file is re-read just before the rename.\<close>

definition writeConfigAtomic :: "bool \<Rightarrow> string \<Rightarrow> string \<Rightarrow> string option \<Rightarrow> (config_write_error + unit) \<times> string option" where
  "writeConfigAtomic diskOk contents expectedBase file =
     (case file of
        None \<Rightarrow> (Inl ConfigWriteFailed, file)
      | Some current \<Rightarrow>
          if \<not> diskOk then (Inl ConfigWriteFailed, file)
          else if current \<noteq> expectedBase then (Inl ConfigChanged, file)
          else (Inr (), Some contents))"

subsection \<open>Properties\<close>

lemma json_field_set [simp]:
  "json_field (JObj (AList.update k v ps)) k' = (if k' = k then Some v else map_of ps k')"
  by (simp add: update_conv')

lemma agent_items_set: "agent_items doc = Some xs \<Longrightarrow> agent_items (set_field ''agents'' (JArr ys) doc) = Some ys"
  by (cases doc) (auto simp: agent_items_def)

lemma with_agents_InrD:
  assumes "with_agents lib rawYaml f = Inr yaml"
  obtains doc items edit where "yl_parse lib rawYaml = Some doc" "agent_items doc = Some items" "f items = Inr edit"
    "yaml = yl_edit lib edit rawYaml"
  using assms by (auto simp: with_agents_def split: option.splits sum.splits)

text \<open>An added agent is the only new entry, at the end, and its id was free.\<close>

lemma addAgent_appends:
  assumes "yaml_edits_hold lib" "addAgent lib rawYaml k h scope = Inr yaml"
  shows "\<exists>doc items. yl_parse lib rawYaml = Some doc \<and> agent_items doc = Some items
    \<and> \<not> list_ex (agent_named k) items
    \<and> yl_parse lib yaml = Some (set_field ''agents'' (JArr (items @ [agent_entry k h scope])) doc)
    \<and> agent_items (set_field ''agents'' (JArr (items @ [agent_entry k h scope])) doc) = Some (items @ [agent_entry k h scope])"
  using assms(2) unfolding addAgent_def
proof (rule with_agents_InrD)
  fix doc items edit
  assume a: "yl_parse lib rawYaml = Some doc" "agent_items doc = Some items" "yaml = yl_edit lib edit rawYaml"
    and f: "(if list_ex (agent_named k) items then Inl (AgentExists k)
       else Inr (AppendAgent (agent_entry k h scope))) = Inr edit"
  then have "yl_parse lib yaml = Some (apply_edit edit doc)"
    using assms(1) by (simp add: yaml_edits_hold_def)
  with a f show ?thesis by (auto simp: agent_items_set split: if_splits)
qed

text \<open>Removing a decoy never touches a real agent.\<close>

lemma find_index_SomeD: "find_index P xs = Some i \<Longrightarrow> i < length xs \<and> P (xs ! i)"
  by (induction xs arbitrary: i) (auto split: if_splits)

lemma removeDecoyAgent_removes:
  assumes "yaml_edits_hold lib" "removeDecoyAgent lib rawYaml k = Inr yaml"
  shows "\<exists>doc items i. yl_parse lib rawYaml = Some doc \<and> agent_items doc = Some items \<and> i < length items
    \<and> agent_named k (items ! i) \<and> is_decoy_item (items ! i)
    \<and> Option.bind (yl_parse lib yaml) agent_items = Some (take i items @ drop (Suc i) items)"
  using assms(2) unfolding removeDecoyAgent_def
proof (rule with_agents_InrD)
  fix doc items edit
  assume a: "yl_parse lib rawYaml = Some doc" "agent_items doc = Some items" "yaml = yl_edit lib edit rawYaml"
    and f: "(case find_index (agent_named k) items of None \<Rightarrow> Inl (UnknownAgent k)
       | Some i \<Rightarrow> if is_decoy_item (items ! i) then Inr (RemoveAgent i) else Inl (NotADecoyAgent k)) = Inr edit"
  then have "yl_parse lib yaml = Some (apply_edit edit doc)"
    using assms(1) by (simp add: yaml_edits_hold_def)
  with a f show ?thesis by (auto simp: agent_items_set dest: find_index_SomeD split: option.splits if_splits)
qed

end
