(* ===== verification/Console_Read.thy ===== *)
theory Console_Read
  imports Explain Blast_Radius Firewall_Feed Policy_History Distribution Delegate_Route Config_Rewrite
begin

text \<open>
  The admin API of the proxy (\<^verbatim>\<open>proxy/console.ts\<close>), first part: its configuration and state, requests,
  replies, authentication, and the read-only routes. Parameters: \<open>Number\<close> and \<open>decodeURIComponent\<close> on a
  query or path text, the digest of a policy source, and what \<open>policyEditorView\<close> and \<open>writeGrants\<close> of
  \<^verbatim>\<open>policy/editor.ts\<close> make of a YAML text.
\<close>

subsection \<open>Requests\<close>

record console_request =
  cq_method :: string
  cq_path :: string
  cq_admin :: "string option"
  cq_authorization :: "string option"
  cq_query :: "(string \<times> string) list"
  cq_body :: "json option"

definition query :: "console_request \<Rightarrow> string \<Rightarrow> string option" where
  "query req name = map_of (cq_query req) name"

text \<open>A JavaScript number as the handlers see it; \<open>JFrac n\<close> is a fraction whose floor is \<open>n\<close>.\<close>

datatype js_number = JNaN | JInfinite | JInt int | JFrac int

fun finite_floor :: "js_number \<Rightarrow> int option" where
  "finite_floor (JInt n) = Some n"
| "finite_floor (JFrac n) = Some n"
| "finite_floor _ = None"

text \<open>\<open>[^/]+\<close> as the rest of the path, and the two segments of a decision.\<close>

definition path_segment :: "string \<Rightarrow> string \<Rightarrow> string option" where
  "path_segment prefix path =
     (let rest = drop (length prefix) path in
      if starts_with path prefix \<and> rest \<noteq> [] \<and> CHR ''/'' \<notin> set rest then Some rest else None)"

definition decide_path :: "string \<Rightarrow> (string \<times> bool) option" where
  "decide_path path =
     (let rest = drop (length ''/console/approvals/'') path; seg = takeWhile (\<lambda>c. c \<noteq> CHR ''/'') rest in
      if approval_decision_path path then Some (seg, drop (Suc (length seg)) rest = ''approve'') else None)"

subsection \<open>Configuration and state\<close>

record editor_grant =
  eg_tool :: string
  eg_allow :: "json list"
  eg_requireApproval :: "json list"
  eg_deny :: "json list"

record editor_view =
  ev_grants :: "editor_grant list"
  ev_advancedSections :: "string list"

record console_config =
  cc_server :: server_config
  cc_adminToken :: "string option"
  cc_policyPath :: bool
  cc_policyEditable :: bool
  cc_agentsAdmin :: bool
  cc_approvals :: "int \<times> int"
  cc_number :: "string \<Rightarrow> js_number"
  cc_decodeURI :: "string \<Rightarrow> string option"
  cc_digest :: "string \<Rightarrow> string"
  cc_wyhash :: "string \<Rightarrow> string"
  cc_collation :: "string \<Rightarrow> nat"
  cc_compileYaml :: yaml_compiler
  cc_yaml :: yaml_lib
  cc_editorView :: "string \<Rightarrow> editor_view option"
  cc_writeGrants :: "string \<Rightarrow> editor_grant list \<Rightarrow> string option"

text \<open>The stores of the proxy, the admin tokens, the two files, the history, and the distribution state that
  \<open>/metrics\<close> reads: version, time of the last verified pull, and for the kill set its size.\<close>

record console_state =
  cs_proxy :: pstate
  cs_tokens :: "token_store option"
  cs_policyFile :: "string option"
  cs_configFile :: "string option"
  cs_history :: "history option"
  cs_policyDist :: "(int \<times> ms) option"
  cs_revocationDist :: "(int \<times> ms \<times> int) option"

text \<open>The outside of one request: the clock, which writes succeed, drawn ids and tokens, and what the rest
  of the process does at each \<open>await\<close>. A file is read between \<open>cw_beforeRead\<close> and \<open>cw_afterRead\<close>.\<close>

record console_world =
  cw_authAt :: ms
  cw_now :: ms
  cw_disk :: bool
  cw_fileOk :: bool
  cw_unlinks :: "string \<Rightarrow> bool"
  cw_newId :: string
  cw_token :: string
  cw_afterAuth :: "console_state \<Rightarrow> console_state"
  cw_afterBody :: "console_state \<Rightarrow> console_state"
  cw_beforeRead :: "console_state \<Rightarrow> console_state"
  cw_afterRead :: "console_state \<Rightarrow> console_state"
  cw_afterHash :: "console_state \<Rightarrow> console_state"

subsection \<open>Replies\<close>

record budget_row =
  bw_agent :: agent_id
  bw_ceiling :: agent_ceiling
  bw_spent :: int
  bw_upstreams :: "(string \<times> int \<times> int) list"

record metrics_input =
  mx_decisions :: "int \<times> int"
  mx_approvals :: "int \<times> int \<times> int"
  mx_approvalsPending :: nat
  mx_delegationsActive :: nat
  mx_grantsActive :: nat
  mx_agentsRevoked :: nat
  mx_shadowWouldBlock :: int
  mx_policyVersion :: int
  mx_policySecondsSincePull :: int
  mx_revocationsFleet :: int
  mx_revocationSetVersion :: int
  mx_revocationSecondsSincePull :: int

datatype origin = Auto | Manual

record revocation_row =
  vr_id :: agent_id
  vr_revoked :: bool
  vr_local :: "revocation_record option"
  vr_fleet :: bool

datatype console_read =
    Summary log_summary nat "((string \<times> string \<times> string) \<times> int) list"
  | Metrics metrics_input
  | Budgets "budget_row list"
  | Risks "(agent_id \<times> risk_assessment \<times> agent_activity) list"
  | CanarySnapshot "(int \<times> int \<times> canary_cell list) option"
  | Requests request_log
  | Firewall "firewall_event list"
  | PolicyManaged nat bool
  | PolicyView editor_view string nat bool
  | Agents "agent_config list"
  | PendingApprovals "approval_record list"
  | Explained explain_report
  | BlastRadius blast_report
  | NoKillSwitch
  | Revocations "revocation_record list" "revocation_row list" "(revocation_record \<times> origin) list"
  | Delegations "(delegation \<times> int \<times> bool) list"
  | Grants "(temporary_grant \<times> bool) list"
  | Windows "break_glass list"
  | Tokens "admin_token list"

datatype console_reply =
    CUnauthorized
  | CForbidden role
  | CError int string
  | CCrash
  | CRead console_read
  | CDecided string bool string "(bool \<times> int \<times> int) option"
  | CRevoked agent_id revocation_record
  | CRestored agent_id bool "int option"
  | CDelegated string delegation
  | CGranted temporary_grant
  | CPulled break_glass
  | CTokenCreated string role string
  | CTokenRevoked string
  | CStaleEdit "editor_grant list" string
  | CPolicyValid nat
  | CPolicySaved nat "nat option" string
  | CAgentMinted string string agent_scope_input

subsection \<open>Who is asking\<close>

definition bearer :: "string option \<Rightarrow> string option" where
  "bearer auth = (case auth of Some (c # cs) \<Rightarrow> map_option js_trim (bearer_group (js_trim (c # cs))) | _ \<Rightarrow> None)"

definition presented :: "console_request \<Rightarrow> string option" where
  "presented req = (case cq_admin req of Some t \<Rightarrow> Some t | None \<Rightarrow> bearer (cq_authorization req))"

text \<open>The identity is a name, a role and a subject; the tokens are looked up after the hash was awaited.\<close>

definition con_authenticate :: "console_config \<Rightarrow> ms \<Rightarrow> console_request \<Rightarrow> console_state
    \<Rightarrow> (string \<times> role \<times> string option) option" where
  "con_authenticate cfg now req st =
     (case presented req of
        None \<Rightarrow> None
      | Some t \<Rightarrow>
          let h = sc_hashToken (cc_server cfg) t in
          if (case cc_adminToken cfg of Some (c # cs) \<Rightarrow> constantTimeEqual h (sc_hashToken (cc_server cfg) (c # cs)) | _ \<Rightarrow> False)
          then Some (''bootstrap'', Admin, None)
          else (case cs_tokens st of None \<Rightarrow> None | Some ts \<Rightarrow> token_resolve h now ts))"

subsection \<open>What the routes read\<close>

definition SUMMARY_WINDOW_MS :: ms where "SUMMARY_WINDOW_MS = 24 * 60 * 60 * 1000"
definition RISK_WINDOW_MS :: ms where "RISK_WINDOW_MS = 15 * 60 * 1000"

definition live_policy :: "console_config \<Rightarrow> pstate \<Rightarrow> compiled_policy" where
  "live_policy cfg p = (case px_policyStore p of Some store \<Rightarrow> pol_def store | None \<Rightarrow> sc_policy (cc_server cfg))"

definition pending_count :: "pstate \<Rightarrow> nat" where
  "pending_count p = (case px_broker p of None \<Rightarrow> 0 | Some b \<Rightarrow> br_pendingCount b)"

definition live_delegations :: "pstate \<Rightarrow> ms \<Rightarrow> delegation list" where
  "live_delegations p now = (case px_delegations p of None \<Rightarrow> [] | Some d \<Rightarrow> del_list d now)"

definition live_grants :: "pstate \<Rightarrow> ms \<Rightarrow> temporary_grant list" where
  "live_grants p now = (case px_grants p of None \<Rightarrow> [] | Some g \<Rightarrow> grant_list g now)"

definition read_summary :: "ms \<Rightarrow> pstate \<Rightarrow> console_read" where
  "read_summary now p =
     (let since = now - SUMMARY_WINDOW_MS in
      Summary (log_summary_since (px_log p) since) (pending_count p) (shadowWouldBlock (px_log p) since))"

definition seconds_since :: "ms \<Rightarrow> ms \<Rightarrow> int" where
  "seconds_since now pulledAt = (if pulledAt > 0 then max 0 ((now - pulledAt) div 1000) else 0)"

definition read_metrics :: "ms \<Rightarrow> console_state \<Rightarrow> console_read" where
  "read_metrics now st =
     (let p = cs_proxy st; s = log_summary_since (px_log p) 0 in
      Metrics \<lparr>mx_decisions = (sm_allow s, sm_deny s),
        mx_approvals = (sm_approvalGranted s, sm_approvalDenied s, sm_approvalExpired s),
        mx_approvalsPending = pending_count p,
        mx_delegationsActive = length (live_delegations p now),
        mx_grantsActive = length (live_grants p now),
        mx_agentsRevoked = (case px_revocations p of None \<Rightarrow> 0 | Some rv \<Rightarrow> length (rv_list rv)),
        mx_shadowWouldBlock = sum_list (map snd (shadowWouldBlock (px_log p) 0)),
        mx_policyVersion = (case cs_policyDist st of None \<Rightarrow> 0 | Some (v, t) \<Rightarrow> v),
        mx_policySecondsSincePull = (case cs_policyDist st of None \<Rightarrow> 0 | Some (v, t) \<Rightarrow> seconds_since now t),
        mx_revocationsFleet = (case cs_revocationDist st of None \<Rightarrow> 0 | Some (v, t, n) \<Rightarrow> n),
        mx_revocationSetVersion = (case cs_revocationDist st of None \<Rightarrow> 0 | Some (v, t, n) \<Rightarrow> v),
        mx_revocationSecondsSincePull = (case cs_revocationDist st of None \<Rightarrow> 0 | Some (v, t, n) \<Rightarrow> seconds_since now t)\<rparr>)"

text \<open>The capped upstreams are the entries of a \<open>Map\<close>; here the policy keeps the function, and the names
  come from the budget of its source.\<close>

definition capped_upstreams :: "compiled_policy \<Rightarrow> (string \<times> int) list" where
  "capped_upstreams policy =
     (case src_budget (cp_source policy) of
        None \<Rightarrow> []
      | Some b \<Rightarrow> List.map_filter (\<lambda>u. map_option (\<lambda>limit. (u, limit)) (cp_perUpstream policy u))
          (remdups (map fst (some_or [] (bs_per_upstream b)))))"

definition read_budgets :: "console_config \<Rightarrow> agent_id list \<Rightarrow> ms \<Rightarrow> pstate \<Rightarrow> console_read" where
  "read_budgets cfg agentIds now p =
     (let since = now - BUDGET_WINDOW_MS; policy = live_policy cfg p in
      Budgets (map (\<lambda>agent. \<lparr>bw_agent = agent, bw_ceiling = agentCeiling policy agent,
         bw_spent = countAllowedSince (px_log p) agent since,
         bw_upstreams = map (\<lambda>(u, limit). (u, limit, countAllowedSinceForUpstream (px_log p) agent u since))
           (capped_upstreams policy)\<rparr>) agentIds))"

definition read_risk :: "agent_id list \<Rightarrow> ms \<Rightarrow> pstate \<Rightarrow> console_read" where
  "read_risk agentIds now p =
     Risks (map (\<lambda>agent. let activity = agentActivity (px_log p) agent (now - RISK_WINDOW_MS)
        in (agent, scoreRisk activity, activity)) agentIds)"

definition page_limit :: "console_config \<Rightarrow> console_request \<Rightarrow> nat" where
  "page_limit cfg req =
     (case query req ''limit'' of
        None \<Rightarrow> 50
      | Some t \<Rightarrow> (case cc_number cfg t of JInt n \<Rightarrow> nat (min (max n 1) 500) | _ \<Rightarrow> 50))"

definition profiles_active :: "pstate \<Rightarrow> nat" where
  "profiles_active p = (case px_policyStore p of None \<Rightarrow> 0 | Some s \<Rightarrow> length (pol_profiles s))"

definition denying_all :: "pstate \<Rightarrow> bool" where
  "denying_all p = (case px_policyStore p of None \<Rightarrow> False | Some s \<Rightarrow> isClosed s)"

definition policy_editable :: "console_config \<Rightarrow> bool" where
  "policy_editable cfg \<longleftrightarrow> cc_policyEditable cfg \<and> cc_policyPath cfg"

definition read_policy :: "console_config \<Rightarrow> console_world \<Rightarrow> console_state \<Rightarrow> console_reply \<times> console_state" where
  "read_policy cfg w st =
     (if \<not> policy_editable cfg
      then (CRead (PolicyManaged (profiles_active (cs_proxy st)) (denying_all (cs_proxy st))), st)
      else
        let st1 = cw_beforeRead w st; st2 = cw_afterRead w st1 in
        (case cs_policyFile st1 of
           None \<Rightarrow> (CError 500 ''policy_unreadable'', st2)
         | Some source \<Rightarrow>
             (case cc_editorView cfg source of
                None \<Rightarrow> (CError 500 ''policy_parse_error'', st2)
              | Some view \<Rightarrow> (CRead (PolicyView view (cc_digest cfg source) (profiles_active (cs_proxy st2))
                  (denying_all (cs_proxy st2))), st2))))"

definition read_explain :: "console_config \<Rightarrow> console_request \<Rightarrow> ms \<Rightarrow> pstate \<Rightarrow> console_reply" where
  "read_explain cfg req now p =
     (case (query req ''tool'', query req ''action'') of
        (Some (t # ts), Some (a # as)) \<Rightarrow>
          CRead (Explained (buildExplain (collectExplainInputs (sc_wallClock (cc_server cfg))
            \<lparr>xs_policy = live_policy cfg p, xs_agentId = some_or (cp_agent (live_policy cfg p)) (query req ''agent''),
             xs_tool = t # ts, xs_action = a # as, xs_target = query req ''target'', xs_now = now,
             xs_log = Some (px_log p), xs_revocations = px_revocations p, xs_grants = px_grants p,
             xs_approvals = cc_approvals cfg\<rparr>)))
      | _ \<Rightarrow> CError 400 ''tool_and_action_required'')"

text \<open>The upstreams of the configuration with their types, decoys included.\<close>

definition upstream_types :: "server_config \<Rightarrow> (string \<times> string) list" where
  "upstream_types cfg = map (\<lambda>(n, u). (n, case u of DecoyUpstream ty \<Rightarrow> ty | RealUpstream c \<Rightarrow> up_type c)) (sc_upstreams cfg)"

definition read_blast_radius :: "console_config \<Rightarrow> console_request \<Rightarrow> ms \<Rightarrow> pstate \<Rightarrow> console_read" where
  "read_blast_radius cfg req now p =
     BlastRadius (analyzeBlastRadius (cc_collation cfg) (some_or (cp_agent (live_policy cfg p)) (query req ''agent''))
       (upstream_types (cc_server cfg)) (live_policy cfg p) (live_delegations p now) now)"

definition is_auto :: "string \<Rightarrow> bool" where
  "is_auto reason \<longleftrightarrow> (let r = map to_lower reason in starts_with r ''decoy:'' \<or> starts_with r ''tripwire:'')"

definition origin_of :: "revocation_record \<Rightarrow> origin" where
  "origin_of r = (if is_auto (rr_reason r) then Auto else Manual)"

definition read_revocations :: "agent_id list \<Rightarrow> pstate \<Rightarrow> console_read" where
  "read_revocations agentIds p =
     (case px_revocations p of
        None \<Rightarrow> NoKillSwitch
      | Some rv \<Rightarrow> Revocations (rv_list rv)
          (map (\<lambda>k. \<lparr>vr_id = k, vr_revoked = (rv_get rv k \<noteq> None \<or> fleet_revoked p k), vr_local = rv_get rv k,
               vr_fleet = fleet_revoked p k\<rparr>) agentIds)
          (map (\<lambda>r. (r, origin_of r)) (filter (\<lambda>r. rr_agentId r \<notin> set agentIds) (rv_list rv))))"

definition read_delegations :: "ms \<Rightarrow> pstate \<Rightarrow> console_read" where
  "read_delegations now p =
     Delegations (map (\<lambda>d. (d, countAllowedSinceForDelegation (px_log p) (dl_id d) (now - BUDGET_WINDOW_MS),
         px_revocations p \<noteq> None \<and> (locally_revoked p (dl_id d) \<or> locally_revoked p (dl_parentAgentId d))))
       (live_delegations p now))"

definition read_grants :: "ms \<Rightarrow> pstate \<Rightarrow> console_read" where
  "read_grants now p =
     Grants (map (\<lambda>g. (g, px_revocations p \<noteq> None \<and> locally_revoked p (tg_id g))) (live_grants p now))"

end
