(* ===== verification/Console.thy ===== *)
theory Console
  imports Console_Read
begin

text \<open>
  The admin API of the proxy (\<^verbatim>\<open>proxy/console.ts\<close>), second part: the routes that change something, and
  \<open>handleConsole\<close>, which authenticates, checks the role the route requires, and dispatches. The agents
  a mint may name are those the proxy had when the request arrived.
\<close>

subsection \<open>Approvals\<close>

definition con_decide :: "console_config \<Rightarrow> string \<Rightarrow> string \<Rightarrow> bool \<Rightarrow> console_state \<Rightarrow> console_reply \<times> console_state" where
  "con_decide cfg by seg approve st =
     (case cc_decodeURI cfg seg of
        None \<Rightarrow> (CCrash, st)
      | Some k \<Rightarrow>
     (case px_broker (cs_proxy st) of
        None \<Rightarrow> (CError 409 ''approvals_disabled'', st)
      | Some b \<Rightarrow>
          if \<not> approve then
            (let (done, b') = br_deny k by b in
             if done then (CDecided k False by None, st\<lparr>cs_proxy := (cs_proxy st)\<lparr>px_broker := Some b'\<rparr>\<rparr>)
             else (CError 404 ''not_found_or_settled'', st\<lparr>cs_proxy := (cs_proxy st)\<lparr>px_broker := Some b'\<rparr>\<rparr>))
          else
            (let (r, b') = br_approveBy k by b; st' = st\<lparr>cs_proxy := (cs_proxy st)\<lparr>px_broker := Some b'\<rparr>\<rparr> in
             if as_status r = NotFound then (CError 404 ''not_found_or_settled'', st')
             else (CDecided k True by (Some (as_status r = Settled, as_approvals r, as_quorum r)), st'))))"

subsection \<open>The kill switch\<close>

definition with_revocations :: "revocation_store \<Rightarrow> console_state \<Rightarrow> console_state" where
  "with_revocations rv st = st\<lparr>cs_proxy := (cs_proxy st)\<lparr>px_revocations := Some rv\<rparr>\<rparr>"

definition con_revoke :: "console_config \<Rightarrow> console_world \<Rightarrow> console_request \<Rightarrow> string \<Rightarrow> console_state
    \<Rightarrow> console_reply \<times> console_state" where
  "con_revoke cfg w req seg st =
     (case px_revocations (cs_proxy st) of
        None \<Rightarrow> (CError 409 ''revocations_disabled'', st)
      | Some rv \<Rightarrow>
     (case cc_decodeURI cfg seg of
        None \<Rightarrow> (CCrash, st)
      | Some agentId \<Rightarrow>
          (case rv_revoke (cw_disk w) agentId (take 200 (some_or ''manual'' (query req ''reason''))) (cw_now w) rv of
             (Inl e, rv') \<Rightarrow> (CCrash, with_revocations rv' st)
           | (Inr r, rv') \<Rightarrow> (CRevoked agentId r, with_revocations rv' st))))"

definition con_restore :: "console_config \<Rightarrow> console_world \<Rightarrow> string \<Rightarrow> console_state \<Rightarrow> console_reply \<times> console_state" where
  "con_restore cfg w seg st =
     (case px_revocations (cs_proxy st) of
        None \<Rightarrow> (CError 409 ''revocations_disabled'', st)
      | Some rv \<Rightarrow>
     (case cc_decodeURI cfg seg of
        None \<Rightarrow> (CCrash, st)
      | Some agentId \<Rightarrow>
          (case rv_restore (cw_disk w) agentId rv of
             (Inl e, rv') \<Rightarrow> (CCrash, with_revocations rv' st)
           | (Inr removed, rv') \<Rightarrow>
               (CRestored agentId removed
                  (if fleet_revoked (cs_proxy st) agentId
                   then Some (case cs_revocationDist st of None \<Rightarrow> 0 | Some (v, t, n) \<Rightarrow> v) else None),
                with_revocations rv' st))))"

subsection \<open>Time-boxed mints\<close>

definition MINT_TTL_DEFAULT :: int where "MINT_TTL_DEFAULT = 900"
definition MINT_TTL_MAX :: int where "MINT_TTL_MAX = 3600"

definition query_number :: "console_config \<Rightarrow> console_request \<Rightarrow> string \<Rightarrow> int \<Rightarrow> js_number" where
  "query_number cfg req name dflt = (case query req name of None \<Rightarrow> JInt dflt | Some t \<Rightarrow> cc_number cfg t)"

definition mint_ttl :: "console_config \<Rightarrow> console_request \<Rightarrow> int" where
  "mint_ttl cfg req =
     (case finite_floor (query_number cfg req ''ttl'' MINT_TTL_DEFAULT) of
        Some n \<Rightarrow> min (max n 1) MINT_TTL_MAX | None \<Rightarrow> MINT_TTL_DEFAULT)"

definition csv :: "string \<Rightarrow> string list" where
  "csv s = filter (\<lambda>x. length x > 0) (map js_trim (split_on (CHR '','') s))"

text \<open>What all three mints check, in this order, after capacity.\<close>

definition mint_params :: "console_request \<Rightarrow> agent_id list \<Rightarrow> console_reply + agent_id \<times> string list" where
  "mint_params req agentIds =
     (case (query req ''agent'', query req ''actions'') of
        (Some (c # cs), Some (a # as)) \<Rightarrow>
          if (c # cs) \<notin> set agentIds then Inl (CError 404 ''unknown_agent'')
          else if csv (a # as) = [] then Inl (CError 400 ''no_actions'')
          else Inr (c # cs, csv (a # as))
      | _ \<Rightarrow> Inl (CError 400 ''missing_agent_or_actions''))"

definition con_delegate :: "console_config \<Rightarrow> console_world \<Rightarrow> console_request \<Rightarrow> agent_id list \<Rightarrow> console_state
    \<Rightarrow> console_reply \<times> console_state" where
  "con_delegate cfg w req agentIds st =
     (case px_delegations (cs_proxy st) of
        None \<Rightarrow> (CError 409 ''delegation_disabled'', st)
      | Some dels \<Rightarrow>
          if del_atCapacity dels (cw_now w) then (CError 429 ''delegation_capacity'', st)
          else (case mint_params req agentIds of
            Inl r \<Rightarrow> (r, st)
          | Inr (agent, actions) \<Rightarrow>
              let profile = (case List.find (\<lambda>a. ag_id a = agent) (px_agents (cs_proxy st)) of
                    None \<Rightarrow> None | Some a \<Rightarrow> ag_policy a);
                  st' = cw_afterHash w st;
                  inp = \<lparr>mi_parentAgentId = agent, mi_parentDelegationId = None, mi_actions = actions,
                     mi_targets = Some (csv (some_or [] (query req ''targets''))), mi_policyProfile = profile,
                     mi_ttlMs = mint_ttl cfg req * 1000, mi_note = take 200 (some_or [] (query req ''note'')), mi_now = cw_now w\<rparr>
              in (case px_delegations (cs_proxy st') of
                    None \<Rightarrow> (CCrash, st')
                  | Some dels' \<Rightarrow>
                      (case del_mint (cw_disk w) (cw_newId w) (sc_hashToken (cc_server cfg) (cw_token w)) inp dels' of
                         (Inl e, dels'') \<Rightarrow> (CCrash, st'\<lparr>cs_proxy := (cs_proxy st')\<lparr>px_delegations := Some dels''\<rparr>\<rparr>)
                       | (Inr d, dels'') \<Rightarrow> (CDelegated (cw_token w) d,
                           st'\<lparr>cs_proxy := (cs_proxy st')\<lparr>px_delegations := Some dels''\<rparr>\<rparr>)))))"

definition con_grant :: "console_config \<Rightarrow> console_world \<Rightarrow> console_request \<Rightarrow> agent_id list \<Rightarrow> console_state
    \<Rightarrow> console_reply \<times> console_state" where
  "con_grant cfg w req agentIds st =
     (case px_grants (cs_proxy st) of
        None \<Rightarrow> (CError 409 ''grants_disabled'', st)
      | Some gs \<Rightarrow>
          if grant_atCapacity gs (cw_now w) then (CError 429 ''grant_capacity'', st)
          else (case mint_params req agentIds of
            Inl r \<Rightarrow> (r, st)
          | Inr (agent, actions) \<Rightarrow>
              (case grant_mint (cw_disk w) (cw_newId w)
                  \<lparr>gi_agentId = agent, gi_actions = actions, gi_ttlMs = mint_ttl cfg req * 1000,
                   gi_reason = take 200 (some_or [] (query req ''reason'')), gi_now = cw_now w\<rparr> gs of
                 (Inl e, gs') \<Rightarrow> (CCrash, st\<lparr>cs_proxy := (cs_proxy st)\<lparr>px_grants := Some gs'\<rparr>\<rparr>)
               | (Inr g, gs') \<Rightarrow> (CGranted g, st\<lparr>cs_proxy := (cs_proxy st)\<lparr>px_grants := Some gs'\<rparr>\<rparr>))))"

definition pull_quorum :: "console_config \<Rightarrow> console_request \<Rightarrow> int" where
  "pull_quorum cfg req =
     (case finite_floor (query_number cfg req ''quorum'' 1) of Some n \<Rightarrow> max 1 n | None \<Rightarrow> 1)"

definition con_pull :: "console_config \<Rightarrow> console_world \<Rightarrow> string \<Rightarrow> console_request \<Rightarrow> agent_id list \<Rightarrow> console_state
    \<Rightarrow> console_reply \<times> console_state" where
  "con_pull cfg w by req agentIds st =
     (case px_breakGlass (cs_proxy st) of
        None \<Rightarrow> (CError 409 ''break_glass_disabled'', st)
      | Some bs \<Rightarrow>
          if bg_atCapacity bs (cw_now w) then (CError 429 ''break_glass_capacity'', st)
          else (case mint_params req agentIds of
            Inl r \<Rightarrow> (r, st)
          | Inr (agent, actions) \<Rightarrow>
              (case bg_pull (cw_disk w) (cw_newId w)
                  \<lparr>pi_agentId = agent, pi_actions = actions, pi_quorum = pull_quorum cfg req,
                   pi_reason = take 200 (some_or [] (query req ''reason'')), pi_pulledBy = by,
                   pi_ttlMs = mint_ttl cfg req * 1000, pi_now = cw_now w\<rparr> bs of
                 (Inl e, bs') \<Rightarrow> (CCrash, st\<lparr>cs_proxy := (cs_proxy st)\<lparr>px_breakGlass := Some bs'\<rparr>\<rparr>)
               | (Inr r, bs') \<Rightarrow> (CPulled r, st\<lparr>cs_proxy := (cs_proxy st)\<lparr>px_breakGlass := Some bs'\<rparr>\<rparr>))))"

subsection \<open>Admin tokens\<close>

definition role_named :: "json option \<Rightarrow> role option" where
  "role_named v =
     (case v of
        Some (JStr s) \<Rightarrow> if s = ''viewer'' then Some Viewer else if s = ''approver'' then Some Approver
            else if s = ''admin'' then Some Admin else None
      | _ \<Rightarrow> None)"

text \<open>A body that is the JSON \<open>null\<close> has no fields to read: the handler throws.\<close>

definition con_token_create :: "console_config \<Rightarrow> console_world \<Rightarrow> console_request \<Rightarrow> console_state
    \<Rightarrow> console_reply \<times> console_state" where
  "con_token_create cfg w req st =
     (let st1 = cw_afterBody w st; body = some_or (JObj []) (cq_body req);
          name = (case json_field body ''name'' of Some (JStr s) \<Rightarrow> js_trim s | _ \<Rightarrow> []) in
      if body = JNull then (CCrash, st1)
      else if name = [] then (CError 400 ''name_required'', st1)
      else (case role_named (json_field body ''role'') of
        None \<Rightarrow> (CError 400 ''invalid_role'', st1)
      | Some r \<Rightarrow>
          (case cs_tokens st1 of
             None \<Rightarrow> (CCrash, st1)
           | Some ts \<Rightarrow>
               (case token_create_check name ts of
                  Inl e \<Rightarrow> (CError 409 ''create_failed'', st1)
                | Inr _ \<Rightarrow>
                    let st2 = cw_afterHash w st1 in
                    (case cs_tokens st2 of
                       None \<Rightarrow> (CCrash, st2)
                     | Some ts' \<Rightarrow>
                         let st3 = st2\<lparr>cs_tokens := Some (token_create_push name r
                               (sc_hashToken (cc_server cfg) (cw_token w)) (cw_now w) ts')\<rparr>
                         in if cw_disk w then (CTokenCreated name r (cw_token w), st3) else (CError 409 ''create_failed'', st3))))))"

definition con_token_revoke :: "console_config \<Rightarrow> console_world \<Rightarrow> string \<Rightarrow> console_state \<Rightarrow> console_reply \<times> console_state" where
  "con_token_revoke cfg w seg st =
     (case cs_tokens st of
        None \<Rightarrow> (CError 409 ''tokens_unavailable'', st)
      | Some ts \<Rightarrow>
     (case cc_decodeURI cfg seg of
        None \<Rightarrow> (CCrash, st)
      | Some name \<Rightarrow>
          (let (done, ts') = token_revoke name (cw_now w) ts; st' = st\<lparr>cs_tokens := Some ts'\<rparr> in
           if \<not> done then (CError 404 ''not_found'', st')
           else if \<not> cw_disk w then (CCrash, st') else (CTokenRevoked name, st'))))"

subsection \<open>The policy\<close>

record policy_edit =
  pe_grants :: "editor_grant list"
  pe_dryRun :: bool
  pe_baseDigest :: "string option"

fun grant_entry_ok :: "json \<Rightarrow> bool" where
  "grant_entry_ok (JStr s) = True"
| "grant_entry_ok (JObj ps) = True"
| "grant_entry_ok _ = False"

definition entry_list :: "json option \<Rightarrow> json list option" where
  "entry_list v = (case v of None \<Rightarrow> Some []
     | Some (JArr xs) \<Rightarrow> if list_all grant_entry_ok xs then Some xs else None | Some _ \<Rightarrow> None)"

definition parse_edit_grant :: "json \<Rightarrow> editor_grant option" where
  "parse_edit_grant v = (case v of
      JObj ps \<Rightarrow>
        (case (map_of ps ''tool'', entry_list (map_of ps ''allow''), entry_list (map_of ps ''require_approval''),
               entry_list (map_of ps ''deny'')) of
           (Some (JStr tool), Some allow, Some ask, Some deny) \<Rightarrow>
             Some \<lparr>eg_tool = tool, eg_allow = allow, eg_requireApproval = ask, eg_deny = deny\<rparr>
         | _ \<Rightarrow> None)
    | _ \<Rightarrow> None)"

definition all_some :: "'a option list \<Rightarrow> 'a list option" where
  "all_some xs = (if None \<in> set xs then None else Some (map the xs))"

definition parse_policy_edit :: "json \<Rightarrow> policy_edit option" where
  "parse_policy_edit v = (case v of
      JObj ps \<Rightarrow>
        (case (case map_of ps ''grants'' of Some (JArr gs) \<Rightarrow> all_some (map parse_edit_grant gs) | _ \<Rightarrow> None,
               case map_of ps ''dryRun'' of None \<Rightarrow> Some False | Some (JBool b) \<Rightarrow> Some b | Some _ \<Rightarrow> None,
               case map_of ps ''baseDigest'' of None \<Rightarrow> Some None | Some (JStr d) \<Rightarrow> Some (Some d) | Some _ \<Rightarrow> None) of
           (Some gs, Some dry, Some base) \<Rightarrow> Some \<lparr>pe_grants = gs, pe_dryRun = dry, pe_baseDigest = base\<rparr>
         | _ \<Rightarrow> None)
    | _ \<Rightarrow> None)"

definition record_version :: "console_config \<Rightarrow> console_world \<Rightarrow> string \<Rightarrow> console_state \<Rightarrow> console_state" where
  "record_version cfg w content st =
     st\<lparr>cs_history := map_option (\<lambda>h. snd (hs_record (cc_wyhash cfg) (cw_disk w) (cw_unlinks w) content (cw_now w) h)) (cs_history st)\<rparr>"

text \<open>The apply leg: capture what is replaced, write, reload, forget remembered approvals, capture what is new.\<close>

definition apply_policy :: "console_config \<Rightarrow> console_world \<Rightarrow> string \<Rightarrow> string \<Rightarrow> compiled_policy \<Rightarrow> policy_store
    \<Rightarrow> console_state \<Rightarrow> console_reply \<times> console_state" where
  "apply_policy cfg w source candidate compiled store st =
     (let st1 = record_version cfg w source st in
      if \<not> cw_fileOk w then (CError 500 ''policy_write_failed'', st1)
      else
        let (outcome, store') = policy_reload (cc_compileYaml cfg) candidate None store;
            p = cs_proxy st1;
            st2 = st1\<lparr>cs_policyFile := Some candidate,
                      cs_proxy := p\<lparr>px_policyStore := Some store', px_memory := map_option am_clear (px_memory p)\<rparr>\<rparr>;
            (n, previous) = (case outcome of Inr (n, m) \<Rightarrow> (n, Some m) | Inl e \<Rightarrow> (length (cp_grants compiled), None))
        in (CPolicySaved n previous (cc_digest cfg candidate), record_version cfg w candidate st2))"

text \<open>What follows the read of the file: nothing is awaited any more.\<close>

definition propose_policy :: "console_config \<Rightarrow> console_world \<Rightarrow> policy_edit \<Rightarrow> string \<Rightarrow> console_state
    \<Rightarrow> console_reply \<times> console_state" where
  "propose_policy cfg w edit source st =
     (if \<not> pe_dryRun edit \<and> pe_baseDigest edit \<noteq> Some (cc_digest cfg source)
      then (case cc_editorView cfg source of
              None \<Rightarrow> (CCrash, st)
            | Some view \<Rightarrow> (CStaleEdit (ev_grants view) (cc_digest cfg source), st))
      else
        case cc_writeGrants cfg source (pe_grants edit) of
          None \<Rightarrow> (CError 500 ''policy_parse_error'', st)
        | Some candidate \<Rightarrow>
            (case cc_compileYaml cfg candidate of
               Inl e \<Rightarrow> (CError 400 ''invalid_policy'', st)
             | Inr compiled \<Rightarrow>
                 if pe_dryRun edit then (CPolicyValid (length (cp_grants compiled)), st)
                 else (case px_policyStore (cs_proxy st) of
                    None \<Rightarrow> (CCrash, st)
                  | Some store \<Rightarrow> apply_policy cfg w source candidate compiled store st)))"

definition con_policy_save :: "console_config \<Rightarrow> console_world \<Rightarrow> console_request \<Rightarrow> console_state
    \<Rightarrow> console_reply \<times> console_state" where
  "con_policy_save cfg w req st =
     (if \<not> policy_editable cfg \<or> px_policyStore (cs_proxy st) = None then (CError 409 ''policy_not_editable'', st)
      else
        let st1 = cw_afterBody w st in
        case Option.bind (cq_body req) parse_policy_edit of
          None \<Rightarrow> (CError 400 ''invalid_request'', st1)
        | Some edit \<Rightarrow>
            let st2 = cw_beforeRead w st1; st3 = cw_afterRead w st2 in
            (case cs_policyFile st2 of
               None \<Rightarrow> (CError 500 ''policy_unreadable'', st3)
             | Some source \<Rightarrow> propose_policy cfg w edit source st3))"

subsection \<open>New agents\<close>

record agent_mint =
  am_agentId :: string
  am_scope :: agent_scope_input

definition parse_agent_mint :: "json \<Rightarrow> agent_mint option" where
  "parse_agent_mint v = (case v of
      JObj ps \<Rightarrow>
        (case (map_of ps ''id'', optional_field string_list (map_of ps ''targets''),
               optional_field string_list (map_of ps ''actions''),
               optional_field (\<lambda>p. case p of JStr s \<Rightarrow> if PROFILE_NAME_RE s then Some s else None | _ \<Rightarrow> None)
                 (map_of ps ''policy'')) of
           (Some (JStr k), Some targets, Some actions, Some policy) \<Rightarrow>
             if PROFILE_NAME_RE k
             then Some \<lparr>am_agentId = k, am_scope = \<lparr>as_actions = actions, as_targets = targets, as_policy = policy\<rparr>\<rparr> else None
         | _ \<Rightarrow> None)
    | _ \<Rightarrow> None)"

definition known_profile :: "pstate \<Rightarrow> string option \<Rightarrow> bool" where
  "known_profile p profile =
     (case profile of None \<Rightarrow> True
      | Some n \<Rightarrow> (case px_policyStore p of None \<Rightarrow> False | Some s \<Rightarrow> n \<in> set (map fst (pol_profiles s))))"

definition agent_of_mint :: "agent_mint \<Rightarrow> string \<Rightarrow> agent_config" where
  "agent_of_mint m h = \<lparr>ag_id = am_agentId m, ag_token_hash = h, ag_expiresAtMs = None, ag_decoy = False,
     ag_targets = as_targets (am_scope m), ag_actions = as_actions (am_scope m), ag_policy = as_policy (am_scope m)\<rparr>"

text \<open>The section under the lock: no other mint runs in it, anything else may at its two awaits.\<close>

definition mint_section :: "console_config \<Rightarrow> console_world \<Rightarrow> agent_mint \<Rightarrow> console_state \<Rightarrow> console_reply \<times> console_state" where
  "mint_section cfg w m st =
     (if agents_has (px_agents (cs_proxy st)) (am_agentId m) then (CError 409 ''agent_exists'', st)
      else
        let st1 = cw_beforeRead w st; st2 = cw_afterHash w (cw_afterRead w st1); h = sc_hashToken (cc_server cfg) (cw_token w) in
        case cs_configFile st1 of
          None \<Rightarrow> (CError 500 ''config_unreadable'', cw_afterRead w st1)
        | Some source \<Rightarrow>
            (case addAgent (cc_yaml cfg) source (am_agentId m) h (am_scope m) of
               Inl (AgentExists k) \<Rightarrow> (CError 409 ''agent_exists'', st2)
             | Inl e \<Rightarrow> (CError 500 ''config_invalid'', st2)
             | Inr yaml \<Rightarrow>
                 (case writeConfigAtomic (cw_fileOk w) yaml source (cs_configFile st2) of
                    (Inl ConfigChanged, f) \<Rightarrow> (CError 409 ''config_changed'', st2\<lparr>cs_configFile := f\<rparr>)
                  | (Inl ConfigWriteFailed, f) \<Rightarrow> (CError 500 ''config_write_failed'', st2\<lparr>cs_configFile := f\<rparr>)
                  | (Inr _, f) \<Rightarrow>
                      let st3 = st2\<lparr>cs_configFile := f\<rparr> in
                      (case agents_add (agent_of_mint m h) (px_agents (cs_proxy st3)) of
                         (Inl e, as) \<Rightarrow> (CError 500 ''agent_register_conflict'', st3)
                       | (Inr _, as) \<Rightarrow> (CAgentMinted (am_agentId m) (cw_token w) (am_scope m),
                           st3\<lparr>cs_proxy := (cs_proxy st3)\<lparr>px_agents := as\<rparr>\<rparr>)))))"

definition con_agent_mint :: "console_config \<Rightarrow> console_world \<Rightarrow> console_request \<Rightarrow> console_state
    \<Rightarrow> console_reply \<times> console_state" where
  "con_agent_mint cfg w req st =
     (if \<not> cc_agentsAdmin cfg then (CError 409 ''agents_admin_disabled'', st)
      else
        let st1 = cw_afterBody w st in
        case Option.bind (cq_body req) parse_agent_mint of
          None \<Rightarrow> (CError 400 ''invalid_request'', st1)
        | Some m \<Rightarrow>
            if \<not> known_profile (cs_proxy st1) (as_policy (am_scope m)) then (CError 400 ''unknown_profile'', st1)
            else mint_section cfg w m st1)"

subsection \<open>Dispatch\<close>

text \<open>The routes that only read.\<close>

definition con_read :: "console_config \<Rightarrow> console_world \<Rightarrow> console_request \<Rightarrow> agent_id list \<Rightarrow> console_state
    \<Rightarrow> console_reply option" where
  "con_read cfg w req agentIds st =
     (let path = cq_path req; p = cs_proxy st; now = cw_now w in
      if path = ''/console/summary'' then Some (CRead (read_summary now p))
      else if path = ''/metrics'' then Some (CRead (read_metrics now st))
      else if path = ''/console/budgets'' then Some (CRead (read_budgets cfg agentIds now p))
      else if path = ''/console/risk'' then Some (CRead (read_risk agentIds now p))
      else if path = ''/console/canary'' then Some (CRead (CanarySnapshot (map_option canary_snapshot (px_canary p))))
      else if path = ''/console/requests'' then Some (CRead (Requests (log_recent (px_log p) (page_limit cfg req))))
      else if path = ''/console/firewall''
      then Some (CRead (Firewall (buildFirewallFeed (recentByReasons (px_log p) DEFENSE_CODES (page_limit cfg req)))))
      else if path = ''/console/agents'' then Some (CRead (Agents (px_agents p)))
      else if path = ''/console/approvals''
      then Some (CRead (PendingApprovals (case px_broker p of None \<Rightarrow> [] | Some b \<Rightarrow> br_list b)))
      else if path = ''/console/explain'' then Some (read_explain cfg req now p)
      else if path = ''/console/blast-radius'' then Some (CRead (read_blast_radius cfg req now p))
      else if path = ''/console/revocations'' then Some (CRead (read_revocations agentIds p))
      else if path = ''/console/delegations'' then Some (CRead (read_delegations now p))
      else if path = ''/console/grants'' then Some (CRead (read_grants now p))
      else if path = ''/console/break-glass''
      then Some (case px_breakGlass p of None \<Rightarrow> CError 409 ''break_glass_disabled'' | Some b \<Rightarrow> CRead (Windows (bg_list b now)))
      else if path = ''/console/tokens''
      then Some (case cs_tokens st of None \<Rightarrow> CError 409 ''tokens_unavailable'' | Some ts \<Rightarrow> CRead (Tokens (token_list ts)))
      else None)"

text \<open>The routes of the other methods.\<close>

definition con_write :: "console_config \<Rightarrow> console_world \<Rightarrow> string \<Rightarrow> console_request \<Rightarrow> agent_id list \<Rightarrow> console_state
    \<Rightarrow> console_reply \<times> console_state" where
  "con_write cfg w by req agentIds st =
     (let path = cq_path req; post = (cq_method req = ''POST'') in
      if path = ''/console/policy'' \<and> post then con_policy_save cfg w req st
      else if path = ''/console/agents''
      then (if post then con_agent_mint cfg w req st else (CError 405 ''method_not_allowed'', st))
      else if post \<and> decide_path path \<noteq> None
      then (case decide_path path of None \<Rightarrow> (CError 404 ''not_found'', st) | Some (seg, ok) \<Rightarrow> con_decide cfg by seg ok st)
      else if path_segment ''/console/revocations/'' path \<noteq> None \<and> (post \<or> cq_method req = ''DELETE'')
      then (let seg = the (path_segment ''/console/revocations/'' path) in
            if post then con_revoke cfg w req seg st else con_restore cfg w seg st)
      else if path = ''/console/delegations'' \<and> post then con_delegate cfg w req agentIds st
      else if path = ''/console/grants'' \<and> post then con_grant cfg w req agentIds st
      else if path = ''/console/break-glass'' \<and> (post \<or> px_breakGlass (cs_proxy st) = None)
      then con_pull cfg w by req agentIds st
      else if path = ''/console/tokens'' \<and> cs_tokens st = None then (CError 409 ''tokens_unavailable'', st)
      else if path = ''/console/tokens'' \<and> post then con_token_create cfg w req st
      else if path_segment ''/console/tokens/'' path \<noteq> None \<and> cq_method req = ''DELETE''
      then con_token_revoke cfg w (the (path_segment ''/console/tokens/'' path)) st
      else (CError 404 ''not_found'', st))"

definition con_route :: "console_config \<Rightarrow> console_world \<Rightarrow> string \<Rightarrow> console_request \<Rightarrow> agent_id list \<Rightarrow> console_state
    \<Rightarrow> console_reply \<times> console_state" where
  "con_route cfg w by req agentIds st =
     (if cq_method req = ''GET'' then
        (if cq_path req = ''/console/policy'' then read_policy cfg w st
         else case con_read cfg w req agentIds st of Some r \<Rightarrow> (r, st) | None \<Rightarrow> (CError 404 ''not_found'', st))
      else con_write cfg w by req agentIds st)"

definition handleConsole :: "console_config \<Rightarrow> console_world \<Rightarrow> console_request \<Rightarrow> console_state
    \<Rightarrow> console_reply \<times> console_state" where
  "handleConsole cfg w req st =
     (let agentIds = map ag_id (px_agents (cs_proxy st)); st1 = cw_afterAuth w st in
      case con_authenticate cfg (cw_authAt w) req st1 of
        None \<Rightarrow> (CUnauthorized, st1)
      | Some (name, held, subject) \<Rightarrow>
          let need = requiredRole (cq_method req) (cq_path req) in
          if \<not> hasRole held need then (CForbidden need, st1)
          else con_route cfg w name req agentIds st1)"

end
