(* ===== verification/Config_Schema.thy ===== *)
theory Config_Schema
  imports Config_Rewrite Distribution Delegate_Route
begin

text \<open>
  The schema of \<^verbatim>\<open>grenz.yaml\<close> (\<^verbatim>\<open>config/schema.ts\<close>): what a parsed document must look like for the
  proxy to start, and the configuration it is read as. A schema is a function from a value to an option.
  Parameters: which texts are URLs with what protocol and host, which are zoned RFC 3339 instants, and
  \<open>Date.parse\<close> (\<open>None\<close> when not a number). Fractions are not among the values, every number here is an \<open>int()\<close>.
\<close>

record schema_lib =
  sl_url :: "string \<Rightarrow> (string \<times> string) option"
  sl_isDatetime :: "string \<Rightarrow> bool"
  sl_dateParse :: "string \<Rightarrow> int option"

subsection \<open>Combinators\<close>

definition defaulted :: "'a \<Rightarrow> (json \<Rightarrow> 'a option) \<Rightarrow> json option \<Rightarrow> 'a option" where
  "defaulted d valid field = (case field of None \<Rightarrow> Some d | Some v \<Rightarrow> valid v)"

fun text_value :: "json \<Rightarrow> string option" where
  "text_value (JStr s) = Some s"
| "text_value _ = None"

fun flag_value :: "json \<Rightarrow> bool option" where
  "flag_value (JBool b) = Some b"
| "flag_value _ = None"

definition filtered :: "('a \<Rightarrow> bool) \<Rightarrow> 'a option \<Rightarrow> 'a option" where
  "filtered P x = (case x of Some v \<Rightarrow> if P v then Some v else None | None \<Rightarrow> None)"

definition nonempty_text :: "json \<Rightarrow> string option" where
  "nonempty_text v = filtered (\<lambda>s. s \<noteq> []) (text_value v)"

definition one_of :: "string list \<Rightarrow> json \<Rightarrow> string option" where
  "one_of names v = filtered (\<lambda>s. s \<in> set names) (text_value v)"

fun int_in :: "int \<Rightarrow> int \<Rightarrow> json \<Rightarrow> int option" where
  "int_in lo hi (JNum n) = (if lo \<le> n \<and> n \<le> hi then Some n else None)"
| "int_in lo hi _ = None"

definition zero_or_in :: "int \<Rightarrow> int \<Rightarrow> json \<Rightarrow> int option" where
  "zero_or_in lo hi v = (if v = JNum 0 then Some 0 else int_in lo hi v)"

definition url_text :: "schema_lib \<Rightarrow> json \<Rightarrow> string option" where
  "url_text lib v = filtered (\<lambda>s. sl_url lib s \<noteq> None) (text_value v)"

fun all_of :: "(json \<Rightarrow> 'a option) \<Rightarrow> json list \<Rightarrow> 'a list option" where
  "all_of valid [] = Some []"
| "all_of valid (v # vs) =
     (case (valid v, all_of valid vs) of (Some x, Some xs) \<Rightarrow> Some (x # xs) | _ \<Rightarrow> None)"

fun array_of :: "(json \<Rightarrow> 'a option) \<Rightarrow> json \<Rightarrow> 'a list option" where
  "array_of valid (JArr vs) = all_of valid vs"
| "array_of valid _ = None"

fun entries_of :: "(string \<Rightarrow> bool) \<Rightarrow> (json \<Rightarrow> 'a option) \<Rightarrow> (string \<times> json) list \<Rightarrow> (string \<times> 'a) list option" where
  "entries_of key valid [] = Some []"
| "entries_of key valid ((k, v) # ps) =
     (case (valid v, entries_of key valid ps) of
        (Some x, Some xs) \<Rightarrow> if key k then Some ((k, x) # xs) else None | _ \<Rightarrow> None)"

fun record_of :: "(string \<Rightarrow> bool) \<Rightarrow> (json \<Rightarrow> 'a option) \<Rightarrow> json \<Rightarrow> (string \<times> 'a) list option" where
  "record_of key valid (JObj ps) = entries_of key valid ps"
| "record_of key valid _ = None"

subsection \<open>Upstreams\<close>

definition UPSTREAM_TYPES :: "string list" where
  "UPSTREAM_TYPES = [''github'', ''mcp'', ''linear'', ''slack'']"

definition inject_value :: "json \<Rightarrow> (string \<times> string) option" where
  "inject_value v =
     (if \<not> has_only [''header'', ''scheme''] v then None
      else case (defaulted ''Authorization'' nonempty_text (json_field v ''header''),
                 defaulted ''Bearer'' text_value (json_field v ''scheme'')) of
        (Some h, Some s) \<Rightarrow> Some (h, s) | _ \<Rightarrow> None)"

definition parse_real_upstream :: "schema_lib \<Rightarrow> json \<Rightarrow> upstream_config option" where
  "parse_real_upstream lib v =
     (if \<not> has_only [''type'', ''base_url'', ''credential'', ''inject'', ''decoy''] v then None
      else case (Option.bind (json_field v ''type'') (one_of UPSTREAM_TYPES),
                 Option.bind (json_field v ''base_url'') (url_text lib),
                 Option.bind (json_field v ''credential'') nonempty_text,
                 defaulted (''Authorization'', ''Bearer'') inject_value (json_field v ''inject''),
                 defaulted False (\<lambda>d. filtered (\<lambda>b. \<not> b) (flag_value d)) (json_field v ''decoy'')) of
        (Some ty, Some url, Some cred, Some (h, s), Some _) \<Rightarrow>
          Some \<lparr>up_type = ty, up_base_url = url, up_credential = cred, up_inject_header = h, up_inject_scheme = s\<rparr>
      | _ \<Rightarrow> None)"

definition parse_decoy_upstream :: "json \<Rightarrow> string option" where
  "parse_decoy_upstream v =
     (if has_only [''decoy'', ''type''] v \<and> json_field v ''decoy'' = Some (JBool True)
      then Option.bind (json_field v ''type'') (one_of UPSTREAM_TYPES) else None)"

definition parse_upstream :: "schema_lib \<Rightarrow> json \<Rightarrow> upstream option" where
  "parse_upstream lib v =
     (case parse_decoy_upstream v of Some ty \<Rightarrow> Some (DecoyUpstream ty)
      | None \<Rightarrow> map_option RealUpstream (parse_real_upstream lib v))"

subsection \<open>Agents\<close>

definition MAX_TIME_MS :: int where "MAX_TIME_MS = 8640000000000000"

definition hex_digest :: "string \<Rightarrow> bool" where
  "hex_digest s \<longleftrightarrow> length s = 64 \<and>
     list_all (\<lambda>c. let n = (of_char c :: nat) in 48 \<le> n \<and> n \<le> 57 \<or> 97 \<le> n \<and> n \<le> 102) s"

definition profile_name :: "json \<Rightarrow> string option" where
  "profile_name v = filtered PROFILE_NAME_RE (text_value v)"

definition instant :: "schema_lib \<Rightarrow> string \<Rightarrow> int option" where
  "instant lib t = filtered (\<lambda>t'. 0 \<le> t' \<and> t' \<le> MAX_TIME_MS) (sl_dateParse lib t)"

definition parse_agent :: "schema_lib \<Rightarrow> json \<Rightarrow> agent_config option" where
  "parse_agent lib v =
     (if \<not> has_only [''id'', ''token_hash'', ''decoy'', ''expires_at'', ''targets'', ''actions'', ''policy''] v then None
      else case (Option.bind (json_field v ''id'') nonempty_text,
                 filtered hex_digest (Option.bind (json_field v ''token_hash'') text_value),
                 defaulted False flag_value (json_field v ''decoy''),
                 optional_field (\<lambda>t. Option.bind (filtered (sl_isDatetime lib) (text_value t)) (instant lib))
                   (json_field v ''expires_at''),
                 optional_field string_list (json_field v ''targets''),
                 optional_field string_list (json_field v ''actions''),
                 optional_field profile_name (json_field v ''policy'')) of
        (Some k, Some h, Some decoy, Some expires, Some targets, Some actions, Some policy) \<Rightarrow>
          if decoy \<and> (expires \<noteq> None \<or> targets \<noteq> None \<or> actions \<noteq> None \<or> policy \<noteq> None) then None
          else Some \<lparr>ag_id = k, ag_token_hash = h, ag_expiresAtMs = expires, ag_decoy = decoy,
                     ag_targets = targets, ag_actions = actions, ag_policy = policy\<rparr>
      | _ \<Rightarrow> None)"

subsection \<open>Listener, approvals, plane\<close>

record listen_config =
  ln_host :: string
  ln_port :: int
  ln_socket :: "string option"

definition contains :: "string \<Rightarrow> string \<Rightarrow> bool" where
  "contains s part \<longleftrightarrow> list_ex (\<lambda>i. starts_with (drop i s) part) [0..<Suc (length s)]"

definition parse_listen :: "json \<Rightarrow> listen_config option" where
  "parse_listen v =
     (if \<not> has_only [''host'', ''port'', ''socket''] v then None
      else case (defaulted ''127.0.0.1'' nonempty_text (json_field v ''host''),
                 defaulted 8787 (int_in 1 65535) (json_field v ''port''),
                 optional_field (\<lambda>t. filtered (\<lambda>s. CHR 0x00 \<notin> set s) (nonempty_text t)) (json_field v ''socket'')) of
        (Some h, Some p, Some s) \<Rightarrow> Some \<lparr>ln_host = h, ln_port = p, ln_socket = s\<rparr>
      | _ \<Rightarrow> None)"

record approvals_config =
  av_ttl_seconds :: int
  av_max_pending :: int
  av_remember_seconds :: int

definition parse_approvals :: "json \<Rightarrow> approvals_config option" where
  "parse_approvals v =
     (if \<not> has_only [''ttl_seconds'', ''max_pending'', ''remember_seconds''] v then None
      else case (defaulted 300 (int_in 1 3600) (json_field v ''ttl_seconds''),
                 defaulted 100 (int_in 1 10000) (json_field v ''max_pending''),
                 defaulted 0 (int_in 0 3600) (json_field v ''remember_seconds'')) of
        (Some t, Some m, Some r) \<Rightarrow> Some \<lparr>av_ttl_seconds = t, av_max_pending = m, av_remember_seconds = r\<rparr>
      | _ \<Rightarrow> None)"

definition parse_relay :: "schema_lib \<Rightarrow> json \<Rightarrow> (string \<times> int) option" where
  "parse_relay lib v =
     (if \<not> has_only [''url'', ''poll_window_seconds''] v then None
      else case (Option.bind (json_field v ''url'') (url_text lib),
                 defaulted 25 (int_in 1 120) (json_field v ''poll_window_seconds'')) of
        (Some u, Some p) \<Rightarrow> Some (u, p) | _ \<Rightarrow> None)"

record telemetry_config =
  tm_enabled :: bool
  tm_endpoint :: string
  tm_org_token_key :: string
  tm_interval_seconds :: int

definition parse_telemetry :: "schema_lib \<Rightarrow> json \<Rightarrow> telemetry_config option" where
  "parse_telemetry lib v =
     (if \<not> has_only [''enabled'', ''endpoint'', ''org_token_key'', ''interval_seconds''] v then None
      else case (defaulted False flag_value (json_field v ''enabled''),
                 Option.bind (json_field v ''endpoint'') (url_text lib),
                 defaulted ''cloud_org_token'' nonempty_text (json_field v ''org_token_key''),
                 defaulted 3600 (int_in 60 86400) (json_field v ''interval_seconds'')) of
        (Some e, Some u, Some k, Some i) \<Rightarrow>
          Some \<lparr>tm_enabled = e, tm_endpoint = u, tm_org_token_key = k, tm_interval_seconds = i\<rparr>
      | _ \<Rightarrow> None)"

definition LOCAL_PLANE_HOSTS :: "string list" where
  "LOCAL_PLANE_HOSTS = [''localhost'', ''127.0.0.1'', ''[::1]'']"

definition isSafePlaneUrl :: "schema_lib \<Rightarrow> string \<Rightarrow> bool" where
  "isSafePlaneUrl lib raw =
     (case sl_url lib raw of
        None \<Rightarrow> False
      | Some (protocol, hostname) \<Rightarrow>
          protocol = ''https:'' \<or> protocol = ''http:'' \<and> hostname \<in> set LOCAL_PLANE_HOSTS)"

record plane_source =
  pl_url :: string
  pl_org_token_key :: string
  pl_public_key :: "string list"
  pl_refresh_seconds :: int
  pl_max_age_seconds :: "int option"
  pl_on_stale :: string
  pl_revocation_url :: "string option"
  pl_revocation_refresh_seconds :: int
  pl_revocation_max_age_seconds :: "int option"
  pl_on_revocation_stale :: string

text \<open>The refinements that reject a staleness bound nobody would check.\<close>

definition plane_coherent :: "plane_source \<Rightarrow> bool" where
  "plane_coherent s \<longleftrightarrow>
     (pl_max_age_seconds s \<noteq> None \<longrightarrow> pl_refresh_seconds s \<noteq> 0)
   \<and> (pl_on_stale s = ''fail_closed'' \<longrightarrow> pl_max_age_seconds s \<noteq> None)
   \<and> (pl_revocation_url s \<noteq> None \<longrightarrow> pl_public_key s \<noteq> [])
   \<and> (pl_revocation_max_age_seconds s \<noteq> None \<longrightarrow> pl_revocation_refresh_seconds s \<noteq> 0)
   \<and> (pl_on_revocation_stale s = ''fail_closed'' \<longrightarrow> pl_revocation_max_age_seconds s \<noteq> None)
   \<and> (case pl_revocation_max_age_seconds s of None \<Rightarrow> True
      | Some bound \<Rightarrow> pl_revocation_refresh_seconds s > 0 \<longrightarrow> bound \<ge> pl_revocation_refresh_seconds s)"

definition plane_url :: "schema_lib \<Rightarrow> json \<Rightarrow> string option" where
  "plane_url lib v = filtered (isSafePlaneUrl lib) (url_text lib v)"

definition parse_plane :: "schema_lib \<Rightarrow> json \<Rightarrow> plane_source option" where
  "parse_plane lib v =
     (if \<not> has_only [''url'', ''org_token_key'', ''public_key'', ''refresh_seconds'', ''max_age_seconds'', ''on_stale'',
           ''revocation_url'', ''revocation_refresh_seconds'', ''revocation_max_age_seconds'', ''on_revocation_stale''] v then None
      else case (Option.bind (json_field v ''url'') (plane_url lib),
                 defaulted ''cloud_org_token'' nonempty_text (json_field v ''org_token_key''),
                 defaulted [] (array_of nonempty_text) (json_field v ''public_key''),
                 defaulted 0 (zero_or_in 30 86400) (json_field v ''refresh_seconds''),
                 optional_field (int_in 30 604800) (json_field v ''max_age_seconds''),
                 defaulted ''warn'' (one_of [''warn'', ''fail_closed'']) (json_field v ''on_stale'')) of
        (Some url, Some org, Some keys, Some refresh, Some max_age, Some on_stale) \<Rightarrow>
          (case (optional_field (plane_url lib) (json_field v ''revocation_url''),
                 defaulted 0 (zero_or_in 30 86400) (json_field v ''revocation_refresh_seconds''),
                 optional_field (int_in 30 604800) (json_field v ''revocation_max_age_seconds''),
                 defaulted ''warn'' (one_of [''warn'', ''fail_closed'']) (json_field v ''on_revocation_stale'')) of
             (Some rurl, Some rrefresh, Some rmax, Some rstale) \<Rightarrow>
               filtered plane_coherent (Some
                 \<lparr>pl_url = url, pl_org_token_key = org, pl_public_key = keys, pl_refresh_seconds = refresh,
                  pl_max_age_seconds = max_age, pl_on_stale = on_stale, pl_revocation_url = rurl,
                  pl_revocation_refresh_seconds = rrefresh, pl_revocation_max_age_seconds = rmax,
                  pl_on_revocation_stale = rstale\<rparr>)
           | _ \<Rightarrow> None)
      | _ \<Rightarrow> None)"

subsection \<open>The credential store\<close>

datatype credential_store = AgeFile | HashicorpVault hashicorp_vault
     and hashicorp_vault = Hashicorp (hv_address: string) (hv_mount: string) (hv_path_prefix: string)
       (hv_field: string) (hv_token_key: string) (hv_cache_ttl_seconds: int)

definition parse_credential_store :: "schema_lib \<Rightarrow> json \<Rightarrow> credential_store option" where
  "parse_credential_store lib v =
     (if json_field v ''type'' = Some (JStr ''age-file'') then (if has_only [''type''] v then Some AgeFile else None)
      else if json_field v ''type'' \<noteq> Some (JStr ''hashicorp-vault'')
        \<or> \<not> has_only [''type'', ''address'', ''mount'', ''path_prefix'', ''field'', ''token_key'', ''cache_ttl_seconds''] v
      then None
      else case (Option.bind (json_field v ''address'') (url_text lib),
                 defaulted ''secret'' nonempty_text (json_field v ''mount''),
                 defaulted ''grenz/'' text_value (json_field v ''path_prefix''),
                 defaulted ''value'' nonempty_text (json_field v ''field''),
                 defaulted ''hashivault_token'' nonempty_text (json_field v ''token_key''),
                 defaulted 60 (int_in 0 3600) (json_field v ''cache_ttl_seconds'')) of
        (Some a, Some m, Some p, Some f, Some t, Some c) \<Rightarrow> Some (HashicorpVault (Hashicorp a m p f t c))
      | _ \<Rightarrow> None)"

subsection \<open>The configuration\<close>

record grenz_config =
  gc_listen :: listen_config
  gc_approvals :: approvals_config
  gc_upstreams :: "(string \<times> upstream) list"
  gc_agents :: "agent_config list"
  gc_policy_profiles :: "(string \<times> string option) list"
  gc_exec_guard :: bool
  gc_telemetry :: "telemetry_config option"
  gc_policy_source :: "plane_source option"
  gc_credential_store :: credential_store
  gc_relay :: "(string \<times> int) option"

text \<open>The source of a profile: \<open>null\<close> is \<open>{}\<close>, a \<open>file\<close> is a local path.\<close>

definition parse_profile_source :: "json \<Rightarrow> string option option" where
  "parse_profile_source v0 =
     (let v = (if v0 = JNull then JObj [] else v0) in
      if \<not> has_only [''file''] v then None
      else optional_field (\<lambda>f. filtered (\<lambda>s. \<not> contains s ''://'') (nonempty_text f)) (json_field v ''file''))"

text \<open>The refinement over the agents: ids and token hashes are unique, every profile named is declared.\<close>

definition agents_coherent :: "grenz_config \<Rightarrow> bool" where
  "agents_coherent c \<longleftrightarrow> distinct (map ag_id (gc_agents c)) \<and> distinct (map ag_token_hash (gc_agents c))
     \<and> list_all (\<lambda>a. case ag_policy a of None \<Rightarrow> True | Some p \<Rightarrow> p \<in> set (map fst (gc_policy_profiles c))) (gc_agents c)"

definition config_keys :: "string list" where
  "config_keys = [''listen'', ''approvals'', ''upstreams'', ''agents'', ''policy_profiles'', ''exec_guard'', ''telemetry'',
     ''policy_source'', ''credential_store'', ''sso'', ''relay'']"

definition agent_list :: "schema_lib \<Rightarrow> json \<Rightarrow> agent_config list option" where
  "agent_list lib v = filtered (\<lambda>as. as \<noteq> []) (array_of (parse_agent lib) v)"

definition config_shape :: "schema_lib \<Rightarrow> json \<Rightarrow> agent_config list \<Rightarrow> grenz_config option" where
  "config_shape lib v agents =
     (case (defaulted \<lparr>ln_host = ''127.0.0.1'', ln_port = 8787, ln_socket = None\<rparr> parse_listen (json_field v ''listen''),
            defaulted \<lparr>av_ttl_seconds = 300, av_max_pending = 100, av_remember_seconds = 0\<rparr> parse_approvals
              (json_field v ''approvals''),
            defaulted [] (record_of (\<lambda>k. k \<noteq> []) (parse_upstream lib)) (json_field v ''upstreams''),
            defaulted [] (record_of PROFILE_NAME_RE parse_profile_source) (json_field v ''policy_profiles''),
            defaulted False flag_value (json_field v ''exec_guard'')) of
        (Some listen, Some approvals, Some upstreams, Some profiles, Some guard) \<Rightarrow>
          (case (optional_field (parse_telemetry lib) (json_field v ''telemetry''),
                 optional_field (parse_plane lib) (json_field v ''policy_source''),
                 defaulted AgeFile (parse_credential_store lib) (json_field v ''credential_store''),
                 optional_field (parse_relay lib) (json_field v ''relay'')) of
             (Some telemetry, Some source, Some creds, Some relay) \<Rightarrow> Some
               \<lparr>gc_listen = listen, gc_approvals = approvals, gc_upstreams = upstreams, gc_agents = agents,
                gc_policy_profiles = profiles, gc_exec_guard = guard, gc_telemetry = telemetry,
                gc_policy_source = source, gc_credential_store = creds, gc_relay = relay\<rparr>
           | _ \<Rightarrow> None)
      | _ \<Rightarrow> None)"

text \<open>A document with an \<open>sso\<close> entry, whatever its value, is refused.\<close>

definition parse_config :: "schema_lib \<Rightarrow> json \<Rightarrow> grenz_config option" where
  "parse_config lib v =
     (if \<not> has_only config_keys v \<or> json_field v ''sso'' \<noteq> None then None
      else case Option.bind (json_field v ''agents'') (agent_list lib) of
        None \<Rightarrow> None
      | Some agents \<Rightarrow> filtered agents_coherent (config_shape lib v agents))"

subsection \<open>What a configuration that loads guarantees\<close>

lemma filtered_SomeD: "filtered P x = Some v \<Longrightarrow> x = Some v \<and> P v"
  by (auto simp: filtered_def split: option.splits if_splits)

lemma filtered_simps [simp]: "filtered P None = None" "filtered P (Some v) = (if P v then Some v else None)"
  by (simp_all add: filtered_def)

lemma config_shape_agents: "config_shape lib v agents = Some c \<Longrightarrow> gc_agents c = agents"
  by (auto simp: config_shape_def split: option.splits)

lemma all_of_mem: "all_of f vs = Some xs \<Longrightarrow> x \<in> set xs \<Longrightarrow> \<exists>v \<in> set vs. f v = Some x"
  by (induction vs arbitrary: xs) (auto split: option.splits prod.splits)

lemma all_of_snoc: "all_of f (vs @ [v]) = (case (all_of f vs, f v) of (Some xs, Some x) \<Rightarrow> Some (xs @ [x]) | _ \<Rightarrow> None)"
  by (induction vs) (auto split: option.splits)

lemma array_of_SomeD: "array_of f v = Some xs \<Longrightarrow> \<exists>vs. v = JArr vs \<and> all_of f vs = Some xs"
  by (cases v) auto

lemma parse_config_SomeD:
  assumes "parse_config lib v = Some c"
  shows "agents_coherent c \<and> gc_agents c \<noteq> [] \<and>
    (\<exists>vs. json_field v ''agents'' = Some (JArr vs) \<and> all_of (parse_agent lib) vs = Some (gc_agents c)
       \<and> config_shape lib v (gc_agents c) = Some c)"
  using assms
  by (auto simp: parse_config_def agent_list_def bind_eq_Some_conv config_shape_agents
      dest!: filtered_SomeD array_of_SomeD split: if_splits option.splits)

lemma parse_agent_decoy:
  "parse_agent lib v = Some a \<Longrightarrow> hex_digest (ag_token_hash a) \<and> ag_id a \<noteq> []
     \<and> (ag_decoy a \<longrightarrow> ag_expiresAtMs a = None \<and> ag_targets a = None \<and> ag_actions a = None \<and> ag_policy a = None)"
  by (auto simp: parse_agent_def nonempty_text_def bind_eq_Some_conv dest!: filtered_SomeD split: if_splits option.splits)

lemma parse_plane_SomeD: "parse_plane lib v = Some s \<Longrightarrow> isSafePlaneUrl lib (pl_url s) \<and> plane_coherent s"
  by (auto simp: parse_plane_def plane_url_def bind_eq_Some_conv
      dest!: filtered_SomeD split: if_splits option.splits)

lemma optional_field_SomeD: "optional_field f x = Some (Some s) \<Longrightarrow> \<exists>v. f v = Some s"
  by (auto simp: optional_field_def split: option.splits)

lemma config_shape_source:
  "config_shape lib v agents = Some c \<Longrightarrow> gc_policy_source c = Some s \<Longrightarrow> \<exists>v. parse_plane lib v = Some s"
  by (auto simp: config_shape_def dest: optional_field_SomeD split: option.splits)


text \<open>A document with an agent, a decoy, a profile and a pinned plane.\<close>

definition wit_schema :: schema_lib where
  "wit_schema = \<lparr>sl_url = (\<lambda>u. if take 8 u = ''https://'' then Some (''https:'', drop 8 u) else None),
     sl_isDatetime = (\<lambda>t. False), sl_dateParse = (\<lambda>t. None)\<rparr>"

definition wit_config :: json where
  "wit_config = JObj [
     (''agents'', JArr [
        JObj [(''id'', JStr ''bot''), (''token_hash'', JStr (replicate 64 (CHR ''a''))), (''policy'', JStr ''ci''),
              (''actions'', JArr [JStr ''repo:*''])],
        JObj [(''id'', JStr ''bait''), (''token_hash'', JStr (replicate 64 (CHR ''b''))), (''decoy'', JBool True)]]),
     (''policy_profiles'', JObj [(''ci'', JNull)]),
     (''policy_source'', JObj [(''url'', JStr ''https://plane''), (''public_key'', JArr [JStr ''k'']),
        (''refresh_seconds'', JNum 60), (''max_age_seconds'', JNum 600), (''on_stale'', JStr ''fail_closed'')])]"


text \<open>Adding an entry to the agents of a document that loads gives a document that loads, with that agent.\<close>

lemma has_only_set: "k \<in> set keys \<Longrightarrow> has_only keys (set_field k x v) = has_only keys v"
proof (cases v)
  case (JObj ps)
  assume "k \<in> set keys"
  then have "list_all (\<lambda>(k, x). k \<in> set keys) (AList.update k x ps) = list_all (\<lambda>(k, x). k \<in> set keys) ps"
    by (induction ps) auto
  then show ?thesis by (simp add: JObj has_only_def)
qed (simp_all add: has_only_def)

lemma json_field_set_field:
  "k' \<noteq> k \<Longrightarrow> json_field (set_field k x v) k' = json_field v k'"
  by (cases v) simp_all

lemma config_shape_set:
  "config_shape lib (set_field ''agents'' x v) agents' = map_option (\<lambda>c. c\<lparr>gc_agents := agents'\<rparr>) (config_shape lib v agents)"
  by (simp add: config_shape_def json_field_set_field split: option.splits)

lemma config_add_agent:
  assumes c: "parse_config lib v = Some c" and items: "agent_items v = Some items" and a: "parse_agent lib e = Some a"
    and fresh: "ag_id a \<notin> set (map ag_id (gc_agents c))" "ag_token_hash a \<notin> set (map ag_token_hash (gc_agents c))"
    and profile: "case ag_policy a of None \<Rightarrow> True | Some p \<Rightarrow> p \<in> set (map fst (gc_policy_profiles c))"
  shows "parse_config lib (set_field ''agents'' (JArr (items @ [e])) v) = Some (c\<lparr>gc_agents := gc_agents c @ [a]\<rparr>)"
proof -
  from c have only: "has_only config_keys v" and sso: "json_field v ''sso'' = None"
    by (auto simp: parse_config_def split: if_splits)
  from parse_config_SomeD [OF c] obtain vs where coh: "agents_coherent c"
    and vs: "json_field v ''agents'' = Some (JArr vs)" "all_of (parse_agent lib) vs = Some (gc_agents c)"
    and shape: "config_shape lib v (gc_agents c) = Some c"
    by blast
  from items vs(1) have "vs = items" by (simp add: agent_items_def)
  with vs(2) a have "all_of (parse_agent lib) (items @ [e]) = Some (gc_agents c @ [a])" by (simp add: all_of_snoc)
  then have list: "agent_list lib (JArr (items @ [e])) = Some (gc_agents c @ [a])" by (simp add: agent_list_def)
  have field: "json_field (set_field ''agents'' (JArr (items @ [e])) v) ''agents'' = Some (JArr (items @ [e]))"
    using vs(1) by (cases v) simp_all
  have coh': "agents_coherent (c\<lparr>gc_agents := gc_agents c @ [a]\<rparr>)"
    using coh fresh profile by (auto simp: agents_coherent_def list_all_iff split: option.splits)
  show ?thesis
    using only sso list field coh'
    by (simp add: parse_config_def has_only_set config_keys_def json_field_set_field
        config_shape_set [where agents = "gc_agents c"] shape)
qed

text \<open>What the rewrite writes for a new agent is read back as that agent.\<close>

definition scope_ok :: "agent_scope_input \<Rightarrow> bool" where
  "scope_ok s \<longleftrightarrow> (\<forall>xs. as_actions s = Some xs \<or> as_targets s = Some xs \<longrightarrow> string_list (JArr (map JStr xs)) = Some xs)
     \<and> (\<forall>p. as_policy s = Some p \<longrightarrow> PROFILE_NAME_RE p)"

lemma string_list_nonempty: "string_list (JArr (map JStr xs)) = Some xs \<Longrightarrow> xs \<noteq> []"
  by (auto simp: string_list_def)

lemma list_entry_field:
  "(\<And>xs. vs = Some xs \<Longrightarrow> string_list (JArr (map JStr xs)) = Some xs) \<Longrightarrow>
   list_entry key vs = (case vs of None \<Rightarrow> [] | Some xs \<Rightarrow> [(key, JArr (map JStr xs))])"
  by (auto simp: list_entry_def dest!: string_list_nonempty split: option.splits list.splits)

lemma parse_agent_entry:
  assumes "k \<noteq> []" "hex_digest h" "scope_ok scope"
  shows "parse_agent lib (agent_entry k h scope) = Some
    \<lparr>ag_id = k, ag_token_hash = h, ag_expiresAtMs = None, ag_decoy = False, ag_targets = as_targets scope,
     ag_actions = as_actions scope, ag_policy = as_policy scope\<rparr>"
proof -
  have lists: "list_entry ''actions'' (as_actions scope) =
      (case as_actions scope of None \<Rightarrow> [] | Some xs \<Rightarrow> [(''actions'', JArr (map JStr xs))])"
    "list_entry ''targets'' (as_targets scope) =
      (case as_targets scope of None \<Rightarrow> [] | Some xs \<Rightarrow> [(''targets'', JArr (map JStr xs))])"
    using assms(3) by (auto simp: scope_ok_def intro!: list_entry_field)
  have pol: "(case as_policy scope of Some (c # cs) \<Rightarrow> [(''policy'', JStr (c # cs))] | _ \<Rightarrow> []) =
      (case as_policy scope of None \<Rightarrow> [] | Some p \<Rightarrow> [(''policy'', JStr p)])"
    using assms(3) by (auto simp: scope_ok_def PROFILE_NAME_RE_def split: option.splits list.splits)
  show ?thesis
    using assms
    by (auto simp: agent_entry_def lists pol parse_agent_def has_only_def nonempty_text_def profile_name_def
        optional_field_def defaulted_def scope_ok_def split: option.splits)
qed

end
