(* ===== verification/Console_Claims.thy ===== *)
theory Console_Claims
  imports Console Config_Schema Scenario
begin

text \<open>
  What the admin API guarantees: who may change what, who an approval is attributed to, how long what it
  mints lives, and when a saved policy or a minted agent is both on disk and live.
\<close>

subsection \<open>Roles\<close>

text \<open>A world in which the rest of the process does nothing during the awaits of a handler.\<close>

definition quiet_world :: "console_world \<Rightarrow> bool" where
  "quiet_world w \<longleftrightarrow> cw_afterBody w = id \<and> cw_beforeRead w = id \<and> cw_afterRead w = id \<and> cw_afterHash w = id"

text \<open>Only the broker differs.\<close>

definition broker_only :: "console_state \<Rightarrow> console_state \<Rightarrow> bool" where
  "broker_only st st' \<longleftrightarrow> (\<exists>b. st' = st\<lparr>cs_proxy := (cs_proxy st)\<lparr>px_broker := b\<rparr>\<rparr>)"

lemma broker_only_set: "broker_only st (st\<lparr>cs_proxy := (cs_proxy st)\<lparr>px_broker := b\<rparr>\<rparr>)"
  by (auto simp: broker_only_def)

lemma broker_only_refl: "broker_only st st"
  using broker_only_set [of st "px_broker (cs_proxy st)"] by simp

lemma con_decide_broker_only: "broker_only st (snd (con_decide cfg by seg ok st))"
  by (auto simp: con_decide_def Let_def broker_only_set broker_only_refl split: option.splits prod.splits)

lemma read_policy_quiet: "quiet_world w \<Longrightarrow> snd (read_policy cfg w st) = st"
  by (auto simp: read_policy_def quiet_world_def Let_def split: option.splits)

lemma con_route_GET:
  "quiet_world w \<Longrightarrow> cq_method req = ''GET'' \<Longrightarrow> snd (con_route cfg w by req ids st) = st"
  by (auto simp: con_route_def read_policy_quiet split: option.splits)

lemma not_decision_paths:
  "\<not> approval_decision_path ''/console/policy''" "\<not> approval_decision_path ''/console/agents''"
  by code_simp+

lemma decide_path_None_iff: "decide_path path = None \<longleftrightarrow> \<not> approval_decision_path path"
  by (simp add: decide_path_def Let_def)

lemma con_write_decision:
  assumes "cq_method req = ''POST''" "approval_decision_path (cq_path req)"
  shows "\<exists>seg ok. decide_path (cq_path req) = Some (seg, ok)
    \<and> con_write cfg w by req ids st = con_decide cfg by seg ok st"
proof -
  have "cq_path req \<noteq> ''/console/policy''" "cq_path req \<noteq> ''/console/agents''"
    using assms(2) not_decision_paths by auto
  moreover obtain seg ok where "decide_path (cq_path req) = Some (seg, ok)"
    using assms(2) decide_path_None_iff by fastforce
  ultimately show ?thesis using assms by (auto simp: con_write_def Let_def)
qed

text \<open>C20: separation of duties at the admin API: while nothing else runs, a request changes something only
  if its token authenticated as an admin, or as an approver on \<open>POST /console/approvals/<id>/(approve|deny)\<close>,
  and then only the approval broker changes; a viewer, an unknown or expired token, and every other
  route of an approver leave the proxy as it was.\<close>
theorem console_role_gate:
  assumes "quiet_world w" and "snd (handleConsole cfg w req st) \<noteq> cw_afterAuth w st"
  shows "\<exists>name held subject. con_authenticate cfg (cw_authAt w) req (cw_afterAuth w st) = Some (name, held, subject)
    \<and> (held = Admin
       \<or> held = Approver \<and> cq_method req = ''POST'' \<and> decide_path (cq_path req) \<noteq> None
         \<and> broker_only (cw_afterAuth w st) (snd (handleConsole cfg w req st)))"
proof -
  let ?st = "cw_afterAuth w st"
  obtain name held subject
    where auth: "con_authenticate cfg (cw_authAt w) req ?st = Some (name, held, subject)"
      and role: "hasRole held (requiredRole (cq_method req) (cq_path req))"
      and run: "handleConsole cfg w req st = con_route cfg w name req (map ag_id (px_agents (cs_proxy st))) ?st"
    using assms(2) by (auto simp: handleConsole_def Let_def split: option.splits if_splits prod.splits)
  have no_get: "cq_method req \<noteq> ''GET''"
    using assms con_route_GET [of w req cfg name] by (auto simp: run)
  show ?thesis
  proof (cases "held = Admin")
    case True
    with auth show ?thesis by blast
  next
    case False
    then have "requiredRole (cq_method req) (cq_path req) \<noteq> Admin"
      using role by (cases held) (auto simp: hasRole_def)
    with no_get have post: "cq_method req = ''POST''" "approval_decision_path (cq_path req)"
      and need: "requiredRole (cq_method req) (cq_path req) = Approver"
      by (auto simp: requiredRole_def split: if_splits)
    from need role False have held: "held = Approver"
      by (cases held) (auto simp: hasRole_def)
    have only: "broker_only ?st (snd (handleConsole cfg w req st))"
      using con_write_decision [OF post, of cfg w name "map ag_id (px_agents (cs_proxy st))" ?st]
      by (auto simp: run con_route_def no_get con_decide_broker_only)
    have "decide_path (cq_path req) \<noteq> None"
      using post(2) by (simp add: decide_path_None_iff)
    then show ?thesis using auth held post(1) only by blast
  qed
qed

subsection \<open>Who an approval is attributed to\<close>

text \<open>The replies each route can give, to invert a reply to the handler that gave it.\<close>

lemma con_read_replies:
  "con_read cfg w req ids st = Some r \<Longrightarrow> (\<exists>x. r = CRead x) \<or> (\<exists>n e. r = CError n e)"
  by (auto simp: con_read_def read_explain_def Let_def split: if_splits option.splits list.splits)

lemma read_policy_replies:
  "(\<exists>x. fst (read_policy cfg w st) = CRead x) \<or> (\<exists>n e. fst (read_policy cfg w st) = CError n e)"
  by (auto simp: read_policy_def Let_def split: option.splits)

lemma con_get_replies:
  "cq_method req = ''GET'' \<Longrightarrow>
   (\<exists>x. fst (con_route cfg w by req ids st) = CRead x) \<or> (\<exists>n e. fst (con_route cfg w by req ids st) = CError n e)"
  using read_policy_replies [of cfg w st]
  by (cases "con_read cfg w req ids st") (auto simp: con_route_def dest: con_read_replies)

text \<open>What an authenticated, permitted request is answered with by the handler of its route.\<close>

lemma handleConsole_cases:
  assumes "handleConsole cfg w req st = (r, st')" and "\<And>n e. r \<noteq> CError n e" and "\<And>x. r \<noteq> CRead x"
    and "r \<noteq> CUnauthorized" and "\<And>need. r \<noteq> CForbidden need"
  obtains name held subject where
    "con_authenticate cfg (cw_authAt w) req (cw_afterAuth w st) = Some (name, held, subject)"
    "hasRole held (requiredRole (cq_method req) (cq_path req))" "cq_method req \<noteq> ''GET''"
    "con_write cfg w name req (map ag_id (px_agents (cs_proxy st))) (cw_afterAuth w st) = (r, st')"
proof -
  obtain name held subject where auth: "con_authenticate cfg (cw_authAt w) req (cw_afterAuth w st) = Some (name, held, subject)"
    and role: "hasRole held (requiredRole (cq_method req) (cq_path req))"
    and run: "con_route cfg w name req (map ag_id (px_agents (cs_proxy st))) (cw_afterAuth w st) = (r, st')"
    using assms by (auto simp: handleConsole_def Let_def split: option.splits if_splits prod.splits)
  have "cq_method req \<noteq> ''GET''"
    using con_get_replies [of req cfg w name "map ag_id (px_agents (cs_proxy st))" "cw_afterAuth w st"] run assms(2,3) by auto
  with run have "con_write cfg w name req (map ag_id (px_agents (cs_proxy st))) (cw_afterAuth w st) = (r, st')"
    by (simp add: con_route_def)
  with auth role \<open>cq_method req \<noteq> ''GET''\<close> show thesis by (rule that)
qed

text \<open>A reply that carries something names its handler.\<close>

definition reply_kind :: "console_reply \<Rightarrow> nat" where
  "reply_kind r = (case r of CDecided k ok by d \<Rightarrow> 1 | CRevoked a x \<Rightarrow> 2 | CRestored a b n \<Rightarrow> 2 | CDelegated t d \<Rightarrow> 3
     | CGranted g \<Rightarrow> 4 | CPulled b \<Rightarrow> 5 | CTokenCreated n rl t \<Rightarrow> 6 | CTokenRevoked n \<Rightarrow> 7
     | CStaleEdit g d \<Rightarrow> 8 | CPolicyValid n \<Rightarrow> 8 | CPolicySaved n p d \<Rightarrow> 8 | CAgentMinted k t s \<Rightarrow> 9 | _ \<Rightarrow> 0)"

lemma kinds:
  "reply_kind (fst (con_decide cfg by seg ok st)) \<in> {0, 1}"
  "reply_kind (fst (con_revoke cfg w req seg st)) \<in> {0, 2}" "reply_kind (fst (con_restore cfg w seg st)) \<in> {0, 2}"
  by (auto simp: con_decide_def con_revoke_def con_restore_def reply_kind_def Let_def split: option.splits prod.splits sum.splits)

lemma mint_params_kind: "mint_params req ids = Inl r \<Longrightarrow> reply_kind r = 0"
  by (auto simp: mint_params_def reply_kind_def split: option.splits list.splits if_splits)

lemma mint_kinds:
  "reply_kind (fst (con_delegate cfg w req ids st)) \<in> {0, 3}" "reply_kind (fst (con_grant cfg w req ids st)) \<in> {0, 4}"
  "reply_kind (fst (con_pull cfg w by req ids st)) \<in> {0, 5}"
  by (auto simp: con_delegate_def con_grant_def con_pull_def reply_kind_def Let_def
      dest!: mint_params_kind [unfolded reply_kind_def] split: option.splits prod.splits sum.splits)

lemma token_kinds:
  "reply_kind (fst (con_token_create cfg w req st)) \<in> {0, 6}" "reply_kind (fst (con_token_revoke cfg w seg st)) \<in> {0, 7}"
  by (auto simp: con_token_create_def con_token_revoke_def reply_kind_def Let_def split: option.splits prod.splits sum.splits)

lemma policy_kinds:
  "reply_kind (fst (con_policy_save cfg w req st)) \<in> {0, 8}" "reply_kind (fst (con_agent_mint cfg w req st)) \<in> {0, 9}"
  by (auto simp: con_policy_save_def propose_policy_def apply_policy_def con_agent_mint_def mint_section_def reply_kind_def Let_def
      split: option.splits prod.splits sum.splits rewrite_error.splits config_write_error.splits)

lemmas all_kinds = kinds mint_kinds token_kinds policy_kinds

lemma kind_of: "reply_kind (fst x) \<in> {0, m} \<Longrightarrow> x = (r, st') \<Longrightarrow> reply_kind r = 0 \<or> reply_kind r = m"
  by auto

lemmas kind_dests = all_kinds [THEN kind_of]

lemma kind_error [simp]: "reply_kind (CError n e) = 0"
  by (simp add: reply_kind_def)

text \<open>What the dispatcher answers is what one handler answers.\<close>

definition handlers :: "console_config \<Rightarrow> console_world \<Rightarrow> string \<Rightarrow> console_request \<Rightarrow> agent_id list \<Rightarrow> console_state
    \<Rightarrow> (nat \<times> (console_reply \<times> console_state)) set" where
  "handlers cfg w by req ids st =
     {(m, x). m = 0 \<and> (\<exists>n e. x = (CError n e, st)) \<or> m = 1 \<and> (\<exists>seg ok. x = con_decide cfg by seg ok st)
        \<or> m = 2 \<and> (\<exists>seg. x = con_revoke cfg w req seg st \<or> x = con_restore cfg w seg st)
        \<or> m = 3 \<and> x = con_delegate cfg w req ids st \<or> m = 4 \<and> x = con_grant cfg w req ids st
        \<or> m = 5 \<and> x = con_pull cfg w by req ids st \<or> m = 6 \<and> x = con_token_create cfg w req st
        \<or> m = 7 \<and> (\<exists>seg. x = con_token_revoke cfg w seg st) \<or> m = 8 \<and> x = con_policy_save cfg w req st
        \<or> m = 9 \<and> x = con_agent_mint cfg w req st}"

lemma in_handlers:
  "(0, (CError n e, st)) \<in> handlers cfg w by req ids st" "(1, con_decide cfg by seg ok st) \<in> handlers cfg w by req ids st"
  "(2, con_revoke cfg w req seg st) \<in> handlers cfg w by req ids st" "(2, con_restore cfg w seg st) \<in> handlers cfg w by req ids st"
  "(3, con_delegate cfg w req ids st) \<in> handlers cfg w by req ids st" "(4, con_grant cfg w req ids st) \<in> handlers cfg w by req ids st"
  "(5, con_pull cfg w by req ids st) \<in> handlers cfg w by req ids st" "(6, con_token_create cfg w req st) \<in> handlers cfg w by req ids st"
  "(7, con_token_revoke cfg w seg st) \<in> handlers cfg w by req ids st" "(8, con_policy_save cfg w req st) \<in> handlers cfg w by req ids st"
  "(9, con_agent_mint cfg w req st) \<in> handlers cfg w by req ids st"
  unfolding handlers_def by blast+

lemma handlers_if: "(\<exists>m. (m, x) \<in> H) \<Longrightarrow> (\<exists>m. (m, y) \<in> H) \<Longrightarrow> \<exists>m. (m, if b then x else y) \<in> H"
  by simp

lemma handlers_case:
  "(\<exists>m. (m, x) \<in> H) \<Longrightarrow> (\<And>seg ok. \<exists>m. (m, f seg ok) \<in> H) \<Longrightarrow>
   \<exists>m. (m, case d of None \<Rightarrow> x | Some (seg, ok) \<Rightarrow> f seg ok) \<in> H"
  by (auto split: option.split)

lemma con_write_handler: "\<exists>m. (m, con_write cfg w by req ids st) \<in> handlers cfg w by req ids st"
  unfolding con_write_def Let_def
  by (intro handlers_if handlers_case; rule exI, rule in_handlers)

lemma handler_kind: "(m, (r, st')) \<in> handlers cfg w by req ids st \<Longrightarrow> reply_kind r = 0 \<or> reply_kind r = m"
  unfolding handlers_def
  by (elim CollectE case_prodE disjE conjE exE) (auto dest!: kind_dests [OF sym])

lemma con_write_kind:
  assumes "con_write cfg w by req ids st = (r, st')" "reply_kind r = m" "m \<noteq> 0"
  shows "(m, (r, st')) \<in> handlers cfg w by req ids st"
proof -
  from con_write_handler [of cfg w "by" req ids st] obtain j where j: "(j, (r, st')) \<in> handlers cfg w by req ids st"
    unfolding assms(1) by blast
  with handler_kind [OF j] assms(2,3) show ?thesis by auto
qed

text \<open>C21: approvals are attributed by the server: when the API answers that a request was approved or denied
  by somebody, that name is the one the presented token authenticated as, which no part of the
  request can choose, the token's role is approver or higher, and the broker's new state is the one
  of an approval (denial) by that name.\<close>
theorem approver_is_the_token:
  assumes "handleConsole cfg w req st = (CDecided k ok by d, st')"
  shows "\<exists>held subject b. con_authenticate cfg (cw_authAt w) req (cw_afterAuth w st) = Some (by, held, subject)
    \<and> hasRole held Approver \<and> px_broker (cs_proxy (cw_afterAuth w st)) = Some b
    \<and> px_broker (cs_proxy st') = Some (if ok then snd (br_approveBy k by b) else snd (br_deny k by b))"
proof -
  obtain name held subject
    where auth: "con_authenticate cfg (cw_authAt w) req (cw_afterAuth w st) = Some (name, held, subject)"
      and role: "hasRole held (requiredRole (cq_method req) (cq_path req))" "cq_method req \<noteq> ''GET''"
      and run: "con_write cfg w name req (map ag_id (px_agents (cs_proxy st))) (cw_afterAuth w st) = (CDecided k ok by d, st')"
    by (rule handleConsole_cases [OF assms]) auto
  obtain seg ok' where dec: "con_decide cfg name seg ok' (cw_afterAuth w st) = (CDecided k ok by d, st')"
    using con_write_kind [OF run, of 1] by (auto simp: reply_kind_def handlers_def)
  have "hasRole held Approver"
    using role by (cases held) (auto simp: hasRole_def requiredRole_def split: if_splits)
  with auth dec show ?thesis
    by (auto simp: con_decide_def Let_def split: option.splits prod.splits if_splits)
qed

subsection \<open>How long what is minted lives\<close>

lemma mint_ttl_bounds: "1 \<le> mint_ttl cfg req" "mint_ttl cfg req \<le> MINT_TTL_MAX"
  by (auto simp: mint_ttl_def MINT_TTL_MAX_def MINT_TTL_DEFAULT_def split: option.splits)

lemma mint_params_ok:
  "mint_params req ids = Inr (agent, actions) \<Longrightarrow> agent \<in> set ids \<and> actions \<noteq> [] \<and> [] \<notin> set actions"
  by (auto simp: mint_params_def csv_def split: option.splits list.splits if_splits)

lemma mint_params_take:
  "mint_params req ids = Inr (agent, actions) \<Longrightarrow>
   agent \<in> set ids \<and> take 100 actions \<noteq> [] \<and> [] \<notin> set (take 100 actions)
     \<and> take 50 actions \<noteq> [] \<and> [] \<notin> set (take 50 actions)"
  by (auto dest!: mint_params_ok dest: in_set_takeD)

lemma mint_results:
  "del_mint disk k h di ds = (Inr d, ds') \<Longrightarrow> dl_parentAgentId d = mi_parentAgentId di
     \<and> dl_actions d = take 100 (mi_actions di) \<and> dl_expiresAt d = mi_now di + mi_ttlMs di"
  "grant_mint disk k gi gs = (Inr g, gs') \<Longrightarrow> tg_agentId g = gi_agentId gi
     \<and> tg_actions g = take 100 (gi_actions gi) \<and> tg_expiresAt g = gi_now gi + gi_ttlMs gi"
  "bg_pull disk k pi bs = (Inr b, bs') \<Longrightarrow> bg_agentId b = pi_agentId pi \<and> bg_actions b = take 50 (pi_actions pi)
     \<and> bg_expiresAt b = pi_now pi + pi_ttlMs pi \<and> bg_pulledBy b = pi_pulledBy pi \<and> bg_quorum b \<ge> 1"
  by (auto simp: del_mint_def del_persist_def grant_mint_def grant_persist_def bg_pull_def bg_persist_def Let_def split: if_splits)

definition within_hour :: "ms \<Rightarrow> ms \<Rightarrow> bool" where
  "within_hour now expires \<longleftrightarrow> now < expires \<and> expires \<le> now + 3600 * 1000"

lemma mint_ttl_hour: "within_hour now (now + mint_ttl cfg req * 1000)"
  using mint_ttl_bounds [of cfg req] by (simp add: within_hour_def MINT_TTL_MAX_def)

text \<open>The access a reply hands out: its agent, its actions and when it ends.\<close>

fun handed_out :: "console_reply \<Rightarrow> (agent_id \<times> string list \<times> ms) option" where
  "handed_out (CDelegated t d) = Some (dl_parentAgentId d, dl_actions d, dl_expiresAt d)"
| "handed_out (CGranted g) = Some (tg_agentId g, tg_actions g, tg_expiresAt g)"
| "handed_out (CPulled b) = Some (bg_agentId b, bg_actions b, bg_expiresAt b)"
| "handed_out _ = None"

text \<open>C22: everything the admin API hands out is time-boxed: a delegation, a just-in-time grant or a break-glass
  window is answered only to an admin, for an agent the proxy was configured with, for at least one
  action pattern, none of them empty, and it ends after now and at most an hour later, whatever
  \<open>ttl\<close> the request asks for; a window is attributed to the admin's own name and needs at least one approval.\<close>
theorem console_access_is_time_boxed:
  assumes "handleConsole cfg w req st = (r, st')" and "handed_out r = Some (agent, actions, expires)"
  shows "\<exists>name subject. con_authenticate cfg (cw_authAt w) req (cw_afterAuth w st) = Some (name, Admin, subject)
    \<and> agent \<in> ag_id ` set (px_agents (cs_proxy st)) \<and> actions \<noteq> [] \<and> [] \<notin> set actions
    \<and> within_hour (cw_now w) expires \<and> (case r of CPulled b \<Rightarrow> bg_pulledBy b = name \<and> bg_quorum b \<ge> 1 | _ \<Rightarrow> True)"
proof -
  let ?ids = "map ag_id (px_agents (cs_proxy st))"
  obtain name held subject
    where auth: "con_authenticate cfg (cw_authAt w) req (cw_afterAuth w st) = Some (name, held, subject)"
      and role: "hasRole held (requiredRole (cq_method req) (cq_path req))" "cq_method req \<noteq> ''GET''"
      and run: "con_write cfg w name req ?ids (cw_afterAuth w st) = (r, st')"
    by (rule handleConsole_cases [OF assms(1)]) (use assms(2) in auto)
  have "\<not> (cq_method req = ''POST'' \<and> approval_decision_path (cq_path req))"
  proof
    assume post: "cq_method req = ''POST'' \<and> approval_decision_path (cq_path req)"
    with con_write_decision [of req cfg w name ?ids "cw_afterAuth w st"] run
    obtain seg ok where "con_decide cfg name seg ok (cw_afterAuth w st) = (r, st')" by auto
    then have "reply_kind r = 0 \<or> reply_kind r = 1" by (rule kind_dests)
    with assms(2) show False by (cases r) (auto simp: reply_kind_def)
  qed
  then have "requiredRole (cq_method req) (cq_path req) = Admin"
    using role(2) by (auto simp: requiredRole_def)
  with role have held: "held = Admin" by (cases held) (auto simp: hasRole_def)
  have "agent \<in> set ?ids \<and> actions \<noteq> [] \<and> [] \<notin> set actions \<and> within_hour (cw_now w) expires
    \<and> (case r of CPulled b \<Rightarrow> bg_pulledBy b = name \<and> bg_quorum b \<ge> 1 | _ \<Rightarrow> True)"
  proof (cases r)
    case (CDelegated t d)
    with con_write_kind [OF run, of 3] assms(2) show ?thesis
      by (auto simp: reply_kind_def handlers_def con_delegate_def Let_def mint_ttl_hour
          dest!: mint_params_take mint_params_kind [unfolded reply_kind_def] mint_results(1) split: option.splits if_splits sum.splits prod.splits)
  next
    case (CGranted g)
    with con_write_kind [OF run, of 4] assms(2) show ?thesis
      by (auto simp: reply_kind_def handlers_def con_grant_def Let_def mint_ttl_hour
          dest!: mint_params_take mint_params_kind [unfolded reply_kind_def] mint_results(2) split: option.splits if_splits sum.splits prod.splits)
  next
    case (CPulled b)
    with con_write_kind [OF run, of 5] assms(2) show ?thesis
      by (auto simp: reply_kind_def handlers_def con_pull_def Let_def mint_ttl_hour
          dest!: mint_params_take mint_params_kind [unfolded reply_kind_def] mint_results(3) split: option.splits if_splits sum.splits prod.splits)
  qed (use assms(2) in auto)
  with auth held show ?thesis by auto
qed

subsection \<open>Saving the policy\<close>

text \<open>Whether a merge succeeds does not depend on the default it merges over, so a store that was built once
  can be reloaded with any default that compiles.\<close>

lemma merge_loop_default:
  "map fst out = map fst out' \<Longrightarrow>
   (case merge_loop cy def names es out of Inl e \<Rightarrow> merge_loop cy def' names es out' = Inl e
    | Inr ps \<Rightarrow> \<exists>ps'. merge_loop cy def' names es out' = Inr ps')"
proof (induction es arbitrary: out out')
  case (Cons e es)
  have same: "(map_of out (pe_name e) = None) = (map_of out' (pe_name e) = None)"
    using Cons.prems by (simp add: map_of_eq_None_iff flip: set_map)
  have upd: "map fst (AList.update (pe_name e) x out) = map fst (AList.update (pe_name e) y out')" for x y
    using Cons.prems by (simp add: update_keys flip: set_map)
  show ?case
  proof (cases "cy (pe_policy e)")
    case (Inr p)
    from Cons.IH [OF upd [of "def\<lparr>cp_grants := cp_grants p, cp_source := cp_source p\<rparr>"
        "def'\<lparr>cp_grants := cp_grants p, cp_source := cp_source p\<rparr>"]] same
    show ?thesis by (auto simp: Inr split: sum.splits)
  qed (use same in auto)
qed simp

lemma merge_default:
  "mergeProfilesOverDefault cy def es names = Inr ps \<Longrightarrow> \<exists>ps'. mergeProfilesOverDefault cy def' es names = Inr ps'"
  using merge_loop_default [of "[]" "[]" cy def' names es def]
  by (auto simp: mergeProfilesOverDefault_def split: sum.splits)

lemma reachable_reloads:
  "policy_store_reachable cy s \<Longrightarrow> \<exists>ps. mergeProfilesOverDefault cy def (pol_entries s) (pol_declaredNames s) = Inr ps"
proof (induction rule: policy_store_reachable.induct)
  case (ps_new def names es s)
  then show ?case by (auto simp: new_policy_store_def intro: merge_default split: sum.splits)
next
  case (ps_reload s yaml es)
  then show ?case
    by (auto simp: policy_reload_def Let_def intro: merge_default split: sum.splits option.splits prod.splits)
next
  case (ps_close s d)
  then show ?case by (simp add: closeAll_def)
qed

lemma reload_succeeds:
  assumes "policy_store_reachable cy s" "cy text' = Inr compiled"
  shows "\<exists>s'. policy_reload cy text' None s = (Inr (length (cp_grants compiled), length (cp_grants (pol_def s))), s')
    \<and> pol_def s' = compiled \<and> pol_closed s' = None"
  using reachable_reloads [OF assms(1), of compiled] assms(2) by (auto simp: policy_reload_def)

definition remembers_nothing :: "pstate \<Rightarrow> bool" where
  "remembers_nothing p \<longleftrightarrow> (case px_memory p of None \<Rightarrow> True | Some m \<Rightarrow> m = am_clear m)"

definition policy_untouched :: "console_state \<Rightarrow> console_state \<Rightarrow> bool" where
  "policy_untouched st st' \<longleftrightarrow> cs_policyFile st' = cs_policyFile st \<and> cs_proxy st' = cs_proxy st"

text \<open>The policy of a state: what the file holds and what is enforced agree, and nothing is remembered.\<close>

definition policy_is_live :: "console_config \<Rightarrow> string \<Rightarrow> console_state \<Rightarrow> bool" where
  "policy_is_live cfg candidate st \<longleftrightarrow> cs_policyFile st = Some candidate \<and> remembers_nothing (cs_proxy st)
     \<and> (case px_policyStore (cs_proxy st) of None \<Rightarrow> False
        | Some s \<Rightarrow> cc_compileYaml cfg candidate = Inr (pol_def s) \<and> pol_closed s = None)"

lemma record_version_keeps [simp]:
  "cs_proxy (record_version cfg w c st) = cs_proxy st" "cs_policyFile (record_version cfg w c st) = cs_policyFile st"
  by (simp_all add: record_version_def)

lemma am_clear_idem [simp]: "am_clear (am_clear m) = am_clear m"
  by (simp add: am_clear_def)

lemma apply_policy_live:
  assumes "policy_store_reachable (cc_compileYaml cfg) store" "cc_compileYaml cfg candidate = Inr compiled"
    and "apply_policy cfg w source candidate compiled store st = (r, st')"
  shows "case r of CPolicySaved n previous d \<Rightarrow> policy_is_live cfg candidate st' \<and> previous = Some (length (cp_grants (pol_def store)))
        \<and> n = length (cp_grants compiled) \<and> d = cc_digest cfg candidate
      | _ \<Rightarrow> policy_untouched st st'"
proof -
  obtain s' where s': "policy_reload (cc_compileYaml cfg) candidate None store =
      (Inr (length (cp_grants compiled), length (cp_grants (pol_def store))), s')" "pol_def s' = compiled" "pol_closed s' = None"
    using reload_succeeds [OF assms(1,2)] by blast
  show ?thesis
    using assms(2,3) by (auto simp: apply_policy_def Let_def s' policy_is_live_def policy_untouched_def remembers_nothing_def
        split: if_splits option.splits)
qed

lemma policy_untouched_refl [simp]: "policy_untouched st st"
  by (simp add: policy_untouched_def)

lemma propose_policy_live:
  assumes "\<forall>store. px_policyStore (cs_proxy st) = Some store \<longrightarrow> policy_store_reachable (cc_compileYaml cfg) store"
    and "propose_policy cfg w edit source st = (r, st')"
  shows "case r of CPolicySaved n previous d \<Rightarrow> \<not> pe_dryRun edit \<and> pe_baseDigest edit = Some (cc_digest cfg source)
          \<and> (\<exists>candidate. cc_writeGrants cfg source (pe_grants edit) = Some candidate \<and> policy_is_live cfg candidate st'
               \<and> d = cc_digest cfg candidate)
      | _ \<Rightarrow> policy_untouched st st'"
proof (cases "\<exists>candidate compiled store. cc_writeGrants cfg source (pe_grants edit) = Some candidate
    \<and> cc_compileYaml cfg candidate = Inr compiled \<and> px_policyStore (cs_proxy st) = Some store
    \<and> \<not> pe_dryRun edit \<and> pe_baseDigest edit = Some (cc_digest cfg source)")
  case True
  then obtain candidate compiled store where wr: "cc_writeGrants cfg source (pe_grants edit) = Some candidate"
    and comp: "cc_compileYaml cfg candidate = Inr compiled" and store: "px_policyStore (cs_proxy st) = Some store"
    and guard: "\<not> pe_dryRun edit" "pe_baseDigest edit = Some (cc_digest cfg source)" by blast
  with assms have run: "apply_policy cfg w source candidate compiled store st = (r, st')"
    by (simp add: propose_policy_def)
  from store assms(1) have "policy_store_reachable (cc_compileYaml cfg) store" by simp
  from apply_policy_live [OF this comp run] show ?thesis
    using wr guard by (auto split: console_reply.splits)
next
  case False
  then show ?thesis
    using assms(2) by (auto simp: propose_policy_def split: if_splits option.splits sum.splits)
qed


subsection \<open>Minting an agent\<close>

lemma json_strings_all: "list_all is_json_string vs \<Longrightarrow> map JStr (json_strings vs) = vs"
proof (induction vs)
  case (Cons v vs)
  then show ?case by (cases v) simp_all
qed simp

lemma string_list_again: "string_list v = Some xs \<Longrightarrow> string_list (JArr (map JStr xs)) = Some xs"
proof -
  assume v: "string_list v = Some xs"
  then obtain vs where "v = JArr vs" "list_all is_json_string vs" "xs = json_strings vs"
    by (auto simp: string_list_def split: json.splits if_splits)
  with json_strings_all have "v = JArr (map JStr xs)" by simp
  with v show ?thesis by simp
qed

lemma parse_agent_mint_ok:
  assumes "parse_agent_mint v = Some m"
  shows "PROFILE_NAME_RE (am_agentId m) \<and> scope_ok (am_scope m)"
  using assms
  by (auto simp: parse_agent_mint_def scope_ok_def optional_field_def
      intro: string_list_again split: json.splits option.splits if_splits)

lemma parse_agent_id: "parse_agent lib item = Some a \<Longrightarrow> Option.bind (json_field item ''id'') nonempty_text = Some (ag_id a)"
  by (auto simp: parse_agent_def split: if_splits option.splits)

lemma parse_agent_named: "parse_agent lib item = Some a \<Longrightarrow> agent_named (ag_id a) item"
proof (drule parse_agent_id)
  assume "Option.bind (json_field item ''id'') nonempty_text = Some (ag_id a)"
  then obtain v where "json_field item ''id'' = Some v" "nonempty_text v = Some (ag_id a)" by (auto simp: bind_eq_Some_conv)
  then show ?thesis by (cases v) (auto simp: nonempty_text_def agent_named_def split: if_splits)
qed

lemma config_agent_named:
  assumes "parse_config lib v = Some c" "agent_items v = Some items" "k \<in> set (map ag_id (gc_agents c))"
  shows "list_ex (agent_named k) items"
proof -
  from parse_config_SomeD [OF assms(1)] obtain vs where vs: "json_field v ''agents'' = Some (JArr vs)"
    "all_of (parse_agent lib) vs = Some (gc_agents c)" by blast
  with assms(2) have "vs = items" by (simp add: agent_items_def)
  with all_of_mem [OF vs(2)] assms(3) show ?thesis
    by (force simp: list_ex_iff intro: parse_agent_named)
qed

lemma mint_section_minted:
  assumes "quiet_world w" "mint_section cfg w m st = (CAgentMinted k token scope, st')"
  defines "h \<equiv> sc_hashToken (cc_server cfg) (cw_token w)"
  shows "\<exists>source yaml. cs_configFile st = Some source \<and> addAgent (cc_yaml cfg) source (am_agentId m) h (am_scope m) = Inr yaml
    \<and> cs_configFile st' = Some yaml \<and> px_agents (cs_proxy st') = px_agents (cs_proxy st) @ [agent_of_mint m h]
    \<and> \<not> agents_has (px_agents (cs_proxy st)) (am_agentId m) \<and> k = am_agentId m \<and> token = cw_token w \<and> scope = am_scope m"
  using assms(1,2) unfolding mint_section_def quiet_world_def Let_def h_def [symmetric]
  by (auto simp: writeConfigAtomic_def agents_add_def
      split: if_splits option.splits sum.splits prod.splits rewrite_error.splits config_write_error.splits)

lemma con_agent_mint_minted:
  assumes "quiet_world w" "con_agent_mint cfg w req st = (CAgentMinted k token scope, st')"
  shows "\<exists>m. Option.bind (cq_body req) parse_agent_mint = Some m \<and> known_profile (cs_proxy st) (as_policy (am_scope m))
    \<and> mint_section cfg w m st = (CAgentMinted k token scope, st')"
  using assms unfolding con_agent_mint_def quiet_world_def Let_def
  by (auto split: if_splits option.splits)

text \<open>C24: an agent minted from the console is the same agent now and after a restart: when the API answers with
  its token, nothing else running, the id was free, and if the file loaded before, the one the mint leaves loads,
  as the same configuration with one more agent at the end, and that agent is, field for field, the one
  that authenticates from now on. Relied on: an edited YAML text parses to the edited document, the token
  hash is a fresh hex digest, and the profiles the proxy runs with are still declared in the file.\<close>
theorem minted_agent_survives_restart:
  assumes "quiet_world w" and "yaml_edits_hold (cc_yaml cfg)"
    and "handleConsole cfg w req st = (CAgentMinted k token scope, st')"
    and "cs_configFile (cw_afterAuth w st) = Some source" and "yl_parse (cc_yaml cfg) source = Some doc"
    and "parse_config lib doc = Some c"
    and "hex_digest (sc_hashToken (cc_server cfg) token)"
    and "sc_hashToken (cc_server cfg) token \<notin> set (map ag_token_hash (gc_agents c))"
    and "\<forall>store. px_policyStore (cs_proxy (cw_afterAuth w st)) = Some store \<longrightarrow>
           set (map fst (pol_profiles store)) \<subseteq> set (map fst (gc_policy_profiles c))"
  shows "\<exists>a yaml doc'. ag_id a = k \<and> ag_token_hash a = sc_hashToken (cc_server cfg) token
    \<and> cs_configFile st' = Some yaml \<and> yl_parse (cc_yaml cfg) yaml = Some doc'
    \<and> parse_config lib doc' = Some (c\<lparr>gc_agents := gc_agents c @ [a]\<rparr>)
    \<and> px_agents (cs_proxy st') = px_agents (cs_proxy (cw_afterAuth w st)) @ [a]
    \<and> \<not> agents_has (px_agents (cs_proxy (cw_afterAuth w st))) k"
proof -
  let ?st = "cw_afterAuth w st"
  obtain name held subject
    where "con_write cfg w name req (map ag_id (px_agents (cs_proxy st))) ?st = (CAgentMinted k token scope, st')"
    by (rule handleConsole_cases [OF assms(3)]) auto
  from con_write_kind [OF this, of 9] have "con_agent_mint cfg w req ?st = (CAgentMinted k token scope, st')"
    by (auto simp: reply_kind_def handlers_def)
  from con_agent_mint_minted [OF assms(1) this] obtain m where body: "Option.bind (cq_body req) parse_agent_mint = Some m"
    and known: "known_profile (cs_proxy ?st) (as_policy (am_scope m))"
    and run: "mint_section cfg w m ?st = (CAgentMinted k token scope, st')" by blast
  define h where "h = sc_hashToken (cc_server cfg) token"
  from mint_section_minted [OF assms(1) run] assms(4) obtain yaml
    where add: "addAgent (cc_yaml cfg) source k h (am_scope m) = Inr yaml" and cfile: "cs_configFile st' = Some yaml"
      and live: "px_agents (cs_proxy st') = px_agents (cs_proxy ?st) @ [agent_of_mint m h]"
      and free: "\<not> agents_has (px_agents (cs_proxy ?st)) k" and k: "k = am_agentId m"
    by (auto simp: h_def)
  from addAgent_appends [OF assms(2) add] assms(5) obtain items where items: "agent_items doc = Some items"
    and new: "\<not> list_ex (agent_named k) items"
    and yaml: "yl_parse (cc_yaml cfg) yaml = Some (set_field ''agents'' (JArr (items @ [agent_entry k h (am_scope m)])) doc)"
    by auto
  from body have ok: "PROFILE_NAME_RE k" "scope_ok (am_scope m)"
    using parse_agent_mint_ok by (auto simp: bind_eq_Some_conv k)
  then have "k \<noteq> []" by (auto simp: PROFILE_NAME_RE_def)
  with ok assms(7) have entry: "parse_agent lib (agent_entry k h (am_scope m)) = Some (agent_of_mint m h)"
    by (simp add: parse_agent_entry agent_of_mint_def h_def k)
  have "parse_config lib (set_field ''agents'' (JArr (items @ [agent_entry k h (am_scope m)])) doc)
      = Some (c\<lparr>gc_agents := gc_agents c @ [agent_of_mint m h]\<rparr>)"
  proof (rule config_add_agent [OF assms(6) items entry])
    show "ag_id (agent_of_mint m h) \<notin> set (map ag_id (gc_agents c))"
      using config_agent_named [OF assms(6) items] new by (auto simp: agent_of_mint_def k)
    show "ag_token_hash (agent_of_mint m h) \<notin> set (map ag_token_hash (gc_agents c))"
      using assms(8) by (simp add: agent_of_mint_def h_def)
    show "case ag_policy (agent_of_mint m h) of None \<Rightarrow> True | Some p \<Rightarrow> p \<in> set (map fst (gc_policy_profiles c))"
      using known assms(9) by (auto simp: agent_of_mint_def known_profile_def split: option.splits)
  qed
  with yaml cfile live free show ?thesis
    by (intro exI [of _ "agent_of_mint m h"] exI [of _ yaml]) (simp add: agent_of_mint_def h_def k)
qed

end
