(* ===== verification/Console_Witnesses.thy ===== *)
theory Console_Witnesses
  imports Console_Claims "HOL-Library.Countable"
begin

text \<open>
  The admin API on a concrete installation: the witnesses of the properties of \<open>Console_Claims\<close>, and the
  run of two policy edits at once.
\<close>

subsection \<open>An installation\<close>

definition con_yaml :: yaml_compiler where
  "con_yaml yaml = (if yaml = ''bad'' then Inl (DuplicateGrant yaml) else Inr (sc_live\<lparr>cp_agent := yaml\<rparr>))"

definition con_store :: policy_store where
  "con_store = \<lparr>pol_def = sc_live, pol_entries = [], pol_profiles = [], pol_declaredNames = {}, pol_closed = None\<rparr>"

definition con_cfg :: console_config where
  "con_cfg = \<lparr>cc_server = sc_config, cc_adminToken = Some ''root'', cc_policyPath = True, cc_policyEditable = True,
     cc_agentsAdmin = True, cc_approvals = (300, 0), cc_number = (\<lambda>t. if t = ''99999'' then JInt 99999 else JNaN),
     cc_decodeURI = Some, cc_digest = (\<lambda>s. CHR ''#'' # s), cc_wyhash = id, cc_collation = (\<lambda>s. 0),
     cc_compileYaml = con_yaml, cc_yaml = \<lparr>yl_parse = (\<lambda>s. None), yl_edit = (\<lambda>e s. s)\<rparr>,
     cc_editorView = (\<lambda>s. Some \<lparr>ev_grants = [], ev_advancedSections = []\<rparr>),
     cc_writeGrants = (\<lambda>s gs. Some (concat (map eg_tool gs)))\<rparr>"

definition con_w :: console_world where
  "con_w = \<lparr>cw_authAt = 100, cw_now = 100, cw_disk = True, cw_fileOk = True, cw_unlinks = (\<lambda>n. True), cw_newId = ''i1'',
     cw_token = ''t1'', cw_afterAuth = id, cw_afterBody = id, cw_beforeRead = id, cw_afterRead = id, cw_afterHash = id\<rparr>"

definition con_broker :: broker where
  "con_broker = br_create ''a1'' 0 \<lparr>ai_agentId = ''bot'', ai_upstream = ''gh'', ai_tool = ''gh'', ai_action = ''pr:merge'',
     ai_target = ''o/r'', ai_method = ''PUT'', ai_context = None\<rparr> 1 (new_broker 1000 5)"

definition con_st :: console_state where
  "con_st = \<lparr>cs_proxy = sc_state\<lparr>px_policyStore := Some con_store, px_broker := Some con_broker,
       px_grants := Some \<lparr>gs_byId = [], gs_file = Absent\<rparr>\<rparr>,
     cs_tokens = Some [\<lparr>at_name = ''ann'', at_role = Approver, at_tokenHash = ''hann'', at_createdAt = 0, at_revokedAt = None,
       at_subject = None, at_expiresAt = None\<rparr>],
     cs_policyFile = Some ''old'', cs_configFile = None, cs_history = None, cs_policyDist = None, cs_revocationDist = None\<rparr>"

definition con_req :: "string \<Rightarrow> string \<Rightarrow> (string \<times> string) list \<Rightarrow> json option \<Rightarrow> console_request" where
  "con_req token path qs body = \<lparr>cq_method = ''POST'', cq_path = path, cq_admin = Some token, cq_authorization = None,
     cq_query = qs, cq_body = body\<rparr>"

lemma con_w_quiet: "quiet_world con_w"
  by (simp add: quiet_world_def con_w_def)

subsection \<open>An approver\<close>

definition con_approve :: console_request where
  "con_approve = con_req ''ann'' ''/console/approvals/a1/approve'' [] None"

lemma con_approved: "fst (handleConsole con_cfg con_w con_approve con_st) = CDecided ''a1'' True ''ann'' (Some (True, 1, 1))"
  by code_simp

lemma con_approve_changes:
  "map_option br_settled (px_broker (cs_proxy (snd (handleConsole con_cfg con_w con_approve con_st))))
     \<noteq> map_option br_settled (px_broker (cs_proxy (cw_afterAuth con_w con_st)))"
  by code_simp

theorem console_role_gate_witness:
  "\<exists>name held subject. con_authenticate con_cfg 100 con_approve con_st = Some (name, held, subject)
     \<and> (held = Admin \<or> held = Approver \<and> broker_only con_st (snd (handleConsole con_cfg con_w con_approve con_st)))"
proof -
  have "snd (handleConsole con_cfg con_w con_approve con_st) \<noteq> cw_afterAuth con_w con_st"
    using con_approve_changes by metis
  from console_role_gate [OF con_w_quiet this] show ?thesis by (auto simp: con_w_def)
qed

theorem approver_is_the_token_witness:
  "\<exists>held subject. con_authenticate con_cfg (cw_authAt con_w) con_approve (cw_afterAuth con_w con_st) = Some (''ann'', held, subject)
     \<and> hasRole held Approver"
  using approver_is_the_token [of con_cfg con_w con_approve con_st "''a1''" True "''ann''" "Some (True, 1, 1)"
      "snd (handleConsole con_cfg con_w con_approve con_st)"] con_approved
  by (metis prod.collapse)

subsection \<open>A grant for longer than an hour\<close>

definition con_ask_day :: console_request where
  "con_ask_day = con_req ''root'' ''/console/grants'' [(''agent'', ''bot''), (''actions'', ''repo:x, ''), (''ttl'', ''99999'')] None"

lemma con_granted: "handed_out (fst (handleConsole con_cfg con_w con_ask_day con_st)) = Some (''bot'', [''repo:x''], 3600100)"
  by code_simp

theorem console_access_is_time_boxed_witness:
  "within_hour 100 3600100 \<and> ''bot'' \<in> ag_id ` set (px_agents (cs_proxy con_st))"
  using console_access_is_time_boxed [OF prod.collapse [symmetric], of con_cfg con_w con_ask_day con_st "''bot''" "[''repo:x'']" 3600100]
    con_granted by (auto simp: con_w_def)

subsection \<open>A policy edit\<close>

definition con_save :: "string \<Rightarrow> console_request" where
  "con_save tool = con_req ''root'' ''/console/policy'' []
     (Some (JObj [(''grants'', JArr [JObj [(''tool'', JStr tool)]]), (''baseDigest'', JStr ''#old'')]))"

lemma con_store_reachable: "policy_store_reachable con_yaml con_store"
  by (rule ps_new [where def = sc_live and names = "{}" and es = "[]"])
    (simp add: new_policy_store_def mergeProfilesOverDefault_def con_store_def)

lemma con_saved: "fst (handleConsole con_cfg con_w (con_save ''A'') con_st) = CPolicySaved 2 (Some 2) ''#A''"
  by code_simp



subsection \<open>A minted agent\<close>

text \<open>A YAML library that keeps its promise: a document is written as its number, in strokes.\<close>

instance json :: countable
  by countable_datatype

definition strokes :: "json \<Rightarrow> string" where
  "strokes doc = replicate (to_nat doc) (CHR ''x'')"

definition stroke_lib :: yaml_lib where
  "stroke_lib = \<lparr>yl_parse = (\<lambda>s. Some (from_nat (length s))), yl_edit = (\<lambda>e s. strokes (apply_edit e (from_nat (length s))))\<rparr>"

lemma stroke_edits_hold: "yaml_edits_hold stroke_lib"
  by (simp add: yaml_edits_hold_def stroke_lib_def strokes_def)

lemma stroke_parse: "yl_parse stroke_lib (strokes doc) = Some doc"
  by (simp add: stroke_lib_def strokes_def)

definition mint_cfg :: console_config where
  "mint_cfg = con_cfg\<lparr>cc_server := sc_config\<lparr>sc_hashToken := (\<lambda>t. replicate 64 (CHR ''c''))\<rparr>, cc_yaml := stroke_lib\<rparr>"

definition mint_st :: console_state where
  "mint_st = con_st\<lparr>cs_configFile := Some (strokes wit_config)\<rparr>"

definition mint_req :: console_request where
  "mint_req = con_req ''root'' ''/console/agents'' []
     (Some (JObj [(''id'', JStr ''new''), (''actions'', JArr [JStr ''repo:*''])]))"

definition mint_new :: agent_mint where
  "mint_new = \<lparr>am_agentId = ''new'', am_scope = \<lparr>as_actions = Some [''repo:*''], as_targets = None, as_policy = None\<rparr>\<rparr>"

lemma mint_dispatch: "handleConsole mint_cfg con_w mint_req mint_st = con_agent_mint mint_cfg con_w mint_req mint_st"
proof -
  have "con_authenticate mint_cfg 100 mint_req con_st = Some (''bootstrap'', Admin, None)" by code_simp
  moreover have "cs_tokens mint_st = cs_tokens con_st" by (simp add: mint_st_def)
  ultimately have "con_authenticate mint_cfg 100 mint_req mint_st = Some (''bootstrap'', Admin, None)"
    by (simp only: con_authenticate_def)
  moreover have "cw_authAt con_w = 100" "cw_afterAuth con_w = id" by (simp_all add: con_w_def)
  moreover have "cq_method mint_req = ''POST''" "cq_path mint_req = ''/console/agents''"
    by (simp_all add: mint_req_def con_req_def)
  moreover have "hasRole Admin need" for need by (cases need) (simp_all add: hasRole_def)
  ultimately show ?thesis by (simp add: handleConsole_def con_route_def con_write_def)
qed

lemma mint_body: "Option.bind (cq_body mint_req) parse_agent_mint = Some mint_new"
  by code_simp

lemma mint_items: "\<exists>items. agent_items wit_config = Some items \<and> \<not> list_ex (agent_named ''new'') items"
proof -
  have "case agent_items wit_config of None \<Rightarrow> False | Some items \<Rightarrow> \<not> list_ex (agent_named ''new'') items" by code_simp
  then show ?thesis by (auto split: option.splits)
qed

lemma mint_free: "\<not> agents_has (px_agents (cs_proxy mint_st)) ''new''"
  by (simp add: mint_st_def con_st_def sc_state_def agents_has_def sc_agent_def sc_bait_def)

lemma mint_runs: "\<exists>st'. handleConsole mint_cfg con_w mint_req mint_st = (CAgentMinted ''new'' ''t1'' (am_scope mint_new), st')"
proof -
  let ?h = "replicate 64 (CHR ''c'')"
  obtain items where items: "agent_items wit_config = Some items" "\<not> list_ex (agent_named ''new'') items"
    using mint_items by blast
  then obtain yaml where yaml: "addAgent stroke_lib (strokes wit_config) ''new'' ?h (am_scope mint_new) = Inr yaml"
    by (auto simp: addAgent_def with_agents_def stroke_parse)
  have cfg: "cc_agentsAdmin mint_cfg" "cc_yaml mint_cfg = stroke_lib" "sc_hashToken (cc_server mint_cfg) t = ?h" for t
    by (simp_all add: mint_cfg_def con_cfg_def)
  have w: "cw_fileOk con_w" "cw_token con_w = ''t1''" by (simp_all add: con_w_def)
  have "\<exists>st'. mint_section mint_cfg con_w mint_new mint_st = (CAgentMinted ''new'' ''t1'' (am_scope mint_new), st')"
    using mint_free yaml con_w_quiet
    by (simp add: mint_section_def cfg w quiet_world_def mint_new_def agent_of_mint_def writeConfigAtomic_def agents_add_def
        mint_st_def Let_def)
  moreover have "known_profile (cs_proxy mint_st) (as_policy (am_scope mint_new))"
    by (simp add: known_profile_def mint_new_def)
  ultimately show ?thesis
    using con_w_quiet by (simp add: mint_dispatch con_agent_mint_def cfg mint_body quiet_world_def)
qed

theorem minted_agent_survives_restart_witness:
  "\<exists>a c yaml doc (st' :: console_state). ag_id a = ''new'' \<and> parse_config wit_schema wit_config = Some c
     \<and> cs_configFile st' = Some yaml \<and> yl_parse stroke_lib yaml = Some doc
     \<and> parse_config wit_schema doc = Some (c\<lparr>gc_agents := gc_agents c @ [a]\<rparr>)
     \<and> px_agents (cs_proxy st') = [sc_agent, sc_bait, a]"
proof -
  obtain st' where run: "handleConsole mint_cfg con_w mint_req mint_st = (CAgentMinted ''new'' ''t1'' (am_scope mint_new), st')"
    using mint_runs by blast
  have "case parse_config wit_schema wit_config of None \<Rightarrow> False
      | Some c \<Rightarrow> replicate 64 (CHR ''c'') \<notin> set (map ag_token_hash (gc_agents c))" by code_simp
  then obtain c where c: "parse_config wit_schema wit_config = Some c"
    and fresh: "replicate 64 (CHR ''c'') \<notin> set (map ag_token_hash (gc_agents c))" by (auto split: option.splits)
  have hex: "hex_digest (replicate 64 (CHR ''c''))" by code_simp
  have src: "cs_configFile (cw_afterAuth con_w mint_st) = Some (strokes wit_config)" by (simp add: con_w_def mint_st_def)
  have prof: "\<forall>store. px_policyStore (cs_proxy (cw_afterAuth con_w mint_st)) = Some store \<longrightarrow>
      set (map fst (pol_profiles store)) \<subseteq> set (map fst (gc_policy_profiles c))"
    by (simp add: con_w_def mint_st_def con_st_def con_store_def)
  have cfg: "cc_yaml mint_cfg = stroke_lib" "sc_hashToken (cc_server mint_cfg) t = replicate 64 (CHR ''c'')" for t
    by (simp_all add: mint_cfg_def)
  have live: "px_agents (cs_proxy (cw_afterAuth con_w mint_st)) = [sc_agent, sc_bait]"
    by (simp add: con_w_def mint_st_def con_st_def sc_state_def)
  from minted_agent_survives_restart [OF con_w_quiet _ run src _ c, unfolded cfg, OF stroke_edits_hold stroke_parse hex fresh prof]
  obtain a yaml doc' where "ag_id a = ''new''" "cs_configFile st' = Some yaml" "yl_parse stroke_lib yaml = Some doc'"
    "parse_config wit_schema doc' = Some (c\<lparr>gc_agents := gc_agents c @ [a]\<rparr>)" "px_agents (cs_proxy st') = [sc_agent, sc_bait, a]"
    unfolding live append.simps by blast
  with c show ?thesis by blast
qed

end
