(* ===== verification/Spec2Isabelle.thy ===== *)
theory Spec2Isabelle
  imports Claim_Witnesses Server_Findings Delegate_Claims Escalation_Claims Exec_Findings Canary Request_Log Distribution_Witnesses Decay_Claims Liveness_Claims Explain_Claims Blast_Radius Firewall_Feed Policy_History Console_Witnesses
begin

text \<open>
  A verification development for \<^bold>\<open>Grenz\<close>, a local permission proxy for AI agents: an agent
  talks to \<^verbatim>\<open>/u/<upstream>/...\<close> with a worthless token, the proxy decides, logs, and forwards
  with the real credential. Modelled is the TypeScript under \<^verbatim>\<open>proxy/src\<close>; every definition is
  translated from the file its theory's opening text names. Strings are lists of 8-bit
  characters, numbers that the code keeps as safe integers are \<open>int\<close>, a \<open>Map\<close> whose order
  matters is an association list.

  \<^bold>\<open>The parts and their theories.\<close>

  \<^item> \<open>Grenz_Prelude\<close>: lists, association lists, decimal text. \<open>Json_Files\<close>: JSON values, object
    assignment, what loading a store file may find.
  \<^item> Policy: \<open>Glob\<close> (\<^verbatim>\<open>policy/glob.ts\<close>), \<open>Policy_Types\<close> (\<^verbatim>\<open>schema.ts\<close>, \<^verbatim>\<open>types.ts\<close>), \<open>Policy_Compile\<close>
    (\<^verbatim>\<open>compile.ts\<close>), \<open>Policy_Evaluate\<close> (\<^verbatim>\<open>evaluate.ts\<close> and \<open>combine\<close>), \<open>Policy_Props\<close> (precedence,
    rule order, monotonicity, reachability, batches), \<open>Policy_Store\<close> (\<^verbatim>\<open>store.ts\<close>, \<^verbatim>\<open>merge.ts\<close>).
  \<^item> Gates around the engine: \<open>Gates\<close>, \<open>Gates_Props\<close> (locales \<open>fact_store\<close>, \<open>batch_gate\<close>),
    \<open>Gates_Claims\<close>: tripwires, schedules, first use, response caps, risk score, taint flow, pins.
  \<^item> Stores: \<open>Ttl_Stores\<close> (delegations, temporary grants, break-glass windows; locale
    \<open>ttl_store\<close>), \<open>Delegation_Props\<close>, \<open>Access_Stores\<close> (kill list, fleet set, roles, admin tokens,
    agents, version floor), \<open>Access_Props\<close> (locale \<open>version_floor_store\<close>), \<open>Approvals\<close> and
    \<open>Approvals_Props\<close> (the broker as a machine over its events, the memory of decisions),
    \<open>Request_Log\<close> (the queries), \<open>Canary\<close>.
  \<^item> The wire: \<open>Auth\<close> (\<^verbatim>\<open>proxy/auth.ts\<close>), \<open>Adapters\<close> and \<open>Adapters_Props\<close>, \<open>Dlp\<close>, \<open>Forward\<close>
    (\<^verbatim>\<open>egress.ts\<close>, \<^verbatim>\<open>forward.ts\<close>).
  \<^item> The pipeline: \<open>Server_State\<close>, \<open>Server\<close> (\<open>dispatch\<close> of \<^verbatim>\<open>proxy/server.ts\<close>, stage by stage),
    \<open>Delegate_Route\<close> (\<^verbatim>\<open>POST /delegate\<close>), \<open>Server_Props\<close> (locale \<open>policy_gate\<close>, interpreted on each of
    the eight gates and on their composition; inversion lemmas of the stages), \<open>Server_Claims\<close>,
    \<open>Delegate_Claims\<close>, \<open>Escalation_Claims\<close>, \<open>Server_Findings\<close>. \<open>Scenario\<close> is a small concrete
    installation, \<open>Claim_Witnesses\<close> the concrete instances of the component properties.

  \<^item> The shell gate: \<open>Bash_Words\<close> and \<open>Bash_Guard\<close> (\<^verbatim>\<open>adapters/bash.ts\<close>: syntax trees, folding a word,
    resolving a command, mapping a line), \<open>Bash_Props\<close> and \<open>Bash_Claims\<close>, \<open>Exec_Route\<close> (\<open>POST /exec\<close>:
    \<^verbatim>\<open>proxy/exec-route.ts\<close> and \<open>handleExec\<close>), \<open>Exec_Claims\<close>, \<open>Exec_Findings\<close> (concrete lines).

  \<^item> Signed distribution: \<open>Json_Text\<close> (what \<open>JSON.stringify\<close> writes, read one way), \<open>Distribution\<close>
    (\<^verbatim>\<open>distribution/message.ts\<close>, \<^verbatim>\<open>verify.ts\<close>, \<^verbatim>\<open>keypair.ts\<close>, \<^verbatim>\<open>revocation/canonical.ts\<close>, \<^verbatim>\<open>verify.ts\<close>, the pulls),
    \<open>Distribution_Refresh\<close> (\<^verbatim>\<open>distribution/refresh.ts\<close>, \<^verbatim>\<open>revocation/refresh.ts\<close>, the start and the two loops of
    \<^verbatim>\<open>cli/run.ts\<close>), \<open>Distribution_Props\<close>, \<open>Distribution_Claims\<close> (locale \<open>refresh_loop\<close>, interpreted on the
    signed and the unsigned step), \<open>Distribution_Start\<close>, \<open>Distribution_Witnesses\<close> (concrete runs).

  \<^item> Tightening from the log: \<open>Policy_Decay\<close> (\<^verbatim>\<open>policy/decay.ts\<close>, \<^verbatim>\<open>decay-evidence.ts\<close>, \<^verbatim>\<open>shrinkwrap.ts\<close>,
    \<^verbatim>\<open>diff.ts\<close>), \<open>Decay_Props\<close>, \<open>Decay_Claims\<close>: a proposal is compared with the policy it came from by
    evaluating both. \<open>Liveness_Claims\<close>: a held request ends once its approval is settled or expires.

  \<^bold>\<open>How the pipeline is modelled.\<close> A stage is a function from the shared stores (\<open>pstate\<close>) to an
  outcome or a value and the stores after it. Each \<open>await\<close> of the handler is a place where the
  rest of the process may act: the argument \<open>world\<close> holds, for each of them, an arbitrary
  function on the stores, so a property that holds for all worlds holds for every interleaving
  at the awaits; where a property needs quiet awaits it says so. The vault's and the upstream's
  answers, the clock, and whether the disk accepts a write are in \<open>world\<close> too. A promise an
  approval waits on is the broker's log of settled outcomes; \<open>Held\<close> is a request whose approval is
  never settled.

  \<^bold>\<open>What is shown.\<close> Nothing reaches an upstream without every gate (\<open>forward_is_authorized\<close>), the
  credential goes nowhere else (\<open>credential_is_confined\<close>), revocation cuts at the door, dual control
  counts distinct people, delegations only narrow, batches cannot hide a member from the engine,
  the flow gate or the pin gate, a shell line is allowed only if every command in its tree is, every
  answer is logged, stores survive a restart; only what the organisation signed is adopted, never an
  older version, and a proxy told to fail closed denies everything while its source is unconfirmed; and
  \<open>Server_Findings\<close> and \<open>Exec_Findings\<close> exhibit runs where the code does less than its comments promise.

  \<^bold>\<open>Parameters.\<close> SHA-256, the YAML parser and schema validation, \<open>new RegExp\<close> for pin keys, the
  time-zone database, \<open>new URL().origin\<close>, the bash parser, Ed25519, the vault and the network are arguments of the
  definitions that use them. The depth bound of a delegation chain (5) is the code's own; no fuel
  is used elsewhere.

  \<^bold>\<open>Not modelled.\<close> URL routing before \<^verbatim>\<open>/u/\<close>, the console API, policy analysis (lint, blast radius, explain) and editing, the command line, notification, telemetry and the
  vault back ends; see the component list for the reasons.
\<close>

end
